(* ===== verification/Prelude.thy ===== *)
theory Prelude
  imports
    Main
    "HOL-Library.Word"
    "HOL-Library.List_Lexorder"
    "HOL-Library.Char_ord"
begin

text \<open>
  What every component of the development shares: the collections of rewrite rules, results with an
  error, the machine integers of the worker (\<open>u16\<close>, \<open>u32\<close>, \<open>u64\<close> with Rust's saturating and checked
  operations), Rust strings as UTF-8 byte strings, and Rust's \<open>BTreeMap\<close> as an association list
  kept in key order, reached through the interface \<open>ordered_map\<close>.
\<close>

named_theorems result_simps \<open>rewriting of results with an error\<close>
named_theorems word_simps \<open>reading machine integers as natural numbers\<close>
named_theorems map_simps \<open>laws of ordered maps\<close>

section \<open>Results\<close>

text \<open>
  A Rust \<open>Result<T, E>\<close> is a value of \<open>'e + 'a\<close>, \<open>Inl\<close> the error. \<open>bnd\<close> is the
  question-mark operator: it passes the first error on. \<open>require c e\<close> is the early return
  \<open>if !c { return Err(e); }\<close> and \<open>ok_or\<close> is \<open>Option::ok_or\<close>.
\<close>

fun bnd :: "'e + 'a \<Rightarrow> ('a \<Rightarrow> 'e + 'b) \<Rightarrow> 'e + 'b" where
  "bnd (Inl e) f = Inl e"
| "bnd (Inr x) f = f x"

definition require :: "bool \<Rightarrow> 'e \<Rightarrow> 'e + unit" where
  "require c e = (if c then Inr () else Inl e)"

definition ok_or :: "'e \<Rightarrow> 'a option \<Rightarrow> 'e + 'a" where
  "ok_or e x = (case x of None \<Rightarrow> Inl e | Some y \<Rightarrow> Inr y)"

fun map_err :: "('e \<Rightarrow> 'f) \<Rightarrow> 'e + 'a \<Rightarrow> 'f + 'a" where
  "map_err f (Inl e) = Inl (f e)"
| "map_err f (Inr x) = Inr x"

fun is_ok :: "'e + 'a \<Rightarrow> bool" where
  "is_ok (Inl e) = False"
| "is_ok (Inr x) = True"

lemma bnd_Inr_iff [result_simps]: "bnd m f = Inr y \<longleftrightarrow> (\<exists>x. m = Inr x \<and> f x = Inr y)"
  by (cases m) auto

lemma bnd_Inl_iff: "bnd m f = Inl e \<longleftrightarrow> m = Inl e \<or> (\<exists>x. m = Inr x \<and> f x = Inl e)"
  by (cases m) auto

lemma require_Inr_iff [result_simps]: "require c e = Inr u \<longleftrightarrow> c"
  by (simp add: require_def)

lemma require_True [simp]: "require True e = Inr ()"
  by (simp add: require_def)

lemma require_False [simp]: "require False e = Inl e"
  by (simp add: require_def)

lemma ok_or_Inr_iff [result_simps]: "ok_or e x = Inr y \<longleftrightarrow> x = Some y"
  by (simp add: ok_or_def split: option.splits)

lemma ok_or_simps [simp]: "ok_or e None = Inl e" "ok_or e (Some y) = Inr y"
  by (simp_all add: ok_or_def)

lemma map_err_Inr_iff [result_simps]: "map_err f m = Inr y \<longleftrightarrow> m = Inr y"
  by (cases m) auto

lemma if_Inl_iff: "(if c then Inl e else m) = Inr x \<longleftrightarrow> \<not> c \<and> m = Inr x"
  by simp

lemma is_ok_bnd: "is_ok (bnd m f) \<longleftrightarrow> (\<exists>x. m = Inr x \<and> is_ok (f x))"
  by (cases m) auto

lemma is_ok_iff [result_simps]: "is_ok m \<longleftrightarrow> (\<exists>x. m = Inr x)"
  by (cases m) auto

lemma bnd_assoc: "bnd (bnd m f) g = bnd m (\<lambda>x. bnd (f x) g)"
  by (cases m) auto

lemma unit_result_iff: "(m = Inr (u :: unit)) \<longleftrightarrow> (m = Inr ())"
  by simp

text \<open>A fallible left fold: the loop \<open>for x in xs { s = f(s, x)?; }\<close>.\<close>

fun fold_res :: "('s \<Rightarrow> 'a \<Rightarrow> 'e + 's) \<Rightarrow> 's \<Rightarrow> 'a list \<Rightarrow> 'e + 's" where
  "fold_res f s [] = Inr s"
| "fold_res f s (x # xs) = bnd (f s x) (\<lambda>s'. fold_res f s' xs)"

lemma fold_res_append:
  "fold_res f s (xs @ ys) = bnd (fold_res f s xs) (\<lambda>s'. fold_res f s' ys)"
  by (induction xs arbitrary: s) (simp_all add: bnd_assoc)

lemma fold_res_snoc:
  "fold_res f s (xs @ [x]) = Inr t \<longleftrightarrow> (\<exists>s'. fold_res f s xs = Inr s' \<and> f s' x = Inr t)"
  by (auto simp: fold_res_append bnd_Inr_iff)

text \<open>An invariant of every successful step is an invariant of the whole loop.\<close>

lemma fold_res_invariant:
  assumes "\<And>s x s'. P s \<Longrightarrow> f s x = Inr s' \<Longrightarrow> P s'"
    and "fold_res f s xs = Inr t" and "P s"
  shows "P t"
  using assms(2,3)
proof (induction xs arbitrary: s)
  case Nil
  then show ?case by simp
next
  case (Cons x xs)
  then show ?case by (auto simp: bnd_Inr_iff intro: assms(1))
qed

lemma fold_res_each: "fold_res f s xs = Inr t \<Longrightarrow> x \<in> set xs \<Longrightarrow> \<exists>a b. f a x = Inr b"
  by (induction xs arbitrary: s) (auto simp: bnd_Inr_iff)

lemma fold_res_cong: "(\<And>a x. x \<in> set xs \<Longrightarrow> f a x = g a x) \<Longrightarrow> fold_res f s xs = fold_res g s xs"
proof (induction xs arbitrary: s)
  case (Cons x xs)
  then show ?case by (cases "f s x") auto
qed simp

text \<open>\<open>iter().map(f).collect::<Result<Vec<_>, _>>()\<close>.\<close>

definition map_res :: "('a \<Rightarrow> 'e + 'b) \<Rightarrow> 'a list \<Rightarrow> 'e + 'b list" where
  "map_res f xs = fold_res (\<lambda>ys x. bnd (f x) (\<lambda>y. Inr (ys @ [y]))) [] xs"

lemma map_res_prefix:
  "fold_res (\<lambda>ys x. bnd (f x) (\<lambda>y. Inr (ys @ [y]))) zs xs = Inr ys \<longleftrightarrow>
   (\<exists>us. ys = zs @ us \<and> list_all2 (\<lambda>x y. f x = Inr y) xs us)"
  by (induction xs arbitrary: zs) (auto simp: bnd_Inr_iff list_all2_Cons1)

lemma map_res_Inr_iff: "map_res f xs = Inr ys \<longleftrightarrow> list_all2 (\<lambda>x y. f x = Inr y) xs ys"
  by (simp add: map_res_def map_res_prefix)

lemma map_res_total: "\<forall>x \<in> set xs. f x = Inr (g x) \<Longrightarrow> map_res f xs = Inr (map g xs)"
  by (simp add: map_res_Inr_iff list_all2_conv_all_nth)

text \<open>\<open>iter().find_map(f)\<close>: the first answer along the list.\<close>

fun find_map :: "('a \<Rightarrow> 'b option) \<Rightarrow> 'a list \<Rightarrow> 'b option" where
  "find_map f [] = None"
| "find_map f (x # xs) = (case f x of None \<Rightarrow> find_map f xs | Some y \<Rightarrow> Some y)"

lemma find_map_append:
  "find_map f (xs @ ys) = (case find_map f xs of None \<Rightarrow> find_map f ys | Some y \<Rightarrow> Some y)"
  by (induction xs) (auto split: option.splits)

lemma find_map_SomeD: "find_map f xs = Some y \<Longrightarrow> \<exists>x \<in> set xs. f x = Some y"
  by (induction xs) (auto split: option.splits)

lemma find_map_None_iff: "find_map f xs = None \<longleftrightarrow> (\<forall>x \<in> set xs. f x = None)"
  by (induction xs) (auto split: option.splits)

lemma find_SomeD: "List.find P xs = Some x \<Longrightarrow> x \<in> set xs \<and> P x"
  by (auto simp: find_Some_iff)

definition last_of :: "'a list \<Rightarrow> 'a option" where
  "last_of xs = (if xs = [] then None else Some (last xs))"

lemma last_of_simps [simp]: "last_of [] = None" "last_of (xs @ [x]) = Some x"
  by (simp_all add: last_of_def)

lemma last_of_Some_iff: "last_of xs = Some x \<longleftrightarrow> (\<exists>ys. xs = ys @ [x])"
  by (cases xs rule: rev_cases) auto

lemma last_of_None_iff [simp]: "last_of xs = None \<longleftrightarrow> xs = []"
  by (simp add: last_of_def)

section \<open>Machine integers\<close>

type_synonym u8 = "8 word"
type_synonym u16 = "16 word"
type_synonym u32 = "32 word"
type_synonym u64 = "64 word"

definition max_word_of :: "'a::len word" where
  "max_word_of = - 1"

definition sat_add :: "'a::len word \<Rightarrow> 'a word \<Rightarrow> 'a word" where
  "sat_add a b = (if unat a + unat b < 2 ^ LENGTH('a) then a + b else max_word_of)"

definition sat_sub :: "'a::len word \<Rightarrow> 'a word \<Rightarrow> 'a word" where
  "sat_sub a b = (if b \<le> a then a - b else 0)"

definition sat_mul :: "'a::len word \<Rightarrow> 'a word \<Rightarrow> 'a word" where
  "sat_mul a b = (if unat a * unat b < 2 ^ LENGTH('a) then a * b else max_word_of)"

definition checked_add :: "'a::len word \<Rightarrow> 'a word \<Rightarrow> 'a word option" where
  "checked_add a b = (if unat a + unat b < 2 ^ LENGTH('a) then Some (a + b) else None)"

text \<open>\<open>u32::try_from(n).unwrap_or(u32::MAX)\<close> for a \<open>usize\<close> count.\<close>

definition clip_word :: "nat \<Rightarrow> 'a::len word" where
  "clip_word n = (if n < 2 ^ LENGTH('a) then of_nat n else max_word_of)"

lemma unat_max_word_of [word_simps]: "unat (max_word_of :: 'a::len word) = 2 ^ LENGTH('a) - 1"
  by (simp add: max_word_of_def unsigned_minus_1_eq_mask mask_eq_exp_minus_1)

lemma unat_sat_add [word_simps]:
  "unat (sat_add a (b :: 'a::len word)) = min (unat a + unat b) (2 ^ LENGTH('a) - 1)"
  by (auto simp: sat_add_def unat_max_word_of unat_word_ariths)

lemma unat_sat_sub [word_simps]: "unat (sat_sub a (b :: 'a::len word)) = unat a - unat b"
  by (auto simp: sat_sub_def unat_sub word_le_nat_alt not_le)

lemma checked_add_Some_iff [word_simps]:
  "checked_add a b = Some (c :: 'a::len word) \<longleftrightarrow> unat c = unat a + unat b"
proof
  assume "checked_add a b = Some c"
  then show "unat c = unat a + unat b"
    by (auto simp: checked_add_def unat_word_ariths split: if_splits)
next
  assume c: "unat c = unat a + unat b"
  then have "unat a + unat b < 2 ^ LENGTH('a)" by (metis unsigned_less)
  moreover from this have "unat (a + b) = unat c" by (simp add: unat_word_ariths c)
  then have "a + b = c" by (rule unsigned_word_eqI)
  ultimately show "checked_add a b = Some c" by (simp add: checked_add_def)
qed

lemma unat_clip_word [word_simps]:
  "unat (clip_word n :: 'a::len word) = min n (2 ^ LENGTH('a) - 1)"
  by (auto simp: clip_word_def unat_max_word_of unat_of_nat)

lemma word_le_unat [word_simps]: "(a :: 'a::len word) \<le> b \<longleftrightarrow> unat a \<le> unat b"
  by (rule word_le_nat_alt)

lemma word_less_unat [word_simps]: "(a :: 'a::len word) < b \<longleftrightarrow> unat a < unat b"
  by (rule word_less_nat_alt)

section \<open>Strings\<close>

text \<open>
  A Rust \<open>String\<close> is its UTF-8 bytes, one \<open>char\<close> each; \<open>len\<close> counts them. \<open>byte\<close> reads one as a
  number. The predicates below are the byte tests the sources write out.
\<close>

definition byte :: "char \<Rightarrow> nat" where
  "byte c = of_char c"

definition ascii_digit :: "char \<Rightarrow> bool" where
  "ascii_digit c \<longleftrightarrow> 48 \<le> byte c \<and> byte c \<le> 57"

definition ascii_lowercase :: "char \<Rightarrow> bool" where
  "ascii_lowercase c \<longleftrightarrow> 97 \<le> byte c \<and> byte c \<le> 122"

definition ascii_control :: "char \<Rightarrow> bool" where
  "ascii_control c \<longleftrightarrow> byte c \<le> 31 \<or> byte c = 127"

text \<open>\<open>u8::is_ascii_whitespace\<close>: space, tab, line feed, form feed, carriage return.\<close>

definition ascii_whitespace :: "char \<Rightarrow> bool" where
  "ascii_whitespace c \<longleftrightarrow> byte c \<in> {32, 9, 10, 12, 13}"

definition starts_with :: "string \<Rightarrow> string \<Rightarrow> bool" where
  "starts_with p s \<longleftrightarrow> take (length p) s = p"

definition ends_with :: "string \<Rightarrow> string \<Rightarrow> bool" where
  "ends_with p s \<longleftrightarrow> starts_with (rev p) (rev s)"

fun contains_str :: "string \<Rightarrow> string \<Rightarrow> bool" where
  "contains_str p [] = (p = [])"
| "contains_str p (c # s) = (starts_with p (c # s) \<or> contains_str p s)"

text \<open>
  \<open>s.trim().is_empty()\<close>: every character of \<open>s\<close> has the Unicode property White_Space. The cases
  are the UTF-8 encodings of U+0009..U+000D, U+0020, U+0085, U+00A0, U+1680, U+2000..U+200A, U+2028,
  U+2029, U+202F, U+205F and U+3000.
\<close>

definition white2 :: "nat \<Rightarrow> nat \<Rightarrow> bool" where
  "white2 a b \<longleftrightarrow> a = 194 \<and> (b = 133 \<or> b = 160)"

definition white3 :: "nat \<Rightarrow> nat \<Rightarrow> nat \<Rightarrow> bool" where
  "white3 a b c \<longleftrightarrow>
     (a = 225 \<and> b = 154 \<and> c = 128) \<or>
     (a = 226 \<and> b = 128 \<and> (128 \<le> c \<and> c \<le> 138 \<or> c = 168 \<or> c = 169 \<or> c = 175)) \<or>
     (a = 226 \<and> b = 129 \<and> c = 159) \<or>
     (a = 227 \<and> b = 128 \<and> c = 128)"

fun blank_bytes :: "nat list \<Rightarrow> bool" where
  "blank_bytes [] = True"
| "blank_bytes (a # bs) =
     (if 9 \<le> a \<and> a \<le> 13 \<or> a = 32 then blank_bytes bs
      else (case bs of
          [] \<Rightarrow> False
        | b # cs \<Rightarrow>
            if white2 a b then blank_bytes cs
            else (case cs of
                [] \<Rightarrow> False
              | c # ds \<Rightarrow> white3 a b c \<and> blank_bytes ds)))"

definition blank :: "string \<Rightarrow> bool" where
  "blank s \<longleftrightarrow> blank_bytes (map byte s)"

lemma byte_less [simp]: "byte c < 256"
  by (simp add: byte_def)

lemma byte_inject [simp]: "byte c = byte d \<longleftrightarrow> c = d"
  by (simp add: byte_def)

lemma not_blank_Cons: "33 \<le> byte c \<Longrightarrow> byte c \<le> 127 \<Longrightarrow> \<not> blank (c # s)"
  by (auto simp: blank_def white2_def white3_def split: list.splits)

text \<open>
  \<open>str::trim\<close> and \<open>split_whitespace\<close>: \<open>white_len\<close> is the length of the white character at the front,
  0 when there is none, \<open>white_tail_len\<close> the same at the end, its argument reversed. Reading backwards from
  the last byte is sound because the string is valid UTF-8.
\<close>

definition white1 :: "nat \<Rightarrow> bool" where
  "white1 a \<longleftrightarrow> 9 \<le> a \<and> a \<le> 13 \<or> a = 32"

fun white_len :: "string \<Rightarrow> nat" where
  "white_len (a # b # c # s) =
     (if white1 (byte a) then 1 else if white2 (byte a) (byte b) then 2
      else if white3 (byte a) (byte b) (byte c) then 3 else 0)"
| "white_len [a, b] = (if white1 (byte a) then 1 else if white2 (byte a) (byte b) then 2 else 0)"
| "white_len [a] = (if white1 (byte a) then 1 else 0)"
| "white_len [] = 0"

fun white_tail_len :: "string \<Rightarrow> nat" where
  "white_tail_len (a # b # c # s) =
     (if white1 (byte a) then 1 else if white2 (byte b) (byte a) then 2
      else if white3 (byte c) (byte b) (byte a) then 3 else 0)"
| "white_tail_len [a, b] = (if white1 (byte a) then 1 else if white2 (byte b) (byte a) then 2 else 0)"
| "white_tail_len [a] = (if white1 (byte a) then 1 else 0)"
| "white_tail_len [] = 0"

lemma white_len_pos: "white_len s \<noteq> 0 \<Longrightarrow> s \<noteq> []"
  by (cases s) auto

lemma white_tail_len_pos: "white_tail_len s \<noteq> 0 \<Longrightarrow> s \<noteq> []"
  by (cases s) auto

function trim_start :: "string \<Rightarrow> string" where
  "trim_start s = (if white_len s = 0 then s else trim_start (drop (white_len s) s))"
  by pat_completeness auto
termination by (relation "measure length") (auto intro!: diff_less dest: white_len_pos)

function trim_tail :: "string \<Rightarrow> string" where
  "trim_tail s = (if white_tail_len s = 0 then s else trim_tail (drop (white_tail_len s) s))"
  by pat_completeness auto
termination by (relation "measure length") (auto intro!: diff_less dest: white_tail_len_pos)

declare trim_start.simps [simp del] trim_tail.simps [simp del]

definition trim :: "string \<Rightarrow> string" where
  "trim s = rev (trim_tail (rev (trim_start s)))"

text \<open>\<open>s.trim() == s\<close>.\<close>

definition trimmed :: "string \<Rightarrow> bool" where
  "trimmed s \<longleftrightarrow> white_len s = 0 \<and> white_tail_len (rev s) = 0"

text \<open>The pieces of \<open>split_whitespace\<close>; \<open>word\<close> is the piece being read.\<close>

function split_white :: "string \<Rightarrow> string \<Rightarrow> string list" where
  "split_white word [] = (if word = [] then [] else [word])"
| "split_white word (c # s) =
     (if white_len (c # s) = 0 then split_white (word @ [c]) s
      else (if word = [] then [] else [word]) @ split_white [] (drop (white_len (c # s)) (c # s)))"
  by pat_completeness auto
termination by (relation "measure (\<lambda>(word, s). length s)") auto

text \<open>\<open>str::split\<close> at a character, \<open>[&str]::join\<close> and \<open>str::replace\<close> of one byte by another.\<close>

fun split_on :: "char \<Rightarrow> string \<Rightarrow> string list" where
  "split_on c [] = [[]]"
| "split_on c (x # s) =
     (if x = c then [] # split_on c s
      else (case split_on c s of [] \<Rightarrow> [[x]] | p # ps \<Rightarrow> (x # p) # ps))"

fun join_with :: "string \<Rightarrow> string list \<Rightarrow> string" where
  "join_with sep [] = []"
| "join_with sep [p] = p"
| "join_with sep (p # ps) = p @ sep @ join_with sep ps"

definition replace_char :: "char \<Rightarrow> char \<Rightarrow> string \<Rightarrow> string" where
  "replace_char a b s = map (\<lambda>c. if c = a then b else c) s"

text \<open>\<open>rsplit_once(c)\<close>, the part behind the last \<open>c\<close>; \<open>to_ascii_lowercase\<close>; \<open>is_ascii_hexdigit\<close>;
  \<open>is_ascii_alphanumeric\<close>.\<close>

definition behind_last :: "char \<Rightarrow> string \<Rightarrow> string option" where
  "behind_last c s = (if c \<in> set s then Some (last (split_on c s)) else None)"

definition ascii_lower :: "string \<Rightarrow> string" where
  "ascii_lower s = map (\<lambda>c. if 65 \<le> byte c \<and> byte c \<le> 90 then char_of (byte c + 32) else c) s"

definition ascii_hexdigit :: "char \<Rightarrow> bool" where
  "ascii_hexdigit c \<longleftrightarrow> ascii_digit c \<or> 97 \<le> byte c \<and> byte c \<le> 102 \<or> 65 \<le> byte c \<and> byte c \<le> 70"

definition ascii_alphanumeric :: "char \<Rightarrow> bool" where
  "ascii_alphanumeric c \<longleftrightarrow> ascii_digit c \<or> ascii_lowercase c \<or> 65 \<le> byte c \<and> byte c \<le> 90"

lemma split_on_not_Nil [simp]: "split_on c s \<noteq> []"
  by (cases s) (auto split: list.splits)

lemma split_on_pieces: "p \<in> set (split_on c s) \<Longrightarrow> c \<notin> set p"
  by (induction s arbitrary: p) (auto split: if_splits list.splits)

lemma split_on_piece_subset: "p \<in> set (split_on c s) \<Longrightarrow> set p \<subseteq> set s"
proof (induction s arbitrary: p)
  case (Cons x s)
  obtain q qs where split: "split_on c s = q # qs" by (cases "split_on c s") auto
  with Cons show ?case by (fastforce split: if_splits)
qed simp

lemma split_on_free: "c \<notin> set s \<Longrightarrow> split_on c s = [s]"
  by (induction s) auto

lemma split_on_append: "c \<notin> set p \<Longrightarrow> split_on c (p @ c # s) = p # split_on c s"
  by (induction p) auto

lemma split_join:
  "ps \<noteq> [] \<Longrightarrow> \<forall>p \<in> set ps. c \<notin> set p \<Longrightarrow> split_on c (join_with [c] ps) = ps"
  by (induction "[c]" ps rule: join_with.induct) (auto simp: split_on_free split_on_append)

lemma set_join: "set (join_with sep ps) \<subseteq> set sep \<union> \<Union> (set ` set ps)"
  by (induction sep ps rule: join_with.induct) auto

text \<open>Decimal rendering of an unsigned integer, Rust's \<open>to_string\<close>.\<close>

fun decimal :: "nat \<Rightarrow> string" where
  "decimal n =
     (if n < 10 then [char_of (48 + n)] else decimal (n div 10) @ [char_of (48 + n mod 10)])"

declare decimal.simps [simp del]

section \<open>Ordered maps\<close>

text \<open>
  Rust's \<open>BTreeMap\<close> as the list of its entries in key order, which is the order \<open>iter\<close>, \<open>keys\<close>
  and \<open>values\<close> walk. \<open>get\<close> is the library's \<open>map_of\<close>; \<open>insert\<close> replaces an entry or puts the new
  one at its place. A write through \<open>get_mut\<close> is an insert at a key that is present.
\<close>

type_synonym ('k, 'v) btree_map = "('k \<times> 'v) list"

fun bt_insert :: "'k::linorder \<Rightarrow> 'v \<Rightarrow> ('k, 'v) btree_map \<Rightarrow> ('k, 'v) btree_map" where
  "bt_insert k v [] = [(k, v)]"
| "bt_insert k v ((k', v') # m) =
     (if k < k' then (k, v) # (k', v') # m
      else if k = k' then (k, v) # m
      else (k', v') # bt_insert k v m)"

definition bt_values :: "('k, 'v) btree_map \<Rightarrow> 'v list" where
  "bt_values m = map snd m"

definition bt_keys :: "('k, 'v) btree_map \<Rightarrow> 'k list" where
  "bt_keys m = map fst m"

definition bt_wf :: "('k::linorder, 'v) btree_map \<Rightarrow> bool" where
  "bt_wf m \<longleftrightarrow> sorted_wrt (<) (map fst m)"

definition bt_adjust :: "'k::linorder \<Rightarrow> ('v \<Rightarrow> 'v) \<Rightarrow> ('k, 'v) btree_map \<Rightarrow> ('k, 'v) btree_map" where
  "bt_adjust k f m = (case map_of m k of None \<Rightarrow> m | Some v \<Rightarrow> bt_insert k (f v) m)"

definition bt_of_list :: "('k::linorder \<times> 'v) list \<Rightarrow> ('k, 'v) btree_map" where
  "bt_of_list = foldl (\<lambda>m (k, v). bt_insert k v m) []"

lemma map_of_bt_insert [map_simps]: "map_of (bt_insert k v m) = (map_of m)(k \<mapsto> v)"
  by (induction k v m rule: bt_insert.induct) auto

lemma keys_bt_insert [map_simps]: "fst ` set (bt_insert k v m) = insert k (fst ` set m)"
  by (induction k v m rule: bt_insert.induct) auto

lemma bt_insert_last: "\<forall>k' \<in> fst ` set m. k' < k \<Longrightarrow> bt_insert k v m = m @ [(k, v)]"
  by (induction k v m rule: bt_insert.induct) auto

lemma bt_wf_Nil [simp]: "bt_wf []"
  by (simp add: bt_wf_def)

lemma bt_wf_Cons: "bt_wf ((k, v) # m) \<longleftrightarrow> (\<forall>k' \<in> fst ` set m. k < k') \<and> bt_wf m"
  by (auto simp: bt_wf_def)

lemma bt_wf_insert [map_simps]: "bt_wf m \<Longrightarrow> bt_wf (bt_insert k v m)"
  by (induction k v m rule: bt_insert.induct) (auto simp: bt_wf_Cons keys_bt_insert)

lemma map_of_adjust:
  "map_of (bt_adjust k f m) k' = (if k' = k then map_option f (map_of m k) else map_of m k')"
  by (auto simp: bt_adjust_def map_simps split: option.splits)

lemma bt_wf_adjust: "bt_wf m \<Longrightarrow> bt_wf (bt_adjust k f m)"
  by (auto simp: bt_adjust_def map_simps split: option.splits)

lemma bt_wf_distinct: "bt_wf m \<Longrightarrow> distinct (map fst m)"
  by (simp add: bt_wf_def strict_sorted_iff)

text \<open>
  The contract of an ordered map as its clients use it: what a lookup returns after an insert, and
  which values an iteration meets. \<open>total f m\<close> is the sum of a cost over the values.
\<close>

locale ordered_map =
  fixes lookup :: "'m \<Rightarrow> 'k \<Rightarrow> 'v option"
    and store :: "'k \<Rightarrow> 'v \<Rightarrow> 'm \<Rightarrow> 'm"
    and vals :: "'m \<Rightarrow> 'v list"
    and wf :: "'m \<Rightarrow> bool"
  assumes lookup_store: "lookup (store k v m) = (lookup m)(k \<mapsto> v)"
    and wf_store: "wf m \<Longrightarrow> wf (store k v m)"
    and lookup_vals: "wf m \<Longrightarrow> v \<in> set (vals m) \<longleftrightarrow> (\<exists>k. lookup m k = Some v)"
    and total_fresh: "wf m \<Longrightarrow> lookup m k = None \<Longrightarrow>
      sum_list (map f (vals (store k v m))) = sum_list (map f (vals m)) + (f v :: nat)"
    and total_replace: "wf m \<Longrightarrow> lookup m k = Some w \<Longrightarrow>
      sum_list (map f (vals (store k v m))) + f w = sum_list (map f (vals m)) + (f v :: nat)"
begin

lemma total_member: "wf m \<Longrightarrow> lookup m k = Some v \<Longrightarrow> (f v :: nat) \<le> sum_list (map f (vals m))"
  by (rule member_le_sum_list, metis image_eqI list.set_map lookup_vals, simp)

lemma total_same: "wf m \<Longrightarrow> lookup m k = Some w \<Longrightarrow> f v = (f w :: nat) \<Longrightarrow>
    sum_list (map f (vals (store k v m))) = sum_list (map f (vals m))"
  using total_replace [of m k w f v] by simp

lemma total_zero: "wf m \<Longrightarrow> lookup m k = None \<Longrightarrow> f v = (0 :: nat) \<Longrightarrow>
    sum_list (map f (vals (store k v m))) = sum_list (map f (vals m))"
  using total_fresh [of m k f v] by simp

lemma all_vals_store:
  assumes "wf m"
  shows "(\<forall>x \<in> set (vals (store k v m)). P x) \<longleftrightarrow>
    P v \<and> (\<forall>k'. k' \<noteq> k \<longrightarrow> (\<forall>x. lookup m k' = Some x \<longrightarrow> P x))"
proof -
  have "x \<in> set (vals (store k v m)) \<longleftrightarrow> x = v \<or> (\<exists>k'. k' \<noteq> k \<and> lookup m k' = Some x)" for x
    using assms by (auto simp: lookup_vals wf_store lookup_store split: if_splits)
  then show ?thesis by (simp add: Ball_def) metis
qed

end

lemma bt_total_fresh:
  assumes "bt_wf m" and "map_of m k = None"
  shows "sum_list (map f (bt_values (bt_insert k v m))) = sum_list (map f (bt_values m)) + (f v :: nat)"
  using assms
  by (induction k v m rule: bt_insert.induct) (auto simp: bt_values_def bt_wf_Cons split: if_splits)

lemma bt_total_replace:
  assumes "bt_wf m" and "map_of m k = Some w"
  shows "sum_list (map f (bt_values (bt_insert k v m))) + f w =
    sum_list (map f (bt_values m)) + (f v :: nat)"
  using assms
proof (induction k v m rule: bt_insert.induct)
  case (2 k v k' v' m)
  consider "k < k'" | "k = k'" | "k' < k" by (metis linorder_cases)
  then show ?case
  proof cases
    case 1
    with 2(2) have "map_of ((k', v') # m) k = None"
      by (auto simp: bt_wf_Cons map_of_eq_None_iff)
    with 2(3) show ?thesis by (simp add: bt_values_def)
  next
    case 2
    with \<open>map_of ((k', v') # m) k = Some w\<close> show ?thesis by (simp add: bt_values_def)
  next
    case 3
    with 2 show ?thesis by (auto simp: bt_values_def bt_wf_Cons)
  qed
qed simp

lemma bt_lookup_vals: "bt_wf m \<Longrightarrow> v \<in> set (bt_values m) \<longleftrightarrow> (\<exists>k. map_of m k = Some v)"
  using bt_wf_distinct [of m] by (force simp: bt_values_def dest: map_of_SomeD)

interpretation bt: ordered_map map_of bt_insert bt_values bt_wf
  by unfold_locales
    (simp_all add: map_simps bt_lookup_vals bt_total_fresh bt_total_replace)

lemma bt_wf_map_of_iff: "bt_wf m \<Longrightarrow> (k, v) \<in> set m \<longleftrightarrow> map_of m k = Some v"
  by (auto dest: bt_wf_distinct map_of_SomeD)

lemma bt_wf_of_list: "bt_wf (bt_of_list xs)"
proof -
  have "bt_wf m \<Longrightarrow> bt_wf (foldl (\<lambda>m (k, v). bt_insert k v m) m xs)" for m
    by (induction xs arbitrary: m) (auto simp: map_simps)
  then show ?thesis by (simp add: bt_of_list_def)
qed

lemma map_of_of_list: "map_of (bt_of_list xs) k = map_of (rev xs) k"
proof -
  have "map_of (foldl (\<lambda>m (k, v). bt_insert k v m) m xs) k =
      (case map_of (rev xs) k of None \<Rightarrow> map_of m k | Some v \<Rightarrow> Some v)" for m
    by (induction xs arbitrary: m) (auto simp: map_simps map_add_def split: option.splits)
  then show ?thesis by (simp add: bt_of_list_def split: option.splits)
qed

lemma bt_insert_twice: "bt_insert k v (bt_insert k w m) = bt_insert k v m"
  by (induction k w m rule: bt_insert.induct) auto

lemma bt_insert_same: "bt_wf m \<Longrightarrow> map_of m k = Some v \<Longrightarrow> bt_insert k v m = m"
proof (induction k v m rule: bt_insert.induct)
  case (2 k v k' v' m)
  have "map_of m k = Some v \<Longrightarrow> k' < k" using 2(2) by (force simp: bt_wf_Cons dest: map_of_SomeD)
  with 2 show ?case by (auto simp: bt_wf_Cons split: if_splits)
qed simp

lemma bt_of_list_keys: "fst ` set (bt_of_list xs) = fst ` set xs"
proof -
  have "fst ` set (foldl (\<lambda>m (k, v). bt_insert k v m) m xs) = fst ` set m \<union> fst ` set xs" for m
    by (induction xs arbitrary: m) (simp_all add: keys_bt_insert split_beta)
  then show ?thesis by (simp add: bt_of_list_def)
qed

lemma bt_of_list_length: "length (bt_of_list xs) = length xs \<longleftrightarrow> distinct (map fst xs)"
proof -
  have "length (bt_of_list xs) = card (fst ` set (bt_of_list xs))"
    using bt_wf_distinct [OF bt_wf_of_list, of xs] by (metis distinct_card length_map list.set_map)
  then have "length (bt_of_list xs) = card (set (map fst xs))" by (simp add: bt_of_list_keys)
  then show ?thesis by (metis card_distinct distinct_card length_map)
qed

lemma bt_wf_entries: "bt_wf m \<Longrightarrow> m = map (\<lambda>k. (k, the (map_of m k))) (map fst m)"
proof -
  assume "bt_wf m"
  then have "map (\<lambda>p. (fst p, the (map_of m (fst p)))) m = map (\<lambda>p. p) m"
    by (intro map_cong refl) (auto dest: bt_wf_distinct)
  then show ?thesis by (simp add: comp_def)
qed

lemma bt_wf_unique:
  assumes "bt_wf m" and "bt_wf m'" and "map_of m = map_of m'"
  shows "m = m'"
proof -
  have "map fst m = map fst m'"
    using assms strict_sorted_equal [of "map fst m'" "map fst m"]
    by (metis bt_wf_def dom_map_of_conv_image_fst list.set_map)
  then show ?thesis using bt_wf_entries [OF assms(1)] bt_wf_entries [OF assms(2)] assms(3) by metis
qed

text \<open>A \<open>BTreeSet\<close> is the list of its elements in order; \<open>bset_of\<close> collects one.\<close>

definition bset_of :: "'a::linorder list \<Rightarrow> 'a list" where
  "bset_of xs = remdups (sort xs)"

lemma set_bset_of [simp]: "set (bset_of xs) = set xs"
  by (simp add: bset_of_def)

lemma distinct_bset_of [simp]: "distinct (bset_of xs)"
  by (simp add: bset_of_def)

lemma sorted_bset_of [simp]: "sorted (bset_of xs)"
  by (simp add: bset_of_def sorted_remdups)

lemma adjacent_sorted: "sorted_wrt (<) (map f xs) \<Longrightarrow> list_all (\<lambda>(a, b). (f a :: 'a::order) < f b) (zip xs (tl xs))"
  by (induction xs rule: induct_list012) auto

lemma bset_of_same: "sorted_wrt (<) xs \<Longrightarrow> bset_of xs = xs"
  by (simp add: bset_of_def strict_sorted_iff sorted_sort_id)

section \<open>Journals\<close>

text \<open>
  The contract of a state that keeps its own history: \<open>step\<close> changes it by one event, \<open>events\<close> reads
  the history back. A step appends the event it applied, and two states with the same history that
  began alike are one state because \<open>step\<close> is a function.
\<close>

locale event_journal =
  fixes step :: "'s \<Rightarrow> 'e \<Rightarrow> 'err + 's"
    and events :: "'s \<Rightarrow> 'e list"
    and fresh :: "'s \<Rightarrow> bool"
  assumes fresh_events: "fresh s \<Longrightarrow> events s = []"
    and step_events: "step s e = Inr s' \<Longrightarrow> events s' = events s @ [e]"
begin

lemma run_events: "fold_res step s es = Inr t \<Longrightarrow> events t = events s @ es"
  by (induction es arbitrary: s) (auto simp: bnd_Inr_iff dest!: step_events)

lemma history: "fresh s \<Longrightarrow> fold_res step s es = Inr t \<Longrightarrow> events t = es"
  by (simp add: run_events fresh_events)

lemma replay: "fresh s \<Longrightarrow> fold_res step s es = Inr t \<Longrightarrow> fold_res step s (events t) = Inr t"
  by (simp add: history)

lemma same_history:
  "fresh s \<Longrightarrow> fold_res step s es = Inr t \<Longrightarrow> fold_res step s es' = Inr t' \<Longrightarrow>
    events t = events t' \<Longrightarrow> t = t'"
  by (simp add: history)

end

text \<open>
  The contract of a state that only grows: a good state stays good under a successful step, and what
  \<open>grows\<close> keeps is kept along a run.
\<close>

locale growing_state =
  fixes step :: "'s \<Rightarrow> 'e \<Rightarrow> 'err + 's"
    and good :: "'s \<Rightarrow> bool"
    and grows :: "'s \<Rightarrow> 's \<Rightarrow> bool"
  assumes grows_refl: "grows s s"
    and grows_trans: "grows s t \<Longrightarrow> grows t u \<Longrightarrow> grows s u"
    and step_good: "good s \<Longrightarrow> step s e = Inr t \<Longrightarrow> good t"
    and step_grows: "good s \<Longrightarrow> step s e = Inr t \<Longrightarrow> grows s t"
begin

lemma run_good: "good s \<Longrightarrow> fold_res step s es = Inr t \<Longrightarrow> good t"
  by (rule fold_res_invariant [where P = good]) (auto intro: step_good)

lemma run_grows: "good s \<Longrightarrow> fold_res step s es = Inr t \<Longrightarrow> grows s t"
proof (induction es arbitrary: s)
  case Nil
  then show ?case by (simp add: grows_refl)
next
  case (Cons e es)
  then obtain s' where "step s e = Inr s'" "fold_res step s' es = Inr t" by (auto simp: bnd_Inr_iff)
  with Cons show ?case by (meson grows_trans step_good step_grows)
qed

end

end
