(* ===== verification/Wire_Identity.thy ===== *)
theory Wire_Identity
  imports Prelude
begin

text \<open>
  Identities of the execution protocol (\<open>src/execution_protocol/identity.rs\<close>) and the byte tests its
  contracts share. Every identity is a newtype over \<open>String\<close>, serialised transparently, so it is a
  \<open>string\<close> here; \<open>id_new\<close> is its constructor, whose assertion is the error branch.

  The crates \<open>sha2\<close> with \<open>hex\<close>, \<open>serde_json\<close> and \<open>reqwest\<close> are not part of the repository. They are
  the fields of \<open>externs\<close>, an argument of every definition that calls them: \<open>sha256_hex\<close> is
  \<open>hex::encode(Sha256::digest(bytes))\<close>, \<open>to_json\<close> is \<open>serde_json::to_string\<close> on the serialised
  value of its argument (\<open>None\<close> when it fails) and \<open>parse_url\<close> is \<open>reqwest::Url::parse\<close>.
  \<open>str_lowercase\<close> is \<open>str::to_lowercase\<close>, whose tables are those of the Unicode database. The value
  that \<open>derive(Serialize)\<close> hands to \<open>serde_json\<close> is a \<open>ser\<close>; each type has its image below its
  declaration, with the field names and the enum representation its attributes give it.
\<close>

type_synonym execution_id = string
type_synonym node_id = string
type_synonym proof_id = string
type_synonym event_id = string
type_synonym evidence_id = string
type_synonym failure_revision_id = string
type_synonym model_call_id = string
type_synonym action_id = string
type_synonym effect_id = string
type_synonym repository_revision_id = string
type_synonym repository_profile_id = string

definition id_new :: "string \<Rightarrow> string option" where
  "id_new value = (if blank value then None else Some value)"

section \<open>External crates\<close>

datatype ser =
    Ser_Null
  | Ser_Bool bool
  | Ser_Int int
  | Ser_Str string
  | Ser_Tuple "ser list"
  | Ser_Struct "(string \<times> ser) list"

record url =
  url_scheme :: string
  url_host_str :: "string option"
  url_username :: string
  url_password :: "string option"
  url_query :: "string option"
  url_fragment :: "string option"
  url_as_str :: string

record externs =
  sha256_hex :: "string \<Rightarrow> string"
  to_json :: "ser \<Rightarrow> string option"
  parse_url :: "string \<Rightarrow> url option"
  str_lowercase :: "string \<Rightarrow> string"

fun ser_opt :: "string option \<Rightarrow> ser" where
  "ser_opt None = Ser_Null"
| "ser_opt (Some s) = Ser_Str s"

definition ser_u :: "'a::len word \<Rightarrow> ser" where
  "ser_u n = Ser_Int (uint n)"

section \<open>The stable digest\<close>

text \<open>\<open>u64::to_be_bytes\<close> of a length: eight bytes, the most significant first.\<close>

definition be64 :: "nat \<Rightarrow> string" where
  "be64 n = map (\<lambda>i. char_of (n div 256 ^ (7 - i) mod 256)) [0..<8]"

text \<open>What \<open>stable_sha256\<close> feeds the digest: each part behind its length.\<close>

fun frame :: "string list \<Rightarrow> string" where
  "frame [] = []"
| "frame (part # parts) = be64 (length part) @ part @ frame parts"

definition stable_sha256 :: "externs \<Rightarrow> string list \<Rightarrow> string" where
  "stable_sha256 E parts = sha256_hex E (frame parts)"

text \<open>The prefixed identity \<open>format!("epv1:{}", stable_sha256(parts))\<close>.\<close>

definition epv1 :: "externs \<Rightarrow> string list \<Rightarrow> string" where
  "epv1 E parts = ''epv1:'' @ stable_sha256 E parts"

definition event_id_derive :: "externs \<Rightarrow> execution_id \<Rightarrow> u32 \<Rightarrow> string \<Rightarrow> event_id" where
  "event_id_derive E execution_id execution_attempt semantic_key =
     epv1 E [''execution-protocol-v1:event'', execution_id, decimal (unat execution_attempt),
       semantic_key]"

section \<open>Byte tests shared by the contracts\<close>

definition lower_hex :: "char \<Rightarrow> bool" where
  "lower_hex c \<longleftrightarrow> ascii_digit c \<or> (97 \<le> byte c \<and> byte c \<le> 102)"

definition is_sha256 :: "string \<Rightarrow> bool" where
  "is_sha256 value \<longleftrightarrow> length value = 64 \<and> list_all lower_hex value"

text \<open>What the code relies on of the external crates.\<close>

definition json_total :: "externs \<Rightarrow> bool" where
  "json_total E \<longleftrightarrow> (\<forall>v. to_json E v \<noteq> None)"

definition digest_is_hex :: "externs \<Rightarrow> bool" where
  "digest_is_hex E \<longleftrightarrow> (\<forall>bytes. is_sha256 (sha256_hex E bytes))"

definition git_oid_is_valid :: "string \<Rightarrow> bool" where
  "git_oid_is_valid value \<longleftrightarrow>
     (length value = 40 \<or> length value = 64) \<and> list_all lower_hex value"

definition MAX_SAFE_CODE_BYTES :: nat where "MAX_SAFE_CODE_BYTES = 128"
definition MAX_GIT_REF_BYTES :: nat where "MAX_GIT_REF_BYTES = 256"

definition safe_code_is_valid :: "string \<Rightarrow> bool" where
  "safe_code_is_valid value \<longleftrightarrow>
     value \<noteq> [] \<and> length value \<le> MAX_SAFE_CODE_BYTES \<and>
     list_all (\<lambda>b. ascii_lowercase b \<or> ascii_digit b \<or> b \<in> {CHR ''_'', CHR ''-'', CHR ''.''}) value"

definition git_ref_is_valid :: "string \<Rightarrow> bool" where
  "git_ref_is_valid value \<longleftrightarrow>
     value \<noteq> [] \<and> length value \<le> MAX_GIT_REF_BYTES \<and>
     \<not> starts_with ''/'' value \<and> \<not> ends_with ''/'' value \<and> \<not> ends_with ''.'' value \<and>
     \<not> contains_str ''..'' value \<and> \<not> contains_str [CHR ''@'', CHR 0x7B] value \<and> \<not> contains_str ''//'' value \<and>
     \<not> ends_with ''.lock'' value \<and>
     list_all (\<lambda>b. \<not> ascii_control b \<and> \<not> ascii_whitespace b \<and>
       b \<notin> {CHR ''~'', CHR ''^'', CHR '':'', CHR ''?'', CHR ''*'', CHR ''['', CHR 0x5C}) value"

section \<open>Facts\<close>

lemma length_be64 [simp]: "length (be64 n) = 8"
  by (simp add: be64_def)

lemma be64_inject:
  assumes "m < 2 ^ 64" and "n < 2 ^ 64" and eq: "be64 m = be64 n"
  shows "m = n"
proof -
  have digit: "m div 256 ^ k mod 256 = n div 256 ^ k mod 256" if "k < 8" for k
  proof -
    have nth: "be64 x ! (7 - k) = char_of (x div 256 ^ k mod 256)" for x
      unfolding be64_def using that by (subst nth_map_upt) auto
    from eq have "be64 m ! (7 - k) = be64 n ! (7 - k)" by simp
    then have "char_of (m div 256 ^ k mod 256) = (char_of (n div 256 ^ k mod 256) :: char)"
      by (simp add: nth)
    then have "(of_char (char_of (m div 256 ^ k mod 256)) :: nat) =
        of_char (char_of (n div 256 ^ k mod 256) :: char)" by simp
    then show ?thesis by simp
  qed
  have step: "x div 256 ^ k = x div 256 ^ Suc k * 256 + x div 256 ^ k mod 256" for x k :: nat
    by (metis div_mult2_eq div_mult_mod_eq mult.commute power_Suc)
  have up: "m div 256 ^ k = n div 256 ^ k" if "k \<le> 8" for k
    using that
  proof (induction "8 - k" arbitrary: k)
    case 0
    then have "k = 8" by simp
    with assms(1,2) show ?case by simp
  next
    case (Suc d)
    have "d = 8 - Suc k" and "Suc k \<le> 8" and "k < 8" using Suc.hyps(2) by auto
    then have "m div 256 ^ Suc k = n div 256 ^ Suc k" by (intro Suc.hyps(1))
    with \<open>k < 8\<close> digit [of k] show ?case using step [of m k] step [of n k] by simp
  qed
  from up [of 0] show ?thesis by simp
qed

text \<open>The framing loses nothing: two lists of parts with the same frame are equal.\<close>

lemma frame_inject:
  "\<forall>p \<in> set ps. length p < 2 ^ 64 \<Longrightarrow> \<forall>q \<in> set qs. length q < 2 ^ 64 \<Longrightarrow>
    frame ps = frame qs \<Longrightarrow> ps = qs"
proof (induction ps arbitrary: qs)
  case Nil
  then show ?case by (cases qs) (auto dest: arg_cong [where f = length])
next
  case (Cons p ps)
  from Cons.prems(3) obtain q qs' where qs: "qs = q # qs'"
    by (cases qs) (auto dest: arg_cong [where f = length])
  with Cons.prems(3) have heads: "be64 (length p) = be64 (length q)"
    and rest: "p @ frame ps = q @ frame qs'" by simp_all
  with Cons.prems(1,2) qs have "length p = length q"
    by (intro be64_inject) simp_all
  with rest have "p = q" and "frame ps = frame qs'" by simp_all
  with Cons qs show ?case by simp
qed

lemma epv1_inject [simp]: "epv1 E ps = epv1 E qs \<longleftrightarrow> stable_sha256 E ps = stable_sha256 E qs"
  by (simp add: epv1_def)

lemma epv1_not_blank [simp]: "\<not> blank (epv1 E parts)"
  by (simp add: epv1_def not_blank_Cons byte_def)

lemma id_new_epv1: "id_new (epv1 E parts) = Some (epv1 E parts)"
  by (simp add: id_new_def)

lemma is_sha256_git_oid: "is_sha256 s \<Longrightarrow> git_oid_is_valid s"
  by (simp add: is_sha256_def git_oid_is_valid_def)

end
