(* ===== verification/Publication_Contract.thy ===== *)
theory Publication_Contract
  imports Wire_Identity
begin

text \<open>
  The signed contracts of the finalization phase (\<open>src/execution_protocol/review.rs\<close>): the publication
  contract, the finalization policy that carries it, and the engineering ancestry. Each names the hash
  or identity it must carry; \<open>validate\<close> recomputes it. \<open>canonical_json\<close> turns a failure of the
  serialiser into the error \<open>Serialization\<close>.
\<close>

definition REVIEW_SCHEMA_VERSION :: u16 where "REVIEW_SCHEMA_VERSION = 1"
definition MAX_CHANGED_PATHS :: nat where "MAX_CHANGED_PATHS = 4096"
definition MAX_DIFF_PAGES :: nat where "MAX_DIFF_PAGES = 128"
definition MAX_DIFF_PAGE_BYTES :: u64 where "MAX_DIFF_PAGE_BYTES = 512 * 1024"
definition MAX_DIFF_TOTAL_BYTES :: u64 where "MAX_DIFF_TOTAL_BYTES = 32 * 1024 * 1024"
definition MAX_CRITERIA :: nat where "MAX_CRITERIA = 256"
definition MAX_UNCONTACTED_RELEASES_PER_BINDING :: u32 where
  "MAX_UNCONTACTED_RELEASES_PER_BINDING = 16"

datatype review_error =
    Review_Invalid string
  | Review_LimitExceeded string nat
  | Review_Serialization

fun review_error_code :: "review_error \<Rightarrow> string" where
  "review_error_code (Review_Invalid code) = code"
| "review_error_code (Review_LimitExceeded field maximum) = ''review_contract_limit_exceeded''"
| "review_error_code Review_Serialization = ''review_contract_serialization_failed''"

definition review_json :: "externs \<Rightarrow> ser \<Rightarrow> review_error + string" where
  "review_json E value = ok_or Review_Serialization (to_json E value)"

datatype publication_mode = Normal | NormalWithExternalReview

datatype external_review_kind =
    ManualQa | AccessibilityReview | VisualReview | ProductApproval | DeploymentEnvironment

fun ser_mode :: "publication_mode \<Rightarrow> ser" where
  "ser_mode Normal = Ser_Str ''normal''"
| "ser_mode NormalWithExternalReview = Ser_Str ''normal_with_external_review''"

fun ser_review_kind :: "external_review_kind \<Rightarrow> ser" where
  "ser_review_kind ManualQa = Ser_Str ''manual_qa''"
| "ser_review_kind AccessibilityReview = Ser_Str ''accessibility_review''"
| "ser_review_kind VisualReview = Ser_Str ''visual_review''"
| "ser_review_kind ProductApproval = Ser_Str ''product_approval''"
| "ser_review_kind DeploymentEnvironment = Ser_Str ''deployment_environment''"

section \<open>The publication contract\<close>

record publication_contract =
  pc_schema_version :: u16
  pc_contract_id :: evidence_id
  pc_requested_mode :: publication_mode
  pc_repository_binding_hash :: string
  pc_installation_binding_hash :: string
  pc_base_repository_revision :: repository_revision_id
  pc_base_ref :: string
  pc_head_branch :: string
  pc_expected_remote_head :: "string option"
  pc_commit_identity_hash :: string
  pc_max_commit_attempts :: u32
  pc_max_push_attempts :: u32
  pc_max_pr_attempts :: u32

definition contract_identity :: "publication_contract \<Rightarrow> ser" where
  "contract_identity c = Ser_Tuple
    [ser_u (pc_schema_version c), ser_mode (pc_requested_mode c),
     Ser_Str (pc_repository_binding_hash c), Ser_Str (pc_installation_binding_hash c),
     Ser_Str (pc_base_repository_revision c), Ser_Str (pc_base_ref c), Ser_Str (pc_head_branch c),
     ser_opt (pc_expected_remote_head c), Ser_Str (pc_commit_identity_hash c),
     ser_u (pc_max_commit_attempts c), ser_u (pc_max_push_attempts c),
     ser_u (pc_max_pr_attempts c)]"

definition contract_expected_id :: "externs \<Rightarrow> publication_contract \<Rightarrow> review_error + evidence_id" where
  "contract_expected_id E c =
     bnd (review_json E (contract_identity c))
       (\<lambda>identity. Inr (epv1 E [''execution-protocol-v1:publication-contract'', identity]))"

definition contract_validate :: "externs \<Rightarrow> publication_contract \<Rightarrow> review_error + unit" where
  "contract_validate E c =
     (let invalid = Inl (Review_Invalid ''publication_contract_invalid'') in
      if pc_schema_version c \<noteq> REVIEW_SCHEMA_VERSION
       \<or> \<not> is_sha256 (pc_repository_binding_hash c)
       \<or> \<not> is_sha256 (pc_installation_binding_hash c)
       \<or> \<not> is_sha256 (pc_commit_identity_hash c)
       \<or> \<not> git_ref_is_valid (pc_base_ref c)
       \<or> \<not> git_ref_is_valid (pc_head_branch c)
       \<or> pc_base_ref c = pc_head_branch c
       \<or> (case pc_expected_remote_head c of None \<Rightarrow> False | Some v \<Rightarrow> \<not> git_oid_is_valid v)
       \<or> pc_max_commit_attempts c = 0
       \<or> pc_max_push_attempts c = 0
       \<or> pc_max_pr_attempts c = 0
      then invalid
      else bnd (contract_expected_id E c)
        (\<lambda>expected. if pc_contract_id c \<noteq> expected then invalid else Inr ()))"

definition contract_new ::
  "externs \<Rightarrow> publication_mode \<Rightarrow> string \<Rightarrow> string \<Rightarrow> repository_revision_id \<Rightarrow> string \<Rightarrow> string \<Rightarrow>
   string option \<Rightarrow> string \<Rightarrow> u32 \<Rightarrow> u32 \<Rightarrow> u32 \<Rightarrow> review_error + publication_contract" where
  "contract_new E requested_mode repository_binding_hash installation_binding_hash
     base_repository_revision base_ref head_branch expected_remote_head commit_identity_hash
     max_commit_attempts max_push_attempts max_pr_attempts =
     (let unsigned = \<lparr>pc_schema_version = REVIEW_SCHEMA_VERSION, pc_contract_id = [],
        pc_requested_mode = requested_mode,
        pc_repository_binding_hash = repository_binding_hash,
        pc_installation_binding_hash = installation_binding_hash,
        pc_base_repository_revision = base_repository_revision,
        pc_base_ref = base_ref, pc_head_branch = head_branch,
        pc_expected_remote_head = expected_remote_head,
        pc_commit_identity_hash = commit_identity_hash,
        pc_max_commit_attempts = max_commit_attempts,
        pc_max_push_attempts = max_push_attempts,
        pc_max_pr_attempts = max_pr_attempts\<rparr>
      in bnd (review_json E (contract_identity unsigned))
        (\<lambda>identity.
           let contract = unsigned\<lparr>pc_contract_id :=
             epv1 E [''execution-protocol-v1:publication-contract'', identity]\<rparr>
           in bnd (contract_validate E contract) (\<lambda>_. Inr contract)))"

definition ser_contract :: "publication_contract \<Rightarrow> ser" where
  "ser_contract c = Ser_Struct
    [(''schema_version'', ser_u (pc_schema_version c)), (''contract_id'', Ser_Str (pc_contract_id c)),
     (''requested_mode'', ser_mode (pc_requested_mode c)),
     (''repository_binding_hash'', Ser_Str (pc_repository_binding_hash c)),
     (''installation_binding_hash'', Ser_Str (pc_installation_binding_hash c)),
     (''base_repository_revision'', Ser_Str (pc_base_repository_revision c)),
     (''base_ref'', Ser_Str (pc_base_ref c)), (''head_branch'', Ser_Str (pc_head_branch c)),
     (''expected_remote_head'', ser_opt (pc_expected_remote_head c)),
     (''commit_identity_hash'', Ser_Str (pc_commit_identity_hash c)),
     (''max_commit_attempts'', ser_u (pc_max_commit_attempts c)),
     (''max_push_attempts'', ser_u (pc_max_push_attempts c)),
     (''max_pr_attempts'', ser_u (pc_max_pr_attempts c))]"

section \<open>The finalization policy\<close>

record finalization_policy =
  fp_schema_version :: u16
  fp_policy_id :: string
  fp_policy_evidence_id :: evidence_id
  fp_max_changed_paths :: u32
  fp_max_diff_pages :: u32
  fp_max_page_bytes :: u64
  fp_max_total_diff_bytes :: u64
  fp_max_uncontacted_releases_per_binding :: u32
  fp_external_review_criteria :: "(string, external_review_kind) btree_map"
  fp_publication :: publication_contract

definition policy_identity :: "finalization_policy \<Rightarrow> ser" where
  "policy_identity p = Ser_Tuple
    [ser_u (fp_schema_version p), Ser_Str (fp_policy_evidence_id p), ser_u (fp_max_changed_paths p),
     ser_u (fp_max_diff_pages p), ser_u (fp_max_page_bytes p), ser_u (fp_max_total_diff_bytes p),
     ser_u (fp_max_uncontacted_releases_per_binding p),
     Ser_Struct (map (\<lambda>(k, v). (k, ser_review_kind v)) (fp_external_review_criteria p)),
     ser_contract (fp_publication p)]"

definition policy_expected_id :: "externs \<Rightarrow> finalization_policy \<Rightarrow> review_error + string" where
  "policy_expected_id E p =
     bnd (review_json E (policy_identity p))
       (\<lambda>identity. Inr (epv1 E [''execution-protocol-v1:finalization-policy'', identity]))"

definition policy_validate :: "externs \<Rightarrow> finalization_policy \<Rightarrow> review_error + unit" where
  "policy_validate E p =
     bnd (contract_validate E (fp_publication p)) (\<lambda>_.
      let invalid = Inl (Review_Invalid ''finalization_policy_invalid'') in
      if fp_schema_version p \<noteq> REVIEW_SCHEMA_VERSION
       \<or> fp_policy_evidence_id p = []
       \<or> fp_max_changed_paths p = 0
       \<or> unat (fp_max_changed_paths p) > MAX_CHANGED_PATHS
       \<or> fp_max_diff_pages p = 0
       \<or> unat (fp_max_diff_pages p) > MAX_DIFF_PAGES
       \<or> fp_max_page_bytes p = 0
       \<or> fp_max_page_bytes p > MAX_DIFF_PAGE_BYTES
       \<or> fp_max_total_diff_bytes p = 0
       \<or> fp_max_total_diff_bytes p > MAX_DIFF_TOTAL_BYTES
       \<or> fp_max_page_bytes p > fp_max_total_diff_bytes p
       \<or> fp_max_uncontacted_releases_per_binding p = 0
       \<or> fp_max_uncontacted_releases_per_binding p > MAX_UNCONTACTED_RELEASES_PER_BINDING
       \<or> length (fp_external_review_criteria p) > MAX_CRITERIA
      then invalid
      else bnd (policy_expected_id E p)
        (\<lambda>expected. if fp_policy_id p \<noteq> expected then invalid else Inr ()))"

definition policy_new ::
  "externs \<Rightarrow> evidence_id \<Rightarrow> u32 \<Rightarrow> u32 \<Rightarrow> u64 \<Rightarrow> u64 \<Rightarrow> u32 \<Rightarrow>
   (string, external_review_kind) btree_map \<Rightarrow> publication_contract \<Rightarrow>
   review_error + finalization_policy" where
  "policy_new E policy_evidence_id max_changed_paths max_diff_pages max_page_bytes
     max_total_diff_bytes max_uncontacted external_review_criteria publication =
     bnd (contract_validate E publication) (\<lambda>_.
      let unsigned = \<lparr>fp_schema_version = REVIEW_SCHEMA_VERSION, fp_policy_id = [],
        fp_policy_evidence_id = policy_evidence_id, fp_max_changed_paths = max_changed_paths,
        fp_max_diff_pages = max_diff_pages, fp_max_page_bytes = max_page_bytes,
        fp_max_total_diff_bytes = max_total_diff_bytes,
        fp_max_uncontacted_releases_per_binding = max_uncontacted,
        fp_external_review_criteria = external_review_criteria, fp_publication = publication\<rparr>
      in bnd (review_json E (policy_identity unsigned))
        (\<lambda>identity.
           let policy = unsigned\<lparr>fp_policy_id :=
             epv1 E [''execution-protocol-v1:finalization-policy'', identity]\<rparr>
           in bnd (policy_validate E policy) (\<lambda>_. Inr policy)))"

section \<open>Engineering ancestry\<close>

record engineering_ancestry =
  ea_schema_version :: u16
  ea_repository_revision :: repository_revision_id
  ea_repository_fingerprint :: string
  ea_implementation_barrier_proof_id :: proof_id
  ea_required_validation_proof_id :: proof_id
  ea_ordered_revision_proof_ids :: "proof_id list"
  ea_ancestry_hash :: string

definition ancestry_expected_hash :: "externs \<Rightarrow> engineering_ancestry \<Rightarrow> review_error + string" where
  "ancestry_expected_hash E a =
     bnd (review_json E (Ser_Tuple
        [ser_u (ea_schema_version a), Ser_Str (ea_repository_revision a),
         Ser_Str (ea_repository_fingerprint a), Ser_Str (ea_implementation_barrier_proof_id a),
         Ser_Str (ea_required_validation_proof_id a),
         Ser_Tuple (map Ser_Str (ea_ordered_revision_proof_ids a))]))
       (\<lambda>json. Inr (stable_sha256 E [''execution-protocol-v1:engineering-ancestry'', json]))"

definition ancestry_validate :: "externs \<Rightarrow> engineering_ancestry \<Rightarrow> review_error + unit" where
  "ancestry_validate E a =
     (let invalid = Inl (Review_Invalid ''engineering_ancestry_invalid'');
          ids = ea_ordered_revision_proof_ids a
      in
      if ea_schema_version a \<noteq> REVIEW_SCHEMA_VERSION
       \<or> \<not> is_sha256 (ea_repository_fingerprint a)
       \<or> length ids < 2
       \<or> hd ids \<noteq> ea_implementation_barrier_proof_id a
       \<or> last ids \<noteq> ea_required_validation_proof_id a
       \<or> \<not> distinct ids
      then invalid
      else bnd (ancestry_expected_hash E a)
        (\<lambda>expected. if ea_ancestry_hash a \<noteq> expected then invalid else Inr ()))"

definition ancestry_new ::
  "externs \<Rightarrow> repository_revision_id \<Rightarrow> string \<Rightarrow> proof_id \<Rightarrow> proof_id \<Rightarrow> proof_id list \<Rightarrow>
   review_error + engineering_ancestry" where
  "ancestry_new E repository_revision repository_fingerprint barrier validation ids =
     (let unsigned = \<lparr>ea_schema_version = REVIEW_SCHEMA_VERSION,
        ea_repository_revision = repository_revision,
        ea_repository_fingerprint = repository_fingerprint,
        ea_implementation_barrier_proof_id = barrier,
        ea_required_validation_proof_id = validation,
        ea_ordered_revision_proof_ids = ids, ea_ancestry_hash = []\<rparr>
      in bnd (ancestry_expected_hash E unsigned)
        (\<lambda>h. let ancestry = unsigned\<lparr>ea_ancestry_hash := h\<rparr>
             in bnd (ancestry_validate E ancestry) (\<lambda>_. Inr ancestry)))"

section \<open>Facts\<close>

lemma contract_identity_id [simp]: "contract_identity (c\<lparr>pc_contract_id := i\<rparr>) = contract_identity c"
  by (simp add: contract_identity_def)

text \<open>What the publication ledger uses of a validated contract.\<close>

lemma contract_validateD:
  assumes "contract_validate E c = Inr u"
  shows "pc_schema_version c = REVIEW_SCHEMA_VERSION"
    and "is_sha256 (pc_repository_binding_hash c)" and "is_sha256 (pc_installation_binding_hash c)"
    and "is_sha256 (pc_commit_identity_hash c)"
    and "git_ref_is_valid (pc_base_ref c)" and "git_ref_is_valid (pc_head_branch c)"
    and "\<And>v. pc_expected_remote_head c = Some v \<Longrightarrow> git_oid_is_valid v"
    and "0 < unat (pc_max_commit_attempts c)" and "0 < unat (pc_max_push_attempts c)"
    and "0 < unat (pc_max_pr_attempts c)"
  using assms
  by (auto simp: contract_validate_def Let_def unat_gt_0 split: if_splits option.splits)

end
