(* ===== verification/Publication_Eligibility.thy ===== *)
theory Publication_Eligibility
  imports Publication_Contract
begin

text \<open>
  The decision that opens publication (\<open>src/execution_protocol/review.rs\<close>): the authority request, the
  authority observation, the twelve predicates and the eligibility record. Of the diff manifest, the
  diff review and the completion evaluation these operations read the identities and the scalar
  bindings; the parts they only carry along (changed paths, page receipts, the plan assessment, the
  criteria) are kept as their serialised images, of type \<open>ser\<close>.
\<close>

section \<open>The records that are judged\<close>

record diff_manifest =
  dm_schema_version :: u16
  dm_manifest_id :: string
  dm_effect_id :: effect_id
  dm_review_node_id :: node_id
  dm_plan_id :: string
  dm_plan_revision_id :: string
  dm_policy_id :: string
  dm_base_repository_revision :: repository_revision_id
  dm_repository_revision :: repository_revision_id
  dm_required_validation_proof_id :: proof_id
  dm_repository_fingerprint :: string
  dm_changed_paths :: "ser list"
  dm_plan_assessment :: ser
  dm_pages :: "ser list"
  dm_total_bytes :: u64
  dm_diff_hash :: string

definition manifest_is_empty :: "diff_manifest \<Rightarrow> bool" where
  "manifest_is_empty m \<longleftrightarrow> dm_changed_paths m = []"

datatype diff_review_disposition = Review_Accepted | Review_EmptyDiff | Review_Blocking

record diff_review =
  dr_schema_version :: u16
  dr_review_id :: string
  dr_node_id :: node_id
  dr_repository_revision :: repository_revision_id
  dr_manifest_id :: string
  dr_diff_hash :: string
  dr_ordered_page_review_ids :: "string list"
  dr_finding_ids :: "evidence_id list"
  dr_disposition :: diff_review_disposition
  dr_review_hash :: string

datatype completion_disposition = Complete | CompletePendingExternalReview | Incomplete

fun permits :: "completion_disposition \<Rightarrow> publication_mode \<Rightarrow> bool" where
  "permits Complete Normal = True"
| "permits CompletePendingExternalReview NormalWithExternalReview = True"
| "permits _ _ = False"

record completion_evaluation =
  ce_schema_version :: u16
  ce_evaluation_id :: string
  ce_action_id :: action_id
  ce_call_id :: model_call_id
  ce_node_id :: node_id
  ce_repository_revision :: repository_revision_id
  ce_plan_id :: string
  ce_plan_revision_id :: string
  ce_required_validation_proof_id :: proof_id
  ce_manifest_id :: string
  ce_diff_review_id :: string
  ce_criteria :: ser
  ce_disposition :: completion_disposition
  ce_evaluation_hash :: string

section \<open>The authority request and observation\<close>

record authority_request =
  ar_schema_version :: u16
  ar_effect_id :: effect_id
  ar_policy_id :: string
  ar_contract_id :: evidence_id
  ar_repository_revision :: repository_revision_id
  ar_completion_evaluation_id :: string
  ar_request_hash :: string

definition authority_request_expected_hash :: "externs \<Rightarrow> authority_request \<Rightarrow> review_error + string" where
  "authority_request_expected_hash E r =
     bnd (review_json E (Ser_Tuple
        [ser_u (ar_schema_version r), Ser_Str (ar_effect_id r), Ser_Str (ar_policy_id r),
         Ser_Str (ar_contract_id r), Ser_Str (ar_repository_revision r),
         Ser_Str (ar_completion_evaluation_id r)]))
       (\<lambda>json. Inr (stable_sha256 E [''execution-protocol-v1:publication-authority-request'', json]))"

definition authority_request_validate ::
  "externs \<Rightarrow> authority_request \<Rightarrow> finalization_policy \<Rightarrow> completion_evaluation \<Rightarrow>
   review_error + unit" where
  "authority_request_validate E r policy completion =
     (let invalid = Inl (Review_Invalid ''publication_authority_request_invalid'') in
      if ar_schema_version r \<noteq> REVIEW_SCHEMA_VERSION
       \<or> ar_policy_id r \<noteq> fp_policy_id policy
       \<or> ar_contract_id r \<noteq> pc_contract_id (fp_publication policy)
       \<or> ar_repository_revision r \<noteq> ce_repository_revision completion
       \<or> ar_completion_evaluation_id r \<noteq> ce_evaluation_id completion
      then invalid
      else bnd (authority_request_expected_hash E r)
        (\<lambda>h. if ar_request_hash r \<noteq> h then invalid else Inr ()))"

definition authority_request_new ::
  "externs \<Rightarrow> finalization_policy \<Rightarrow> completion_evaluation \<Rightarrow> review_error + authority_request" where
  "authority_request_new E policy completion =
     bnd (policy_validate E policy) (\<lambda>_.
     bnd (review_json E (Ser_Tuple
        [ser_u REVIEW_SCHEMA_VERSION, Ser_Str (fp_policy_id policy),
         Ser_Str (pc_contract_id (fp_publication policy)),
         Ser_Str (ce_repository_revision completion), Ser_Str (ce_evaluation_id completion)]))
       (\<lambda>identity.
          let unsigned = \<lparr>ar_schema_version = REVIEW_SCHEMA_VERSION,
            ar_effect_id = epv1 E [''execution-protocol-v1:publication-authority'', identity],
            ar_policy_id = fp_policy_id policy,
            ar_contract_id = pc_contract_id (fp_publication policy),
            ar_repository_revision = ce_repository_revision completion,
            ar_completion_evaluation_id = ce_evaluation_id completion, ar_request_hash = []\<rparr>
          in bnd (authority_request_expected_hash E unsigned)
            (\<lambda>h. let request = unsigned\<lparr>ar_request_hash := h\<rparr>
                 in bnd (authority_request_validate E request policy completion)
                      (\<lambda>_. Inr request))))"

record authority_observation =
  ao_schema_version :: u16
  ao_authority_id :: string
  ao_effect_id :: effect_id
  ao_policy_id :: string
  ao_contract_id :: evidence_id
  ao_repository_revision :: repository_revision_id
  ao_repository_head_oid :: string
  ao_repository_tree_oid :: string
  ao_repository_binding_hash :: string
  ao_installation_binding_hash :: string
  ao_base_repository_revision :: repository_revision_id
  ao_base_ref :: string
  ao_head_branch :: string
  ao_expected_remote_head :: "string option"
  ao_observed_remote_head :: "string option"
  ao_lease_epoch_hash :: string
  ao_cancellation_absent :: bool
  ao_lease_valid :: bool
  ao_remote_head_unchanged :: bool
  ao_observation_hash :: string

definition authority_expected_hash :: "externs \<Rightarrow> authority_observation \<Rightarrow> review_error + string" where
  "authority_expected_hash E a =
     bnd (review_json E (Ser_Tuple
        [Ser_Tuple
          [Ser_Str (ao_effect_id a), Ser_Str (ao_policy_id a), Ser_Str (ao_contract_id a),
           Ser_Str (ao_repository_revision a), Ser_Str (ao_repository_head_oid a),
           Ser_Str (ao_repository_tree_oid a), Ser_Str (ao_repository_binding_hash a),
           Ser_Str (ao_installation_binding_hash a)],
         Ser_Tuple
          [Ser_Str (ao_base_repository_revision a), Ser_Str (ao_base_ref a),
           Ser_Str (ao_head_branch a), ser_opt (ao_expected_remote_head a),
           ser_opt (ao_observed_remote_head a), Ser_Str (ao_lease_epoch_hash a),
           Ser_Bool (ao_cancellation_absent a), Ser_Bool (ao_lease_valid a),
           Ser_Bool (ao_remote_head_unchanged a)]]))
       (\<lambda>json. Inr (stable_sha256 E
          [''execution-protocol-v1:publication-authority-observation-record'', json]))"

definition authority_validate ::
  "externs \<Rightarrow> authority_observation \<Rightarrow> authority_request \<Rightarrow> review_error + unit" where
  "authority_validate E a request =
     bnd (authority_expected_hash E a) (\<lambda>expected_hash.
      if ao_schema_version a \<noteq> REVIEW_SCHEMA_VERSION
       \<or> ao_effect_id a \<noteq> ar_effect_id request
       \<or> ao_policy_id a \<noteq> ar_policy_id request
       \<or> ao_contract_id a \<noteq> ar_contract_id request
       \<or> ao_repository_revision a \<noteq> ar_repository_revision request
       \<or> \<not> git_oid_is_valid (ao_repository_head_oid a)
       \<or> \<not> git_oid_is_valid (ao_repository_tree_oid a)
       \<or> \<not> is_sha256 (ao_repository_binding_hash a)
       \<or> \<not> is_sha256 (ao_installation_binding_hash a)
       \<or> \<not> git_ref_is_valid (ao_base_ref a)
       \<or> \<not> git_ref_is_valid (ao_head_branch a)
       \<or> (\<exists>head \<in> set_option (ao_expected_remote_head a) \<union> set_option (ao_observed_remote_head a).
            \<not> git_oid_is_valid head)
       \<or> \<not> is_sha256 (ao_lease_epoch_hash a)
       \<or> ao_remote_head_unchanged a \<noteq> (ao_expected_remote_head a = ao_observed_remote_head a)
       \<or> ao_observation_hash a \<noteq> expected_hash
       \<or> ao_authority_id a \<noteq> epv1 E
            [''execution-protocol-v1:publication-authority-observation'', ao_effect_id a, expected_hash]
      then Inl (Review_Invalid ''publication_authority_observation_invalid'')
      else Inr ())"

definition authority_new ::
  "externs \<Rightarrow> authority_request \<Rightarrow> string \<Rightarrow> string \<Rightarrow> string \<Rightarrow> string \<Rightarrow> repository_revision_id \<Rightarrow>
   string \<Rightarrow> string \<Rightarrow> string option \<Rightarrow> string option \<Rightarrow> string \<Rightarrow> bool \<Rightarrow> bool \<Rightarrow>
   review_error + authority_observation" where
  "authority_new E request repository_head_oid repository_tree_oid repository_binding_hash
     installation_binding_hash base_repository_revision base_ref head_branch expected_remote_head
     observed_remote_head lease_epoch_hash cancellation_absent lease_valid =
     (let unsigned = \<lparr>ao_schema_version = REVIEW_SCHEMA_VERSION, ao_authority_id = [],
        ao_effect_id = ar_effect_id request, ao_policy_id = ar_policy_id request,
        ao_contract_id = ar_contract_id request,
        ao_repository_revision = ar_repository_revision request,
        ao_repository_head_oid = repository_head_oid, ao_repository_tree_oid = repository_tree_oid,
        ao_repository_binding_hash = repository_binding_hash,
        ao_installation_binding_hash = installation_binding_hash,
        ao_base_repository_revision = base_repository_revision, ao_base_ref = base_ref,
        ao_head_branch = head_branch, ao_expected_remote_head = expected_remote_head,
        ao_observed_remote_head = observed_remote_head, ao_lease_epoch_hash = lease_epoch_hash,
        ao_cancellation_absent = cancellation_absent, ao_lease_valid = lease_valid,
        ao_remote_head_unchanged = (expected_remote_head = observed_remote_head),
        ao_observation_hash = []\<rparr>
      in bnd (authority_expected_hash E unsigned)
        (\<lambda>h. let observation = unsigned\<lparr>
               ao_authority_id := epv1 E
                 [''execution-protocol-v1:publication-authority-observation'', ar_effect_id request, h],
               ao_observation_hash := h\<rparr>
             in bnd (authority_validate E observation request) (\<lambda>_. Inr observation)))"

section \<open>The predicates\<close>

record eligibility_facts =
  ef_required_implementation_satisfied :: bool
  ef_required_validation_current :: bool
  ef_no_active_validation_failure :: bool
  ef_no_active_work_or_reservation :: bool

datatype publication_predicate =
    CurrentRepositoryRevision
  | ImplementationBarrierAncestry
  | VerifiedChangesPresent
  | RequiredValidationCurrent
  | NoActiveValidationFailure
  | CompleteDiffReviewed
  | CompletionPermitsRequestedMode
  | SignedPublicationCoordinates
  | CancellationAbsent
  | LeaseValid
  | RemoteHeadUnchanged
  | NoActiveWorkOrReservation

text \<open>The derived \<open>Ord\<close>: the order of declaration, which is the key order of the predicate map.\<close>

fun predicate_index :: "publication_predicate \<Rightarrow> nat" where
  "predicate_index CurrentRepositoryRevision = 0"
| "predicate_index ImplementationBarrierAncestry = 1"
| "predicate_index VerifiedChangesPresent = 2"
| "predicate_index RequiredValidationCurrent = 3"
| "predicate_index NoActiveValidationFailure = 4"
| "predicate_index CompleteDiffReviewed = 5"
| "predicate_index CompletionPermitsRequestedMode = 6"
| "predicate_index SignedPublicationCoordinates = 7"
| "predicate_index CancellationAbsent = 8"
| "predicate_index LeaseValid = 9"
| "predicate_index RemoteHeadUnchanged = 10"
| "predicate_index NoActiveWorkOrReservation = 11"

lemma predicate_index_inject [simp]: "predicate_index p = predicate_index q \<longleftrightarrow> p = q"
  by (cases p; cases q) simp_all

instantiation publication_predicate :: linorder
begin

definition less_eq_publication_predicate :: "publication_predicate \<Rightarrow> publication_predicate \<Rightarrow> bool" where
  "less_eq_publication_predicate p q \<longleftrightarrow> predicate_index p \<le> predicate_index q"

definition less_publication_predicate :: "publication_predicate \<Rightarrow> publication_predicate \<Rightarrow> bool" where
  "less_publication_predicate p q \<longleftrightarrow> predicate_index p < predicate_index q"

instance
  by standard (auto simp: less_eq_publication_predicate_def less_publication_predicate_def)

end

definition PREDICATES_ALL :: "publication_predicate list" where
  "PREDICATES_ALL =
     [CurrentRepositoryRevision, ImplementationBarrierAncestry, VerifiedChangesPresent,
      RequiredValidationCurrent, NoActiveValidationFailure, CompleteDiffReviewed,
      CompletionPermitsRequestedMode, SignedPublicationCoordinates, CancellationAbsent, LeaseValid,
      RemoteHeadUnchanged, NoActiveWorkOrReservation]"

datatype predicate_result = Passed | Failed_Code string

fun is_passed :: "predicate_result \<Rightarrow> bool" where
  "is_passed Passed = True"
| "is_passed (Failed_Code code) = False"

fun predicate_result_valid :: "predicate_result \<Rightarrow> bool" where
  "predicate_result_valid Passed = True"
| "predicate_result_valid (Failed_Code code) = safe_code_is_valid code"

datatype eligibility_disposition = Granted | Denied "publication_predicate list"

type_synonym predicate_map = "(publication_predicate, predicate_result) btree_map"

definition insert_predicate ::
  "publication_predicate \<Rightarrow> bool \<Rightarrow> string \<Rightarrow> predicate_map \<Rightarrow> predicate_map" where
  "insert_predicate predicate passed failure_code predicates =
     bt_insert predicate (if passed then Passed else Failed_Code failure_code) predicates"

definition records_current ::
  "engineering_ancestry \<Rightarrow> diff_manifest \<Rightarrow> diff_review \<Rightarrow> completion_evaluation \<Rightarrow>
   authority_observation \<Rightarrow> bool" where
  "records_current ancestry manifest review completion authority \<longleftrightarrow>
     ea_repository_revision ancestry = dm_repository_revision manifest \<and>
     ea_repository_fingerprint ancestry = dm_repository_fingerprint manifest \<and>
     dr_repository_revision review = dm_repository_revision manifest \<and>
     ce_repository_revision completion = dm_repository_revision manifest \<and>
     ao_repository_revision authority = dm_repository_revision manifest"

definition review_complete :: "diff_manifest \<Rightarrow> diff_review \<Rightarrow> bool" where
  "review_complete manifest review \<longleftrightarrow>
     dr_manifest_id review = dm_manifest_id manifest \<and>
     dr_diff_hash review = dm_diff_hash manifest \<and>
     dr_disposition review = Review_Accepted"

definition coordinates_match :: "finalization_policy \<Rightarrow> authority_observation \<Rightarrow> bool" where
  "coordinates_match policy authority \<longleftrightarrow>
     ao_policy_id authority = fp_policy_id policy \<and>
     ao_contract_id authority = pc_contract_id (fp_publication policy) \<and>
     ao_repository_binding_hash authority = pc_repository_binding_hash (fp_publication policy) \<and>
     ao_installation_binding_hash authority = pc_installation_binding_hash (fp_publication policy) \<and>
     ao_base_repository_revision authority = pc_base_repository_revision (fp_publication policy) \<and>
     ao_base_ref authority = pc_base_ref (fp_publication policy) \<and>
     ao_head_branch authority = pc_head_branch (fp_publication policy) \<and>
     ao_expected_remote_head authority = pc_expected_remote_head (fp_publication policy)"

definition predicate_checks ::
  "finalization_policy \<Rightarrow> engineering_ancestry \<Rightarrow> diff_manifest \<Rightarrow> diff_review \<Rightarrow>
   completion_evaluation \<Rightarrow> authority_observation \<Rightarrow> eligibility_facts \<Rightarrow>
   (publication_predicate \<times> bool \<times> string) list" where
  "predicate_checks policy ancestry manifest review completion authority facts =
     [(CurrentRepositoryRevision, records_current ancestry manifest review completion authority,
         ''publication_repository_revision_stale''),
      (ImplementationBarrierAncestry, ef_required_implementation_satisfied facts,
         ''publication_implementation_barrier_missing''),
      (VerifiedChangesPresent, \<not> manifest_is_empty manifest, ''publication_diff_empty''),
      (RequiredValidationCurrent, ef_required_validation_current facts \<and>
         dm_required_validation_proof_id manifest = ea_required_validation_proof_id ancestry,
         ''publication_validation_stale''),
      (NoActiveValidationFailure, ef_no_active_validation_failure facts,
         ''publication_validation_failure_active''),
      (CompleteDiffReviewed, review_complete manifest review,
         ''publication_diff_review_incomplete''),
      (CompletionPermitsRequestedMode,
         permits (ce_disposition completion) (pc_requested_mode (fp_publication policy)),
         ''publication_completion_mode_denied''),
      (SignedPublicationCoordinates, coordinates_match policy authority,
         ''publication_coordinates_mismatch''),
      (CancellationAbsent, ao_cancellation_absent authority,
         ''publication_cancellation_observed''),
      (LeaseValid, ao_lease_valid authority, ''publication_lease_invalid''),
      (RemoteHeadUnchanged, ao_remote_head_unchanged authority \<and>
         (case pc_expected_remote_head (fp_publication policy) of None \<Rightarrow> True
          | Some expected \<Rightarrow> expected = ao_repository_head_oid authority),
         ''publication_remote_head_moved''),
      (NoActiveWorkOrReservation, ef_no_active_work_or_reservation facts,
         ''publication_work_or_reservation_active'')]"

definition expected_publication_predicates ::
  "finalization_policy \<Rightarrow> engineering_ancestry \<Rightarrow> diff_manifest \<Rightarrow> diff_review \<Rightarrow>
   completion_evaluation \<Rightarrow> authority_observation \<Rightarrow> eligibility_facts \<Rightarrow>
   review_error + predicate_map" where
  "expected_publication_predicates policy ancestry manifest review completion authority facts =
     (if \<not> (ce_manifest_id completion = dm_manifest_id manifest \<and>
           ce_diff_review_id completion = dr_review_id review \<and>
           ce_required_validation_proof_id completion = ea_required_validation_proof_id ancestry)
      then Inl (Review_Invalid ''publication_eligibility_completion_binding_mismatch'')
      else Inr (foldl (\<lambda>m (p, ok, code). insert_predicate p ok code m) []
        (predicate_checks policy ancestry manifest review completion authority facts)))"

section \<open>The eligibility record\<close>

record eligibility_record =
  er_schema_version :: u16
  er_eligibility_id :: string
  er_policy_id :: string
  er_contract_id :: evidence_id
  er_repository_revision :: repository_revision_id
  er_requested_mode :: publication_mode
  er_implementation_barrier_proof_id :: proof_id
  er_required_validation_proof_id :: proof_id
  er_review_proof_id :: proof_id
  er_completion_proof_id :: proof_id
  er_manifest_id :: string
  er_diff_review_id :: string
  er_completion_evaluation_id :: string
  er_authority_id :: string
  er_ancestry_hash :: string
  er_facts :: eligibility_facts
  er_predicates :: predicate_map
  er_disposition :: eligibility_disposition
  er_decision_hash :: string

definition ser_facts :: "eligibility_facts \<Rightarrow> ser" where
  "ser_facts f = Ser_Struct
    [(''required_implementation_satisfied'', Ser_Bool (ef_required_implementation_satisfied f)),
     (''required_validation_current'', Ser_Bool (ef_required_validation_current f)),
     (''no_active_validation_failure'', Ser_Bool (ef_no_active_validation_failure f)),
     (''no_active_work_or_reservation'', Ser_Bool (ef_no_active_work_or_reservation f))]"

fun predicate_name :: "publication_predicate \<Rightarrow> string" where
  "predicate_name CurrentRepositoryRevision = ''current_repository_revision''"
| "predicate_name ImplementationBarrierAncestry = ''implementation_barrier_ancestry''"
| "predicate_name VerifiedChangesPresent = ''verified_changes_present''"
| "predicate_name RequiredValidationCurrent = ''required_validation_current''"
| "predicate_name NoActiveValidationFailure = ''no_active_validation_failure''"
| "predicate_name CompleteDiffReviewed = ''complete_diff_reviewed''"
| "predicate_name CompletionPermitsRequestedMode = ''completion_permits_requested_mode''"
| "predicate_name SignedPublicationCoordinates = ''signed_publication_coordinates''"
| "predicate_name CancellationAbsent = ''cancellation_absent''"
| "predicate_name LeaseValid = ''lease_valid''"
| "predicate_name RemoteHeadUnchanged = ''remote_head_unchanged''"
| "predicate_name NoActiveWorkOrReservation = ''no_active_work_or_reservation''"

fun ser_predicate_result :: "predicate_result \<Rightarrow> ser" where
  "ser_predicate_result Passed = Ser_Struct [(''result'', Ser_Str ''passed'')]"
| "ser_predicate_result (Failed_Code code) =
     Ser_Struct [(''result'', Ser_Str ''failed''), (''code'', Ser_Str code)]"

fun ser_disposition :: "eligibility_disposition \<Rightarrow> ser" where
  "ser_disposition Granted = Ser_Struct [(''disposition'', Ser_Str ''granted'')]"
| "ser_disposition (Denied failed) = Ser_Struct
     [(''disposition'', Ser_Str ''denied''),
      (''failed_predicates'', Ser_Tuple (map (Ser_Str \<circ> predicate_name) failed))]"

definition failed_predicates :: "predicate_map \<Rightarrow> publication_predicate list" where
  "failed_predicates predicates = map fst (filter (\<lambda>(p, r). \<not> is_passed r) predicates)"

definition disposition_of :: "predicate_map \<Rightarrow> eligibility_disposition" where
  "disposition_of predicates =
     (if failed_predicates predicates = [] then Granted else Denied (failed_predicates predicates))"

definition eligibility_expected_hash ::
  "externs \<Rightarrow> eligibility_record \<Rightarrow> engineering_ancestry \<Rightarrow> diff_manifest \<Rightarrow> diff_review \<Rightarrow>
   completion_evaluation \<Rightarrow> authority_observation \<Rightarrow> review_error + string" where
  "eligibility_expected_hash E r ancestry manifest review completion authority =
     bnd (review_json E (Ser_Tuple
        [Ser_Str (er_policy_id r), Ser_Str (er_contract_id r), Ser_Str (er_repository_revision r),
         ser_mode (er_requested_mode r),
         Ser_Tuple [Ser_Str (ea_implementation_barrier_proof_id ancestry),
           Ser_Str (ea_required_validation_proof_id ancestry), Ser_Str (ea_ancestry_hash ancestry)],
         Ser_Tuple [Ser_Str (er_review_proof_id r), Ser_Str (er_completion_proof_id r)],
         Ser_Tuple [Ser_Str (dm_manifest_id manifest), Ser_Str (dm_diff_hash manifest)],
         Ser_Tuple [Ser_Str (dr_review_id review), Ser_Str (ce_evaluation_id completion),
           Ser_Str (ao_authority_id authority)],
         ser_facts (er_facts r),
         Ser_Struct (map (\<lambda>(p, res). (predicate_name p, ser_predicate_result res)) (er_predicates r)),
         ser_disposition (er_disposition r)]))
       (\<lambda>json. Inr (stable_sha256 E
          [''execution-protocol-v1:publication-eligibility-decision'', json]))"

definition eligibility_validate ::
  "externs \<Rightarrow> eligibility_record \<Rightarrow> finalization_policy \<Rightarrow> engineering_ancestry \<Rightarrow> diff_manifest \<Rightarrow>
   diff_review \<Rightarrow> completion_evaluation \<Rightarrow> authority_observation \<Rightarrow> review_error + unit" where
  "eligibility_validate E r policy ancestry manifest review completion authority =
     bnd (policy_validate E policy) (\<lambda>_.
     bnd (ancestry_validate E ancestry) (\<lambda>_.
     bnd (expected_publication_predicates policy ancestry manifest review completion authority
            (er_facts r)) (\<lambda>expected_predicates.
      if er_schema_version r \<noteq> REVIEW_SCHEMA_VERSION
       \<or> er_policy_id r \<noteq> fp_policy_id policy
       \<or> er_contract_id r \<noteq> pc_contract_id (fp_publication policy)
       \<or> er_repository_revision r \<noteq> dm_repository_revision manifest
       \<or> er_requested_mode r \<noteq> pc_requested_mode (fp_publication policy)
       \<or> er_implementation_barrier_proof_id r \<noteq> ea_implementation_barrier_proof_id ancestry
       \<or> er_required_validation_proof_id r \<noteq> ea_required_validation_proof_id ancestry
       \<or> er_manifest_id r \<noteq> dm_manifest_id manifest
       \<or> er_diff_review_id r \<noteq> dr_review_id review
       \<or> er_completion_evaluation_id r \<noteq> ce_evaluation_id completion
       \<or> er_authority_id r \<noteq> ao_authority_id authority
       \<or> er_ancestry_hash r \<noteq> ea_ancestry_hash ancestry
       \<or> er_predicates r \<noteq> expected_predicates
       \<or> \<not> list_all predicate_result_valid (bt_values (er_predicates r))
      then Inl (Review_Invalid ''publication_eligibility_record_binding_mismatch'')
      else bnd (eligibility_expected_hash E r ancestry manifest review completion authority)
        (\<lambda>expected_hash.
           if er_disposition r \<noteq> disposition_of (er_predicates r)
            \<or> er_decision_hash r \<noteq> expected_hash
            \<or> er_eligibility_id r \<noteq> epv1 E [''execution-protocol-v1:publication-eligibility'',
                 er_policy_id r, er_repository_revision r, expected_hash]
           then Inl (Review_Invalid ''publication_eligibility_record_invalid'')
           else Inr ()))))"

definition eligibility_new ::
  "externs \<Rightarrow> finalization_policy \<Rightarrow> engineering_ancestry \<Rightarrow> diff_manifest \<Rightarrow> diff_review \<Rightarrow>
   proof_id \<Rightarrow> completion_evaluation \<Rightarrow> proof_id \<Rightarrow> authority_observation \<Rightarrow> eligibility_facts \<Rightarrow>
   review_error + eligibility_record" where
  "eligibility_new E policy ancestry manifest review review_proof_id completion completion_proof_id
     authority facts =
     bnd (policy_validate E policy) (\<lambda>_.
     bnd (ancestry_validate E ancestry) (\<lambda>_.
     bnd (expected_publication_predicates policy ancestry manifest review completion authority facts)
       (\<lambda>predicates.
      let unsigned = \<lparr>er_schema_version = REVIEW_SCHEMA_VERSION, er_eligibility_id = [],
        er_policy_id = fp_policy_id policy,
        er_contract_id = pc_contract_id (fp_publication policy),
        er_repository_revision = dm_repository_revision manifest,
        er_requested_mode = pc_requested_mode (fp_publication policy),
        er_implementation_barrier_proof_id = ea_implementation_barrier_proof_id ancestry,
        er_required_validation_proof_id = ea_required_validation_proof_id ancestry,
        er_review_proof_id = review_proof_id, er_completion_proof_id = completion_proof_id,
        er_manifest_id = dm_manifest_id manifest, er_diff_review_id = dr_review_id review,
        er_completion_evaluation_id = ce_evaluation_id completion,
        er_authority_id = ao_authority_id authority, er_ancestry_hash = ea_ancestry_hash ancestry,
        er_facts = facts, er_predicates = predicates,
        er_disposition = disposition_of predicates, er_decision_hash = []\<rparr>
      in bnd (eligibility_expected_hash E unsigned ancestry manifest review completion authority)
        (\<lambda>decision_hash.
           let record = unsigned\<lparr>
             er_eligibility_id := epv1 E [''execution-protocol-v1:publication-eligibility'',
               fp_policy_id policy, dm_repository_revision manifest, decision_hash],
             er_decision_hash := decision_hash\<rparr>
           in bnd (eligibility_validate E record policy ancestry manifest review completion authority)
                (\<lambda>_. Inr record)))))"

definition is_granted :: "eligibility_record \<Rightarrow> bool" where
  "is_granted r \<longleftrightarrow> er_disposition r = Granted"

definition validate_for_publication ::
  "externs \<Rightarrow> eligibility_record \<Rightarrow> publication_contract \<Rightarrow> repository_revision_id \<Rightarrow>
   review_error + unit" where
  "validate_for_publication E r contract repository_revision =
     bnd (contract_validate E contract) (\<lambda>_.
      if \<not> is_granted r
       \<or> er_contract_id r \<noteq> pc_contract_id contract
       \<or> er_requested_mode r \<noteq> pc_requested_mode contract
       \<or> er_repository_revision r \<noteq> repository_revision
      then Inl (Review_Invalid ''publication_eligibility_not_granted'')
      else Inr ())"

section \<open>Facts\<close>

text \<open>The predicates are inserted in key order, so each one lands at the end of the map.\<close>

lemma foldl_insert_predicate:
  "sorted_wrt (<) (map fst m @ map fst checks) \<Longrightarrow>
    foldl (\<lambda>m (p, ok, code). insert_predicate p ok code m) m checks =
    m @ map (\<lambda>(p, ok, code). (p, if ok then Passed else Failed_Code code)) checks"
proof (induction checks arbitrary: m)
  case (Cons c checks)
  obtain p ok code where c: "c = (p, ok, code)" by (cases c) auto
  have "\<forall>k \<in> fst ` set m. k < p" using Cons.prems c by (auto simp: sorted_wrt_append)
  then have "insert_predicate p ok code m = m @ [(p, if ok then Passed else Failed_Code code)]"
    by (simp add: insert_predicate_def bt_insert_last)
  with Cons c show ?case by simp
qed simp

lemma sorted_checks:
  "sorted_wrt (<) (map fst (predicate_checks policy ancestry manifest review completion authority facts))"
  by (simp add: predicate_checks_def less_publication_predicate_def)

lemma expected_predicates_eq:
  "expected_publication_predicates policy ancestry manifest review completion authority facts = Inr m \<Longrightarrow>
    m = map (\<lambda>(p, ok, code). (p, if ok then Passed else Failed_Code code))
      (predicate_checks policy ancestry manifest review completion authority facts)"
  by (auto simp: expected_publication_predicates_def foldl_insert_predicate sorted_checks
      split: if_splits)

lemma no_failed_predicate:
  "failed_predicates (map (\<lambda>(p, ok, code). (p, if ok then Passed else Failed_Code code)) checks) = [] \<longleftrightarrow>
    list_all (\<lambda>(p, ok, code). ok) checks"
  by (induction checks) (auto simp: failed_predicates_def split: if_splits)

text \<open>
  The whole decision in one formula: what has to hold for the expected predicate map to have no
  failed entry.
\<close>

definition may_publish ::
  "finalization_policy \<Rightarrow> engineering_ancestry \<Rightarrow> diff_manifest \<Rightarrow> diff_review \<Rightarrow>
   completion_evaluation \<Rightarrow> authority_observation \<Rightarrow> eligibility_facts \<Rightarrow> bool" where
  "may_publish policy ancestry manifest review completion authority facts \<longleftrightarrow>
     records_current ancestry manifest review completion authority \<and>
     ef_required_implementation_satisfied facts \<and>
     \<not> manifest_is_empty manifest \<and>
     ef_required_validation_current facts \<and>
     dm_required_validation_proof_id manifest = ea_required_validation_proof_id ancestry \<and>
     ef_no_active_validation_failure facts \<and>
     review_complete manifest review \<and>
     permits (ce_disposition completion) (pc_requested_mode (fp_publication policy)) \<and>
     coordinates_match policy authority \<and>
     ao_cancellation_absent authority \<and>
     ao_lease_valid authority \<and>
     ao_remote_head_unchanged authority \<and>
     (\<forall>expected. pc_expected_remote_head (fp_publication policy) = Some expected \<longrightarrow>
        expected = ao_repository_head_oid authority) \<and>
     ef_no_active_work_or_reservation facts"

lemma checks_pass_iff:
  "list_all (\<lambda>(p, ok, code). ok)
      (predicate_checks policy ancestry manifest review completion authority facts) \<longleftrightarrow>
    may_publish policy ancestry manifest review completion authority facts"
  by (cases "pc_expected_remote_head (fp_publication policy)")
    (simp_all add: predicate_checks_def may_publish_def conj_assoc)

lemma expected_predicates_granted_iff:
  "expected_publication_predicates policy ancestry manifest review completion authority facts = Inr m \<Longrightarrow>
    disposition_of m = Granted \<longleftrightarrow>
    may_publish policy ancestry manifest review completion authority facts"
  by (drule expected_predicates_eq) (simp add: disposition_of_def no_failed_predicate checks_pass_iff)

lemma expected_predicates_total:
  "expected_publication_predicates policy ancestry manifest review completion authority facts = Inr m \<Longrightarrow>
    bt_keys m = PREDICATES_ALL"
  by (drule expected_predicates_eq) (simp add: bt_keys_def PREDICATES_ALL_def predicate_checks_def)

end
