(* ===== verification/Publication_Commit.thy ===== *)
theory Publication_Commit
  imports Publication_Eligibility
begin

text \<open>
  The first effect of publication (\<open>src/execution_protocol/publication.rs\<close>): the attempt record that
  every effect carries, the binding of a commit to the reviewed tree, and the intent and observation
  of the commit effect. Each record carries a hash of its contents and an identity derived from it;
  its constructor computes both and runs the record's own validation before it returns.
\<close>

definition PUBLICATION_SCHEMA_VERSION :: u16 where "PUBLICATION_SCHEMA_VERSION = 1"
definition MAX_PULL_REQUEST_TITLE_BYTES :: nat where "MAX_PULL_REQUEST_TITLE_BYTES = 512"
definition MAX_PULL_REQUEST_BODY_BYTES :: nat where "MAX_PULL_REQUEST_BODY_BYTES = 256 * 1024"
definition MAX_PULL_REQUEST_URL_BYTES :: nat where "MAX_PULL_REQUEST_URL_BYTES = 2048"

datatype publication_error =
    Pub_Invalid string
  | Pub_LimitExceeded string nat
  | Pub_Serialization
  | Pub_ReviewContract string

fun publication_error_code :: "publication_error \<Rightarrow> string" where
  "publication_error_code (Pub_Invalid code) = code"
| "publication_error_code (Pub_ReviewContract code) = code"
| "publication_error_code (Pub_LimitExceeded field maximum) = ''publication_contract_limit_exceeded''"
| "publication_error_code Pub_Serialization = ''publication_contract_serialization_failed''"

definition from_review :: "review_error + 'a \<Rightarrow> publication_error + 'a" where
  "from_review = map_err (\<lambda>e. Pub_ReviewContract (review_error_code e))"

definition pub_json :: "externs \<Rightarrow> ser \<Rightarrow> publication_error + string" where
  "pub_json E value = ok_or Pub_Serialization (to_json E value)"

lemma from_review_Inr_iff [result_simps]: "from_review m = Inr y \<longleftrightarrow> m = Inr y"
  by (simp add: from_review_def map_err_Inr_iff)

text \<open>The two digests every record takes: of its serialised contents, and the identity from it.\<close>

definition record_hash :: "externs \<Rightarrow> string \<Rightarrow> ser \<Rightarrow> publication_error + string" where
  "record_hash E domain value =
     bnd (pub_json E value) (\<lambda>json. Inr (stable_sha256 E [domain, json]))"

section \<open>Attempts\<close>

datatype publication_operation = Op_Commit | Op_Push | Op_PullRequest

text \<open>The derived \<open>Ord\<close>: an operation comes before those that need its confirmation.\<close>

fun operation_index :: "publication_operation \<Rightarrow> nat" where
  "operation_index Op_Commit = 0"
| "operation_index Op_Push = 1"
| "operation_index Op_PullRequest = 2"

instantiation publication_operation :: linorder
begin

definition less_eq_publication_operation ::
  "publication_operation \<Rightarrow> publication_operation \<Rightarrow> bool" where
  "less_eq_publication_operation a b \<longleftrightarrow> operation_index a \<le> operation_index b"

definition less_publication_operation ::
  "publication_operation \<Rightarrow> publication_operation \<Rightarrow> bool" where
  "less_publication_operation a b \<longleftrightarrow> operation_index a < operation_index b"

instance
proof
  fix a b :: publication_operation
  show "a \<le> b \<Longrightarrow> b \<le> a \<Longrightarrow> a = b"
    by (cases a; cases b) (simp_all add: less_eq_publication_operation_def)
qed (auto simp: less_eq_publication_operation_def less_publication_operation_def)

end

lemmas operation_order = less_eq_publication_operation_def less_publication_operation_def

fun ser_operation :: "publication_operation \<Rightarrow> ser" where
  "ser_operation Op_Commit = Ser_Str ''commit''"
| "ser_operation Op_Push = Ser_Str ''push''"
| "ser_operation Op_PullRequest = Ser_Str ''pull_request''"

record attempt =
  at_schema_version :: u16
  at_attempt_id :: string
  at_sequence :: u32
  at_operation :: publication_operation
  at_operation_attempt :: u32
  at_prior_attempt_id :: "string option"
  at_repository_revision :: repository_revision_id
  at_eligibility_id :: string
  at_attempt_hash :: string

definition ser_attempt :: "attempt \<Rightarrow> ser" where
  "ser_attempt a = Ser_Struct
    [(''schema_version'', ser_u (at_schema_version a)), (''attempt_id'', Ser_Str (at_attempt_id a)),
     (''sequence'', ser_u (at_sequence a)), (''operation'', ser_operation (at_operation a)),
     (''operation_attempt'', ser_u (at_operation_attempt a)),
     (''prior_attempt_id'', ser_opt (at_prior_attempt_id a)),
     (''repository_revision'', Ser_Str (at_repository_revision a)),
     (''eligibility_id'', Ser_Str (at_eligibility_id a)),
     (''attempt_hash'', Ser_Str (at_attempt_hash a))]"

definition attempt_expected_hash ::
  "externs \<Rightarrow> u32 \<Rightarrow> publication_operation \<Rightarrow> u32 \<Rightarrow> string option \<Rightarrow> repository_revision_id \<Rightarrow>
   string \<Rightarrow> publication_error + string" where
  "attempt_expected_hash E seqno operation operation_attempt prior_attempt_id repository_revision
     eligibility_id =
     record_hash E ''execution-protocol-v1:publication-attempt-record'' (Ser_Tuple
       [ser_u PUBLICATION_SCHEMA_VERSION, ser_u seqno, ser_operation operation,
        ser_u operation_attempt, ser_opt prior_attempt_id, Ser_Str repository_revision,
        Ser_Str eligibility_id])"

definition attempt_derived_id :: "externs \<Rightarrow> string \<Rightarrow> u32 \<Rightarrow> string \<Rightarrow> string" where
  "attempt_derived_id E eligibility_id seqno attempt_hash =
     epv1 E [''execution-protocol-v1:publication-attempt'', eligibility_id, decimal (unat seqno),
       attempt_hash]"

definition attempt_validate :: "externs \<Rightarrow> attempt \<Rightarrow> publication_error + unit" where
  "attempt_validate E a =
     bnd (attempt_expected_hash E (at_sequence a) (at_operation a) (at_operation_attempt a)
            (at_prior_attempt_id a) (at_repository_revision a) (at_eligibility_id a))
       (\<lambda>expected_hash.
          if at_schema_version a \<noteq> PUBLICATION_SCHEMA_VERSION
           \<or> at_sequence a = 0
           \<or> at_operation_attempt a = 0
           \<or> at_attempt_hash a \<noteq> expected_hash
           \<or> at_attempt_id a \<noteq>
               attempt_derived_id E (at_eligibility_id a) (at_sequence a) expected_hash
          then Inl (Pub_Invalid ''publication_attempt_invalid'')
          else Inr ())"

definition attempt_new ::
  "externs \<Rightarrow> u32 \<Rightarrow> publication_operation \<Rightarrow> u32 \<Rightarrow> string option \<Rightarrow> repository_revision_id \<Rightarrow>
   string \<Rightarrow> publication_error + attempt" where
  "attempt_new E seqno operation operation_attempt prior_attempt_id repository_revision
     eligibility_id =
     bnd (attempt_expected_hash E seqno operation operation_attempt prior_attempt_id
            repository_revision eligibility_id)
       (\<lambda>attempt_hash.
          let a = \<lparr>at_schema_version = PUBLICATION_SCHEMA_VERSION,
            at_attempt_id = attempt_derived_id E eligibility_id seqno attempt_hash,
            at_sequence = seqno, at_operation = operation,
            at_operation_attempt = operation_attempt, at_prior_attempt_id = prior_attempt_id,
            at_repository_revision = repository_revision, at_eligibility_id = eligibility_id,
            at_attempt_hash = attempt_hash\<rparr>
          in bnd (attempt_validate E a) (\<lambda>_. Inr a))"

lemma attempt_newD:
  assumes "attempt_new E s op n prior repo elig = Inr a"
  shows "attempt_validate E a = Inr ()" and "at_sequence a = s" and "at_operation a = op"
    and "at_operation_attempt a = n" and "at_prior_attempt_id a = prior"
    and "at_repository_revision a = repo" and "at_eligibility_id a = elig"
  using assms by (auto simp: attempt_new_def Let_def result_simps)

section \<open>The tree binding\<close>

record tree_binding =
  tb_manifest_id :: string
  tb_diff_hash :: string
  tb_repository_tree_oid :: string
  tb_parent_commit_oid :: string
  tb_binding_hash :: string

definition ser_tree :: "tree_binding \<Rightarrow> ser" where
  "ser_tree t = Ser_Struct
    [(''manifest_id'', Ser_Str (tb_manifest_id t)), (''diff_hash'', Ser_Str (tb_diff_hash t)),
     (''repository_tree_oid'', Ser_Str (tb_repository_tree_oid t)),
     (''parent_commit_oid'', Ser_Str (tb_parent_commit_oid t)),
     (''binding_hash'', Ser_Str (tb_binding_hash t))]"

definition tree_expected_hash ::
  "externs \<Rightarrow> string \<Rightarrow> string \<Rightarrow> string \<Rightarrow> string \<Rightarrow> publication_error + string" where
  "tree_expected_hash E manifest_id diff_hash repository_tree_oid parent_commit_oid =
     record_hash E ''execution-protocol-v1:commit-tree-binding'' (Ser_Tuple
       [Ser_Str manifest_id, Ser_Str diff_hash, Ser_Str repository_tree_oid,
        Ser_Str parent_commit_oid])"

definition tree_validate_against ::
  "externs \<Rightarrow> tree_binding \<Rightarrow> eligibility_record \<Rightarrow> publication_error + unit" where
  "tree_validate_against E t eligibility =
     (let invalid = Inl (Pub_Invalid ''commit_tree_binding_invalid'') in
      if tb_manifest_id t \<noteq> er_manifest_id eligibility
       \<or> \<not> is_sha256 (tb_diff_hash t)
       \<or> \<not> git_oid_is_valid (tb_repository_tree_oid t)
       \<or> \<not> git_oid_is_valid (tb_parent_commit_oid t)
      then invalid
      else bnd (tree_expected_hash E (tb_manifest_id t) (tb_diff_hash t) (tb_repository_tree_oid t)
                  (tb_parent_commit_oid t))
        (\<lambda>h. if tb_binding_hash t \<noteq> h then invalid else Inr ()))"

definition tree_new ::
  "externs \<Rightarrow> eligibility_record \<Rightarrow> string \<Rightarrow> string \<Rightarrow> string \<Rightarrow> publication_error + tree_binding" where
  "tree_new E eligibility diff_hash repository_tree_oid parent_commit_oid =
     bnd (tree_expected_hash E (er_manifest_id eligibility) diff_hash repository_tree_oid
            parent_commit_oid)
       (\<lambda>binding_hash.
          let t = \<lparr>tb_manifest_id = er_manifest_id eligibility, tb_diff_hash = diff_hash,
            tb_repository_tree_oid = repository_tree_oid,
            tb_parent_commit_oid = parent_commit_oid, tb_binding_hash = binding_hash\<rparr>
          in bnd (tree_validate_against E t eligibility) (\<lambda>_. Inr t))"

definition tree_from_review_authority ::
  "externs \<Rightarrow> eligibility_record \<Rightarrow> diff_manifest \<Rightarrow> authority_observation \<Rightarrow>
   publication_error + tree_binding" where
  "tree_from_review_authority E eligibility manifest authority =
     (if dm_manifest_id manifest \<noteq> er_manifest_id eligibility
       \<or> dm_repository_revision manifest \<noteq> er_repository_revision eligibility
       \<or> ao_authority_id authority \<noteq> er_authority_id eligibility
       \<or> ao_repository_revision authority \<noteq> er_repository_revision eligibility
       \<or> \<not> ao_cancellation_absent authority
       \<or> \<not> ao_lease_valid authority
       \<or> \<not> ao_remote_head_unchanged authority
      then Inl (Pub_Invalid ''commit_tree_review_authority_mismatch'')
      else tree_new E eligibility (dm_diff_hash manifest) (ao_repository_tree_oid authority)
             (ao_repository_head_oid authority))"

section \<open>The commit intent\<close>

record commit_intent =
  ci_schema_version :: u16
  ci_intent_id :: string
  ci_effect_id :: effect_id
  ci_attempt :: attempt
  ci_contract_id :: evidence_id
  ci_commit_identity_hash :: string
  ci_tree :: tree_binding
  ci_intent_hash :: string

definition commit_intent_expected_hash ::
  "externs \<Rightarrow> attempt \<Rightarrow> evidence_id \<Rightarrow> string \<Rightarrow> tree_binding \<Rightarrow> publication_error + string" where
  "commit_intent_expected_hash E a contract_id commit_identity_hash tree =
     record_hash E ''execution-protocol-v1:commit-intent-record'' (Ser_Tuple
       [ser_attempt a, Ser_Str contract_id, Ser_Str commit_identity_hash, ser_tree tree])"

definition commit_intent_id :: "externs \<Rightarrow> attempt \<Rightarrow> string \<Rightarrow> string" where
  "commit_intent_id E a intent_hash =
     epv1 E [''execution-protocol-v1:commit-intent'', at_attempt_id a, intent_hash]"

definition commit_effect_id :: "externs \<Rightarrow> string \<Rightarrow> string" where
  "commit_effect_id E intent_id = epv1 E [''execution-protocol-v1:create-commit-effect'', intent_id]"

definition commit_intent_validate ::
  "externs \<Rightarrow> commit_intent \<Rightarrow> publication_contract \<Rightarrow> eligibility_record \<Rightarrow>
   publication_error + unit" where
  "commit_intent_validate E i contract eligibility =
     bnd (attempt_validate E (ci_attempt i)) (\<lambda>_.
     bnd (tree_validate_against E (ci_tree i) eligibility) (\<lambda>_.
     bnd (commit_intent_expected_hash E (ci_attempt i) (ci_contract_id i)
            (ci_commit_identity_hash i) (ci_tree i)) (\<lambda>expected_hash.
      let expected_id = commit_intent_id E (ci_attempt i) expected_hash in
      if ci_schema_version i \<noteq> PUBLICATION_SCHEMA_VERSION
       \<or> at_operation (ci_attempt i) \<noteq> Op_Commit
       \<or> ci_contract_id i \<noteq> pc_contract_id contract
       \<or> ci_commit_identity_hash i \<noteq> pc_commit_identity_hash contract
       \<or> (case pc_expected_remote_head contract of None \<Rightarrow> False
          | Some expected \<Rightarrow> expected \<noteq> tb_parent_commit_oid (ci_tree i))
       \<or> \<not> is_sha256 (ci_commit_identity_hash i)
       \<or> ci_intent_hash i \<noteq> expected_hash
       \<or> ci_intent_id i \<noteq> expected_id
       \<or> ci_effect_id i \<noteq> commit_effect_id E expected_id
      then Inl (Pub_Invalid ''commit_intent_invalid'')
      else Inr ())))"

definition commit_intent_new ::
  "externs \<Rightarrow> attempt \<Rightarrow> publication_contract \<Rightarrow> eligibility_record \<Rightarrow> tree_binding \<Rightarrow>
   publication_error + commit_intent" where
  "commit_intent_new E a contract eligibility tree =
     bnd (tree_validate_against E tree eligibility) (\<lambda>_.
     bnd (commit_intent_expected_hash E a (pc_contract_id contract)
            (pc_commit_identity_hash contract) tree) (\<lambda>intent_hash.
      let intent_id = commit_intent_id E a intent_hash;
        i = \<lparr>ci_schema_version = PUBLICATION_SCHEMA_VERSION, ci_intent_id = intent_id,
          ci_effect_id = commit_effect_id E intent_id, ci_attempt = a,
          ci_contract_id = pc_contract_id contract,
          ci_commit_identity_hash = pc_commit_identity_hash contract, ci_tree = tree,
          ci_intent_hash = intent_hash\<rparr>
      in bnd (commit_intent_validate E i contract eligibility) (\<lambda>_. Inr i)))"

lemma commit_intent_newD:
  assumes "commit_intent_new E a contract eligibility tree = Inr i"
  shows "commit_intent_validate E i contract eligibility = Inr ()" and "ci_attempt i = a"
    and "ci_tree i = tree"
  using assms by (auto simp: commit_intent_new_def Let_def result_simps)

lemma commit_intent_validateD:
  assumes "commit_intent_validate E i contract eligibility = Inr u"
  shows "attempt_validate E (ci_attempt i) = Inr ()"
    and "tree_validate_against E (ci_tree i) eligibility = Inr ()"
    and "at_operation (ci_attempt i) = Op_Commit"
    and "ci_contract_id i = pc_contract_id contract"
    and "ci_commit_identity_hash i = pc_commit_identity_hash contract"
    and "\<And>expected. pc_expected_remote_head contract = Some expected \<Longrightarrow>
      expected = tb_parent_commit_oid (ci_tree i)"
  using assms
  by (auto simp: commit_intent_validate_def Let_def result_simps split: if_splits option.splits)

section \<open>The outcome of an effect\<close>

datatype effect_failure = Retryable string | Permanent string

fun failure_safe_code :: "effect_failure \<Rightarrow> string" where
  "failure_safe_code (Retryable safe_code) = safe_code"
| "failure_safe_code (Permanent safe_code) = safe_code"

fun failure_is_retryable :: "effect_failure \<Rightarrow> bool" where
  "failure_is_retryable (Retryable safe_code) = True"
| "failure_is_retryable (Permanent safe_code) = False"

definition failure_validate :: "effect_failure \<Rightarrow> bool" where
  "failure_validate f = safe_code_is_valid (failure_safe_code f)"

fun ser_failure :: "effect_failure \<Rightarrow> ser" where
  "ser_failure (Retryable code) =
     Ser_Struct [(''kind'', Ser_Str ''retryable''), (''safe_code'', Ser_Str code)]"
| "ser_failure (Permanent code) =
     Ser_Struct [(''kind'', Ser_Str ''permanent''), (''safe_code'', Ser_Str code)]"

datatype commit_reconciliation = Commit_Created | Commit_AlreadySatisfied

datatype commit_outcome =
    Commit_Confirmed (co_reconciliation: commit_reconciliation) (co_commit_oid: string)
      (co_repository_tree_oid: string) (co_parent_commit_oid: string)
      (co_commit_identity_hash: string)
  | Commit_Failed (co_failure: effect_failure)

fun ser_commit_outcome :: "commit_outcome \<Rightarrow> ser" where
  "ser_commit_outcome (Commit_Confirmed r commit_oid tree_oid parent_oid identity_hash) = Ser_Struct
     [(''result'', Ser_Str ''confirmed''),
      (''reconciliation'', Ser_Str (case r of Commit_Created \<Rightarrow> ''created''
         | Commit_AlreadySatisfied \<Rightarrow> ''already_satisfied'')),
      (''commit_oid'', Ser_Str commit_oid), (''repository_tree_oid'', Ser_Str tree_oid),
      (''parent_commit_oid'', Ser_Str parent_oid), (''commit_identity_hash'', Ser_Str identity_hash)]"
| "ser_commit_outcome (Commit_Failed failure) = Ser_Struct
     [(''result'', Ser_Str ''failed''), (''failure'', ser_failure failure)]"

record commit_observation =
  cobs_schema_version :: u16
  cobs_observation_id :: string
  cobs_effect_id :: effect_id
  cobs_intent_id :: string
  cobs_attempt_id :: string
  cobs_outcome :: commit_outcome
  cobs_observation_hash :: string

definition commit_observation_expected_hash ::
  "externs \<Rightarrow> commit_intent \<Rightarrow> commit_outcome \<Rightarrow> publication_error + string" where
  "commit_observation_expected_hash E i outcome =
     record_hash E ''execution-protocol-v1:commit-observation-record'' (Ser_Tuple
       [Ser_Str (ci_effect_id i), Ser_Str (ci_intent_id i), Ser_Str (at_attempt_id (ci_attempt i)),
        ser_commit_outcome outcome])"

definition commit_observation_id :: "externs \<Rightarrow> commit_intent \<Rightarrow> string \<Rightarrow> string" where
  "commit_observation_id E i h =
     epv1 E [''execution-protocol-v1:commit-observation'', ci_intent_id i, h]"

fun commit_outcome_valid :: "commit_intent \<Rightarrow> commit_outcome \<Rightarrow> bool" where
  "commit_outcome_valid i (Commit_Confirmed r commit_oid tree_oid parent_oid identity_hash) \<longleftrightarrow>
     git_oid_is_valid commit_oid \<and>
     tree_oid = tb_repository_tree_oid (ci_tree i) \<and>
     parent_oid = tb_parent_commit_oid (ci_tree i) \<and>
     identity_hash = ci_commit_identity_hash i"
| "commit_outcome_valid i (Commit_Failed failure) \<longleftrightarrow> failure_validate failure"

definition commit_observation_validate ::
  "externs \<Rightarrow> commit_observation \<Rightarrow> commit_intent \<Rightarrow> publication_error + unit" where
  "commit_observation_validate E obs i =
     bnd (commit_observation_expected_hash E i (cobs_outcome obs)) (\<lambda>expected_hash.
      if cobs_schema_version obs \<noteq> PUBLICATION_SCHEMA_VERSION
       \<or> cobs_effect_id obs \<noteq> ci_effect_id i
       \<or> cobs_intent_id obs \<noteq> ci_intent_id i
       \<or> cobs_attempt_id obs \<noteq> at_attempt_id (ci_attempt i)
       \<or> \<not> commit_outcome_valid i (cobs_outcome obs)
       \<or> cobs_observation_hash obs \<noteq> expected_hash
       \<or> cobs_observation_id obs \<noteq> commit_observation_id E i expected_hash
      then Inl (Pub_Invalid ''commit_observation_invalid'')
      else Inr ())"

definition commit_observation_new ::
  "externs \<Rightarrow> commit_intent \<Rightarrow> commit_outcome \<Rightarrow> publication_error + commit_observation" where
  "commit_observation_new E i outcome =
     bnd (commit_observation_expected_hash E i outcome) (\<lambda>h.
      let obs = \<lparr>cobs_schema_version = PUBLICATION_SCHEMA_VERSION,
        cobs_observation_id = commit_observation_id E i h,
        cobs_effect_id = ci_effect_id i, cobs_intent_id = ci_intent_id i,
        cobs_attempt_id = at_attempt_id (ci_attempt i), cobs_outcome = outcome,
        cobs_observation_hash = h\<rparr>
      in bnd (commit_observation_validate E obs i) (\<lambda>_. Inr obs))"

fun outcome_commit_oid :: "commit_outcome \<Rightarrow> string option" where
  "outcome_commit_oid (Commit_Confirmed r commit_oid tree_oid parent_oid identity_hash) =
     Some commit_oid"
| "outcome_commit_oid (Commit_Failed failure) = None"

definition confirmed_commit_oid :: "commit_observation \<Rightarrow> string option" where
  "confirmed_commit_oid obs = outcome_commit_oid (cobs_outcome obs)"

lemma commit_observation_validateD:
  assumes "commit_observation_validate E obs i = Inr u"
  shows "cobs_intent_id obs = ci_intent_id i" and "cobs_effect_id obs = ci_effect_id i"
    and "cobs_attempt_id obs = at_attempt_id (ci_attempt i)"
    and "commit_outcome_valid i (cobs_outcome obs)"
  using assms by (auto simp: commit_observation_validate_def result_simps split: if_splits)

lemma confirmed_commit_oid_valid:
  "commit_observation_validate E obs i = Inr u \<Longrightarrow> confirmed_commit_oid obs = Some oid \<Longrightarrow>
    git_oid_is_valid oid"
  by (drule commit_observation_validateD(4))
    (cases "cobs_outcome obs", auto simp: confirmed_commit_oid_def)

end
