(* ===== verification/Publication_Effects.thy ===== *)
theory Publication_Effects
  imports Publication_Commit
begin

text \<open>
  The second and third effect of publication (\<open>src/execution_protocol/publication.rs\<close>): the push under
  an exact lease with the record of a remote branch that moved, and the pull request with the raw
  title and body it binds. Every intent and observation has the shape of those of the commit.
\<close>

section \<open>The exact-lease push\<close>

record push_intent =
  pi_schema_version :: u16
  pi_intent_id :: string
  pi_effect_id :: effect_id
  pi_attempt :: attempt
  pi_contract_id :: evidence_id
  pi_repository_binding_hash :: string
  pi_installation_binding_hash :: string
  pi_head_branch :: string
  pi_commit_oid :: string
  pi_expected_remote_head :: "string option"
  pi_intent_hash :: string

definition push_intent_expected_hash ::
  "externs \<Rightarrow> attempt \<Rightarrow> publication_contract \<Rightarrow> string \<Rightarrow> string option \<Rightarrow>
   publication_error + string" where
  "push_intent_expected_hash E a contract commit_oid expected_remote_head =
     record_hash E ''execution-protocol-v1:exact-lease-push-intent-record'' (Ser_Tuple
       [ser_attempt a, Ser_Str (pc_contract_id contract),
        Ser_Str (pc_repository_binding_hash contract),
        Ser_Str (pc_installation_binding_hash contract), Ser_Str (pc_head_branch contract),
        Ser_Str commit_oid, ser_opt expected_remote_head])"

definition push_intent_id :: "externs \<Rightarrow> attempt \<Rightarrow> string \<Rightarrow> string" where
  "push_intent_id E a intent_hash =
     epv1 E [''execution-protocol-v1:exact-lease-push-intent'', at_attempt_id a, intent_hash]"

definition push_effect_id :: "externs \<Rightarrow> string \<Rightarrow> string" where
  "push_effect_id E intent_id =
     epv1 E [''execution-protocol-v1:exact-lease-push-effect'', intent_id]"

definition push_intent_validate ::
  "externs \<Rightarrow> push_intent \<Rightarrow> publication_contract \<Rightarrow> publication_error + unit" where
  "push_intent_validate E i contract =
     bnd (attempt_validate E (pi_attempt i)) (\<lambda>_.
     bnd (push_intent_expected_hash E (pi_attempt i) contract (pi_commit_oid i)
            (pi_expected_remote_head i)) (\<lambda>expected_hash.
      let expected_id = push_intent_id E (pi_attempt i) expected_hash in
      if pi_schema_version i \<noteq> PUBLICATION_SCHEMA_VERSION
       \<or> at_operation (pi_attempt i) \<noteq> Op_Push
       \<or> pi_contract_id i \<noteq> pc_contract_id contract
       \<or> pi_repository_binding_hash i \<noteq> pc_repository_binding_hash contract
       \<or> pi_installation_binding_hash i \<noteq> pc_installation_binding_hash contract
       \<or> pi_head_branch i \<noteq> pc_head_branch contract
       \<or> pi_expected_remote_head i \<noteq> pc_expected_remote_head contract
       \<or> \<not> is_sha256 (pi_repository_binding_hash i)
       \<or> \<not> is_sha256 (pi_installation_binding_hash i)
       \<or> \<not> git_ref_is_valid (pi_head_branch i)
       \<or> \<not> git_oid_is_valid (pi_commit_oid i)
       \<or> (case pi_expected_remote_head i of None \<Rightarrow> False | Some head \<Rightarrow> \<not> git_oid_is_valid head)
       \<or> pi_intent_hash i \<noteq> expected_hash
       \<or> pi_intent_id i \<noteq> expected_id
       \<or> pi_effect_id i \<noteq> push_effect_id E expected_id
      then Inl (Pub_Invalid ''exact_lease_push_intent_invalid'')
      else Inr ()))"

definition push_intent_new ::
  "externs \<Rightarrow> attempt \<Rightarrow> publication_contract \<Rightarrow> string \<Rightarrow> publication_error + push_intent" where
  "push_intent_new E a contract commit_oid =
     bnd (push_intent_expected_hash E a contract commit_oid (pc_expected_remote_head contract))
       (\<lambda>intent_hash.
          let intent_id = push_intent_id E a intent_hash;
            i = \<lparr>pi_schema_version = PUBLICATION_SCHEMA_VERSION, pi_intent_id = intent_id,
              pi_effect_id = push_effect_id E intent_id, pi_attempt = a,
              pi_contract_id = pc_contract_id contract,
              pi_repository_binding_hash = pc_repository_binding_hash contract,
              pi_installation_binding_hash = pc_installation_binding_hash contract,
              pi_head_branch = pc_head_branch contract, pi_commit_oid = commit_oid,
              pi_expected_remote_head = pc_expected_remote_head contract,
              pi_intent_hash = intent_hash\<rparr>
          in bnd (push_intent_validate E i contract) (\<lambda>_. Inr i))"

lemma push_intent_newD:
  assumes "push_intent_new E a contract oid = Inr i"
  shows "push_intent_validate E i contract = Inr ()" and "pi_attempt i = a"
    and "pi_commit_oid i = oid"
  using assms by (auto simp: push_intent_new_def Let_def result_simps)

lemma push_intent_validateD:
  assumes "push_intent_validate E i contract = Inr u"
  shows "attempt_validate E (pi_attempt i) = Inr ()"
    and "at_operation (pi_attempt i) = Op_Push"
    and "pi_contract_id i = pc_contract_id contract"
    and "pi_expected_remote_head i = pc_expected_remote_head contract"
    and "pi_head_branch i = pc_head_branch contract"
  using assms
  by (auto simp: push_intent_validate_def Let_def result_simps split: if_splits)

record branch_movement =
  bm_schema_version :: u16
  bm_movement_id :: string
  bm_push_intent_id :: string
  bm_expected_remote_head :: "string option"
  bm_observed_remote_head :: "string option"
  bm_movement_hash :: string

definition ser_movement :: "branch_movement \<Rightarrow> ser" where
  "ser_movement m = Ser_Struct
    [(''schema_version'', ser_u (bm_schema_version m)), (''movement_id'', Ser_Str (bm_movement_id m)),
     (''push_intent_id'', Ser_Str (bm_push_intent_id m)),
     (''expected_remote_head'', ser_opt (bm_expected_remote_head m)),
     (''observed_remote_head'', ser_opt (bm_observed_remote_head m)),
     (''movement_hash'', Ser_Str (bm_movement_hash m))]"

definition movement_expected_hash ::
  "externs \<Rightarrow> string \<Rightarrow> string option \<Rightarrow> string option \<Rightarrow> publication_error + string" where
  "movement_expected_hash E intent_id expected_remote_head observed_remote_head =
     record_hash E ''execution-protocol-v1:remote-branch-movement-record'' (Ser_Tuple
       [Ser_Str intent_id, ser_opt expected_remote_head, ser_opt observed_remote_head])"

definition movement_id :: "externs \<Rightarrow> push_intent \<Rightarrow> string \<Rightarrow> string" where
  "movement_id E i h = epv1 E [''execution-protocol-v1:remote-branch-moved'', pi_intent_id i, h]"

definition movement_validate ::
  "externs \<Rightarrow> branch_movement \<Rightarrow> push_intent \<Rightarrow> publication_error + unit" where
  "movement_validate E m i =
     bnd (movement_expected_hash E (bm_push_intent_id m) (bm_expected_remote_head m)
            (bm_observed_remote_head m)) (\<lambda>expected_hash.
      if bm_schema_version m \<noteq> PUBLICATION_SCHEMA_VERSION
       \<or> bm_push_intent_id m \<noteq> pi_intent_id i
       \<or> bm_expected_remote_head m \<noteq> pi_expected_remote_head i
       \<or> bm_observed_remote_head m = bm_expected_remote_head m
       \<or> bm_observed_remote_head m = Some (pi_commit_oid i)
       \<or> (case bm_observed_remote_head m of None \<Rightarrow> False | Some head \<Rightarrow> \<not> git_oid_is_valid head)
       \<or> bm_movement_hash m \<noteq> expected_hash
       \<or> bm_movement_id m \<noteq> movement_id E i expected_hash
      then Inl (Pub_Invalid ''remote_branch_movement_invalid'')
      else Inr ())"

definition movement_new ::
  "externs \<Rightarrow> push_intent \<Rightarrow> string option \<Rightarrow> publication_error + branch_movement" where
  "movement_new E i observed_remote_head =
     bnd (movement_expected_hash E (pi_intent_id i) (pi_expected_remote_head i) observed_remote_head)
       (\<lambda>h. let m = \<lparr>bm_schema_version = PUBLICATION_SCHEMA_VERSION,
              bm_movement_id = movement_id E i h, bm_push_intent_id = pi_intent_id i,
              bm_expected_remote_head = pi_expected_remote_head i,
              bm_observed_remote_head = observed_remote_head, bm_movement_hash = h\<rparr>
            in bnd (movement_validate E m i) (\<lambda>_. Inr m))"

datatype push_reconciliation = Push_Pushed | Push_AlreadySatisfied

datatype push_outcome =
    Push_Confirmed push_reconciliation string
  | Push_RemoteBranchMoved branch_movement
  | Push_Failed effect_failure

fun ser_push_outcome :: "push_outcome \<Rightarrow> ser" where
  "ser_push_outcome (Push_Confirmed r remote_head) = Ser_Struct
     [(''result'', Ser_Str ''confirmed''),
      (''reconciliation'', Ser_Str (case r of Push_Pushed \<Rightarrow> ''pushed''
         | Push_AlreadySatisfied \<Rightarrow> ''already_satisfied'')),
      (''remote_head'', Ser_Str remote_head)]"
| "ser_push_outcome (Push_RemoteBranchMoved m) = Ser_Struct
     [(''result'', Ser_Str ''remote_branch_moved''), (''movement'', ser_movement m)]"
| "ser_push_outcome (Push_Failed failure) = Ser_Struct
     [(''result'', Ser_Str ''failed''), (''failure'', ser_failure failure)]"

record push_observation =
  pobs_schema_version :: u16
  pobs_observation_id :: string
  pobs_effect_id :: effect_id
  pobs_intent_id :: string
  pobs_attempt_id :: string
  pobs_outcome :: push_outcome
  pobs_observation_hash :: string

definition push_observation_expected_hash ::
  "externs \<Rightarrow> push_intent \<Rightarrow> push_outcome \<Rightarrow> publication_error + string" where
  "push_observation_expected_hash E i outcome =
     record_hash E ''execution-protocol-v1:exact-lease-push-observation-record'' (Ser_Tuple
       [Ser_Str (pi_effect_id i), Ser_Str (pi_intent_id i), Ser_Str (at_attempt_id (pi_attempt i)),
        ser_push_outcome outcome])"

definition push_observation_id :: "externs \<Rightarrow> push_intent \<Rightarrow> string \<Rightarrow> string" where
  "push_observation_id E i h =
     epv1 E [''execution-protocol-v1:exact-lease-push-observation'', pi_intent_id i, h]"

fun push_outcome_valid :: "externs \<Rightarrow> push_intent \<Rightarrow> push_outcome \<Rightarrow> bool" where
  "push_outcome_valid E i (Push_Confirmed r remote_head) \<longleftrightarrow> remote_head = pi_commit_oid i"
| "push_outcome_valid E i (Push_RemoteBranchMoved m) \<longleftrightarrow> is_ok (movement_validate E m i)"
| "push_outcome_valid E i (Push_Failed failure) \<longleftrightarrow> failure_validate failure"

definition push_observation_validate ::
  "externs \<Rightarrow> push_observation \<Rightarrow> push_intent \<Rightarrow> publication_error + unit" where
  "push_observation_validate E obs i =
     bnd (push_observation_expected_hash E i (pobs_outcome obs)) (\<lambda>expected_hash.
      if pobs_schema_version obs \<noteq> PUBLICATION_SCHEMA_VERSION
       \<or> pobs_effect_id obs \<noteq> pi_effect_id i
       \<or> pobs_intent_id obs \<noteq> pi_intent_id i
       \<or> pobs_attempt_id obs \<noteq> at_attempt_id (pi_attempt i)
       \<or> \<not> push_outcome_valid E i (pobs_outcome obs)
       \<or> pobs_observation_hash obs \<noteq> expected_hash
       \<or> pobs_observation_id obs \<noteq> push_observation_id E i expected_hash
      then Inl (Pub_Invalid ''exact_lease_push_observation_invalid'')
      else Inr ())"

definition push_observation_new ::
  "externs \<Rightarrow> push_intent \<Rightarrow> push_outcome \<Rightarrow> publication_error + push_observation" where
  "push_observation_new E i outcome =
     bnd (push_observation_expected_hash E i outcome) (\<lambda>h.
      let obs = \<lparr>pobs_schema_version = PUBLICATION_SCHEMA_VERSION,
        pobs_observation_id = push_observation_id E i h, pobs_effect_id = pi_effect_id i,
        pobs_intent_id = pi_intent_id i, pobs_attempt_id = at_attempt_id (pi_attempt i),
        pobs_outcome = outcome, pobs_observation_hash = h\<rparr>
      in bnd (push_observation_validate E obs i) (\<lambda>_. Inr obs))"

fun outcome_remote_head :: "push_outcome \<Rightarrow> string option" where
  "outcome_remote_head (Push_Confirmed r remote_head) = Some remote_head"
| "outcome_remote_head (Push_RemoteBranchMoved m) = None"
| "outcome_remote_head (Push_Failed failure) = None"

definition push_confirmed_remote_head :: "push_observation \<Rightarrow> string option" where
  "push_confirmed_remote_head obs = outcome_remote_head (pobs_outcome obs)"

lemma push_observation_validateD:
  assumes "push_observation_validate E obs i = Inr u"
  shows "pobs_intent_id obs = pi_intent_id i" and "pobs_effect_id obs = pi_effect_id i"
    and "pobs_attempt_id obs = at_attempt_id (pi_attempt i)"
    and "push_outcome_valid E i (pobs_outcome obs)"
  using assms by (auto simp: push_observation_validate_def result_simps split: if_splits)

section \<open>Pull request material\<close>

text \<open>\<open>std::str::from_utf8\<close>: the well-formed byte sequences of the Unicode standard's table 3-7.\<close>

fun utf8_bytes :: "nat list \<Rightarrow> bool" where
  "utf8_bytes [] = True"
| "utf8_bytes (a # bs) =
     (if a < 128 then utf8_bytes bs
      else (case bs of
          [] \<Rightarrow> False
        | b # cs \<Rightarrow>
            if 194 \<le> a \<and> a \<le> 223 then 128 \<le> b \<and> b \<le> 191 \<and> utf8_bytes cs
            else (case cs of
                [] \<Rightarrow> False
              | c # ds \<Rightarrow>
                  if 224 \<le> a \<and> a \<le> 239
                  then (if a = 224 then 160 else 128) \<le> b \<and> b \<le> (if a = 237 then 159 else 191) \<and>
                       128 \<le> c \<and> c \<le> 191 \<and> utf8_bytes ds
                  else (case ds of
                      [] \<Rightarrow> False
                    | d # es \<Rightarrow>
                        240 \<le> a \<and> a \<le> 244 \<and>
                        (if a = 240 then 144 else 128) \<le> b \<and> b \<le> (if a = 244 then 143 else 191) \<and>
                        128 \<le> c \<and> c \<le> 191 \<and> 128 \<le> d \<and> d \<le> 191 \<and> utf8_bytes es))))"

definition utf8_valid :: "string \<Rightarrow> bool" where
  "utf8_valid s \<longleftrightarrow> utf8_bytes (map byte s)"

record raw_material =
  rm_title :: string
  rm_body :: string

definition material_new :: "string \<Rightarrow> string \<Rightarrow> publication_error + raw_material" where
  "material_new title body =
     (if title = [] \<or> length title > MAX_PULL_REQUEST_TITLE_BYTES
      then Inl (Pub_LimitExceeded ''pull_request_title'' MAX_PULL_REQUEST_TITLE_BYTES)
      else if length body > MAX_PULL_REQUEST_BODY_BYTES
      then Inl (Pub_LimitExceeded ''pull_request_body'' MAX_PULL_REQUEST_BODY_BYTES)
      else if \<not> utf8_valid title \<or> \<not> utf8_valid body
      then Inl (Pub_Invalid ''pull_request_material_not_utf8'')
      else Inr \<lparr>rm_title = title, rm_body = body\<rparr>)"

definition title_hash :: "externs \<Rightarrow> raw_material \<Rightarrow> string" where
  "title_hash E m = sha256_hex E (rm_title m)"

definition body_hash :: "externs \<Rightarrow> raw_material \<Rightarrow> string" where
  "body_hash E m = sha256_hex E (rm_body m)"

section \<open>The pull request\<close>

record pr_intent =
  pr_schema_version :: u16
  pr_intent_id :: string
  pr_effect_id :: effect_id
  pr_attempt :: attempt
  pr_contract_id :: evidence_id
  pr_repository_binding_hash :: string
  pr_installation_binding_hash :: string
  pr_base_ref :: string
  pr_head_branch :: string
  pr_commit_oid :: string
  pr_requested_mode :: publication_mode
  pr_draft :: bool
  pr_execution_marker_hash :: string
  pr_title_hash :: string
  pr_title_bytes :: u64
  pr_body_hash :: string
  pr_body_bytes :: u64
  pr_intent_hash :: string

definition material_validate_against ::
  "externs \<Rightarrow> raw_material \<Rightarrow> pr_intent \<Rightarrow> publication_error + unit" where
  "material_validate_against E m i =
     (if rm_title m = []
       \<or> length (rm_title m) > MAX_PULL_REQUEST_TITLE_BYTES
       \<or> length (rm_body m) > MAX_PULL_REQUEST_BODY_BYTES
       \<or> \<not> utf8_valid (rm_title m)
       \<or> \<not> utf8_valid (rm_body m)
       \<or> title_hash E m \<noteq> pr_title_hash i
       \<or> body_hash E m \<noteq> pr_body_hash i
       \<or> clip_word (length (rm_title m)) \<noteq> pr_title_bytes i
       \<or> clip_word (length (rm_body m)) \<noteq> pr_body_bytes i
       \<or> \<not> is_sha256 (pr_execution_marker_hash i)
       \<or> \<not> contains_str (pr_execution_marker_hash i) (rm_body m)
      then Inl (Pub_Invalid ''pull_request_material_binding_mismatch'')
      else Inr ())"

definition mode_is_draft :: "publication_mode \<Rightarrow> bool" where
  "mode_is_draft mode \<longleftrightarrow> mode = NormalWithExternalReview"

definition pr_intent_expected_hash ::
  "externs \<Rightarrow> attempt \<Rightarrow> publication_contract \<Rightarrow> string \<Rightarrow> bool \<Rightarrow> string \<Rightarrow> string \<Rightarrow> u64 \<Rightarrow>
   string \<Rightarrow> u64 \<Rightarrow> publication_error + string" where
  "pr_intent_expected_hash E a contract commit_oid draft marker th tb bh bb =
     record_hash E ''execution-protocol-v1:pull-request-intent-record'' (Ser_Tuple
       [ser_attempt a, Ser_Str (pc_contract_id contract),
        Ser_Str (pc_repository_binding_hash contract),
        Ser_Str (pc_installation_binding_hash contract), Ser_Str (pc_base_ref contract),
        Ser_Str (pc_head_branch contract), Ser_Str commit_oid, ser_mode (pc_requested_mode contract),
        Ser_Bool draft, Ser_Str marker, Ser_Str th, ser_u tb, Ser_Str bh,
        ser_u bb])"

definition derived_pr_intent_id :: "externs \<Rightarrow> attempt \<Rightarrow> string \<Rightarrow> string" where
  "derived_pr_intent_id E a intent_hash =
     epv1 E [''execution-protocol-v1:pull-request-intent'', at_attempt_id a, intent_hash]"

definition derived_pr_effect_id :: "externs \<Rightarrow> string \<Rightarrow> string" where
  "derived_pr_effect_id E intent_id =
     epv1 E [''execution-protocol-v1:ensure-pull-request-effect'', intent_id]"

definition pr_intent_validate ::
  "externs \<Rightarrow> pr_intent \<Rightarrow> publication_contract \<Rightarrow> publication_error + unit" where
  "pr_intent_validate E i contract =
     bnd (attempt_validate E (pr_attempt i)) (\<lambda>_.
     bnd (pr_intent_expected_hash E (pr_attempt i) contract (pr_commit_oid i) (pr_draft i)
            (pr_execution_marker_hash i) (pr_title_hash i) (pr_title_bytes i) (pr_body_hash i)
            (pr_body_bytes i)) (\<lambda>expected_hash.
      let expected_id = derived_pr_intent_id E (pr_attempt i) expected_hash in
      if pr_schema_version i \<noteq> PUBLICATION_SCHEMA_VERSION
       \<or> at_operation (pr_attempt i) \<noteq> Op_PullRequest
       \<or> pr_contract_id i \<noteq> pc_contract_id contract
       \<or> pr_repository_binding_hash i \<noteq> pc_repository_binding_hash contract
       \<or> pr_installation_binding_hash i \<noteq> pc_installation_binding_hash contract
       \<or> pr_base_ref i \<noteq> pc_base_ref contract
       \<or> pr_head_branch i \<noteq> pc_head_branch contract
       \<or> pr_requested_mode i \<noteq> pc_requested_mode contract
       \<or> pr_draft i \<noteq> mode_is_draft (pc_requested_mode contract)
       \<or> \<not> is_sha256 (pr_execution_marker_hash i)
       \<or> \<not> git_ref_is_valid (pr_base_ref i)
       \<or> \<not> git_ref_is_valid (pr_head_branch i)
       \<or> \<not> git_oid_is_valid (pr_commit_oid i)
       \<or> \<not> is_sha256 (pr_title_hash i)
       \<or> \<not> is_sha256 (pr_body_hash i)
       \<or> pr_title_bytes i = 0
       \<or> unat (pr_title_bytes i) > MAX_PULL_REQUEST_TITLE_BYTES
       \<or> unat (pr_body_bytes i) > MAX_PULL_REQUEST_BODY_BYTES
       \<or> pr_intent_hash i \<noteq> expected_hash
       \<or> pr_intent_id i \<noteq> expected_id
       \<or> pr_effect_id i \<noteq> derived_pr_effect_id E expected_id
      then Inl (Pub_Invalid ''pull_request_intent_invalid'')
      else Inr ()))"

definition pr_intent_new ::
  "externs \<Rightarrow> attempt \<Rightarrow> publication_contract \<Rightarrow> string \<Rightarrow> raw_material \<Rightarrow> string \<Rightarrow>
   publication_error + pr_intent" where
  "pr_intent_new E a contract commit_oid material execution_marker_hash =
     (let draft = mode_is_draft (pc_requested_mode contract);
          th = title_hash E material; bh = body_hash E material;
          tb = clip_word (length (rm_title material)); bb = clip_word (length (rm_body material))
      in bnd (pr_intent_expected_hash E a contract commit_oid draft execution_marker_hash th tb bh bb)
        (\<lambda>intent_hash.
           let intent_id = derived_pr_intent_id E a intent_hash;
             i = \<lparr>pr_schema_version = PUBLICATION_SCHEMA_VERSION, pr_intent_id = intent_id,
               pr_effect_id = derived_pr_effect_id E intent_id, pr_attempt = a,
               pr_contract_id = pc_contract_id contract,
               pr_repository_binding_hash = pc_repository_binding_hash contract,
               pr_installation_binding_hash = pc_installation_binding_hash contract,
               pr_base_ref = pc_base_ref contract, pr_head_branch = pc_head_branch contract,
               pr_commit_oid = commit_oid, pr_requested_mode = pc_requested_mode contract,
               pr_draft = draft, pr_execution_marker_hash = execution_marker_hash,
               pr_title_hash = th, pr_title_bytes = tb, pr_body_hash = bh, pr_body_bytes = bb,
               pr_intent_hash = intent_hash\<rparr>
           in bnd (pr_intent_validate E i contract) (\<lambda>_.
              bnd (material_validate_against E material i) (\<lambda>_. Inr i))))"

lemma pr_intent_newD:
  assumes "pr_intent_new E a contract oid material marker = Inr i"
  shows "pr_intent_validate E i contract = Inr ()" and "pr_attempt i = a"
    and "pr_commit_oid i = oid" and "material_validate_against E material i = Inr ()"
    and "pr_execution_marker_hash i = marker"
  using assms by (auto simp: pr_intent_new_def Let_def result_simps)

lemma pr_intent_validateD:
  assumes "pr_intent_validate E i contract = Inr u"
  shows "attempt_validate E (pr_attempt i) = Inr ()"
    and "at_operation (pr_attempt i) = Op_PullRequest"
    and "pr_contract_id i = pc_contract_id contract"
    and "pr_base_ref i = pc_base_ref contract" and "pr_head_branch i = pc_head_branch contract"
    and "pr_draft i = mode_is_draft (pc_requested_mode contract)"
  using assms
  by (auto simp: pr_intent_validate_def Let_def result_simps split: if_splits)

datatype pr_reconciliation = PR_Created | PR_Updated | PR_AlreadySatisfied

record pr_confirmation =
  pcf_reconciliation :: pr_reconciliation
  pcf_pull_request_number :: u64
  pcf_pull_request_url :: string
  pcf_node_id_hash :: string
  pcf_base_ref :: string
  pcf_head_branch :: string
  pcf_observed_head :: string
  pcf_execution_marker_hash :: string
  pcf_draft :: bool

datatype pr_outcome =
    PR_Confirmed pr_confirmation
  | PR_Failed effect_failure

fun ser_pr_outcome :: "pr_outcome \<Rightarrow> ser" where
  "ser_pr_outcome (PR_Confirmed c) = Ser_Struct
     [(''result'', Ser_Str ''confirmed''),
      (''reconciliation'', Ser_Str (case pcf_reconciliation c of PR_Created \<Rightarrow> ''created''
         | PR_Updated \<Rightarrow> ''updated'' | PR_AlreadySatisfied \<Rightarrow> ''already_satisfied'')),
      (''pull_request_number'', ser_u (pcf_pull_request_number c)),
      (''pull_request_url'', Ser_Str (pcf_pull_request_url c)),
      (''node_id_hash'', Ser_Str (pcf_node_id_hash c)), (''base_ref'', Ser_Str (pcf_base_ref c)),
      (''head_branch'', Ser_Str (pcf_head_branch c)),
      (''observed_head'', Ser_Str (pcf_observed_head c)),
      (''execution_marker_hash'', Ser_Str (pcf_execution_marker_hash c)),
      (''draft'', Ser_Bool (pcf_draft c))]"
| "ser_pr_outcome (PR_Failed failure) = Ser_Struct
     [(''result'', Ser_Str ''failed''), (''failure'', ser_failure failure)]"

definition pull_request_url_is_valid :: "externs \<Rightarrow> string \<Rightarrow> bool" where
  "pull_request_url_is_valid E value =
     (if value = []
       \<or> length value > MAX_PULL_REQUEST_URL_BYTES
       \<or> list_ex (\<lambda>b. ascii_control b \<or> ascii_whitespace b) value
      then False
      else (case parse_url E value of
          None \<Rightarrow> False
        | Some u \<Rightarrow>
            url_scheme u = ''https'' \<and> url_host_str u \<noteq> None \<and> url_username u = [] \<and>
            url_password u = None \<and> url_query u = None \<and> url_fragment u = None \<and>
            url_as_str u = value))"

record pr_observation =
  probs_schema_version :: u16
  probs_observation_id :: string
  probs_effect_id :: effect_id
  probs_intent_id :: string
  probs_attempt_id :: string
  probs_outcome :: pr_outcome
  probs_observation_hash :: string

definition pr_observation_expected_hash ::
  "externs \<Rightarrow> pr_intent \<Rightarrow> pr_outcome \<Rightarrow> publication_error + string" where
  "pr_observation_expected_hash E i outcome =
     record_hash E ''execution-protocol-v1:pull-request-observation-record'' (Ser_Tuple
       [Ser_Str (pr_effect_id i), Ser_Str (pr_intent_id i), Ser_Str (at_attempt_id (pr_attempt i)),
        ser_pr_outcome outcome])"

definition pr_observation_id :: "externs \<Rightarrow> pr_intent \<Rightarrow> string \<Rightarrow> string" where
  "pr_observation_id E i h =
     epv1 E [''execution-protocol-v1:pull-request-observation'', pr_intent_id i, h]"

fun pr_outcome_valid :: "externs \<Rightarrow> pr_intent \<Rightarrow> pr_outcome \<Rightarrow> bool" where
  "pr_outcome_valid E i (PR_Confirmed c) \<longleftrightarrow>
     pcf_pull_request_number c > 0 \<and>
     pull_request_url_is_valid E (pcf_pull_request_url c) \<and>
     is_sha256 (pcf_node_id_hash c) \<and>
     pcf_base_ref c = pr_base_ref i \<and>
     pcf_head_branch c = pr_head_branch i \<and>
     pcf_observed_head c = pr_commit_oid i \<and>
     pcf_execution_marker_hash c = pr_execution_marker_hash i \<and>
     pcf_draft c = pr_draft i"
| "pr_outcome_valid E i (PR_Failed failure) \<longleftrightarrow> failure_validate failure"

definition pr_observation_validate ::
  "externs \<Rightarrow> pr_observation \<Rightarrow> pr_intent \<Rightarrow> publication_error + unit" where
  "pr_observation_validate E obs i =
     bnd (pr_observation_expected_hash E i (probs_outcome obs)) (\<lambda>expected_hash.
      if probs_schema_version obs \<noteq> PUBLICATION_SCHEMA_VERSION
       \<or> probs_effect_id obs \<noteq> pr_effect_id i
       \<or> probs_intent_id obs \<noteq> pr_intent_id i
       \<or> probs_attempt_id obs \<noteq> at_attempt_id (pr_attempt i)
       \<or> \<not> pr_outcome_valid E i (probs_outcome obs)
       \<or> probs_observation_hash obs \<noteq> expected_hash
       \<or> probs_observation_id obs \<noteq> pr_observation_id E i expected_hash
      then Inl (Pub_Invalid ''pull_request_observation_invalid'')
      else Inr ())"

definition pr_observation_new ::
  "externs \<Rightarrow> pr_intent \<Rightarrow> pr_outcome \<Rightarrow> publication_error + pr_observation" where
  "pr_observation_new E i outcome =
     bnd (pr_observation_expected_hash E i outcome) (\<lambda>h.
      let obs = \<lparr>probs_schema_version = PUBLICATION_SCHEMA_VERSION,
        probs_observation_id = pr_observation_id E i h, probs_effect_id = pr_effect_id i,
        probs_intent_id = pr_intent_id i, probs_attempt_id = at_attempt_id (pr_attempt i),
        probs_outcome = outcome, probs_observation_hash = h\<rparr>
      in bnd (pr_observation_validate E obs i) (\<lambda>_. Inr obs))"

lemma pr_observation_validateD:
  assumes "pr_observation_validate E obs i = Inr u"
  shows "probs_intent_id obs = pr_intent_id i" and "probs_effect_id obs = pr_effect_id i"
    and "probs_attempt_id obs = at_attempt_id (pr_attempt i)"
    and "pr_outcome_valid E i (probs_outcome obs)"
  using assms by (auto simp: pr_observation_validate_def result_simps split: if_splits)

end
