(* ===== verification/Publication_Ledger.thy ===== *)
theory Publication_Ledger
  imports Publication_Effects
begin

text \<open>
  The publication ledger \<open>PublicationStateV1\<close> (\<open>src/execution_protocol/publication.rs\<close>): the list of
  attempts, each an intent with the observation that answers it, closed by a completion or a
  convergence. \<open>ledger_apply\<close> is the only operation that changes it. Every error of \<open>apply\<close> comes
  before its first assignment, so the error branch of the model carries no state.
\<close>

section \<open>Data\<close>

datatype attempt_intent =
    Intent_Commit commit_intent
  | Intent_Push push_intent
  | Intent_PullRequest pr_intent

fun intent_attempt :: "attempt_intent \<Rightarrow> attempt" where
  "intent_attempt (Intent_Commit i) = ci_attempt i"
| "intent_attempt (Intent_Push i) = pi_attempt i"
| "intent_attempt (Intent_PullRequest i) = pr_attempt i"

datatype attempt_observation =
    Obs_Commit commit_observation
  | Obs_Push push_observation
  | Obs_PullRequest pr_observation

datatype observation_id =
    ObsId_Commit string
  | ObsId_Push string
  | ObsId_PullRequest string

fun ser_observation_id :: "observation_id \<Rightarrow> ser" where
  "ser_observation_id (ObsId_Commit i) = Ser_Struct
     [(''operation'', Ser_Str ''commit''), (''observation_id'', Ser_Str i)]"
| "ser_observation_id (ObsId_Push i) = Ser_Struct
     [(''operation'', Ser_Str ''push''), (''observation_id'', Ser_Str i)]"
| "ser_observation_id (ObsId_PullRequest i) = Ser_Struct
     [(''operation'', Ser_Str ''pull_request''), (''observation_id'', Ser_Str i)]"

fun exact_identity_and_hash :: "attempt_observation \<Rightarrow> observation_id \<times> string" where
  "exact_identity_and_hash (Obs_Commit obs) =
     (ObsId_Commit (cobs_observation_id obs), cobs_observation_hash obs)"
| "exact_identity_and_hash (Obs_Push obs) =
     (ObsId_Push (pobs_observation_id obs), pobs_observation_hash obs)"
| "exact_identity_and_hash (Obs_PullRequest obs) =
     (ObsId_PullRequest (probs_observation_id obs), probs_observation_hash obs)"

record attempt_record =
  rec_attempt :: attempt
  rec_intent :: attempt_intent
  rec_observation :: "attempt_observation option"

record publication_completion =
  pcp_schema_version :: u16
  pcp_completion_id :: string
  pcp_eligibility_id :: string
  pcp_repository_revision :: repository_revision_id
  pcp_requested_mode :: publication_mode
  pcp_commit_observation_id :: string
  pcp_push_observation_id :: string
  pcp_pull_request_observation_id :: string
  pcp_commit_oid :: string
  pcp_head_branch :: string
  pcp_pull_request_number :: u64
  pcp_pull_request_url :: string
  pcp_draft :: bool
  pcp_completion_hash :: string

datatype convergence_reason =
    AttemptsExhausted publication_operation
  | PermanentFailure publication_operation string
  | RemoteBranchMoved string

fun ser_reason :: "convergence_reason \<Rightarrow> ser" where
  "ser_reason (AttemptsExhausted op) = Ser_Struct
     [(''reason'', Ser_Str ''attempts_exhausted''), (''operation'', ser_operation op)]"
| "ser_reason (PermanentFailure op code) = Ser_Struct
     [(''reason'', Ser_Str ''permanent_failure''), (''operation'', ser_operation op),
      (''safe_code'', Ser_Str code)]"
| "ser_reason (RemoteBranchMoved m) = Ser_Struct
     [(''reason'', Ser_Str ''remote_branch_moved''), (''movement_id'', Ser_Str m)]"

record publication_convergence =
  pcv_schema_version :: u16
  pcv_convergence_id :: string
  pcv_eligibility_id :: string
  pcv_repository_revision :: repository_revision_id
  pcv_final_attempt_id :: string
  pcv_final_observation_id :: observation_id
  pcv_final_observation_hash :: string
  pcv_reason :: convergence_reason
  pcv_convergence_hash :: string

datatype publication_event =
    CommitIntentPersisted commit_intent
  | CommitObserved commit_observation
  | PushIntentPersisted push_intent
  | PushObserved push_observation
  | PullRequestIntentPersisted pr_intent
  | PullRequestObserved pr_observation
  | CompletionRecorded publication_completion
  | ConvergenceEvaluated publication_convergence

datatype effect_request =
    CreateCommit commit_intent
  | PushExactLease push_intent
  | EnsurePullRequest pr_intent raw_material

record publication_state =
  ps_schema_version :: u16
  ps_execution_id :: execution_id
  ps_publication_node_id :: node_id
  ps_contract_id :: evidence_id
  ps_eligibility_id :: string
  ps_repository_revision :: repository_revision_id
  ps_requested_mode :: publication_mode
  ps_attempts :: "attempt_record list"
  ps_completion :: "publication_completion option"
  ps_convergence :: "publication_convergence option"

section \<open>Reading the attempts\<close>

definition operation_attempt_limit :: "publication_contract \<Rightarrow> publication_operation \<Rightarrow> u32" where
  "operation_attempt_limit contract operation = (case operation of
       Op_Commit \<Rightarrow> pc_max_commit_attempts contract
     | Op_Push \<Rightarrow> pc_max_push_attempts contract
     | Op_PullRequest \<Rightarrow> pc_max_pr_attempts contract)"

definition open_intent :: "publication_state \<Rightarrow> attempt_intent option" where
  "open_intent s = (case last_of (ps_attempts s) of
       None \<Rightarrow> None
     | Some r \<Rightarrow> if rec_observation r = None then Some (rec_intent r) else None)"

fun commit_confirmation :: "attempt_record \<Rightarrow> (commit_observation \<times> string) option" where
  "commit_confirmation r = (case rec_observation r of
       Some (Obs_Commit obs) \<Rightarrow> map_option (\<lambda>oid. (obs, oid)) (confirmed_commit_oid obs)
     | _ \<Rightarrow> None)"

definition confirmed_commit :: "publication_state \<Rightarrow> (commit_observation \<times> string) option" where
  "confirmed_commit s = find_map commit_confirmation (rev (ps_attempts s))"

definition ledger_commit_oid :: "publication_state \<Rightarrow> string option" where
  "ledger_commit_oid s = map_option snd (confirmed_commit s)"

fun push_confirmation :: "attempt_record \<Rightarrow> push_observation option" where
  "push_confirmation r = (case rec_observation r of
       Some (Obs_Push obs) \<Rightarrow> if push_confirmed_remote_head obs \<noteq> None then Some obs else None
     | _ \<Rightarrow> None)"

definition confirmed_push :: "publication_state \<Rightarrow> push_observation option" where
  "confirmed_push s = find_map push_confirmation (rev (ps_attempts s))"

definition ledger_remote_head :: "publication_state \<Rightarrow> string option" where
  "ledger_remote_head s = Option.bind (confirmed_push s) push_confirmed_remote_head"

fun pr_confirmation_of :: "pr_outcome \<Rightarrow> pr_confirmation option" where
  "pr_confirmation_of (PR_Confirmed c) = Some c"
| "pr_confirmation_of (PR_Failed failure) = None"

fun pr_confirmed :: "attempt_record \<Rightarrow> pr_observation option" where
  "pr_confirmed r = (case rec_observation r of
       Some (Obs_PullRequest obs) \<Rightarrow>
         if pr_confirmation_of (probs_outcome obs) \<noteq> None then Some obs else None
     | _ \<Rightarrow> None)"

definition confirmed_pull_request :: "publication_state \<Rightarrow> pr_observation option" where
  "confirmed_pull_request s = find_map pr_confirmed (rev (ps_attempts s))"

fun record_pr_intent :: "attempt_record \<Rightarrow> pr_intent option" where
  "record_pr_intent r = (case rec_intent r of Intent_PullRequest i \<Rightarrow> Some i | _ \<Rightarrow> None)"

fun record_commit_intent :: "attempt_record \<Rightarrow> commit_intent option" where
  "record_commit_intent r = (case rec_intent r of Intent_Commit i \<Rightarrow> Some i | _ \<Rightarrow> None)"

definition last_pull_request_intent :: "publication_state \<Rightarrow> pr_intent option" where
  "last_pull_request_intent s = find_map record_pr_intent (rev (ps_attempts s))"

definition last_commit_intent :: "publication_state \<Rightarrow> commit_intent option" where
  "last_commit_intent s = find_map record_commit_intent (rev (ps_attempts s))"

definition pull_request_execution_marker_hash :: "externs \<Rightarrow> publication_state \<Rightarrow> string" where
  "pull_request_execution_marker_hash E s =
     stable_sha256 E [''execution-protocol-v1:pull-request-execution-marker'', ps_execution_id s,
       ps_eligibility_id s]"

text \<open>\<open>retry_left\<close> is the guard that three arms of \<open>expected_next_operation\<close> share.\<close>

definition retry_left ::
  "publication_contract \<Rightarrow> attempt_record \<Rightarrow> publication_operation \<Rightarrow> effect_failure \<Rightarrow> bool" where
  "retry_left contract r operation failure \<longleftrightarrow>
     failure_is_retryable failure \<and>
     at_operation_attempt (rec_attempt r) < operation_attempt_limit contract operation"

definition observed_next_operation ::
  "publication_contract \<Rightarrow> attempt_record \<Rightarrow> attempt_observation \<Rightarrow> publication_operation option" where
  "observed_next_operation contract r observation = (case observation of
       Obs_Commit obs \<Rightarrow> (case cobs_outcome obs of
           Commit_Confirmed rc oid tree parent identity \<Rightarrow> Some Op_Push
         | Commit_Failed failure \<Rightarrow>
             if retry_left contract r Op_Commit failure then Some Op_Commit else None)
     | Obs_Push obs \<Rightarrow> (case pobs_outcome obs of
           Push_Confirmed rc head \<Rightarrow> Some Op_PullRequest
         | Push_Failed failure \<Rightarrow>
             if retry_left contract r Op_Push failure then Some Op_Push else None
         | Push_RemoteBranchMoved m \<Rightarrow> None)
     | Obs_PullRequest obs \<Rightarrow> (case probs_outcome obs of
           PR_Confirmed c \<Rightarrow> None
         | PR_Failed failure \<Rightarrow>
             if retry_left contract r Op_PullRequest failure then Some Op_PullRequest else None))"

definition expected_next_operation ::
  "publication_state \<Rightarrow> publication_contract \<Rightarrow> publication_operation option" where
  "expected_next_operation s contract = (case last_of (ps_attempts s) of
       None \<Rightarrow> Some Op_Commit
     | Some r \<Rightarrow> (case rec_observation r of
           None \<Rightarrow> None
         | Some observation \<Rightarrow> observed_next_operation contract r observation))"

definition operation_count :: "publication_state \<Rightarrow> publication_operation \<Rightarrow> nat" where
  "operation_count s operation =
     length (filter (\<lambda>r. at_operation (rec_attempt r) = operation) (ps_attempts s))"

definition next_attempt ::
  "externs \<Rightarrow> publication_state \<Rightarrow> publication_operation \<Rightarrow> publication_contract \<Rightarrow>
   publication_error + attempt" where
  "next_attempt E s requested_operation contract =
     (if ps_completion s \<noteq> None \<or> ps_convergence s \<noteq> None \<or> open_intent s \<noteq> None
      then Inl (Pub_Invalid ''publication_attempt_not_available'')
      else bnd (ok_or (Pub_Invalid ''publication_has_no_next_operation'')
                  (expected_next_operation s contract)) (\<lambda>expected_operation.
        if requested_operation \<noteq> expected_operation
        then Inl (Pub_Invalid ''publication_operation_out_of_sequence'')
        else
          let operation_attempt = sat_add (clip_word (operation_count s requested_operation)) 1 in
          if operation_attempt > operation_attempt_limit contract requested_operation
          then Inl (Pub_Invalid ''publication_operation_attempt_budget_exhausted'')
          else attempt_new E (sat_add (clip_word (length (ps_attempts s))) 1) requested_operation
                 operation_attempt
                 (map_option (\<lambda>r. at_attempt_id (rec_attempt r)) (last_of (ps_attempts s)))
                 (ps_repository_revision s) (ps_eligibility_id s)))"

section \<open>Completion and convergence\<close>

definition completion_expected_hash ::
  "externs \<Rightarrow> string \<Rightarrow> repository_revision_id \<Rightarrow> publication_mode \<Rightarrow> string \<Rightarrow> string \<Rightarrow> string \<Rightarrow>
   string \<Rightarrow> string \<Rightarrow> u64 \<Rightarrow> string \<Rightarrow> bool \<Rightarrow> publication_error + string" where
  "completion_expected_hash E eligibility_id repository_revision requested_mode commit_obs push_obs
     pr_obs commit_oid head_branch pr_number pr_url draft =
     record_hash E ''execution-protocol-v1:publication-completion-record'' (Ser_Tuple
       [Ser_Str eligibility_id, Ser_Str repository_revision, ser_mode requested_mode,
        Ser_Str commit_obs, Ser_Str push_obs, Ser_Str pr_obs, Ser_Str commit_oid,
        Ser_Str head_branch, ser_u pr_number, Ser_Str pr_url, Ser_Bool draft])"

definition build_completion_unchecked ::
  "externs \<Rightarrow> publication_state \<Rightarrow> publication_contract \<Rightarrow>
   publication_error + publication_completion" where
  "build_completion_unchecked E s contract =
     bnd (ok_or (Pub_Invalid ''publication_completion_commit_missing'') (confirmed_commit s))
       (\<lambda>(commit_obs, commit_oid).
     bnd (ok_or (Pub_Invalid ''publication_completion_push_missing'') (confirmed_push s))
       (\<lambda>push_obs.
     bnd (ok_or (Pub_Invalid ''publication_completion_pull_request_missing'')
            (confirmed_pull_request s)) (\<lambda>pr_obs.
     bnd (ok_or (Pub_Invalid ''publication_completion_pull_request_not_confirmed'')
            (pr_confirmation_of (probs_outcome pr_obs))) (\<lambda>c.
     bnd (completion_expected_hash E (ps_eligibility_id s) (ps_repository_revision s)
            (ps_requested_mode s) (cobs_observation_id commit_obs) (pobs_observation_id push_obs)
            (probs_observation_id pr_obs) commit_oid (pc_head_branch contract)
            (pcf_pull_request_number c) (pcf_pull_request_url c) (pcf_draft c))
       (\<lambda>completion_hash. Inr
          \<lparr>pcp_schema_version = PUBLICATION_SCHEMA_VERSION,
           pcp_completion_id = epv1 E [''execution-protocol-v1:publication-completion'',
             ps_eligibility_id s, completion_hash],
           pcp_eligibility_id = ps_eligibility_id s,
           pcp_repository_revision = ps_repository_revision s,
           pcp_requested_mode = ps_requested_mode s,
           pcp_commit_observation_id = cobs_observation_id commit_obs,
           pcp_push_observation_id = pobs_observation_id push_obs,
           pcp_pull_request_observation_id = probs_observation_id pr_obs,
           pcp_commit_oid = commit_oid, pcp_head_branch = pc_head_branch contract,
           pcp_pull_request_number = pcf_pull_request_number c,
           pcp_pull_request_url = pcf_pull_request_url c, pcp_draft = pcf_draft c,
           pcp_completion_hash = completion_hash\<rparr>)))))"

definition completion_validate_against ::
  "externs \<Rightarrow> publication_completion \<Rightarrow> publication_state \<Rightarrow> publication_contract \<Rightarrow>
   publication_error + unit" where
  "completion_validate_against E completion s contract =
     bnd (build_completion_unchecked E s contract) (\<lambda>expected.
       if completion \<noteq> expected then Inl (Pub_Invalid ''publication_completion_invalid'')
       else Inr ())"

definition build_completion ::
  "externs \<Rightarrow> publication_state \<Rightarrow> publication_contract \<Rightarrow>
   publication_error + publication_completion" where
  "build_completion E s contract =
     (if open_intent s \<noteq> None \<or> ps_convergence s \<noteq> None
      then Inl (Pub_Invalid ''publication_completion_not_ready'')
      else bnd (build_completion_unchecked E s contract) (\<lambda>completion.
           bnd (completion_validate_against E completion s contract) (\<lambda>_. Inr completion)))"

definition convergence_expected_hash ::
  "externs \<Rightarrow> string \<Rightarrow> repository_revision_id \<Rightarrow> string \<Rightarrow> observation_id \<Rightarrow> string \<Rightarrow>
   convergence_reason \<Rightarrow> publication_error + string" where
  "convergence_expected_hash E eligibility_id repository_revision final_attempt_id
     final_observation_id final_observation_hash reason =
     record_hash E ''execution-protocol-v1:publication-convergence-record'' (Ser_Tuple
       [Ser_Str eligibility_id, Ser_Str repository_revision, Ser_Str final_attempt_id,
        ser_observation_id final_observation_id, Ser_Str final_observation_hash,
        ser_reason reason])"

definition convergence_expected_id ::
  "externs \<Rightarrow> string \<Rightarrow> observation_id \<Rightarrow> string \<Rightarrow> string \<Rightarrow> publication_error + string" where
  "convergence_expected_id E eligibility_id final_observation_id final_observation_hash
     convergence_hash =
     bnd (pub_json E (ser_observation_id final_observation_id)) (\<lambda>json. Inr
       (epv1 E [''execution-protocol-v1:publication-convergence'', eligibility_id, json,
          final_observation_hash, convergence_hash]))"

definition failure_convergence_reason ::
  "effect_failure \<Rightarrow> publication_operation \<Rightarrow> publication_error + convergence_reason" where
  "failure_convergence_reason failure operation =
     (if \<not> failure_validate failure then Inl (Pub_Invalid ''publication_failure_invalid'')
      else Inr (if failure_is_retryable failure then AttemptsExhausted operation
                else PermanentFailure operation (failure_safe_code failure)))"

fun observation_failure :: "attempt_observation \<Rightarrow> effect_failure option" where
  "observation_failure (Obs_Commit obs) = (case cobs_outcome obs of
       Commit_Failed failure \<Rightarrow> Some failure | _ \<Rightarrow> None)"
| "observation_failure (Obs_Push obs) = (case pobs_outcome obs of
       Push_Failed failure \<Rightarrow> Some failure | _ \<Rightarrow> None)"
| "observation_failure (Obs_PullRequest obs) = (case probs_outcome obs of
       PR_Failed failure \<Rightarrow> Some failure | _ \<Rightarrow> None)"

definition publication_attempt_failure :: "attempt_record \<Rightarrow> effect_failure option" where
  "publication_attempt_failure r = Option.bind (rec_observation r) observation_failure"

text \<open>The reason of a convergence, \<open>None\<close> where the code returns \<open>Ok(None)\<close> on a confirmation.\<close>

definition observation_reason ::
  "attempt_observation \<Rightarrow> publication_error + convergence_reason option" where
  "observation_reason observation = (case observation of
       Obs_Commit obs \<Rightarrow> (case cobs_outcome obs of
           Commit_Failed failure \<Rightarrow>
             bnd (failure_convergence_reason failure Op_Commit) (\<lambda>r. Inr (Some r))
         | Commit_Confirmed rc oid tree parent identity \<Rightarrow> Inr None)
     | Obs_Push obs \<Rightarrow> (case pobs_outcome obs of
           Push_Failed failure \<Rightarrow>
             bnd (failure_convergence_reason failure Op_Push) (\<lambda>r. Inr (Some r))
         | Push_RemoteBranchMoved m \<Rightarrow> Inr (Some (RemoteBranchMoved (bm_movement_id m)))
         | Push_Confirmed rc head \<Rightarrow> Inr None)
     | Obs_PullRequest obs \<Rightarrow> (case probs_outcome obs of
           PR_Failed failure \<Rightarrow>
             bnd (failure_convergence_reason failure Op_PullRequest) (\<lambda>r. Inr (Some r))
         | PR_Confirmed c \<Rightarrow> Inr None))"

definition convergence_record ::
  "externs \<Rightarrow> publication_state \<Rightarrow> attempt_record \<Rightarrow> observation_id \<Rightarrow> string \<Rightarrow>
   convergence_reason \<Rightarrow> publication_error + publication_convergence" where
  "convergence_record E s r obs_id obs_hash reason =
     bnd (convergence_expected_hash E (ps_eligibility_id s) (ps_repository_revision s)
            (at_attempt_id (rec_attempt r)) obs_id obs_hash reason) (\<lambda>convergence_hash.
     bnd (convergence_expected_id E (ps_eligibility_id s) obs_id obs_hash convergence_hash)
       (\<lambda>convergence_id. Inr
          \<lparr>pcv_schema_version = PUBLICATION_SCHEMA_VERSION, pcv_convergence_id = convergence_id,
           pcv_eligibility_id = ps_eligibility_id s,
           pcv_repository_revision = ps_repository_revision s,
           pcv_final_attempt_id = at_attempt_id (rec_attempt r),
           pcv_final_observation_id = obs_id, pcv_final_observation_hash = obs_hash,
           pcv_reason = reason, pcv_convergence_hash = convergence_hash\<rparr>))"

definition build_convergence ::
  "externs \<Rightarrow> publication_state \<Rightarrow> publication_contract \<Rightarrow>
   publication_error + publication_convergence option" where
  "build_convergence E s contract =
     (if open_intent s \<noteq> None \<or> ps_completion s \<noteq> None then Inr None
      else (case last_of (ps_attempts s) of
          None \<Rightarrow> Inr None
        | Some r \<Rightarrow> (case rec_observation r of
              None \<Rightarrow> Inr None
            | Some final_observation \<Rightarrow>
                (let (obs_id, obs_hash) = exact_identity_and_hash final_observation in
                 if \<not> is_sha256 obs_hash
                 then Inl (Pub_Invalid ''publication_final_observation_hash_invalid'')
                 else
                   let proceed = bnd (observation_reason final_observation) (\<lambda>reason.
                     case reason of
                       None \<Rightarrow> Inr None
                     | Some why \<Rightarrow> bnd (convergence_record E s r obs_id obs_hash why)
                                      (\<lambda>convergence. Inr (Some convergence)))
                   in (case publication_attempt_failure r of
                         None \<Rightarrow> proceed
                       | Some failure \<Rightarrow>
                           if \<not> failure_validate failure
                           then Inl (Pub_Invalid ''publication_failure_invalid'')
                           else if retry_left contract r (at_operation (rec_attempt r)) failure
                           then Inr None
                           else proceed)))))"

definition convergence_validate_against ::
  "externs \<Rightarrow> publication_convergence \<Rightarrow> publication_state \<Rightarrow> publication_contract \<Rightarrow>
   publication_error + unit" where
  "convergence_validate_against E convergence s contract =
     bnd (ok_or (Pub_Invalid ''publication_convergence_final_observation_missing'')
            (map_option exact_identity_and_hash
              (Option.bind (last_of (ps_attempts s)) rec_observation)))
       (\<lambda>(expected_id, expected_hash).
          if pcv_final_observation_id convergence \<noteq> expected_id
           \<or> pcv_final_observation_hash convergence \<noteq> expected_hash
          then Inl (Pub_Invalid ''publication_convergence_final_observation_mismatch'')
          else bnd (build_convergence E s contract) (\<lambda>built.
               bnd (ok_or (Pub_Invalid ''publication_convergence_not_available'') built)
                 (\<lambda>expected.
                    if convergence \<noteq> expected
                    then Inl (Pub_Invalid ''publication_convergence_invalid'')
                    else Inr ())))"

section \<open>The operations\<close>

definition ledger_new ::
  "externs \<Rightarrow> execution_id \<Rightarrow> node_id \<Rightarrow> publication_contract \<Rightarrow> eligibility_record \<Rightarrow>
   publication_error + publication_state" where
  "ledger_new E execution_id publication_node_id contract eligibility =
     bnd (from_review (contract_validate E contract)) (\<lambda>_.
     bnd (from_review (validate_for_publication E eligibility contract
            (er_repository_revision eligibility))) (\<lambda>_.
      if blank execution_id \<or> blank publication_node_id
      then Inl (Pub_Invalid ''publication_state_identity_invalid'')
      else Inr
        \<lparr>ps_schema_version = PUBLICATION_SCHEMA_VERSION, ps_execution_id = execution_id,
         ps_publication_node_id = publication_node_id,
         ps_contract_id = pc_contract_id contract,
         ps_eligibility_id = er_eligibility_id eligibility,
         ps_repository_revision = er_repository_revision eligibility,
         ps_requested_mode = pc_requested_mode contract, ps_attempts = [],
         ps_completion = None, ps_convergence = None\<rparr>))"

definition validate_prerequisites ::
  "externs \<Rightarrow> publication_state \<Rightarrow> publication_contract \<Rightarrow> eligibility_record \<Rightarrow>
   publication_error + unit" where
  "validate_prerequisites E s contract eligibility =
     bnd (from_review (contract_validate E contract)) (\<lambda>_.
     bnd (from_review (validate_for_publication E eligibility contract
            (ps_repository_revision s))) (\<lambda>_.
      if ps_schema_version s \<noteq> PUBLICATION_SCHEMA_VERSION
       \<or> blank (ps_execution_id s)
       \<or> blank (ps_publication_node_id s)
       \<or> ps_contract_id s \<noteq> pc_contract_id contract
       \<or> ps_eligibility_id s \<noteq> er_eligibility_id eligibility
       \<or> ps_repository_revision s \<noteq> er_repository_revision eligibility
       \<or> ps_requested_mode s \<noteq> pc_requested_mode contract
       \<or> (ps_completion s \<noteq> None \<and> ps_convergence s \<noteq> None)
      then Inl (Pub_Invalid ''publication_state_prerequisite_mismatch'')
      else Inr ()))"

definition same_commit_identity :: "commit_intent \<Rightarrow> commit_intent \<Rightarrow> bool" where
  "same_commit_identity prior i \<longleftrightarrow>
     ci_commit_identity_hash prior = ci_commit_identity_hash i \<and> ci_tree prior = ci_tree i"

definition same_pr_identity :: "pr_intent \<Rightarrow> pr_intent \<Rightarrow> bool" where
  "same_pr_identity prior i \<longleftrightarrow>
     pr_title_hash prior = pr_title_hash i \<and> pr_title_bytes prior = pr_title_bytes i \<and>
     pr_body_hash prior = pr_body_hash i \<and> pr_body_bytes prior = pr_body_bytes i \<and>
     pr_draft prior = pr_draft i \<and>
     pr_execution_marker_hash prior = pr_execution_marker_hash i"

definition agrees_with :: "('a \<Rightarrow> 'a \<Rightarrow> bool) \<Rightarrow> 'a option \<Rightarrow> 'a \<Rightarrow> bool" where
  "agrees_with same prior i \<longleftrightarrow> (case prior of None \<Rightarrow> True | Some p \<Rightarrow> same p i)"

definition prepare_commit_intent ::
  "externs \<Rightarrow> publication_state \<Rightarrow> publication_contract \<Rightarrow> eligibility_record \<Rightarrow> tree_binding \<Rightarrow>
   publication_error + commit_intent" where
  "prepare_commit_intent E s contract eligibility tree =
     bnd (validate_prerequisites E s contract eligibility) (\<lambda>_.
     bnd (tree_validate_against E tree eligibility) (\<lambda>_.
      if (case pc_expected_remote_head contract of None \<Rightarrow> False
          | Some expected_parent \<Rightarrow> expected_parent \<noteq> tb_parent_commit_oid tree)
      then Inl (Pub_Invalid ''commit_parent_exact_lease_mismatch'')
      else bnd (next_attempt E s Op_Commit contract) (\<lambda>a.
           bnd (commit_intent_new E a contract eligibility tree) (\<lambda>i.
             if agrees_with same_commit_identity (last_commit_intent s) i then Inr i
             else Inl (Pub_Invalid ''commit_retry_identity_changed'')))))"

definition prepare_push_intent ::
  "externs \<Rightarrow> publication_state \<Rightarrow> publication_contract \<Rightarrow> eligibility_record \<Rightarrow>
   publication_error + push_intent" where
  "prepare_push_intent E s contract eligibility =
     bnd (validate_prerequisites E s contract eligibility) (\<lambda>_.
     bnd (ok_or (Pub_Invalid ''push_requires_confirmed_commit'') (ledger_commit_oid s)) (\<lambda>oid.
     bnd (next_attempt E s Op_Push contract) (\<lambda>a.
       push_intent_new E a contract oid)))"

definition prepare_pull_request_intent ::
  "externs \<Rightarrow> publication_state \<Rightarrow> publication_contract \<Rightarrow> eligibility_record \<Rightarrow> raw_material \<Rightarrow>
   publication_error + pr_intent" where
  "prepare_pull_request_intent E s contract eligibility material =
     bnd (validate_prerequisites E s contract eligibility) (\<lambda>_.
     bnd (ok_or (Pub_Invalid ''pull_request_requires_confirmed_push'') (ledger_remote_head s)) (\<lambda>oid.
     bnd (next_attempt E s Op_PullRequest contract) (\<lambda>a.
     bnd (pr_intent_new E a contract oid material (pull_request_execution_marker_hash E s)) (\<lambda>i.
       if agrees_with same_pr_identity (last_pull_request_intent s) i then Inr i
       else Inl (Pub_Invalid ''pull_request_retry_material_changed'')))))"

definition intent_binding ::
  "externs \<Rightarrow> publication_state \<Rightarrow> attempt_intent \<Rightarrow> publication_error + unit" where
  "intent_binding E s intent = (case intent of
       Intent_Commit commit \<Rightarrow>
         if agrees_with same_commit_identity (last_commit_intent s) commit then Inr ()
         else Inl (Pub_Invalid ''commit_retry_identity_changed'')
     | Intent_Push push \<Rightarrow>
         if ledger_commit_oid s = Some (pi_commit_oid push) then Inr ()
         else Inl (Pub_Invalid ''push_intent_commit_binding_mismatch'')
     | Intent_PullRequest pr \<Rightarrow>
         if ledger_remote_head s \<noteq> Some (pr_commit_oid pr)
         then Inl (Pub_Invalid ''pull_request_intent_push_binding_mismatch'')
         else if pr_execution_marker_hash pr \<noteq> pull_request_execution_marker_hash E s
         then Inl (Pub_Invalid ''pull_request_execution_marker_mismatch'')
         else if agrees_with same_pr_identity (last_pull_request_intent s) pr then Inr ()
         else Inl (Pub_Invalid ''pull_request_retry_identity_changed''))"

definition persist_intent ::
  "externs \<Rightarrow> publication_state \<Rightarrow> attempt_intent \<Rightarrow> publication_contract \<Rightarrow>
   publication_error + publication_state" where
  "persist_intent E s intent contract =
     (if open_intent s \<noteq> None then Inl (Pub_Invalid ''publication_intent_already_open'')
      else bnd (next_attempt E s (at_operation (intent_attempt intent)) contract) (\<lambda>expected.
        if intent_attempt intent \<noteq> expected
        then Inl (Pub_Invalid ''publication_intent_attempt_not_next'')
        else bnd (intent_binding E s intent) (\<lambda>_. Inr
          (s\<lparr>ps_attempts := ps_attempts s @
             [\<lparr>rec_attempt = expected, rec_intent = intent, rec_observation = None\<rparr>]\<rparr>))))"

fun observation_matches_intent :: "attempt_observation \<Rightarrow> attempt_intent \<Rightarrow> bool" where
  "observation_matches_intent (Obs_Commit obs) (Intent_Commit i) = True"
| "observation_matches_intent (Obs_Push obs) (Intent_Push i) = True"
| "observation_matches_intent (Obs_PullRequest obs) (Intent_PullRequest i) = True"
| "observation_matches_intent _ _ = False"

definition record_observation ::
  "publication_state \<Rightarrow> attempt_observation \<Rightarrow> publication_error + publication_state" where
  "record_observation s observation =
     (case last_of (ps_attempts s) of
        None \<Rightarrow> Inl (Pub_Invalid ''publication_observation_without_attempt'')
      | Some r \<Rightarrow>
          if rec_observation r \<noteq> None \<or> \<not> observation_matches_intent observation (rec_intent r)
          then Inl (Pub_Invalid ''publication_observation_not_next'')
          else Inr (s\<lparr>ps_attempts := butlast (ps_attempts s) @
                 [r\<lparr>rec_observation := Some observation\<rparr>]\<rparr>))"

definition apply_event ::
  "externs \<Rightarrow> publication_state \<Rightarrow> publication_event \<Rightarrow> publication_contract \<Rightarrow>
   eligibility_record \<Rightarrow> publication_error + publication_state" where
  "apply_event E s event contract eligibility = (case event of
       CommitIntentPersisted i \<Rightarrow>
         bnd (commit_intent_validate E i contract eligibility)
           (\<lambda>_. persist_intent E s (Intent_Commit i) contract)
     | CommitObserved obs \<Rightarrow>
         (case open_intent s of
            Some (Intent_Commit i) \<Rightarrow>
              bnd (commit_observation_validate E obs i) (\<lambda>_. record_observation s (Obs_Commit obs))
          | _ \<Rightarrow> Inl (Pub_Invalid ''commit_observation_without_persisted_intent''))
     | PushIntentPersisted i \<Rightarrow>
         bnd (push_intent_validate E i contract)
           (\<lambda>_. persist_intent E s (Intent_Push i) contract)
     | PushObserved obs \<Rightarrow>
         (case open_intent s of
            Some (Intent_Push i) \<Rightarrow>
              bnd (push_observation_validate E obs i) (\<lambda>_. record_observation s (Obs_Push obs))
          | _ \<Rightarrow> Inl (Pub_Invalid ''push_observation_without_persisted_intent''))
     | PullRequestIntentPersisted i \<Rightarrow>
         bnd (pr_intent_validate E i contract)
           (\<lambda>_. persist_intent E s (Intent_PullRequest i) contract)
     | PullRequestObserved obs \<Rightarrow>
         (case open_intent s of
            Some (Intent_PullRequest i) \<Rightarrow>
              bnd (pr_observation_validate E obs i) (\<lambda>_. record_observation s (Obs_PullRequest obs))
          | _ \<Rightarrow> Inl (Pub_Invalid ''pull_request_observation_without_persisted_intent''))
     | CompletionRecorded completion \<Rightarrow>
         bnd (build_completion E s contract) (\<lambda>expected.
           if completion \<noteq> expected
           then Inl (Pub_Invalid ''publication_completion_not_canonical'')
           else Inr (s\<lparr>ps_completion := Some completion\<rparr>))
     | ConvergenceEvaluated convergence \<Rightarrow>
         bnd (build_convergence E s contract) (\<lambda>built.
         bnd (ok_or (Pub_Invalid ''publication_convergence_not_available'') built) (\<lambda>expected.
           if convergence \<noteq> expected
           then Inl (Pub_Invalid ''publication_convergence_not_canonical'')
           else Inr (s\<lparr>ps_convergence := Some convergence\<rparr>))))"

definition ledger_apply ::
  "externs \<Rightarrow> publication_contract \<Rightarrow> eligibility_record \<Rightarrow> publication_state \<Rightarrow>
   publication_event \<Rightarrow> publication_error + publication_state" where
  "ledger_apply E contract eligibility s event =
     bnd (validate_prerequisites E s contract eligibility) (\<lambda>_.
      if ps_completion s \<noteq> None \<or> ps_convergence s \<noteq> None
      then Inl (Pub_Invalid ''publication_event_after_terminal_record'')
      else apply_event E s event contract eligibility)"

definition pending_effect ::
  "externs \<Rightarrow> publication_state \<Rightarrow> raw_material option \<Rightarrow>
   publication_error + effect_request option" where
  "pending_effect E s raw = (case open_intent s of
       None \<Rightarrow>
         if raw \<noteq> None then Inl (Pub_Invalid ''pull_request_material_without_open_intent'')
         else Inr None
     | Some (Intent_Commit i) \<Rightarrow>
         if raw \<noteq> None then Inl (Pub_Invalid ''pull_request_material_for_commit_effect'')
         else Inr (Some (CreateCommit i))
     | Some (Intent_Push i) \<Rightarrow>
         if raw \<noteq> None then Inl (Pub_Invalid ''pull_request_material_for_push_effect'')
         else Inr (Some (PushExactLease i))
     | Some (Intent_PullRequest i) \<Rightarrow>
         bnd (ok_or (Pub_Invalid ''pull_request_material_missing'') raw) (\<lambda>material.
         bnd (material_validate_against E material i) (\<lambda>_.
           Inr (Some (EnsurePullRequest i material)))))"

section \<open>Replay\<close>

fun intent_event :: "attempt_intent \<Rightarrow> publication_event" where
  "intent_event (Intent_Commit i) = CommitIntentPersisted i"
| "intent_event (Intent_Push i) = PushIntentPersisted i"
| "intent_event (Intent_PullRequest i) = PullRequestIntentPersisted i"

fun observation_event :: "attempt_observation \<Rightarrow> publication_event" where
  "observation_event (Obs_Commit obs) = CommitObserved obs"
| "observation_event (Obs_Push obs) = PushObserved obs"
| "observation_event (Obs_PullRequest obs) = PullRequestObserved obs"

definition replay_record ::
  "externs \<Rightarrow> publication_contract \<Rightarrow> eligibility_record \<Rightarrow> publication_state \<Rightarrow>
   attempt_record \<Rightarrow> publication_error + publication_state" where
  "replay_record E contract eligibility replay r =
     bnd (ledger_apply E contract eligibility replay (intent_event (rec_intent r))) (\<lambda>replay'.
       case rec_observation r of
         None \<Rightarrow> Inr replay'
       | Some observation \<Rightarrow>
           ledger_apply E contract eligibility replay' (observation_event observation))"

definition ledger_validate ::
  "externs \<Rightarrow> publication_state \<Rightarrow> publication_contract \<Rightarrow> eligibility_record \<Rightarrow>
   publication_error + unit" where
  "ledger_validate E s contract eligibility =
     bnd (validate_prerequisites E s contract eligibility) (\<lambda>_.
     bnd (ledger_new E (ps_execution_id s) (ps_publication_node_id s) contract eligibility) (\<lambda>s0.
     bnd (fold_res (replay_record E contract eligibility) s0 (ps_attempts s)) (\<lambda>s1.
     bnd (case ps_completion s of None \<Rightarrow> Inr s1
          | Some completion \<Rightarrow>
              ledger_apply E contract eligibility s1 (CompletionRecorded completion)) (\<lambda>s2.
     bnd (case ps_convergence s of None \<Rightarrow> Inr s2
          | Some convergence \<Rightarrow>
              ledger_apply E contract eligibility s2 (ConvergenceEvaluated convergence)) (\<lambda>s3.
       if s3 \<noteq> s then Inl (Pub_Invalid ''publication_state_replay_mismatch'') else Inr ())))))"

end
