(* ===== verification/Publication_Journal.thy ===== *)
theory Publication_Journal
  imports Publication_Ledger
begin

text \<open>
  The publication ledger as a journal: the events a state stands for, the case distinction of one
  successful \<open>apply\<close> that every later proof starts from, and the replay that \<open>validate\<close> runs.
\<close>

section \<open>The four shapes of a step\<close>

fun intent_valid ::
  "externs \<Rightarrow> publication_contract \<Rightarrow> eligibility_record \<Rightarrow> attempt_intent \<Rightarrow> bool" where
  "intent_valid E contract eligibility (Intent_Commit i) \<longleftrightarrow>
     commit_intent_validate E i contract eligibility = Inr ()"
| "intent_valid E contract eligibility (Intent_Push i) \<longleftrightarrow> push_intent_validate E i contract = Inr ()"
| "intent_valid E contract eligibility (Intent_PullRequest i) \<longleftrightarrow>
     pr_intent_validate E i contract = Inr ()"

fun observation_valid :: "externs \<Rightarrow> attempt_intent \<Rightarrow> attempt_observation \<Rightarrow> bool" where
  "observation_valid E (Intent_Commit i) (Obs_Commit obs) \<longleftrightarrow>
     commit_observation_validate E obs i = Inr ()"
| "observation_valid E (Intent_Push i) (Obs_Push obs) \<longleftrightarrow> push_observation_validate E obs i = Inr ()"
| "observation_valid E (Intent_PullRequest i) (Obs_PullRequest obs) \<longleftrightarrow>
     pr_observation_validate E obs i = Inr ()"
| "observation_valid E _ _ \<longleftrightarrow> False"

fun intent_operation :: "attempt_intent \<Rightarrow> publication_operation" where
  "intent_operation (Intent_Commit i) = Op_Commit"
| "intent_operation (Intent_Push i) = Op_Push"
| "intent_operation (Intent_PullRequest i) = Op_PullRequest"

lemma intent_valid_operation:
  "intent_valid E contract eligibility i \<Longrightarrow> at_operation (intent_attempt i) = intent_operation i"
  by (cases i) (auto dest: commit_intent_validateD push_intent_validateD pr_intent_validateD)

lemma intent_valid_attempt:
  "intent_valid E contract eligibility i \<Longrightarrow> attempt_validate E (intent_attempt i) = Inr ()"
  by (cases i) (auto dest: commit_intent_validateD push_intent_validateD pr_intent_validateD)

lemma observation_valid_matches:
  "observation_valid E i obs \<Longrightarrow> observation_matches_intent obs i"
  by (cases i; cases obs) simp_all

definition fresh_record :: "attempt_intent \<Rightarrow> attempt_record" where
  "fresh_record i = \<lparr>rec_attempt = intent_attempt i, rec_intent = i, rec_observation = None\<rparr>"

lemma fresh_record_simps [simp]:
  "rec_attempt (fresh_record i) = intent_attempt i" "rec_intent (fresh_record i) = i"
  "rec_observation (fresh_record i) = None"
  by (simp_all add: fresh_record_def)

lemma open_intent_None_iff:
  "open_intent s = None \<longleftrightarrow> (\<forall>ys r. ps_attempts s = ys @ [r] \<longrightarrow> rec_observation r \<noteq> None)"
  by (cases "ps_attempts s" rule: rev_cases) (simp_all add: open_intent_def)

lemma open_intent_Some_iff:
  "open_intent s = Some i \<longleftrightarrow>
    (\<exists>ys r. ps_attempts s = ys @ [r] \<and> rec_observation r = None \<and> rec_intent r = i)"
  by (cases "ps_attempts s" rule: rev_cases) (auto simp: open_intent_def)

text \<open>Each kind of event, its guard and its effect, as one equation.\<close>

lemma apply_intent_iff:
  "apply_event E s (intent_event i) contract eligibility = Inr s' \<longleftrightarrow>
    intent_valid E contract eligibility i \<and> open_intent s = None \<and>
    next_attempt E s (intent_operation i) contract = Inr (intent_attempt i) \<and>
    intent_binding E s i = Inr () \<and>
    s' = s\<lparr>ps_attempts := ps_attempts s @ [fresh_record i]\<rparr>"
proof -
  have persist: "persist_intent E s i contract = Inr s' \<longleftrightarrow> open_intent s = None \<and>
      next_attempt E s (at_operation (intent_attempt i)) contract = Inr (intent_attempt i) \<and>
      intent_binding E s i = Inr () \<and> s' = s\<lparr>ps_attempts := ps_attempts s @ [fresh_record i]\<rparr>"
    by (auto simp: persist_intent_def result_simps fresh_record_def)
  have "apply_event E s (intent_event i) contract eligibility = Inr s' \<longleftrightarrow>
      intent_valid E contract eligibility i \<and> persist_intent E s i contract = Inr s'"
    by (cases i) (simp_all add: apply_event_def result_simps)
  then show ?thesis using persist intent_valid_operation by metis
qed

lemma apply_observation_iff:
  "apply_event E s (observation_event obs) contract eligibility = Inr s' \<longleftrightarrow>
    (\<exists>ys r. ps_attempts s = ys @ [r] \<and> rec_observation r = None \<and>
      observation_valid E (rec_intent r) obs \<and>
      s' = s\<lparr>ps_attempts := ys @ [r\<lparr>rec_observation := Some obs\<rparr>]\<rparr>)"
proof -
  have "apply_event E s (observation_event obs) contract eligibility = Inr s' \<longleftrightarrow>
      (\<exists>i. open_intent s = Some i \<and> observation_valid E i obs \<and> record_observation s obs = Inr s')"
    by (cases obs; cases "open_intent s"; (cases "the (open_intent s)")?)
      (auto simp: apply_event_def result_simps)
  also have "\<dots> \<longleftrightarrow> (\<exists>ys r. ps_attempts s = ys @ [r] \<and> rec_observation r = None \<and>
      observation_valid E (rec_intent r) obs \<and>
      s' = s\<lparr>ps_attempts := ys @ [r\<lparr>rec_observation := Some obs\<rparr>]\<rparr>)"
    by (auto simp: open_intent_Some_iff record_observation_def split: if_splits
        dest: observation_valid_matches)
  finally show ?thesis .
qed

lemma apply_completion_iff:
  "apply_event E s (CompletionRecorded c) contract eligibility = Inr s' \<longleftrightarrow>
    build_completion E s contract = Inr c \<and> s' = s\<lparr>ps_completion := Some c\<rparr>"
  by (auto simp: apply_event_def result_simps)

lemma apply_convergence_iff:
  "apply_event E s (ConvergenceEvaluated c) contract eligibility = Inr s' \<longleftrightarrow>
    build_convergence E s contract = Inr (Some c) \<and> s' = s\<lparr>ps_convergence := Some c\<rparr>"
  by (auto simp: apply_event_def result_simps)

lemma event_cases:
  obtains (intent) i where "e = intent_event i"
  | (observation) obs where "e = observation_event obs"
  | (completion) c where "e = CompletionRecorded c"
  | (convergence) c where "e = ConvergenceEvaluated c"
proof (cases e)
  case (CommitIntentPersisted i)
  then show ?thesis using intent [of "Intent_Commit i"] by simp
next
  case (CommitObserved obs)
  then show ?thesis using observation [of "Obs_Commit obs"] by simp
next
  case (PushIntentPersisted i)
  then show ?thesis using intent [of "Intent_Push i"] by simp
next
  case (PushObserved obs)
  then show ?thesis using observation [of "Obs_Push obs"] by simp
next
  case (PullRequestIntentPersisted i)
  then show ?thesis using intent [of "Intent_PullRequest i"] by simp
next
  case (PullRequestObserved obs)
  then show ?thesis using observation [of "Obs_PullRequest obs"] by simp
qed (auto intro: completion convergence)

lemma ledger_apply_iff:
  "ledger_apply E contract eligibility s e = Inr s' \<longleftrightarrow>
    validate_prerequisites E s contract eligibility = Inr () \<and>
    ps_completion s = None \<and> ps_convergence s = None \<and>
    apply_event E s e contract eligibility = Inr s'"
  by (auto simp: ledger_apply_def result_simps)

lemmas apply_iffs =
  apply_intent_iff apply_observation_iff apply_completion_iff apply_convergence_iff

text \<open>The case distinction of a successful step.\<close>

lemma ledger_apply_cases:
  assumes "ledger_apply E contract eligibility s e = Inr s'"
  obtains (intent) i where "e = intent_event i" "intent_valid E contract eligibility i"
      "open_intent s = None"
      "next_attempt E s (intent_operation i) contract = Inr (intent_attempt i)"
      "intent_binding E s i = Inr ()"
      "s' = s\<lparr>ps_attempts := ps_attempts s @ [fresh_record i]\<rparr>"
  | (observation) obs ys r where "e = observation_event obs" "ps_attempts s = ys @ [r]"
      "rec_observation r = None" "observation_valid E (rec_intent r) obs"
      "s' = s\<lparr>ps_attempts := ys @ [r\<lparr>rec_observation := Some obs\<rparr>]\<rparr>"
  | (completion) c where "e = CompletionRecorded c" "build_completion E s contract = Inr c"
      "s' = s\<lparr>ps_completion := Some c\<rparr>"
  | (convergence) c where "e = ConvergenceEvaluated c"
      "build_convergence E s contract = Inr (Some c)" "s' = s\<lparr>ps_convergence := Some c\<rparr>"
proof -
  from assms have step: "apply_event E s e contract eligibility = Inr s'"
    by (simp add: ledger_apply_iff)
  show ?thesis
  proof (cases e rule: event_cases)
    case e: (intent i)
    from step show ?thesis unfolding e apply_intent_iff using intent [OF e] by blast
  next
    case e: (observation obs)
    from step show ?thesis unfolding e apply_observation_iff using observation [OF e] by blast
  next
    case e: (completion c)
    from step show ?thesis unfolding e apply_completion_iff using completion [OF e] by blast
  next
    case e: (convergence c)
    from step show ?thesis unfolding e apply_convergence_iff using convergence [OF e] by blast
  qed
qed

section \<open>The history of a ledger\<close>

definition record_events :: "attempt_record \<Rightarrow> publication_event list" where
  "record_events r = intent_event (rec_intent r) #
     (case rec_observation r of None \<Rightarrow> [] | Some obs \<Rightarrow> [observation_event obs])"

definition ledger_events :: "publication_state \<Rightarrow> publication_event list" where
  "ledger_events s = concat (map record_events (ps_attempts s)) @
     (case ps_completion s of None \<Rightarrow> [] | Some c \<Rightarrow> [CompletionRecorded c]) @
     (case ps_convergence s of None \<Rightarrow> [] | Some c \<Rightarrow> [ConvergenceEvaluated c])"

definition ledger_fresh :: "publication_state \<Rightarrow> bool" where
  "ledger_fresh s \<longleftrightarrow> ps_attempts s = [] \<and> ps_completion s = None \<and> ps_convergence s = None"

lemma ledger_step_events:
  assumes "ledger_apply E contract eligibility s e = Inr s'"
  shows "ledger_events s' = ledger_events s @ [e]"
proof -
  have "ps_completion s = None" "ps_convergence s = None"
    using assms by (simp_all add: ledger_apply_iff)
  with assms show ?thesis
    by (cases rule: ledger_apply_cases) (auto simp: ledger_events_def record_events_def)
qed

interpretation ledger: event_journal "ledger_apply E contract eligibility" ledger_events ledger_fresh
  for E contract eligibility
  by unfold_locales (simp add: ledger_fresh_def ledger_events_def, rule ledger_step_events)

lemma ledger_new_iff:
  "ledger_new E execution node contract eligibility = Inr s \<longleftrightarrow>
    contract_validate E contract = Inr () \<and>
    validate_for_publication E eligibility contract (er_repository_revision eligibility) = Inr () \<and>
    \<not> blank execution \<and> \<not> blank node \<and>
    s = \<lparr>ps_schema_version = PUBLICATION_SCHEMA_VERSION, ps_execution_id = execution,
         ps_publication_node_id = node, ps_contract_id = pc_contract_id contract,
         ps_eligibility_id = er_eligibility_id eligibility,
         ps_repository_revision = er_repository_revision eligibility,
         ps_requested_mode = pc_requested_mode contract, ps_attempts = [],
         ps_completion = None, ps_convergence = None\<rparr>"
  by (auto simp: ledger_new_def result_simps)

lemma ledger_new_fresh: "ledger_new E execution node contract eligibility = Inr s \<Longrightarrow> ledger_fresh s"
  by (simp add: ledger_new_iff ledger_fresh_def)

section \<open>Reachable ledgers\<close>

inductive ledger_reachable ::
  "externs \<Rightarrow> publication_contract \<Rightarrow> eligibility_record \<Rightarrow> publication_state \<Rightarrow> bool"
  for E contract eligibility where
  reachable_new: "ledger_new E execution node contract eligibility = Inr s \<Longrightarrow>
    ledger_reachable E contract eligibility s"
| reachable_apply: "ledger_reachable E contract eligibility s \<Longrightarrow>
    ledger_apply E contract eligibility s e = Inr s' \<Longrightarrow>
    ledger_reachable E contract eligibility s'"

lemma reachable_run:
  "ledger_reachable E contract eligibility s \<Longrightarrow>
    fold_res (ledger_apply E contract eligibility) s es = Inr t \<Longrightarrow>
    ledger_reachable E contract eligibility t"
  by (induction es arbitrary: s) (auto simp: bnd_Inr_iff intro: reachable_apply)

lemma prerequisites_step:
  "ledger_apply E contract eligibility s e = Inr s' \<Longrightarrow>
    validate_prerequisites E s' contract eligibility = Inr () \<and>
    ps_execution_id s' = ps_execution_id s \<and>
    ps_publication_node_id s' = ps_publication_node_id s \<and>
    ps_eligibility_id s' = ps_eligibility_id s \<and>
    ps_repository_revision s' = ps_repository_revision s \<and>
    ps_requested_mode s' = ps_requested_mode s"
  by (frule ledger_apply_iff [THEN iffD1], erule ledger_apply_cases)
    (auto simp: validate_prerequisites_def result_simps split: if_splits)

text \<open>A reachable ledger keeps the identity it was made with and is the result of its own history.\<close>

lemma reachable_history:
  assumes "ledger_reachable E contract eligibility s"
  shows "validate_prerequisites E s contract eligibility = Inr () \<and>
    (\<exists>s0. ledger_new E (ps_execution_id s) (ps_publication_node_id s) contract eligibility = Inr s0 \<and>
      fold_res (ledger_apply E contract eligibility) s0 (ledger_events s) = Inr s)"
  using assms
proof (induction rule: ledger_reachable.induct)
  case (reachable_new execution node s)
  then have "ledger_events s = []" by (auto simp: ledger_new_iff ledger_events_def)
  with reachable_new show ?case
    by (auto simp: ledger_new_iff validate_prerequisites_def result_simps)
next
  case (reachable_apply s e s')
  then show ?case
    using prerequisites_step [OF reachable_apply.hyps(2)]
    by (auto simp: ledger.step_events fold_res_snoc)
qed

lemma reachable_prerequisites:
  "ledger_reachable E contract eligibility s \<Longrightarrow>
    validate_prerequisites E s contract eligibility = Inr ()"
  by (simp add: reachable_history)

section \<open>What validation replays\<close>

lemma fold_replay_records:
  "fold_res (replay_record E contract eligibility) s rs =
    fold_res (ledger_apply E contract eligibility) s (concat (map record_events rs))"
  by (induction rs arbitrary: s)
    (auto simp: replay_record_def record_events_def bnd_assoc split: option.splits intro!: arg_cong2 [where f = bnd])

lemma ledger_validate_iff:
  "ledger_validate E s contract eligibility = Inr () \<longleftrightarrow>
    validate_prerequisites E s contract eligibility = Inr () \<and>
    (\<exists>s0. ledger_new E (ps_execution_id s) (ps_publication_node_id s) contract eligibility = Inr s0 \<and>
      fold_res (ledger_apply E contract eligibility) s0 (ledger_events s) = Inr s)"
proof -
  have tail: "bnd (case ps_completion s of None \<Rightarrow> Inr s1
          | Some c \<Rightarrow> ledger_apply E contract eligibility s1 (CompletionRecorded c)) (\<lambda>s2.
      bnd (case ps_convergence s of None \<Rightarrow> Inr s2
          | Some c \<Rightarrow> ledger_apply E contract eligibility s2 (ConvergenceEvaluated c)) f) =
      bnd (fold_res (ledger_apply E contract eligibility) s1
        ((case ps_completion s of None \<Rightarrow> [] | Some c \<Rightarrow> [CompletionRecorded c]) @
         (case ps_convergence s of None \<Rightarrow> [] | Some c \<Rightarrow> [ConvergenceEvaluated c]))) f"
    for s1 and f :: "publication_state \<Rightarrow> publication_error + unit"
    by (auto simp: bnd_assoc split: option.splits)
  show ?thesis
    unfolding ledger_validate_def tail fold_replay_records ledger_events_def
    by (auto simp: result_simps fold_res_append)
qed

end
