(* ===== verification/Publication_Invariants.thy ===== *)
theory Publication_Invariants
  imports Publication_Journal
begin

text \<open>
  The invariants of a reachable publication ledger, each proved by rule induction with the case
  distinction of a step: which operation each attempt is, how it is numbered, and which confirmation
  it is bound to.
\<close>

section \<open>Records\<close>

definition record_ok ::
  "externs \<Rightarrow> publication_contract \<Rightarrow> eligibility_record \<Rightarrow> attempt_record \<Rightarrow> bool" where
  "record_ok E contract eligibility r \<longleftrightarrow>
     rec_attempt r = intent_attempt (rec_intent r) \<and>
     intent_valid E contract eligibility (rec_intent r) \<and>
     (\<forall>obs \<in> set_option (rec_observation r). observation_valid E (rec_intent r) obs)"

definition record_operation :: "attempt_record \<Rightarrow> publication_operation" where
  "record_operation r = intent_operation (rec_intent r)"

lemma record_operation_simps [simp]:
  "record_operation (fresh_record i) = intent_operation i"
  "record_operation (r\<lparr>rec_observation := v\<rparr>) = record_operation r"
  by (simp_all add: record_operation_def)

lemma record_ok_operation:
  "record_ok E contract eligibility r \<Longrightarrow> at_operation (rec_attempt r) = record_operation r"
  by (auto simp: record_ok_def record_operation_def dest: intent_valid_operation)

lemma reachable_records_ok:
  "ledger_reachable E contract eligibility s \<Longrightarrow>
    \<forall>r \<in> set (ps_attempts s). record_ok E contract eligibility r"
proof (induction rule: ledger_reachable.induct)
  case (reachable_apply s e s')
  from reachable_apply.hyps(2) show ?case
    using reachable_apply.IH by (cases rule: ledger_apply_cases) (auto simp: record_ok_def)
qed (auto simp: ledger_new_iff)

text \<open>Only the last attempt can be open.\<close>

lemma reachable_observed:
  "ledger_reachable E contract eligibility s \<Longrightarrow> ps_attempts s = ys @ r # zs \<Longrightarrow> zs \<noteq> [] \<Longrightarrow>
    rec_observation r \<noteq> None"
proof (induction arbitrary: ys r zs rule: ledger_reachable.induct)
  case (reachable_apply s e s')
  from reachable_apply.hyps(2) show ?case
  proof (cases rule: ledger_apply_cases)
    case (intent i)
    then have eq: "ps_attempts s @ [fresh_record i] = ys @ r # zs"
      using reachable_apply.prems(1) by simp
    from reachable_apply.prems(2) obtain zs' z where zs: "zs = zs' @ [z]"
      by (cases zs rule: rev_cases) auto
    with eq have s: "ps_attempts s = ys @ r # zs'" by simp
    show ?thesis
    proof (cases "zs' = []")
      case True
      with s intent(3) show ?thesis by (simp add: open_intent_None_iff)
    qed (use reachable_apply.IH s in simp)
  next
    case (observation obs ys' r')
    from reachable_apply.prems(2) obtain zs' z where zs: "zs = zs' @ [z]"
      by (cases zs rule: rev_cases) auto
    with observation reachable_apply.prems(1) have "ps_attempts s = ys @ r # (zs' @ [r'])" by simp
    then show ?thesis using reachable_apply.IH by blast
  qed (use reachable_apply in auto)
qed (auto simp: ledger_new_iff)

text \<open>
  Every attempt was appended by a step from the ledger that held the attempts before it; what the
  guards of that step gave stays true of the record.
\<close>

lemma reachable_prefix:
  "ledger_reachable E contract eligibility s \<Longrightarrow> ps_attempts s = ys @ r # zs \<Longrightarrow>
    \<exists>t. ledger_reachable E contract eligibility t \<and> ps_attempts t = ys \<and>
      ps_execution_id t = ps_execution_id s \<and>
      ps_eligibility_id t = ps_eligibility_id s \<and>
      ps_repository_revision t = ps_repository_revision s \<and> open_intent t = None \<and>
      next_attempt E t (record_operation r) contract = Inr (rec_attempt r) \<and>
      intent_binding E t (rec_intent r) = Inr ()"
proof (induction arbitrary: ys r zs rule: ledger_reachable.induct)
  case (reachable_apply s e s')
  from reachable_apply.hyps(2) show ?case
  proof (cases rule: ledger_apply_cases)
    case (intent i)
    then have eq: "ps_attempts s @ [fresh_record i] = ys @ r # zs"
      using reachable_apply.prems by simp
    show ?thesis
    proof (cases zs rule: rev_cases)
      case Nil
      with eq have "ps_attempts s = ys" "r = fresh_record i" by simp_all
      with intent reachable_apply.hyps(1) show ?thesis
        by (intro exI [of _ s]) (simp add: record_operation_def)
    next
      case (snoc zs' z)
      with eq have "ps_attempts s = ys @ r # zs'" by simp
      from reachable_apply.IH [OF this] intent(6) show ?thesis by simp
    qed
  next
    case (observation obs ys' r')
    show ?thesis
    proof (cases zs rule: rev_cases)
      case Nil
      with observation reachable_apply.prems
      have "ps_attempts s = ys @ r' # []" and "r = r'\<lparr>rec_observation := Some obs\<rparr>" by simp_all
      with reachable_apply.IH [of ys r' "[]"] observation(5) show ?thesis by simp
    next
      case (snoc zs' z)
      with observation reachable_apply.prems have "ps_attempts s = ys @ r # (zs' @ [r'])" by simp
      from reachable_apply.IH [OF this] observation(5) show ?thesis by simp
    qed
  qed (use reachable_apply in auto)
qed (auto simp: ledger_new_iff)

section \<open>Order and numbering\<close>

text \<open>What the last observed attempt allows next: a retry of its operation, or the one after it.\<close>

lemma observed_next_cases:
  assumes "record_ok E contract eligibility r" and "rec_observation r = Some obs"
    and "observed_next_operation contract r obs = Some operation"
  shows "operation = record_operation r \<and>
      unat (at_operation_attempt (rec_attempt r)) < unat (operation_attempt_limit contract operation)
    \<or> record_operation r = Op_Commit \<and> operation = Op_Push \<and> commit_confirmation r \<noteq> None
    \<or> record_operation r = Op_Push \<and> operation = Op_PullRequest \<and> push_confirmation r \<noteq> None"
proof -
  have "observation_valid E (rec_intent r) obs" using assms(1,2) by (simp add: record_ok_def)
  with assms(2,3) show ?thesis
    by (cases obs; cases "rec_intent r")
      (auto simp: observed_next_operation_def record_operation_def retry_left_def word_less_unat
        confirmed_commit_oid_def push_confirmed_remote_head_def
        split: commit_outcome.splits push_outcome.splits pr_outcome.splits if_splits)
qed

lemma operation_count_snoc:
  "ps_attempts t = ps_attempts s @ [r] \<Longrightarrow>
    operation_count t operation =
      operation_count s operation + (if at_operation (rec_attempt r) = operation then 1 else 0)"
  by (simp add: operation_count_def)

lemma operation_count_0:
  assumes "\<forall>r \<in> set (ps_attempts s). record_ok E contract eligibility r"
    and "\<forall>r \<in> set (ps_attempts s). record_operation r < operation"
  shows "operation_count s operation = 0"
  using assms by (fastforce simp: operation_count_def filter_empty_conv dest: record_ok_operation)

lemma unat_next_number:
  "unat (sat_add (clip_word n) (1 :: u32)) = min (n + 1) (2 ^ 32 - 1)"
  by (simp add: word_simps)

lemma attempt_of_next:
  "next_attempt E s operation contract = Inr a \<Longrightarrow>
    attempt_new E (sat_add (clip_word (length (ps_attempts s))) 1) operation
      (sat_add (clip_word (operation_count s operation)) 1)
      (map_option (\<lambda>r. at_attempt_id (rec_attempt r)) (last_of (ps_attempts s)))
      (ps_repository_revision s) (ps_eligibility_id s) = Inr a"
  by (auto simp: next_attempt_def result_simps Let_def split: if_splits)

lemma next_attemptD:
  assumes "next_attempt E s operation contract = Inr a"
  shows "expected_next_operation s contract = Some operation"
    and "unat (at_sequence a) = min (length (ps_attempts s) + 1) (2 ^ 32 - 1)"
    and "unat (at_operation_attempt a) = min (operation_count s operation + 1) (2 ^ 32 - 1)"
    and "at_operation_attempt a \<le> operation_attempt_limit contract operation"
    and "at_prior_attempt_id a =
      map_option (\<lambda>r. at_attempt_id (rec_attempt r)) (last_of (ps_attempts s))"
    and "at_operation a = operation"
    and "at_repository_revision a = ps_repository_revision s"
    and "at_eligibility_id a = ps_eligibility_id s"
    and "ps_completion s = None" and "ps_convergence s = None"
proof -
  note new = attempt_newD [OF attempt_of_next [OF assms]]
  show "unat (at_sequence a) = min (length (ps_attempts s) + 1) (2 ^ 32 - 1)"
    and "unat (at_operation_attempt a) = min (operation_count s operation + 1) (2 ^ 32 - 1)"
    using new(2,4) unat_next_number by simp_all
  show "expected_next_operation s contract = Some operation"
    and "at_operation_attempt a \<le> operation_attempt_limit contract operation"
    and "ps_completion s = None" and "ps_convergence s = None"
    using assms new(4) by (auto simp: next_attempt_def result_simps Let_def split: if_splits)
qed (use attempt_newD [OF attempt_of_next [OF assms]] in simp_all)

definition numbered :: "publication_contract \<Rightarrow> publication_state \<Rightarrow> bool" where
  "numbered contract s \<longleftrightarrow>
     sorted (map record_operation (ps_attempts s)) \<and>
     (\<forall>operation. operation_count s operation \<le> unat (operation_attempt_limit contract operation)) \<and>
     (\<forall>r. last_of (ps_attempts s) = Some r \<longrightarrow>
        unat (at_operation_attempt (rec_attempt r)) = operation_count s (record_operation r))"

lemma numbered_intent:
  assumes reach: "ledger_reachable E contract eligibility s" and num: "numbered contract s"
    and valid: "intent_valid E contract eligibility i"
    and nxt: "next_attempt E s (intent_operation i) contract = Inr (intent_attempt i)"
    and positive: "\<forall>operation. 0 < unat (operation_attempt_limit contract operation)"
  shows "numbered contract (s\<lparr>ps_attempts := ps_attempts s @ [fresh_record i]\<rparr>)"
proof -
  let ?op = "intent_operation i" and ?limit = "\<lambda>operation. unat (operation_attempt_limit contract operation)"
  let ?t = "s\<lparr>ps_attempts := ps_attempts s @ [fresh_record i]\<rparr>"
  have ok: "\<forall>r \<in> set (ps_attempts s). record_ok E contract eligibility r"
    using reach by (rule reachable_records_ok)
  have below: "(\<forall>o' \<in> record_operation ` set (ps_attempts s). o' \<le> ?op) \<and>
      operation_count s ?op < ?limit ?op"
  proof (cases "ps_attempts s" rule: rev_cases)
    case Nil
    then show ?thesis using positive by (simp add: operation_count_def)
  next
    case (snoc ys r)
    from next_attemptD(1) [OF nxt] snoc obtain obs where obs: "rec_observation r = Some obs"
        "observed_next_operation contract r obs = Some ?op"
      by (auto simp: expected_next_operation_def split: option.splits)
    have all: "\<forall>o' \<in> record_operation ` set (ps_attempts s). o' \<le> record_operation r"
      using num snoc by (auto simp: numbered_def sorted_append)
    have count: "unat (at_operation_attempt (rec_attempt r)) = operation_count s (record_operation r)"
      using num snoc by (simp add: numbered_def)
    from ok snoc have "record_ok E contract eligibility r" by simp
    from observed_next_cases [OF this obs] show ?thesis
    proof (elim disjE conjE)
      assume "?op = record_operation r"
        and "unat (at_operation_attempt (rec_attempt r)) < ?limit ?op"
      with all count show ?thesis by simp
    next
      assume step: "record_operation r = Op_Commit" "?op = Op_Push"
      then have "\<forall>x \<in> set (ps_attempts s). record_operation x < ?op"
        using all by (auto simp: operation_order)
      with operation_count_0 [OF ok this] positive show ?thesis by (auto intro: less_imp_le)
    next
      assume step: "record_operation r = Op_Push" "?op = Op_PullRequest"
      then have "\<forall>x \<in> set (ps_attempts s). record_operation x < ?op"
        using all by (force simp: operation_order)
      with operation_count_0 [OF ok this] positive show ?thesis by (auto intro: less_imp_le)
    qed
  qed
  have count: "operation_count ?t operation =
      operation_count s operation + (if ?op = operation then 1 else 0)" for operation
    using next_attemptD(6) [OF nxt] by (simp add: operation_count_snoc [of ?t s "fresh_record i"])
  have "?limit ?op < 2 ^ 32" by (rule order_less_le_trans [OF unsigned_less]) simp
  with below have "unat (at_operation_attempt (intent_attempt i)) = operation_count ?t ?op"
    using next_attemptD(3) [OF nxt] by (simp add: count)
  moreover have "sorted (map record_operation (ps_attempts ?t))"
    using num below by (auto simp: numbered_def sorted_append)
  moreover have "operation_count ?t operation \<le> ?limit operation" for operation
    using num below by (auto simp: numbered_def count)
  ultimately show ?thesis by (simp add: numbered_def)
qed

lemma limits_positive:
  assumes "ledger_reachable E contract eligibility s"
  shows "\<forall>operation. 0 < unat (operation_attempt_limit contract operation)"
proof
  fix operation
  have "contract_validate E contract = Inr ()"
    using reachable_prerequisites [OF assms]
    by (simp add: validate_prerequisites_def result_simps)
  then show "0 < unat (operation_attempt_limit contract operation)"
    by (cases operation) (auto simp: operation_attempt_limit_def dest: contract_validateD)
qed

lemma numbered_observation:
  "ps_attempts s = ys @ [r] \<Longrightarrow>
    numbered contract (s\<lparr>ps_attempts := ys @ [r\<lparr>rec_observation := v\<rparr>]\<rparr>) = numbered contract s"
  by (simp add: numbered_def operation_count_def)

lemma numbered_terminal [simp]:
  "numbered contract (s\<lparr>ps_completion := c\<rparr>) = numbered contract s"
  "numbered contract (s\<lparr>ps_convergence := v\<rparr>) = numbered contract s"
  by (simp_all add: numbered_def operation_count_def)

lemma reachable_numbered:
  "ledger_reachable E contract eligibility s \<Longrightarrow> numbered contract s"
proof (induction rule: ledger_reachable.induct)
  case (reachable_new execution node s)
  then show ?case by (simp add: ledger_new_iff numbered_def operation_count_def)
next
  case (reachable_apply s e s')
  from reachable_apply.hyps(2) show ?case
  proof (cases rule: ledger_apply_cases)
    case (intent i)
    then show ?thesis
      using numbered_intent [OF reachable_apply.hyps(1) reachable_apply.IH] limits_positive
        reachable_apply.hyps(1) by blast
  qed (simp_all add: reachable_apply.IH numbered_observation)
qed

lemma length_operation_count:
  "length (ps_attempts s) =
    operation_count s Op_Commit + operation_count s Op_Push + operation_count s Op_PullRequest"
proof -
  have "length rs = length (filter (\<lambda>r. at_operation (rec_attempt r) = Op_Commit) rs) +
      length (filter (\<lambda>r. at_operation (rec_attempt r) = Op_Push) rs) +
      length (filter (\<lambda>r. at_operation (rec_attempt r) = Op_PullRequest) rs)" for rs
  proof (induction rs)
    case (Cons r rs)
    then show ?case by (cases "at_operation (rec_attempt r)") simp_all
  qed simp
  then show ?thesis by (simp add: operation_count_def)
qed

section \<open>Bindings\<close>

lemma confirmed_fresh [simp]:
  "commit_confirmation (fresh_record i) = None" "push_confirmation (fresh_record i) = None"
  "pr_confirmed (fresh_record i) = None"
  by simp_all

lemma confirmed_snoc:
  "ps_attempts t = ys @ [r] \<Longrightarrow> confirmed_commit t =
    (case commit_confirmation r of None \<Rightarrow> find_map commit_confirmation (rev ys) | Some c \<Rightarrow> Some c)"
  "ps_attempts t = ys @ [r] \<Longrightarrow> confirmed_push t =
    (case push_confirmation r of None \<Rightarrow> find_map push_confirmation (rev ys) | Some c \<Rightarrow> Some c)"
  "ps_attempts t = ys @ [r] \<Longrightarrow> confirmed_pull_request t =
    (case pr_confirmed r of None \<Rightarrow> find_map pr_confirmed (rev ys) | Some c \<Rightarrow> Some c)"
  by (simp_all add: confirmed_commit_def confirmed_push_def confirmed_pull_request_def)

lemmas ledger_reads =
  ledger_commit_oid_def ledger_remote_head_def confirmed_commit_def confirmed_push_def
  confirmed_pull_request_def

definition bound_to_confirmations :: "publication_state \<Rightarrow> bool" where
  "bound_to_confirmations s \<longleftrightarrow>
     (\<forall>r \<in> set (ps_attempts s).
        (\<forall>i. rec_intent r = Intent_Push i \<longrightarrow> ledger_commit_oid s = Some (pi_commit_oid i)) \<and>
        (\<forall>i. rec_intent r = Intent_PullRequest i \<longrightarrow> ledger_remote_head s = Some (pr_commit_oid i))) \<and>
     (\<forall>head. ledger_remote_head s = Some head \<longrightarrow> ledger_commit_oid s = Some head)"

text \<open>Below the last operation of a sorted list only earlier operations occur.\<close>

lemma reachable_below_last:
  "ledger_reachable E contract eligibility s \<Longrightarrow> ps_attempts s = ys @ [r] \<Longrightarrow>
    x \<in> set (ps_attempts s) \<Longrightarrow> record_operation x \<le> record_operation r"
  by (drule reachable_numbered) (auto simp: numbered_def sorted_append)

lemma no_confirmation_below:
  assumes "\<forall>x \<in> set xs. record_ok E contract eligibility x"
  shows "\<forall>x \<in> set xs. record_operation x < Op_Push \<Longrightarrow> find_map push_confirmation (rev xs) = None"
    and "\<forall>x \<in> set xs. record_operation x < Op_PullRequest \<Longrightarrow> find_map pr_confirmed (rev xs) = None"
proof -
  have "push_confirmation x = None" if "record_ok E contract eligibility x"
      and "record_operation x < Op_Push" for x
    using that by (cases "rec_intent x"; cases "rec_observation x"; (cases "the (rec_observation x)")?)
      (auto simp: record_ok_def record_operation_def operation_order)
  with assms show "\<forall>x \<in> set xs. record_operation x < Op_Push \<Longrightarrow>
      find_map push_confirmation (rev xs) = None"
    by (simp add: find_map_None_iff)
  have "pr_confirmed x = None" if "record_ok E contract eligibility x"
      and "record_operation x < Op_PullRequest" for x
    using that by (cases "rec_intent x"; cases "rec_observation x"; (cases "the (rec_observation x)")?)
      (auto simp: record_ok_def record_operation_def operation_order)
  with assms show "\<forall>x \<in> set xs. record_operation x < Op_PullRequest \<Longrightarrow>
      find_map pr_confirmed (rev xs) = None"
    by (simp add: find_map_None_iff)
qed

lemma reads_fresh [simp]:
  "confirmed_commit (s\<lparr>ps_attempts := ps_attempts s @ [fresh_record i]\<rparr>) = confirmed_commit s"
  "confirmed_push (s\<lparr>ps_attempts := ps_attempts s @ [fresh_record i]\<rparr>) = confirmed_push s"
  "confirmed_pull_request (s\<lparr>ps_attempts := ps_attempts s @ [fresh_record i]\<rparr>) =
    confirmed_pull_request s"
  "ledger_commit_oid (s\<lparr>ps_attempts := ps_attempts s @ [fresh_record i]\<rparr>) = ledger_commit_oid s"
  "ledger_remote_head (s\<lparr>ps_attempts := ps_attempts s @ [fresh_record i]\<rparr>) = ledger_remote_head s"
  by (simp_all add: ledger_reads)

lemma reads_terminal [simp]:
  "confirmed_commit (s\<lparr>ps_completion := c\<rparr>) = confirmed_commit s"
  "confirmed_push (s\<lparr>ps_completion := c\<rparr>) = confirmed_push s"
  "confirmed_pull_request (s\<lparr>ps_completion := c\<rparr>) = confirmed_pull_request s"
  "ledger_commit_oid (s\<lparr>ps_completion := c\<rparr>) = ledger_commit_oid s"
  "ledger_remote_head (s\<lparr>ps_completion := c\<rparr>) = ledger_remote_head s"
  "confirmed_commit (s\<lparr>ps_convergence := v\<rparr>) = confirmed_commit s"
  "confirmed_push (s\<lparr>ps_convergence := v\<rparr>) = confirmed_push s"
  "confirmed_pull_request (s\<lparr>ps_convergence := v\<rparr>) = confirmed_pull_request s"
  "ledger_commit_oid (s\<lparr>ps_convergence := v\<rparr>) = ledger_commit_oid s"
  "ledger_remote_head (s\<lparr>ps_convergence := v\<rparr>) = ledger_remote_head s"
  by (simp_all add: ledger_reads)

text \<open>An observation of a later operation leaves the confirmations of the earlier ones alone.\<close>

lemma reads_observation:
  assumes "ps_attempts s = ys @ [r]" and "rec_observation r = None"
  defines "t obs \<equiv> s\<lparr>ps_attempts := ys @ [r\<lparr>rec_observation := Some obs\<rparr>]\<rparr>"
  shows "confirmed_commit (t (Obs_Push p)) = confirmed_commit s"
    and "confirmed_commit (t (Obs_PullRequest q)) = confirmed_commit s"
    and "confirmed_push (t (Obs_PullRequest q)) = confirmed_push s"
    and "ledger_remote_head (t (Obs_Push p)) =
      (case push_confirmed_remote_head p of None \<Rightarrow> ledger_remote_head s | Some h \<Rightarrow> Some h)"
  using assms by (simp_all add: confirmed_commit_def confirmed_push_def ledger_remote_head_def
      split: option.splits)

lemma ledger_commit_oid_cong: "confirmed_commit s = confirmed_commit t \<Longrightarrow>
    ledger_commit_oid s = ledger_commit_oid t"
  by (simp add: ledger_commit_oid_def)

lemma ledger_remote_head_cong: "confirmed_push s = confirmed_push t \<Longrightarrow>
    ledger_remote_head s = ledger_remote_head t"
  by (simp add: ledger_remote_head_def)

lemma only_commits:
  assumes "ledger_reachable E contract eligibility s" and "ps_attempts s = ys @ [r]"
    and "rec_intent r = Intent_Commit i" and "x \<in> set (ps_attempts s)"
  shows "record_operation x = Op_Commit"
proof -
  from assms(3) have "record_operation r = Op_Commit" by (simp add: record_operation_def)
  with reachable_below_last [OF assms(1,2,4)] show ?thesis
    by (cases "record_operation x") (simp_all add: operation_order)
qed

lemma no_pull_request:
  assumes "ledger_reachable E contract eligibility s" and "ps_attempts s = ys @ [r]"
    and "rec_intent r = Intent_Push i" and "x \<in> set (ps_attempts s)"
  shows "rec_intent x \<noteq> Intent_PullRequest j"
  using reachable_below_last [OF assms(1,2,4)] assms(3)
  by (auto simp: operation_order record_operation_def)

lemma bound_observation:
  assumes reach: "ledger_reachable E contract eligibility s" and bound: "bound_to_confirmations s"
    and last: "ps_attempts s = ys @ [r]" "rec_observation r = None"
    and valid: "observation_valid E (rec_intent r) obs"
  shows "bound_to_confirmations (s\<lparr>ps_attempts := ys @ [r\<lparr>rec_observation := Some obs\<rparr>]\<rparr>)"
    (is "bound_to_confirmations ?t")
proof (cases "rec_intent r")
  case (Intent_Commit i)
  have op: "record_operation x = Op_Commit" if "x \<in> set (ys @ [r])" for x
    using only_commits [OF reach last(1) Intent_Commit] that last(1) by simp
  have ok: "\<forall>x \<in> set ys. record_ok E contract eligibility x"
    using reachable_records_ok [OF reach] last(1) by simp
  have "find_map push_confirmation (rev ys) = None"
    using op by (intro no_confirmation_below(1) [OF ok]) (simp add: operation_order)
  with valid Intent_Commit last have "ledger_remote_head ?t = None"
    by (cases obs) (simp_all add: ledger_remote_head_def confirmed_push_def)
  moreover have "rec_intent x \<noteq> Intent_Push j" "rec_intent x \<noteq> Intent_PullRequest k"
    if "x \<in> set (ps_attempts ?t)" for x j k
    using that op [of x] op [of r] by (auto simp: record_operation_def)
  ultimately show ?thesis by (simp add: bound_to_confirmations_def)
next
  case (Intent_Push i)
  with valid obtain p where obs: "obs = Obs_Push p" and p: "push_observation_validate E p i = Inr ()"
    by (cases obs) auto
  have commit: "ledger_commit_oid ?t = ledger_commit_oid s"
    unfolding obs by (rule ledger_commit_oid_cong, rule reads_observation(1) [OF last])
  have bound_i: "ledger_commit_oid s = Some (pi_commit_oid i)"
    using bound last Intent_Push by (simp add: bound_to_confirmations_def)
  have head: "ledger_commit_oid s = Some h" if "ledger_remote_head ?t = Some h" for h
    using that bound bound_i push_observation_validateD(4) [OF p] unfolding obs
    by (cases "pobs_outcome p") (simp_all add: reads_observation(4) [OF last]
        push_confirmed_remote_head_def bound_to_confirmations_def)
  have none: "rec_intent x \<noteq> Intent_PullRequest j" if "x \<in> set (ys @ [r])" for x j
    using no_pull_request [OF reach last(1) Intent_Push] that last(1) by simp
  show ?thesis
    using bound none head unfolding bound_to_confirmations_def commit last(1) by auto
next
  case (Intent_PullRequest i)
  with valid obtain q where obs: "obs = Obs_PullRequest q" by (cases obs) auto
  have "ledger_commit_oid ?t = ledger_commit_oid s"
    unfolding obs by (rule ledger_commit_oid_cong, rule reads_observation(2) [OF last])
  moreover have "ledger_remote_head ?t = ledger_remote_head s"
    unfolding obs by (rule ledger_remote_head_cong, rule reads_observation(3) [OF last])
  ultimately show ?thesis
    using bound unfolding bound_to_confirmations_def last(1) by auto
qed

lemma reachable_bound:
  "ledger_reachable E contract eligibility s \<Longrightarrow> bound_to_confirmations s"
proof (induction rule: ledger_reachable.induct)
  case (reachable_new execution node s)
  then show ?case by (simp add: ledger_new_iff bound_to_confirmations_def ledger_reads)
next
  case (reachable_apply s e s')
  from reachable_apply.hyps(2) show ?case
  proof (cases rule: ledger_apply_cases)
    case (intent i)
    with reachable_apply.IH show ?thesis
      by (auto simp: bound_to_confirmations_def intent_binding_def split: if_splits)
  next
    case (observation obs ys r)
    with bound_observation [OF reachable_apply.hyps(1) reachable_apply.IH] show ?thesis by simp
  qed (use reachable_apply.IH in \<open>simp_all add: bound_to_confirmations_def\<close>)
qed

end
