(* ===== verification/Publication_Progress.thy ===== *)
theory Publication_Progress
  imports Publication_Invariants
begin

text \<open>
  What follows from the invariants of the publication ledger: a retry keeps the identity it first
  bound, an operation is confirmed at most once, and a ledger that is neither open nor closed has
  exactly one way on.
\<close>

section \<open>Retries keep their identity\<close>

definition same_retries :: "publication_state \<Rightarrow> bool" where
  "same_retries s \<longleftrightarrow>
     (\<forall>r \<in> set (ps_attempts s).
        (\<forall>i. rec_intent r = Intent_Commit i \<longrightarrow>
           (\<exists>p. last_commit_intent s = Some p \<and> same_commit_identity p i)) \<and>
        (\<forall>i. rec_intent r = Intent_PullRequest i \<longrightarrow>
           (\<exists>p. last_pull_request_intent s = Some p \<and> same_pr_identity p i)))"

lemma last_intents_snoc:
  "ps_attempts t = ys @ [r] \<Longrightarrow> last_commit_intent t =
    (case record_commit_intent r of None \<Rightarrow> find_map record_commit_intent (rev ys) | Some i \<Rightarrow> Some i)"
  "ps_attempts t = ys @ [r] \<Longrightarrow> last_pull_request_intent t =
    (case record_pr_intent r of None \<Rightarrow> find_map record_pr_intent (rev ys) | Some i \<Rightarrow> Some i)"
  by (simp_all add: last_commit_intent_def last_pull_request_intent_def)

lemma same_retries_observation:
  "ps_attempts s = ys @ [r] \<Longrightarrow>
    same_retries (s\<lparr>ps_attempts := ys @ [r\<lparr>rec_observation := v\<rparr>]\<rparr>) = same_retries s"
  by (simp add: same_retries_def last_intents_snoc [of s ys r]
      last_intents_snoc [of "s\<lparr>ps_attempts := ys @ [r\<lparr>rec_observation := v\<rparr>]\<rparr>" ys])

lemma same_retries_intent:
  assumes same: "same_retries s" and binding: "intent_binding E s i = Inr ()"
  shows "same_retries (s\<lparr>ps_attempts := ps_attempts s @ [fresh_record i]\<rparr>)" (is "same_retries ?t")
proof -
  have last: "last_commit_intent ?t =
      (case i of Intent_Commit c \<Rightarrow> Some c | _ \<Rightarrow> last_commit_intent s)"
    "last_pull_request_intent ?t =
      (case i of Intent_PullRequest p \<Rightarrow> Some p | _ \<Rightarrow> last_pull_request_intent s)"
    by (cases i; simp add: last_commit_intent_def last_pull_request_intent_def)+
  show ?thesis
  proof (cases i)
    case (Intent_Commit c)
    with binding have "agrees_with same_commit_identity (last_commit_intent s) c"
      by (auto simp: intent_binding_def split: if_splits)
    with same show ?thesis
      by (auto simp: same_retries_def last [unfolded Intent_Commit] Intent_Commit agrees_with_def
          same_commit_identity_def split: option.splits)
  next
    case (Intent_PullRequest p)
    with binding have "agrees_with same_pr_identity (last_pull_request_intent s) p"
      by (auto simp: intent_binding_def split: if_splits)
    with same show ?thesis
      by (auto simp: same_retries_def last [unfolded Intent_PullRequest] Intent_PullRequest
          agrees_with_def same_pr_identity_def split: option.splits)
  next
    case (Intent_Push p)
    with same show ?thesis by (auto simp: same_retries_def last [unfolded Intent_Push])
  qed
qed

lemma reachable_same_retries: "ledger_reachable E contract eligibility s \<Longrightarrow> same_retries s"
proof (induction rule: ledger_reachable.induct)
  case (reachable_new execution node s)
  then show ?case by (simp add: ledger_new_iff same_retries_def)
next
  case (reachable_apply s e s')
  from reachable_apply.hyps(2) show ?case
  proof (cases rule: ledger_apply_cases)
    case (intent i)
    with same_retries_intent reachable_apply.IH show ?thesis by simp
  next
    case (observation obs ys r)
    with same_retries_observation reachable_apply.IH show ?thesis by simp
  qed (use reachable_apply.IH in
      \<open>simp_all add: same_retries_def last_commit_intent_def last_pull_request_intent_def\<close>)
qed

section \<open>At most one confirmation\<close>

definition record_confirmed :: "attempt_record \<Rightarrow> bool" where
  "record_confirmed r \<longleftrightarrow>
     commit_confirmation r \<noteq> None \<or> push_confirmation r \<noteq> None \<or> pr_confirmed r \<noteq> None"

lemma confirmed_next_later:
  assumes "record_ok E contract eligibility r" and "rec_observation r = Some obs"
    and "observed_next_operation contract r obs = Some operation" and "record_confirmed r"
  shows "record_operation r < operation"
proof -
  have "observation_valid E (rec_intent r) obs" using assms(1,2) by (simp add: record_ok_def)
  with assms(2-4) show ?thesis
    by (cases obs; cases "rec_intent r")
      (auto simp: observed_next_operation_def record_operation_def record_confirmed_def
        confirmed_commit_oid_def push_confirmed_remote_head_def operation_order
        split: commit_outcome.splits push_outcome.splits pr_outcome.splits if_splits)
qed

lemma reachable_confirmed_last:
  assumes reach: "ledger_reachable E contract eligibility s"
    and split: "ps_attempts s = ys @ r # zs" and conf: "record_confirmed r" and z: "z \<in> set zs"
  shows "record_operation r < record_operation z"
proof -
  from z obtain z0 zs' where zs: "zs = z0 # zs'" by (cases zs) auto
  with split have s: "ps_attempts s = (ys @ [r]) @ z0 # zs'" by simp
  from reachable_prefix [OF reach this] obtain t where t: "ledger_reachable E contract eligibility t"
      "ps_attempts t = ys @ [r]"
      "next_attempt E t (record_operation z0) contract = Inr (rec_attempt z0)" by blast
  from next_attemptD(1) [OF t(3)] t(2) obtain obs where "rec_observation r = Some obs"
      "observed_next_operation contract r obs = Some (record_operation z0)"
    by (auto simp: expected_next_operation_def split: option.splits)
  moreover have "record_ok E contract eligibility r" using reachable_records_ok [OF t(1)] t(2) by simp
  ultimately have "record_operation r < record_operation z0"
    using conf by (intro confirmed_next_later)
  moreover have "record_operation z0 \<le> record_operation z"
    using reachable_numbered [OF reach] z zs s by (auto simp: numbered_def sorted_append)
  ultimately show ?thesis by (rule less_le_trans)
qed

lemma at_most_one:
  "(\<And>ys x zs z. xs = ys @ x # zs \<Longrightarrow> P x \<Longrightarrow> z \<in> set zs \<Longrightarrow> \<not> P z) \<Longrightarrow> length (filter P xs) \<le> 1"
proof (induction xs)
  case (Cons x xs)
  have "length (filter P xs) \<le> 1" using Cons.prems by (intro Cons.IH) (metis append_Cons)
  moreover have "P x \<Longrightarrow> filter P xs = []" using Cons.prems [of "[]" x xs] by (simp add: filter_empty_conv)
  ultimately show ?case by auto
qed simp

lemma reachable_confirmed_once:
  "ledger_reachable E contract eligibility s \<Longrightarrow>
    length (filter (\<lambda>r. record_confirmed r \<and> record_operation r = operation) (ps_attempts s)) \<le> 1"
  by (rule at_most_one) (use reachable_confirmed_last in fastforce)

section \<open>The number of steps\<close>

lemma length_record_events: "length (concat (map record_events rs)) \<le> 2 * length rs"
  by (induction rs) (auto simp: record_events_def split: option.splits)

lemma length_ledger_events:
  assumes "ledger_reachable E contract eligibility s"
  shows "length (ledger_events s) \<le>
    2 * (unat (pc_max_commit_attempts contract) + unat (pc_max_push_attempts contract) +
      unat (pc_max_pr_attempts contract)) + 1"
proof -
  have limit: "operation_count s operation \<le> unat (operation_attempt_limit contract operation)"
    for operation
    using reachable_numbered [OF assms] by (simp add: numbered_def)
  have "length (ps_attempts s) \<le> unat (pc_max_commit_attempts contract) +
      unat (pc_max_push_attempts contract) + unat (pc_max_pr_attempts contract)"
    using limit [of Op_Commit] limit [of Op_Push] limit [of Op_PullRequest]
    by (simp add: length_operation_count operation_attempt_limit_def)
  moreover have "ps_completion s = None \<or> ps_convergence s = None"
    using reachable_prerequisites [OF assms]
    by (auto simp: validate_prerequisites_def result_simps split: if_splits)
  ultimately show ?thesis
    using length_record_events [of "ps_attempts s"]
    by (auto simp: ledger_events_def split: option.splits)
qed

section \<open>One way on\<close>

lemma record_hash_total: "json_total E \<Longrightarrow> \<exists>h. record_hash E tag v = Inr h"
  by (auto simp: json_total_def record_hash_def pub_json_def result_simps)

lemma record_hash_hex: "digest_is_hex E \<Longrightarrow> record_hash E tag v = Inr h \<Longrightarrow> is_sha256 h"
  by (auto simp: digest_is_hex_def record_hash_def stable_sha256_def result_simps)

lemma next_number_nonzero: "sat_add (clip_word n) (1 :: u32) \<noteq> 0"
proof
  assume "sat_add (clip_word n) (1 :: u32) = 0"
  then have "unat (sat_add (clip_word n) (1 :: u32)) = 0" by simp
  then show False unfolding unat_next_number by simp
qed

lemma attempt_new_total:
  assumes "json_total E"
  shows "\<exists>a. attempt_new E (sat_add (clip_word m) 1) operation (sat_add (clip_word n) 1) prior repo elig =
    Inr a"
proof -
  obtain h where "attempt_expected_hash E (sat_add (clip_word m) 1) operation
      (sat_add (clip_word n) 1) prior repo elig = Inr h"
    using record_hash_total [OF assms] by (auto simp: attempt_expected_hash_def)
  then show ?thesis
    by (simp add: attempt_new_def Let_def attempt_validate_def next_number_nonzero)
qed

lemma expected_next_within_limit:
  assumes reach: "ledger_reachable E contract eligibility s"
    and exp: "expected_next_operation s contract = Some operation"
  shows "operation_count s operation < unat (operation_attempt_limit contract operation)"
proof (cases "ps_attempts s" rule: rev_cases)
  case Nil
  then show ?thesis using limits_positive [OF reach] by (simp add: operation_count_def)
next
  case (snoc ys r)
  have ok: "\<forall>r \<in> set (ps_attempts s). record_ok E contract eligibility r"
    using reach by (rule reachable_records_ok)
  from exp snoc obtain obs where obs: "rec_observation r = Some obs"
      "observed_next_operation contract r obs = Some operation"
    by (auto simp: expected_next_operation_def split: option.splits)
  have count: "unat (at_operation_attempt (rec_attempt r)) = operation_count s (record_operation r)"
    using reachable_numbered [OF reach] snoc by (simp add: numbered_def)
  have "record_operation r < operation \<Longrightarrow> operation_count s operation = 0"
    using reachable_below_last [OF reach snoc] by (intro operation_count_0 [OF ok]) force
  moreover from ok snoc have "record_ok E contract eligibility r" by simp
  note observed_next_cases [OF this obs]
  ultimately show ?thesis
    using count limits_positive [OF reach] by (auto simp: operation_order)
qed

lemma next_attempt_total:
  assumes reach: "ledger_reachable E contract eligibility s" and total: "json_total E"
    and exp: "expected_next_operation s contract = Some operation"
    and terminal: "open_intent s = None" "ps_completion s = None" "ps_convergence s = None"
  shows "\<exists>a. next_attempt E s operation contract = Inr a"
proof -
  have "\<not> operation_attempt_limit contract operation <
      sat_add (clip_word (operation_count s operation)) 1"
    using expected_next_within_limit [OF reach exp]
    unfolding word_less_unat unat_next_number by simp
  with exp terminal attempt_new_total [OF total] show ?thesis
    by (simp add: next_attempt_def)
qed

lemma observation_hash_hex:
  "digest_is_hex E \<Longrightarrow> observation_valid E i obs \<Longrightarrow> is_sha256 (snd (exact_identity_and_hash obs))"
  by (cases i; cases obs)
    (auto simp: commit_observation_validate_def push_observation_validate_def
      pr_observation_validate_def commit_observation_expected_hash_def
      push_observation_expected_hash_def pr_observation_expected_hash_def result_simps
      dest: record_hash_hex split: if_splits)

lemma observation_failure_valid:
  "observation_valid E i obs \<Longrightarrow> observation_failure obs = Some failure \<Longrightarrow> failure_validate failure"
  by (cases i; cases obs)
    (auto dest!: commit_observation_validateD(4) push_observation_validateD(4)
      pr_observation_validateD(4) split: commit_outcome.splits push_outcome.splits pr_outcome.splits)

end
