(* ===== verification/Publication_Outcome.thy ===== *)
theory Publication_Outcome
  imports Publication_Progress
begin

text \<open>
  How a publication ledger ends: what a recorded completion and a recorded convergence say, and that
  a ledger with no open intent can always move on in exactly one of three ways.
\<close>

section \<open>The last attempt\<close>

lemma pr_confirmed_iff:
  "pr_confirmed r = Some q \<longleftrightarrow>
    rec_observation r = Some (Obs_PullRequest q) \<and> (\<exists>c. probs_outcome q = PR_Confirmed c)"
  by (auto split: option.splits attempt_observation.splits pr_outcome.splits if_splits
      elim: pr_confirmation_of.elims)

lemma confirmed_pull_request_last:
  assumes reach: "ledger_reachable E contract eligibility s"
    and conf: "confirmed_pull_request s = Some q"
  shows "\<exists>ys r. ps_attempts s = ys @ [r] \<and> rec_observation r = Some (Obs_PullRequest q) \<and>
    pr_confirmed r = Some q"
proof -
  obtain r where r: "r \<in> set (ps_attempts s)" "pr_confirmed r = Some q"
    using conf find_map_SomeD [of pr_confirmed "rev (ps_attempts s)" q]
    by (auto simp: confirmed_pull_request_def)
  then obtain ys zs where split: "ps_attempts s = ys @ r # zs" by (meson split_list)
  from r(2) have obs: "rec_observation r = Some (Obs_PullRequest q)" by (simp only: pr_confirmed_iff)
  have rc: "record_confirmed r" unfolding record_confirmed_def using r(2) by simp
  have ok: "record_ok E contract eligibility r" using reachable_records_ok [OF reach] r(1) by simp
  have "zs = []"
  proof (rule ccontr)
    assume "zs \<noteq> []"
    then obtain z where "z \<in> set zs" by (meson last_in_set)
    from reachable_confirmed_last [OF reach split rc this]
    have "record_operation r < record_operation z" .
    moreover have "record_operation r = Op_PullRequest"
      using ok obs by (cases "rec_intent r") (auto simp: record_ok_def record_operation_def)
    ultimately show False by (cases "record_operation z") (simp_all add: operation_order)
  qed
  with split obs r(2) show ?thesis by auto
qed

text \<open>The pull request that closes a publication is bound to the commit and the pushed head.\<close>

lemma confirmed_pull_request_bound:
  assumes reach: "ledger_reachable E contract eligibility s"
    and conf: "confirmed_pull_request s = Some q"
  obtains i c where "probs_outcome q = PR_Confirmed c" "pr_intent_validate E i contract = Inr ()"
    "pr_outcome_valid E i (PR_Confirmed c)" "ledger_remote_head s = Some (pr_commit_oid i)"
    "ledger_commit_oid s = Some (pr_commit_oid i)"
proof -
  from confirmed_pull_request_last [OF reach conf] obtain ys r where
      last: "ps_attempts s = ys @ [r]" "rec_observation r = Some (Obs_PullRequest q)"
        "pr_confirmed r = Some q" by blast
  from last(3) obtain c where c: "probs_outcome q = PR_Confirmed c" by (auto simp only: pr_confirmed_iff)
  have "record_ok E contract eligibility r" using reachable_records_ok [OF reach] last(1) by simp
  with last(2) obtain i where i: "rec_intent r = Intent_PullRequest i"
      "pr_intent_validate E i contract = Inr ()" "pr_observation_validate E q i = Inr ()"
    by (cases "rec_intent r") (auto simp: record_ok_def)
  have head: "ledger_remote_head s = Some (pr_commit_oid i)"
      "ledger_commit_oid s = Some (pr_commit_oid i)"
    using reachable_bound [OF reach] last(1) i(1) by (auto simp: bound_to_confirmations_def)
  from pr_observation_validateD(4) [OF i(3)] c have "pr_outcome_valid E i (PR_Confirmed c)" by simp
  with that c i(2) head show thesis by blast
qed

section \<open>Completion\<close>

lemma build_completion_iff:
  "build_completion E s contract = Inr v \<longleftrightarrow>
    open_intent s = None \<and> ps_convergence s = None \<and> build_completion_unchecked E s contract = Inr v"
  by (auto simp: build_completion_def completion_validate_against_def result_simps)

lemma build_completion_terminal [simp]:
  "build_completion_unchecked E (s\<lparr>ps_completion := c\<rparr>) contract = build_completion_unchecked E s contract"
  "build_completion_unchecked E (s\<lparr>ps_convergence := v\<rparr>) contract = build_completion_unchecked E s contract"
  by (simp_all add: build_completion_unchecked_def)

lemma open_intent_terminal [simp]:
  "open_intent (s\<lparr>ps_completion := c\<rparr>) = open_intent s"
  "open_intent (s\<lparr>ps_convergence := v\<rparr>) = open_intent s"
  by (simp_all add: open_intent_def)

lemma completion_uncheckedD:
  assumes "build_completion_unchecked E s contract = Inr v"
  shows "\<exists>q c. confirmed_pull_request s = Some q \<and> probs_outcome q = PR_Confirmed c \<and>
      ledger_commit_oid s = Some (pcp_commit_oid v) \<and>
      pcp_pull_request_number v = pcf_pull_request_number c \<and>
      pcp_pull_request_url v = pcf_pull_request_url c \<and> pcp_draft v = pcf_draft c"
    and "pcp_eligibility_id v = ps_eligibility_id s"
    and "pcp_repository_revision v = ps_repository_revision s"
    and "pcp_head_branch v = pc_head_branch contract"
    and "pcp_requested_mode v = ps_requested_mode s"
  using assms
  by (auto simp: build_completion_unchecked_def result_simps ledger_commit_oid_def
      elim!: pr_confirmation_of.elims)

lemma build_completion_total:
  assumes reach: "ledger_reachable E contract eligibility s" and total: "json_total E"
    and conf: "confirmed_pull_request s = Some q"
  shows "\<exists>v. build_completion_unchecked E s contract = Inr v"
proof -
  obtain i c where ic: "probs_outcome q = PR_Confirmed c" "pr_intent_validate E i contract = Inr ()"
      "pr_outcome_valid E i (PR_Confirmed c)" "ledger_remote_head s = Some (pr_commit_oid i)"
      "ledger_commit_oid s = Some (pr_commit_oid i)"
    by (rule confirmed_pull_request_bound [OF reach conf])
  then obtain co oid where commit: "confirmed_commit s = Some (co, oid)"
    by (auto simp: ledger_commit_oid_def)
  from ic(4) obtain p where push: "confirmed_push s = Some p"
    by (cases "confirmed_push s") (auto simp: ledger_remote_head_def)
  obtain h where "completion_expected_hash E (ps_eligibility_id s) (ps_repository_revision s)
      (ps_requested_mode s) (cobs_observation_id co) (pobs_observation_id p)
      (probs_observation_id q) oid (pc_head_branch contract) (pcf_pull_request_number c)
      (pcf_pull_request_url c) (pcf_draft c) = Inr h"
    using record_hash_total [OF total] by (auto simp: completion_expected_hash_def)
  with commit push conf ic(1) show ?thesis by (simp add: build_completion_unchecked_def)
qed

text \<open>A recorded completion is the one the attempts determine.\<close>

lemma reachable_completion:
  "ledger_reachable E contract eligibility s \<Longrightarrow> ps_completion s = Some v \<Longrightarrow>
    build_completion_unchecked E s contract = Inr v \<and> open_intent s = None"
proof (induction rule: ledger_reachable.induct)
  case (reachable_apply s e s')
  have none: "ps_completion s = None" using reachable_apply.hyps(2) by (simp add: ledger_apply_iff)
  from reachable_apply.hyps(2) show ?case
    by (cases rule: ledger_apply_cases)
      (use reachable_apply.prems none in \<open>auto simp: build_completion_iff\<close>)
qed (auto simp: ledger_new_iff)

section \<open>Convergence\<close>

lemma convergence_record_total:
  "json_total E \<Longrightarrow> \<exists>v. convergence_record E s r i h why = Inr v"
  using record_hash_total [of E]
  by (fastforce simp: convergence_record_def convergence_expected_hash_def convergence_expected_id_def
      pub_json_def json_total_def result_simps)

lemma convergence_recordD:
  "convergence_record E s r i h why = Inr v \<Longrightarrow>
    pcv_reason v = why \<and> pcv_final_attempt_id v = at_attempt_id (rec_attempt r) \<and>
    pcv_final_observation_id v = i \<and> pcv_final_observation_hash v = h \<and>
    pcv_eligibility_id v = ps_eligibility_id s"
  by (auto simp: convergence_record_def result_simps)

text \<open>The three ways an observed attempt can stand, by its outcome.\<close>

lemma observed_trichotomy:
  assumes ok: "record_ok E contract eligibility r" and obs: "rec_observation r = Some obs"
  shows
    "(\<exists>operation. observed_next_operation contract r obs = Some operation) \<and> pr_confirmed r = None \<and>
        (observation_reason obs = Inr None \<or>
         (\<exists>failure. publication_attempt_failure r = Some failure \<and>
            retry_left contract r (at_operation (rec_attempt r)) failure)) \<or>
     observed_next_operation contract r obs = None \<and> pr_confirmed r \<noteq> None \<and>
        observation_reason obs = Inr None \<or>
     observed_next_operation contract r obs = None \<and> pr_confirmed r = None \<and>
        (\<exists>why. observation_reason obs = Inr (Some why)) \<and>
        (\<forall>failure. publication_attempt_failure r = Some failure \<longrightarrow>
            \<not> retry_left contract r (at_operation (rec_attempt r)) failure)"
proof -
  have valid: "observation_valid E (rec_intent r) obs" using ok obs by (simp add: record_ok_def)
  have op: "at_operation (rec_attempt r) = record_operation r" using ok by (rule record_ok_operation)
  note fail_ok = observation_failure_valid [OF valid]
  show ?thesis
  proof (cases obs)
    case (Obs_Commit x)
    with valid op obs fail_ok show ?thesis
      by (cases "rec_intent r"; cases "cobs_outcome x")
        (auto simp: observed_next_operation_def observation_reason_def publication_attempt_failure_def
          failure_convergence_reason_def record_operation_def)
  next
    case (Obs_Push x)
    with valid op obs fail_ok show ?thesis
      by (cases "rec_intent r"; cases "pobs_outcome x")
        (auto simp: observed_next_operation_def observation_reason_def publication_attempt_failure_def
          failure_convergence_reason_def record_operation_def)
  next
    case (Obs_PullRequest x)
    with valid op obs fail_ok show ?thesis
      by (cases "rec_intent r"; cases "probs_outcome x")
        (auto simp: observed_next_operation_def observation_reason_def publication_attempt_failure_def
          failure_convergence_reason_def record_operation_def)
  qed
qed

lemma build_convergence_snoc:
  assumes "ps_attempts s = ys @ [r]" and "rec_observation r = Some obs" and "ps_completion s = None"
    and "is_sha256 (snd (exact_identity_and_hash obs))"
    and "\<And>failure. observation_failure obs = Some failure \<Longrightarrow> failure_validate failure"
  shows "build_convergence E s contract =
    (if \<exists>failure. publication_attempt_failure r = Some failure \<and>
          retry_left contract r (at_operation (rec_attempt r)) failure
     then Inr None
     else bnd (observation_reason obs) (\<lambda>reason. case reason of None \<Rightarrow> Inr None
       | Some why \<Rightarrow> bnd (convergence_record E s r (fst (exact_identity_and_hash obs))
           (snd (exact_identity_and_hash obs)) why) (\<lambda>v. Inr (Some v))))"
  using assms
  by (auto simp: build_convergence_def open_intent_def Let_def publication_attempt_failure_def
      split: option.splits prod.splits)

section \<open>Exactly one way on\<close>

definition can_attempt :: "externs \<Rightarrow> publication_state \<Rightarrow> publication_contract \<Rightarrow> bool" where
  "can_attempt E s contract \<longleftrightarrow> (\<exists>operation a. next_attempt E s operation contract = Inr a)"

definition can_complete :: "externs \<Rightarrow> publication_state \<Rightarrow> publication_contract \<Rightarrow> bool" where
  "can_complete E s contract \<longleftrightarrow> (\<exists>v. build_completion E s contract = Inr v)"

definition can_converge :: "externs \<Rightarrow> publication_state \<Rightarrow> publication_contract \<Rightarrow> bool" where
  "can_converge E s contract \<longleftrightarrow> (\<exists>v. build_convergence E s contract = Inr (Some v))"

lemma can_complete_iff:
  assumes reach: "ledger_reachable E contract eligibility s" and total: "json_total E"
    and last: "ps_attempts s = ys @ [r]" and idle: "open_intent s = None" "ps_convergence s = None"
  shows "can_complete E s contract \<longleftrightarrow> pr_confirmed r \<noteq> None"
proof
  assume "can_complete E s contract"
  then obtain v where "build_completion_unchecked E s contract = Inr v"
    by (auto simp: can_complete_def build_completion_iff)
  from completion_uncheckedD(1) [OF this] obtain q where "confirmed_pull_request s = Some q" by blast
  from confirmed_pull_request_last [OF reach this] last have "pr_confirmed r = Some q"
    by (auto simp del: pr_confirmed.simps)
  then show "pr_confirmed r \<noteq> None" by simp
next
  assume "pr_confirmed r \<noteq> None"
  then obtain q where "pr_confirmed r = Some q" by blast
  with last have "confirmed_pull_request s = Some q" by (simp add: confirmed_pull_request_def)
  from build_completion_total [OF reach total this] idle show "can_complete E s contract"
    by (simp add: can_complete_def build_completion_iff)
qed

lemma can_attempt_iff:
  assumes "ledger_reachable E contract eligibility s" and "json_total E"
    and "open_intent s = None" "ps_completion s = None" "ps_convergence s = None"
  shows "can_attempt E s contract \<longleftrightarrow> expected_next_operation s contract \<noteq> None"
  using next_attempt_total [OF assms(1,2) _ assms(3-5)] next_attemptD(1)
  unfolding can_attempt_def by fastforce

lemma exactly_one_way:
  assumes reach: "ledger_reachable E contract eligibility s" and total: "json_total E"
    and hex: "digest_is_hex E"
    and idle: "open_intent s = None" "ps_completion s = None" "ps_convergence s = None"
  shows "can_attempt E s contract \<and> \<not> can_complete E s contract \<and> \<not> can_converge E s contract \<or>
     \<not> can_attempt E s contract \<and> can_complete E s contract \<and> \<not> can_converge E s contract \<or>
     \<not> can_attempt E s contract \<and> \<not> can_complete E s contract \<and> can_converge E s contract"
proof (cases "ps_attempts s" rule: rev_cases)
  case Nil
  then show ?thesis
    using can_attempt_iff [OF reach total idle]
    by (auto simp: expected_next_operation_def can_complete_def can_converge_def build_completion_iff
        build_completion_unchecked_def confirmed_commit_def build_convergence_def result_simps)
next
  case (snoc ys r)
  have ok: "record_ok E contract eligibility r" using reachable_records_ok [OF reach] snoc by simp
  obtain obs where obs: "rec_observation r = Some obs"
    using idle(1) snoc by (auto simp: open_intent_None_iff)
  have valid: "observation_valid E (rec_intent r) obs" using ok obs by (simp add: record_ok_def)
  let ?retry = "\<exists>failure. publication_attempt_failure r = Some failure \<and>
      retry_left contract r (at_operation (rec_attempt r)) failure"
  have conv: "build_convergence E s contract =
    (if ?retry then Inr None
     else bnd (observation_reason obs) (\<lambda>reason. case reason of None \<Rightarrow> Inr None
       | Some why \<Rightarrow> bnd (convergence_record E s r (fst (exact_identity_and_hash obs))
           (snd (exact_identity_and_hash obs)) why) (\<lambda>v. Inr (Some v))))"
    using snoc obs idle(2) observation_hash_hex [OF hex valid] observation_failure_valid [OF valid]
    by (rule build_convergence_snoc)
  have nxt: "expected_next_operation s contract = observed_next_operation contract r obs"
    by (simp add: expected_next_operation_def snoc obs)
  have built: "(\<exists>v. bnd (observation_reason obs) (\<lambda>reason. case reason of None \<Rightarrow> Inr None
       | Some why \<Rightarrow> bnd (convergence_record E s r (fst (exact_identity_and_hash obs))
           (snd (exact_identity_and_hash obs)) why) (\<lambda>v. Inr (Some v))) = Inr (Some v)) \<longleftrightarrow>
      (\<exists>why. observation_reason obs = Inr (Some why))" (is "(\<exists>v. bnd _ ?f = _) \<longleftrightarrow> _")
  proof (cases "observation_reason obs")
    case (Inr reason)
    with convergence_record_total [OF total] show ?thesis
      by (cases reason) (auto simp: bnd_Inr_iff)
  qed simp
  have converge: "can_converge E s contract \<longleftrightarrow>
      (\<exists>why. observation_reason obs = Inr (Some why)) \<and> \<not> ?retry"
    unfolding can_converge_def conv using built by (cases ?retry) (simp_all, blast)
  from observed_trichotomy [OF ok obs] show ?thesis
    unfolding can_attempt_iff [OF reach total idle] nxt converge
      can_complete_iff [OF reach total snoc idle(1,3)]
    by (elim disjE conjE exE) simp_all
qed

section \<open>What a convergence says\<close>

lemma build_convergenceD:
  assumes "build_convergence E s contract = Inr (Some v)"
  obtains ys r obs why where "ps_attempts s = ys @ [r]" "rec_observation r = Some obs"
    "observation_reason obs = Inr (Some why)"
    "\<And>failure. publication_attempt_failure r = Some failure \<Longrightarrow>
      \<not> retry_left contract r (at_operation (rec_attempt r)) failure"
    "convergence_record E s r (fst (exact_identity_and_hash obs))
      (snd (exact_identity_and_hash obs)) why = Inr v"
    "open_intent s = None" "ps_completion s = None"
proof -
  have idle: "open_intent s = None" "ps_completion s = None"
    using assms by (auto simp: build_convergence_def split: if_splits)
  with assms obtain ys r obs where last: "ps_attempts s = ys @ [r]" "rec_observation r = Some obs"
    by (cases "ps_attempts s" rule: rev_cases)
      (auto simp: build_convergence_def split: option.splits)
  obtain i h where ih: "exact_identity_and_hash obs = (i, h)" by fastforce
  have built: "bnd (observation_reason obs) (\<lambda>reason. case reason of None \<Rightarrow> Inr None
       | Some why \<Rightarrow> bnd (convergence_record E s r i h why) (\<lambda>v. Inr (Some v))) = Inr (Some v)"
    and retry: "\<And>failure. publication_attempt_failure r = Some failure \<Longrightarrow>
      \<not> retry_left contract r (at_operation (rec_attempt r)) failure"
    using assms idle last ih
    by (auto simp: build_convergence_def Let_def split: if_splits option.splits)
  from built obtain why where "observation_reason obs = Inr (Some why)"
      "convergence_record E s r i h why = Inr v"
    by (auto simp: bnd_Inr_iff split: option.splits)
  with that [OF last _ retry] idle ih show thesis by simp
qed

lemma build_convergence_terminal [simp]:
  "convergence_record E (s\<lparr>ps_convergence := c\<rparr>) = convergence_record E s"
  by (simp add: convergence_record_def fun_eq_iff)

definition converged_from ::
  "externs \<Rightarrow> publication_contract \<Rightarrow> publication_state \<Rightarrow> publication_convergence \<Rightarrow> bool" where
  "converged_from E contract s v \<longleftrightarrow>
     (\<exists>ys r obs. ps_attempts s = ys @ [r] \<and> rec_observation r = Some obs \<and>
       observation_reason obs = Inr (Some (pcv_reason v)) \<and>
       (\<forall>failure. publication_attempt_failure r = Some failure \<longrightarrow>
          \<not> retry_left contract r (at_operation (rec_attempt r)) failure) \<and>
       pcv_final_attempt_id v = at_attempt_id (rec_attempt r) \<and>
       pcv_final_observation_id v = fst (exact_identity_and_hash obs) \<and>
       pcv_final_observation_hash v = snd (exact_identity_and_hash obs))"

lemma reachable_convergence:
  "ledger_reachable E contract eligibility s \<Longrightarrow> ps_convergence s = Some v \<Longrightarrow>
    converged_from E contract s v \<and> ps_completion s = None"
proof (induction rule: ledger_reachable.induct)
  case (reachable_apply s e s')
  have none: "ps_convergence s = None" "ps_completion s = None"
    using reachable_apply.hyps(2) by (simp_all add: ledger_apply_iff)
  from reachable_apply.hyps(2) show ?case
  proof (cases rule: ledger_apply_cases)
    case (convergence c)
    with reachable_apply.prems have v: "c = v" by simp
    from convergence(2) show ?thesis
    proof (rule build_convergenceD)
      fix ys r obs why
      assume "ps_attempts s = ys @ [r]" "rec_observation r = Some obs"
        and why: "observation_reason obs = Inr (Some why)"
        and "\<And>failure. publication_attempt_failure r = Some failure \<Longrightarrow>
          \<not> retry_left contract r (at_operation (rec_attempt r)) failure"
        and "convergence_record E s r (fst (exact_identity_and_hash obs))
          (snd (exact_identity_and_hash obs)) why = Inr c"
      with convergence_recordD [of E s r _ _ why c] v convergence(3) none show ?thesis
        unfolding converged_from_def by auto
    qed
  qed (use reachable_apply.prems none in simp_all)
qed (auto simp: ledger_new_iff)

lemma reason_exhausted:
  assumes "observation_reason obs = Inr (Some (AttemptsExhausted operation))"
    and "observation_valid E i obs"
  shows "operation = intent_operation i \<and>
    (\<exists>code. observation_failure obs = Some (Retryable code))"
  using assms
  by (cases i; cases obs)
    (auto simp: observation_reason_def failure_convergence_reason_def result_simps
      split: commit_outcome.splits push_outcome.splits pr_outcome.splits if_splits
      elim: failure_is_retryable.elims)

lemma reason_permanent:
  assumes "observation_reason obs = Inr (Some (PermanentFailure operation code))"
    and "observation_valid E i obs"
  shows "operation = intent_operation i \<and> observation_failure obs = Some (Permanent code)"
  using assms
  by (cases i; cases obs)
    (auto simp: observation_reason_def failure_convergence_reason_def result_simps
      split: commit_outcome.splits push_outcome.splits pr_outcome.splits if_splits
      elim: failure_is_retryable.elims)

lemma reason_moved:
  assumes "observation_reason obs = Inr (Some (RemoteBranchMoved m))"
    and "observation_valid E i obs"
  shows "\<exists>p mv j. obs = Obs_Push p \<and> i = Intent_Push j \<and> pobs_outcome p = Push_RemoteBranchMoved mv \<and>
    bm_movement_id mv = m \<and> bm_observed_remote_head mv \<noteq> pi_expected_remote_head j \<and>
    bm_observed_remote_head mv \<noteq> Some (pi_commit_oid j)"
  using assms
  by (cases i; cases obs)
    (auto simp: observation_reason_def failure_convergence_reason_def result_simps
      movement_validate_def dest!: push_observation_validateD(4)
      split: commit_outcome.splits push_outcome.splits pr_outcome.splits if_splits)

lemma exhausted_count:
  assumes reach: "ledger_reachable E contract eligibility s" and conv: "ps_convergence s = Some v"
    and why: "pcv_reason v = AttemptsExhausted operation"
  shows "operation_count s operation = unat (operation_attempt_limit contract operation)"
proof -
  from reachable_convergence [OF reach conv] obtain ys r obs where
      last: "ps_attempts s = ys @ [r]" "rec_observation r = Some obs"
      and reason: "observation_reason obs = Inr (Some (AttemptsExhausted operation))"
      and retry: "\<And>failure. publication_attempt_failure r = Some failure \<Longrightarrow>
          \<not> retry_left contract r (at_operation (rec_attempt r)) failure"
    unfolding converged_from_def why by blast
  have ok: "record_ok E contract eligibility r" using reachable_records_ok [OF reach] last by simp
  with last(2) have "observation_valid E (rec_intent r) obs" by (simp add: record_ok_def)
  from reason_exhausted [OF reason this] obtain code where
      op: "record_operation r = operation" and "observation_failure obs = Some (Retryable code)"
    by (auto simp: record_operation_def)
  with retry [of "Retryable code"] last(2) record_ok_operation [OF ok]
  have "\<not> at_operation_attempt (rec_attempt r) < operation_attempt_limit contract operation"
    by (simp add: publication_attempt_failure_def retry_left_def)
  with reachable_numbered [OF reach] last op show ?thesis
    by (simp add: numbered_def word_less_unat) (metis le_antisym not_less)
qed

section \<open>The push is always ready\<close>

lemma commit_confirmation_iff:
  "commit_confirmation r = Some (c, oid) \<longleftrightarrow>
    rec_observation r = Some (Obs_Commit c) \<and> confirmed_commit_oid c = Some oid"
  by (cases "rec_observation r"; cases "the (rec_observation r)") auto

lemma reachable_commit_oid_valid:
  assumes "ledger_reachable E contract eligibility s" and "ledger_commit_oid s = Some oid"
  shows "git_oid_is_valid oid"
proof -
  from assms(2) obtain c where "find_map commit_confirmation (rev (ps_attempts s)) = Some (c, oid)"
    by (auto simp: ledger_commit_oid_def confirmed_commit_def)
  from find_map_SomeD [OF this] obtain r where r: "r \<in> set (ps_attempts s)"
      "rec_observation r = Some (Obs_Commit c)" "confirmed_commit_oid c = Some oid"
    by (auto simp only: set_rev commit_confirmation_iff)
  with reachable_records_ok [OF assms(1)] have "record_ok E contract eligibility r" by simp
  with r show ?thesis
    by (cases "rec_intent r") (auto simp: record_ok_def dest: confirmed_commit_oid_valid)
qed

lemma push_intent_new_total:
  assumes "json_total E" and "contract_validate E contract = Inr ()" and "git_oid_is_valid oid"
    and "attempt_validate E a = Inr ()" and "at_operation a = Op_Push"
  shows "\<exists>i. push_intent_new E a contract oid = Inr i"
proof -
  obtain h where "push_intent_expected_hash E a contract oid (pc_expected_remote_head contract) = Inr h"
    using record_hash_total [OF assms(1)] by (auto simp: push_intent_expected_hash_def)
  with assms(3-5) contract_validateD [OF assms(2)] show ?thesis
    by (cases "pc_expected_remote_head contract")
      (simp_all add: push_intent_new_def push_intent_validate_def Let_def)
qed

lemma push_ready:
  assumes reach: "ledger_reachable E contract eligibility s" and total: "json_total E"
    and idle: "open_intent s = None" "ps_completion s = None" "ps_convergence s = None"
    and nxt: "expected_next_operation s contract = Some Op_Push"
    and commit: "ledger_commit_oid s = Some oid"
  shows "\<exists>i s'. prepare_push_intent E s contract eligibility = Inr i \<and>
    ledger_apply E contract eligibility s (PushIntentPersisted i) = Inr s'"
proof -
  have pre: "validate_prerequisites E s contract eligibility = Inr ()"
    using reach by (rule reachable_prerequisites)
  then have c: "contract_validate E contract = Inr ()"
    by (simp add: validate_prerequisites_def result_simps)
  from next_attempt_total [OF reach total nxt idle] obtain a where
    a: "next_attempt E s Op_Push contract = Inr a" by blast
  from push_intent_new_total [OF total c reachable_commit_oid_valid [OF reach commit]
      attempt_newD(1) [OF attempt_of_next [OF a]] next_attemptD(6) [OF a]]
  obtain i where i: "push_intent_new E a contract oid = Inr i" by blast
  have "prepare_push_intent E s contract eligibility = Inr i"
    using pre commit a i by (simp add: prepare_push_intent_def)
  moreover have "apply_event E s (intent_event (Intent_Push i)) contract eligibility =
      Inr (s\<lparr>ps_attempts := ps_attempts s @ [fresh_record (Intent_Push i)]\<rparr>)"
    unfolding apply_intent_iff
    using push_intent_newD [OF i] idle a commit by (simp add: intent_binding_def)
  ultimately show ?thesis using pre idle by (auto simp: ledger_apply_iff)
qed

lemma next_push_commit:
  assumes reach: "ledger_reachable E contract eligibility s"
    and nxt: "expected_next_operation s contract = Some Op_Push"
  shows "\<exists>oid. ledger_commit_oid s = Some oid"
proof (cases "ps_attempts s" rule: rev_cases)
  case (snoc ys r)
  with nxt obtain obs where obs: "rec_observation r = Some obs"
      "observed_next_operation contract r obs = Some Op_Push"
    by (auto simp: expected_next_operation_def split: option.splits)
  have ok: "record_ok E contract eligibility r" using reachable_records_ok [OF reach] snoc by simp
  from observed_next_cases [OF ok obs] show ?thesis
  proof (elim disjE conjE)
    assume "Op_Push = record_operation r"
    then obtain i where "rec_intent r = Intent_Push i"
      by (cases "rec_intent r") (simp_all add: record_operation_def)
    with reachable_bound [OF reach] snoc show ?thesis by (auto simp: bound_to_confirmations_def)
  next
    assume "commit_confirmation r \<noteq> None"
    then obtain c where "commit_confirmation r = Some c" by blast
    with snoc show ?thesis
      by (simp add: ledger_commit_oid_def confirmed_commit_def del: commit_confirmation.simps)
  qed simp_all
qed (use nxt in \<open>simp add: expected_next_operation_def\<close>)

end
