(* ===== verification/Publication_Samples.thy ===== *)
theory Publication_Samples
  imports Publication_Outcome
begin

text \<open>
  A concrete publication, from the finalization policy to the recorded completion, on which the
  properties of the publication components are instantiated. The external crates are a digest that
  always answers the same 64 hexadecimal digits, a serialiser that always succeeds and a URL parser
  that returns its argument.
\<close>

definition H :: string where "H = replicate 64 CHR ''a''"
definition OID :: string where "OID = replicate 40 CHR ''b''"
definition PARENT :: string where "PARENT = replicate 40 CHR ''c''"
definition ID :: string where "ID = ''epv1:'' @ H"
definition URL :: string where "URL = ''https://github.com/o/r/pull/7''"

definition XT :: externs where
  "XT = \<lparr>sha256_hex = (\<lambda>_. H), to_json = (\<lambda>_. Some ''{}''),
     parse_url = (\<lambda>s. Some \<lparr>url_scheme = ''https'', url_host_str = Some ''github.com'',
       url_username = [], url_password = None, url_query = None, url_fragment = None,
       url_as_str = s\<rparr>), str_lowercase = ascii_lower\<rparr>"

lemma H_valid [simp]: "is_sha256 H" "git_oid_is_valid H"
  by (simp_all add: is_sha256_def git_oid_is_valid_def H_def lower_hex_def ascii_digit_def byte_def
      list_all_iff)

lemma OID_valid [simp]: "git_oid_is_valid OID" "git_oid_is_valid PARENT"
  by (simp_all add: git_oid_is_valid_def OID_def PARENT_def lower_hex_def ascii_digit_def byte_def
      list_all_iff)

lemma XT_digest [simp]: "stable_sha256 XT parts = H" "epv1 XT parts = ID" "sha256_hex XT s = H"
  "record_hash XT tag v = Inr H" "review_json XT v = Inr ''{}''" "pub_json XT v = Inr ''{}''"
  by (simp_all add: stable_sha256_def epv1_def XT_def ID_def record_hash_def pub_json_def review_json_def)

lemma XT_json_total: "json_total XT" and XT_digest_is_hex: "digest_is_hex XT"
  by (simp_all add: json_total_def digest_is_hex_def) (simp add: XT_def)

lemma ref_main [simp]: "git_ref_is_valid ''main''" "git_ref_is_valid ''agent/run''"
  by code_simp+

section \<open>Contract, policy and eligibility\<close>

definition sample_contract :: publication_contract where
  "sample_contract = \<lparr>pc_schema_version = 1, pc_contract_id = ID, pc_requested_mode = Normal,
     pc_repository_binding_hash = H, pc_installation_binding_hash = H,
     pc_base_repository_revision = ''r0'', pc_base_ref = ''main'', pc_head_branch = ''agent/run'',
     pc_expected_remote_head = Some PARENT, pc_commit_identity_hash = H,
     pc_max_commit_attempts = 2, pc_max_push_attempts = 2, pc_max_pr_attempts = 2\<rparr>"

definition sample_policy :: finalization_policy where
  "sample_policy = \<lparr>fp_schema_version = 1, fp_policy_id = ID, fp_policy_evidence_id = ''ev'',
     fp_max_changed_paths = 16, fp_max_diff_pages = 4, fp_max_page_bytes = 1024,
     fp_max_total_diff_bytes = 4096, fp_max_uncontacted_releases_per_binding = 2,
     fp_external_review_criteria = [], fp_publication = sample_contract\<rparr>"

definition sample_ancestry :: engineering_ancestry where
  "sample_ancestry = \<lparr>ea_schema_version = 1, ea_repository_revision = ''r1'',
     ea_repository_fingerprint = H, ea_implementation_barrier_proof_id = ''p1'',
     ea_required_validation_proof_id = ''p2'', ea_ordered_revision_proof_ids = [''p1'', ''p2''],
     ea_ancestry_hash = H\<rparr>"

definition sample_manifest :: diff_manifest where
  "sample_manifest = \<lparr>dm_schema_version = 1, dm_manifest_id = ''m'', dm_effect_id = ''e'',
     dm_review_node_id = ''n'', dm_plan_id = ''pl'', dm_plan_revision_id = ''pr'',
     dm_policy_id = ID, dm_base_repository_revision = ''r0'', dm_repository_revision = ''r1'',
     dm_required_validation_proof_id = ''p2'', dm_repository_fingerprint = H,
     dm_changed_paths = [Ser_Str ''a.rs''], dm_plan_assessment = Ser_Null, dm_pages = [],
     dm_total_bytes = 12, dm_diff_hash = H\<rparr>"

definition sample_review :: diff_review where
  "sample_review = \<lparr>dr_schema_version = 1, dr_review_id = ''dr'', dr_node_id = ''n'',
     dr_repository_revision = ''r1'', dr_manifest_id = ''m'', dr_diff_hash = H,
     dr_ordered_page_review_ids = [], dr_finding_ids = [], dr_disposition = Review_Accepted,
     dr_review_hash = H\<rparr>"

definition sample_completion :: completion_evaluation where
  "sample_completion = \<lparr>ce_schema_version = 1, ce_evaluation_id = ''ce'', ce_action_id = ''a'',
     ce_call_id = ''c'', ce_node_id = ''n'', ce_repository_revision = ''r1'', ce_plan_id = ''pl'',
     ce_plan_revision_id = ''pr'', ce_required_validation_proof_id = ''p2'', ce_manifest_id = ''m'',
     ce_diff_review_id = ''dr'', ce_criteria = Ser_Null, ce_disposition = Complete,
     ce_evaluation_hash = H\<rparr>"

definition sample_authority :: authority_observation where
  "sample_authority = \<lparr>ao_schema_version = 1, ao_authority_id = ID, ao_effect_id = ID,
     ao_policy_id = ID, ao_contract_id = ID, ao_repository_revision = ''r1'',
     ao_repository_head_oid = PARENT, ao_repository_tree_oid = H, ao_repository_binding_hash = H,
     ao_installation_binding_hash = H, ao_base_repository_revision = ''r0'', ao_base_ref = ''main'',
     ao_head_branch = ''agent/run'', ao_expected_remote_head = Some PARENT,
     ao_observed_remote_head = Some PARENT, ao_lease_epoch_hash = H, ao_cancellation_absent = True,
     ao_lease_valid = True, ao_remote_head_unchanged = True, ao_observation_hash = H\<rparr>"

definition sample_facts :: eligibility_facts where
  "sample_facts = \<lparr>ef_required_implementation_satisfied = True,
     ef_required_validation_current = True, ef_no_active_validation_failure = True,
     ef_no_active_work_or_reservation = True\<rparr>"

definition sample_eligibility :: eligibility_record where
  "sample_eligibility = \<lparr>er_schema_version = 1, er_eligibility_id = ID, er_policy_id = ID,
     er_contract_id = ID, er_repository_revision = ''r1'', er_requested_mode = Normal,
     er_implementation_barrier_proof_id = ''p1'', er_required_validation_proof_id = ''p2'',
     er_review_proof_id = ''p3'', er_completion_proof_id = ''p4'', er_manifest_id = ''m'',
     er_diff_review_id = ''dr'', er_completion_evaluation_id = ''ce'', er_authority_id = ID,
     er_ancestry_hash = H, er_facts = sample_facts,
     er_predicates = map (\<lambda>p. (p, Passed)) PREDICATES_ALL, er_disposition = Granted,
     er_decision_hash = H\<rparr>"

lemma sample_contract_valid [simp]: "contract_validate XT sample_contract = Inr ()"
  by (simp add: contract_validate_def sample_contract_def REVIEW_SCHEMA_VERSION_def Let_def
      contract_expected_id_def)

lemma sample_policy_valid [simp]: "policy_validate XT sample_policy = Inr ()"
  by (simp add: policy_validate_def sample_policy_def REVIEW_SCHEMA_VERSION_def Let_def
      policy_expected_id_def MAX_CHANGED_PATHS_def MAX_DIFF_PAGES_def MAX_DIFF_PAGE_BYTES_def
      MAX_DIFF_TOTAL_BYTES_def MAX_UNCONTACTED_RELEASES_PER_BINDING_def MAX_CRITERIA_def)

lemma sample_ancestry_valid [simp]: "ancestry_validate XT sample_ancestry = Inr ()"
  by (simp add: ancestry_validate_def sample_ancestry_def REVIEW_SCHEMA_VERSION_def Let_def
      ancestry_expected_hash_def)

lemma sample_may_publish: "may_publish sample_policy sample_ancestry sample_manifest sample_review
    sample_completion sample_authority sample_facts"
  by (simp add: may_publish_def sample_policy_def sample_ancestry_def sample_manifest_def
      sample_review_def sample_completion_def sample_authority_def sample_facts_def
      sample_contract_def records_current_def manifest_is_empty_def review_complete_def
      coordinates_match_def)

lemma sample_predicates:
  "expected_publication_predicates sample_policy sample_ancestry sample_manifest sample_review
    sample_completion sample_authority sample_facts = Inr (map (\<lambda>p. (p, Passed)) PREDICATES_ALL)"
proof -
  have "list_all (\<lambda>(p, ok, code). ok) (predicate_checks sample_policy sample_ancestry
      sample_manifest sample_review sample_completion sample_authority sample_facts)"
    using sample_may_publish by (simp add: checks_pass_iff)
  then have passed: "map (\<lambda>(p, ok, code). (p, if ok then Passed else Failed_Code code))
      (predicate_checks sample_policy sample_ancestry sample_manifest sample_review
        sample_completion sample_authority sample_facts) =
      map (\<lambda>(p, ok, code). (p, Passed)) (predicate_checks sample_policy sample_ancestry
        sample_manifest sample_review sample_completion sample_authority sample_facts)"
    by (auto simp: list_all_iff)
  have bound: "ce_manifest_id sample_completion = dm_manifest_id sample_manifest"
      "ce_diff_review_id sample_completion = dr_review_id sample_review"
      "ce_required_validation_proof_id sample_completion =
        ea_required_validation_proof_id sample_ancestry"
    by (simp_all add: sample_completion_def sample_manifest_def sample_review_def
        sample_ancestry_def)
  have keys: "map (\<lambda>(p, ok, code). (p, Passed)) (predicate_checks sample_policy sample_ancestry
        sample_manifest sample_review sample_completion sample_authority sample_facts) =
      map (\<lambda>p. (p, Passed)) PREDICATES_ALL"
    by (simp add: predicate_checks_def PREDICATES_ALL_def)
  show ?thesis
    by (simp add: expected_publication_predicates_def foldl_insert_predicate sorted_checks passed
        bound keys)
qed

lemma sample_eligibility_new:
  "eligibility_new XT sample_policy sample_ancestry sample_manifest sample_review ''p3''
     sample_completion ''p4'' sample_authority sample_facts = Inr sample_eligibility"
proof -
  let ?passed = "map (\<lambda>p. (p, Passed)) PREDICATES_ALL"
  have granted: "disposition_of ?passed = Granted"
    by (simp add: disposition_of_def failed_predicates_def PREDICATES_ALL_def)
  have valid: "list_all predicate_result_valid (bt_values ?passed)"
    by (simp add: bt_values_def list_all_iff)
  show ?thesis
    by (simp add: eligibility_new_def eligibility_validate_def Let_def sample_predicates granted valid
        eligibility_expected_hash_def)
      (simp add: sample_eligibility_def sample_policy_def sample_ancestry_def sample_manifest_def
        sample_review_def sample_completion_def sample_authority_def sample_contract_def
        REVIEW_SCHEMA_VERSION_def)
qed

lemma sample_publishable [simp]:
  "validate_for_publication XT sample_eligibility sample_contract ''r1'' = Inr ()"
  by (simp add: validate_for_publication_def is_granted_def)
    (simp add: sample_eligibility_def sample_contract_def)

section \<open>A run to completion\<close>

definition sample_attempt :: "u32 \<Rightarrow> publication_operation \<Rightarrow> string option \<Rightarrow> attempt" where
  "sample_attempt n operation prior = \<lparr>at_schema_version = 1, at_attempt_id = ID, at_sequence = n,
     at_operation = operation, at_operation_attempt = 1, at_prior_attempt_id = prior,
     at_repository_revision = ''r1'', at_eligibility_id = ID, at_attempt_hash = H\<rparr>"

definition sample_tree :: tree_binding where
  "sample_tree = \<lparr>tb_manifest_id = ''m'', tb_diff_hash = H, tb_repository_tree_oid = H,
     tb_parent_commit_oid = PARENT, tb_binding_hash = H\<rparr>"

definition sample_commit :: commit_intent where
  "sample_commit = \<lparr>ci_schema_version = 1, ci_intent_id = ID, ci_effect_id = ID,
     ci_attempt = sample_attempt 1 Op_Commit None, ci_contract_id = ID,
     ci_commit_identity_hash = H, ci_tree = sample_tree, ci_intent_hash = H\<rparr>"

definition sample_commit_obs :: commit_observation where
  "sample_commit_obs = \<lparr>cobs_schema_version = 1, cobs_observation_id = ID, cobs_effect_id = ID,
     cobs_intent_id = ID, cobs_attempt_id = ID,
     cobs_outcome = Commit_Confirmed Commit_Created OID H PARENT H, cobs_observation_hash = H\<rparr>"

definition sample_push :: push_intent where
  "sample_push = \<lparr>pi_schema_version = 1, pi_intent_id = ID, pi_effect_id = ID,
     pi_attempt = sample_attempt 2 Op_Push (Some ID), pi_contract_id = ID,
     pi_repository_binding_hash = H, pi_installation_binding_hash = H,
     pi_head_branch = ''agent/run'', pi_commit_oid = OID, pi_expected_remote_head = Some PARENT,
     pi_intent_hash = H\<rparr>"

definition sample_push_obs :: push_observation where
  "sample_push_obs = \<lparr>pobs_schema_version = 1, pobs_observation_id = ID, pobs_effect_id = ID,
     pobs_intent_id = ID, pobs_attempt_id = ID, pobs_outcome = Push_Confirmed Push_Pushed OID,
     pobs_observation_hash = H\<rparr>"

definition sample_moved :: push_observation where
  "sample_moved = \<lparr>pobs_schema_version = 1, pobs_observation_id = ID, pobs_effect_id = ID,
     pobs_intent_id = ID, pobs_attempt_id = ID,
     pobs_outcome = Push_RemoteBranchMoved \<lparr>bm_schema_version = 1, bm_movement_id = ID,
       bm_push_intent_id = ID, bm_expected_remote_head = Some PARENT,
       bm_observed_remote_head = None, bm_movement_hash = H\<rparr>,
     pobs_observation_hash = H\<rparr>"

definition sample_pr :: pr_intent where
  "sample_pr = \<lparr>pr_schema_version = 1, pr_intent_id = ID, pr_effect_id = ID,
     pr_attempt = sample_attempt 3 Op_PullRequest (Some ID), pr_contract_id = ID,
     pr_repository_binding_hash = H, pr_installation_binding_hash = H, pr_base_ref = ''main'',
     pr_head_branch = ''agent/run'', pr_commit_oid = OID, pr_requested_mode = Normal,
     pr_draft = False, pr_execution_marker_hash = H, pr_title_hash = H, pr_title_bytes = 5,
     pr_body_hash = H, pr_body_bytes = 64, pr_intent_hash = H\<rparr>"

definition sample_pr_obs :: pr_observation where
  "sample_pr_obs = \<lparr>probs_schema_version = 1, probs_observation_id = ID, probs_effect_id = ID,
     probs_intent_id = ID, probs_attempt_id = ID,
     probs_outcome = PR_Confirmed \<lparr>pcf_reconciliation = PR_Created, pcf_pull_request_number = 7,
       pcf_pull_request_url = URL, pcf_node_id_hash = H, pcf_base_ref = ''main'',
       pcf_head_branch = ''agent/run'', pcf_observed_head = OID, pcf_execution_marker_hash = H,
       pcf_draft = False\<rparr>,
     probs_observation_hash = H\<rparr>"

definition sample_record :: publication_completion where
  "sample_record = \<lparr>pcp_schema_version = 1, pcp_completion_id = ID, pcp_eligibility_id = ID,
     pcp_repository_revision = ''r1'', pcp_requested_mode = Normal, pcp_commit_observation_id = ID,
     pcp_push_observation_id = ID, pcp_pull_request_observation_id = ID, pcp_commit_oid = OID,
     pcp_head_branch = ''agent/run'', pcp_pull_request_number = 7, pcp_pull_request_url = URL,
     pcp_draft = False, pcp_completion_hash = H\<rparr>"

definition sample_moved_record :: publication_convergence where
  "sample_moved_record = \<lparr>pcv_schema_version = 1, pcv_convergence_id = ID, pcv_eligibility_id = ID,
     pcv_repository_revision = ''r1'', pcv_final_attempt_id = ID,
     pcv_final_observation_id = ObsId_Push ID, pcv_final_observation_hash = H,
     pcv_reason = RemoteBranchMoved ID, pcv_convergence_hash = H\<rparr>"

text \<open>The ledger with these attempts and no terminal record, and the records the runs go through.\<close>

definition sample_state :: "attempt_record list \<Rightarrow> publication_state" where
  "sample_state attempts = \<lparr>ps_schema_version = 1, ps_execution_id = ''x'',
     ps_publication_node_id = ''n'', ps_contract_id = ID, ps_eligibility_id = ID,
     ps_repository_revision = ''r1'', ps_requested_mode = Normal, ps_attempts = attempts,
     ps_completion = None, ps_convergence = None\<rparr>"

definition observed :: "attempt_intent \<Rightarrow> attempt_observation \<Rightarrow> attempt_record" where
  "observed i obs = (fresh_record i)\<lparr>rec_observation := Some obs\<rparr>"

definition R1 :: attempt_record where
  "R1 = observed (Intent_Commit sample_commit) (Obs_Commit sample_commit_obs)"
definition R2 :: attempt_record where
  "R2 = observed (Intent_Push sample_push) (Obs_Push sample_push_obs)"
definition R3 :: attempt_record where
  "R3 = observed (Intent_PullRequest sample_pr) (Obs_PullRequest sample_pr_obs)"
definition RM :: attempt_record where
  "RM = observed (Intent_Push sample_push) (Obs_Push sample_moved)"

lemma observed_simps [simp]:
  "rec_attempt (observed i obs) = intent_attempt i" "rec_intent (observed i obs) = i"
  "rec_observation (observed i obs) = Some obs"
  by (simp_all add: observed_def)

lemma sample_state_simps [simp]:
  "ps_attempts (sample_state as) = as" "ps_completion (sample_state as) = None"
  "ps_convergence (sample_state as) = None" "ps_eligibility_id (sample_state as) = ID"
  "ps_repository_revision (sample_state as) = ''r1''"
  "ps_requested_mode (sample_state as) = Normal" "ps_execution_id (sample_state as) = ''x''"
  "(sample_state as)\<lparr>ps_attempts := bs\<rparr> = sample_state bs"
  by (simp_all add: sample_state_def)

lemma sample_prerequisites [simp]:
  "validate_prerequisites XT (sample_state as) sample_contract sample_eligibility = Inr ()"
proof -
  have "\<not> blank ''x''" "\<not> blank ''n''" by (simp_all add: not_blank_Cons byte_def)
  then show ?thesis
    by (simp add: validate_prerequisites_def from_review_def)
      (simp add: sample_state_def sample_contract_def sample_eligibility_def
        PUBLICATION_SCHEMA_VERSION_def)
qed

lemma sample_new: "ledger_new XT ''x'' ''n'' sample_contract sample_eligibility = Inr (sample_state [])"
proof -
  have "\<not> blank ''x''" "\<not> blank ''n''" by (simp_all add: not_blank_Cons byte_def)
  moreover have "er_repository_revision sample_eligibility = ''r1''"
    by (simp add: sample_eligibility_def)
  ultimately show ?thesis
    by (simp add: ledger_new_iff)
      (simp add: sample_state_def sample_contract_def sample_eligibility_def
        PUBLICATION_SCHEMA_VERSION_def)
qed

lemma sample_attempt_simps [simp]:
  "at_operation (sample_attempt n operation prior) = operation"
  "at_operation_attempt (sample_attempt n operation prior) = 1"
  "at_attempt_id (sample_attempt n operation prior) = ID"
  "n \<noteq> 0 \<Longrightarrow> attempt_validate XT (sample_attempt n operation prior) = Inr ()"
  by (simp_all add: sample_attempt_def attempt_validate_def attempt_expected_hash_def
      attempt_derived_id_def PUBLICATION_SCHEMA_VERSION_def)

lemma sample_limit [simp]: "operation_attempt_limit sample_contract operation = 2"
  by (cases operation) (simp_all add: operation_attempt_limit_def sample_contract_def)

lemma sample_next_attempt:
  assumes "expected_next_operation (sample_state as) sample_contract = Some operation"
    and "open_intent (sample_state as) = None" and "operation_count (sample_state as) operation = 0"
    and "sat_add (clip_word (length as)) 1 = n" and "n \<noteq> 0"
    and "map_option (\<lambda>r. at_attempt_id (rec_attempt r)) (last_of as) = prior"
  shows "next_attempt XT (sample_state as) operation sample_contract =
    Inr (sample_attempt n operation prior)"
proof -
  have one: "sat_add (clip_word 0) (1 :: u32) = 1" by (simp add: sat_add_def clip_word_def)
  have "attempt_new XT n operation 1 prior ''r1'' ID = Inr (sample_attempt n operation prior)"
    using \<open>n \<noteq> 0\<close> by (simp add: attempt_new_def attempt_expected_hash_def attempt_derived_id_def
        PUBLICATION_SCHEMA_VERSION_def attempt_validate_def Let_def sample_attempt_def)
  with assms one show ?thesis by (simp add: next_attempt_def)
qed

lemma sample_intents_valid [simp]:
  "commit_intent_validate XT sample_commit sample_contract sample_eligibility = Inr ()"
  "push_intent_validate XT sample_push sample_contract = Inr ()"
  "pr_intent_validate XT sample_pr sample_contract = Inr ()"
proof -
  have "tree_validate_against XT sample_tree sample_eligibility = Inr ()"
    by (simp add: tree_validate_against_def sample_tree_def sample_eligibility_def
        tree_expected_hash_def)
  then show "commit_intent_validate XT sample_commit sample_contract sample_eligibility = Inr ()"
    by (simp add: commit_intent_validate_def sample_commit_def commit_intent_expected_hash_def
        commit_intent_id_def commit_effect_id_def Let_def PUBLICATION_SCHEMA_VERSION_def)
      (simp add: sample_contract_def sample_tree_def)
  show "push_intent_validate XT sample_push sample_contract = Inr ()"
    by (simp add: push_intent_validate_def sample_push_def push_intent_expected_hash_def
        push_intent_id_def push_effect_id_def Let_def PUBLICATION_SCHEMA_VERSION_def)
      (simp add: sample_contract_def)
  show "pr_intent_validate XT sample_pr sample_contract = Inr ()"
    by (simp add: pr_intent_validate_def sample_pr_def pr_intent_expected_hash_def
        derived_pr_intent_id_def derived_pr_effect_id_def Let_def PUBLICATION_SCHEMA_VERSION_def)
      (simp add: sample_contract_def mode_is_draft_def MAX_PULL_REQUEST_TITLE_BYTES_def
        MAX_PULL_REQUEST_BODY_BYTES_def)
qed

lemma sample_url_valid [simp]: "pull_request_url_is_valid XT URL"
proof -
  have "list_all (\<lambda>b. \<not> (ascii_control b \<or> ascii_whitespace b)) URL"
    by (simp add: URL_def ascii_control_def ascii_whitespace_def byte_def)
  then show ?thesis
    by (simp add: pull_request_url_is_valid_def list_ex_iff list_all_iff)
      (simp add: XT_def URL_def MAX_PULL_REQUEST_URL_BYTES_def)
qed

lemma sample_observations_valid [simp]:
  "commit_observation_validate XT sample_commit_obs sample_commit = Inr ()"
  "push_observation_validate XT sample_push_obs sample_push = Inr ()"
  "push_observation_validate XT sample_moved sample_push = Inr ()"
  "pr_observation_validate XT sample_pr_obs sample_pr = Inr ()"
  by (simp_all add: commit_observation_validate_def push_observation_validate_def
      pr_observation_validate_def commit_observation_expected_hash_def
      push_observation_expected_hash_def pr_observation_expected_hash_def commit_observation_id_def
      push_observation_id_def pr_observation_id_def sample_commit_obs_def sample_push_obs_def
      sample_moved_def sample_pr_obs_def sample_commit_def sample_push_def sample_pr_def
      sample_tree_def PUBLICATION_SCHEMA_VERSION_def movement_validate_def
      movement_expected_hash_def movement_id_def)

lemma sample_step_intent:
  assumes "intent_valid XT sample_contract sample_eligibility i"
    and "open_intent (sample_state as) = None"
    and "next_attempt XT (sample_state as) (intent_operation i) sample_contract = Inr (intent_attempt i)"
    and "intent_binding XT (sample_state as) i = Inr ()"
  shows "ledger_apply XT sample_contract sample_eligibility (sample_state as) (intent_event i) =
    Inr (sample_state (as @ [fresh_record i]))"
  using assms by (simp add: ledger_apply_iff apply_intent_iff)

lemma sample_step_observation:
  assumes "observation_valid XT i obs"
  shows "ledger_apply XT sample_contract sample_eligibility (sample_state (as @ [fresh_record i]))
    (observation_event obs) = Inr (sample_state (as @ [observed i obs]))"
  using assms by (simp add: ledger_apply_iff apply_observation_iff observed_def)

lemma sample_records:
  "commit_confirmation R1 = Some (sample_commit_obs, OID)" "commit_confirmation R2 = None"
  "commit_confirmation R3 = None" "push_confirmation R1 = None"
  "push_confirmation R2 = Some sample_push_obs" "push_confirmation R3 = None"
  "pr_confirmed R3 = Some sample_pr_obs" "record_commit_intent R1 = Some sample_commit"
  "record_pr_intent R1 = None" "record_pr_intent R2 = None"
  "push_confirmed_remote_head sample_push_obs = Some OID"
  by (simp_all add: R1_def R2_def R3_def confirmed_commit_oid_def push_confirmed_remote_head_def
      sample_commit_obs_def sample_push_obs_def sample_pr_obs_def)

lemma sample_open [simp]: "open_intent (sample_state []) = None"
  "open_intent (sample_state [R1]) = None" "open_intent (sample_state [R1, R2]) = None"
  "open_intent (sample_state [R1, RM]) = None" "open_intent (sample_state [R1, R2, R3]) = None"
  by (simp_all add: open_intent_def last_of_def R1_def R2_def R3_def RM_def)

lemma sample_intent_attempts [simp]:
  "ci_attempt sample_commit = sample_attempt 1 Op_Commit None"
  "pi_attempt sample_push = sample_attempt 2 Op_Push (Some ID)"
  "pr_attempt sample_pr = sample_attempt 3 Op_PullRequest (Some ID)"
  by (simp_all add: sample_commit_def sample_push_def sample_pr_def)

lemma sample_sequence [simp]:
  "sat_add (clip_word 0) (1 :: u32) = 1" "sat_add (clip_word (Suc 0)) (1 :: u32) = 2"
  "sat_add (clip_word (Suc (Suc 0))) (1 :: u32) = 3"
  by (simp_all add: sat_add_def clip_word_def)

lemma sample_next:
  "next_attempt XT (sample_state []) Op_Commit sample_contract = Inr (sample_attempt 1 Op_Commit None)"
  "next_attempt XT (sample_state [R1]) Op_Push sample_contract =
    Inr (sample_attempt 2 Op_Push (Some ID))"
  "next_attempt XT (sample_state [R1, R2]) Op_PullRequest sample_contract =
    Inr (sample_attempt 3 Op_PullRequest (Some ID))"
  by (rule sample_next_attempt; simp add: expected_next_operation_def operation_count_def last_of_def
      open_intent_def observed_next_operation_def R1_def R2_def sample_commit_obs_def
      sample_push_obs_def)+

lemma sample_reads:
  "ledger_commit_oid (sample_state [R1]) = Some OID"
  "ledger_remote_head (sample_state [R1, R2]) = Some OID"
  "confirmed_commit (sample_state [R1, R2, R3]) = Some (sample_commit_obs, OID)"
  "confirmed_push (sample_state [R1, R2, R3]) = Some sample_push_obs"
  "confirmed_pull_request (sample_state [R1, R2, R3]) = Some sample_pr_obs"
  "last_pull_request_intent (sample_state [R1, R2]) = None"
  "last_commit_intent (sample_state []) = None"
  by (simp_all add: ledger_reads last_pull_request_intent_def last_commit_intent_def sample_records
      del: commit_confirmation.simps push_confirmation.simps pr_confirmed.simps
        record_commit_intent.simps record_pr_intent.simps)

abbreviation sample_apply where
  "sample_apply \<equiv> ledger_apply XT sample_contract sample_eligibility"

lemma sample_step1: "sample_apply (sample_state []) (CommitIntentPersisted sample_commit) =
    Inr (sample_state [fresh_record (Intent_Commit sample_commit)])"
  using sample_step_intent [of "Intent_Commit sample_commit" "[]"]
  by (simp add: sample_next intent_binding_def sample_reads agrees_with_def)

lemma sample_step2:
  "sample_apply (sample_state [fresh_record (Intent_Commit sample_commit)])
    (CommitObserved sample_commit_obs) = Inr (sample_state [R1])"
  using sample_step_observation [of "Intent_Commit sample_commit" "Obs_Commit sample_commit_obs" "[]"]
  by (simp add: R1_def)

lemma sample_step3: "sample_apply (sample_state [R1]) (PushIntentPersisted sample_push) =
    Inr (sample_state [R1, fresh_record (Intent_Push sample_push)])"
proof -
  have "pi_commit_oid sample_push = OID" by (simp add: sample_push_def)
  with sample_step_intent [of "Intent_Push sample_push" "[R1]"] show ?thesis
    by (simp add: sample_next intent_binding_def sample_reads)
qed

lemma sample_step4:
  "sample_apply (sample_state [R1, fresh_record (Intent_Push sample_push)])
    (PushObserved sample_push_obs) = Inr (sample_state [R1, R2])"
  "sample_apply (sample_state [R1, fresh_record (Intent_Push sample_push)])
    (PushObserved sample_moved) = Inr (sample_state [R1, RM])"
  using sample_step_observation [of "Intent_Push sample_push" "Obs_Push sample_push_obs" "[R1]"]
    sample_step_observation [of "Intent_Push sample_push" "Obs_Push sample_moved" "[R1]"]
  by (simp_all add: R2_def RM_def)

lemma sample_step5: "sample_apply (sample_state [R1, R2]) (PullRequestIntentPersisted sample_pr) =
    Inr (sample_state [R1, R2, fresh_record (Intent_PullRequest sample_pr)])"
proof -
  have "pr_commit_oid sample_pr = OID" "pr_execution_marker_hash sample_pr = H"
    by (simp_all add: sample_pr_def)
  with sample_step_intent [of "Intent_PullRequest sample_pr" "[R1, R2]"] show ?thesis
    by (simp add: sample_next intent_binding_def sample_reads agrees_with_def
        pull_request_execution_marker_hash_def)
qed

lemma sample_step6:
  "sample_apply (sample_state [R1, R2, fresh_record (Intent_PullRequest sample_pr)])
    (PullRequestObserved sample_pr_obs) = Inr (sample_state [R1, R2, R3])"
  using sample_step_observation
    [of "Intent_PullRequest sample_pr" "Obs_PullRequest sample_pr_obs" "[R1, R2]"]
  by (simp add: R3_def)

definition sample_final :: publication_state where
  "sample_final = (sample_state [R1, R2, R3])\<lparr>ps_completion := Some sample_record\<rparr>"

lemma sample_step7:
  "sample_apply (sample_state [R1, R2, R3]) (CompletionRecorded sample_record) = Inr sample_final"
proof -
  have "build_completion XT (sample_state [R1, R2, R3]) sample_contract = Inr sample_record"
    unfolding build_completion_iff
    by (simp add: build_completion_unchecked_def sample_reads completion_expected_hash_def)
      (simp add: sample_record_def sample_commit_obs_def sample_push_obs_def sample_pr_obs_def
        sample_contract_def PUBLICATION_SCHEMA_VERSION_def)
  then show ?thesis by (simp add: ledger_apply_iff apply_completion_iff sample_final_def)
qed

definition sample_stopped :: publication_state where
  "sample_stopped = (sample_state [R1, RM])\<lparr>ps_convergence := Some sample_moved_record\<rparr>"

lemma sample_step5':
  "sample_apply (sample_state [R1, RM]) (ConvergenceEvaluated sample_moved_record) = Inr sample_stopped"
proof -
  have "build_convergence XT (sample_state [R1, RM]) sample_contract = Inr (Some sample_moved_record)"
    by (simp add: build_convergence_def open_intent_def last_of_def RM_def
        publication_attempt_failure_def)
      (simp add: sample_moved_def observation_reason_def convergence_record_def
        convergence_expected_hash_def convergence_expected_id_def sample_moved_record_def
        PUBLICATION_SCHEMA_VERSION_def)
  then show ?thesis by (simp add: ledger_apply_iff apply_convergence_iff sample_stopped_def)
qed

definition sample_events :: "publication_event list" where
  "sample_events = [CommitIntentPersisted sample_commit, CommitObserved sample_commit_obs,
     PushIntentPersisted sample_push, PushObserved sample_push_obs,
     PullRequestIntentPersisted sample_pr, PullRequestObserved sample_pr_obs,
     CompletionRecorded sample_record]"

lemma sample_run: "fold_res sample_apply (sample_state []) sample_events = Inr sample_final"
  by (simp add: sample_events_def sample_step1 sample_step2 sample_step3 sample_step4 sample_step5
      sample_step6 sample_step7)

lemma sample_reachable [simp]:
  "ledger_reachable XT sample_contract sample_eligibility (sample_state [])"
  "ledger_reachable XT sample_contract sample_eligibility (sample_state [R1])"
  "ledger_reachable XT sample_contract sample_eligibility (sample_state [R1, R2])"
  "ledger_reachable XT sample_contract sample_eligibility (sample_state [R1, R2, R3])"
  "ledger_reachable XT sample_contract sample_eligibility sample_final"
  "ledger_reachable XT sample_contract sample_eligibility sample_stopped"
proof -
  have r0: "ledger_reachable XT sample_contract sample_eligibility (sample_state [])"
    using sample_new by (rule reachable_new)
  note r1 = reachable_apply [OF reachable_apply [OF r0 sample_step1] sample_step2]
  note r2 = reachable_apply [OF reachable_apply [OF r1 sample_step3] sample_step4(1)]
  note rm = reachable_apply [OF reachable_apply [OF r1 sample_step3] sample_step4(2)]
  note r3 = reachable_apply [OF reachable_apply [OF r2 sample_step5] sample_step6]
  show "ledger_reachable XT sample_contract sample_eligibility (sample_state [])" by (rule r0)
  show "ledger_reachable XT sample_contract sample_eligibility (sample_state [R1])" by (rule r1)
  show "ledger_reachable XT sample_contract sample_eligibility (sample_state [R1, R2])" by (rule r2)
  show "ledger_reachable XT sample_contract sample_eligibility (sample_state [R1, R2, R3])"
    by (rule r3)
  show "ledger_reachable XT sample_contract sample_eligibility sample_final"
    using r3 sample_step7 by (rule reachable_apply)
  show "ledger_reachable XT sample_contract sample_eligibility sample_stopped"
    using rm sample_step5' by (rule reachable_apply)
qed

end
