(* ===== verification/Publication_Retries.thy ===== *)
theory Publication_Retries
  imports Publication_Samples
begin

text \<open>
  A publication whose first commit attempt fails in a way that may be retried, and its second attempt.
\<close>

definition second_attempt :: attempt where
  "second_attempt = (sample_attempt 2 Op_Commit (Some ID))\<lparr>at_operation_attempt := 2\<rparr>"

definition sample_retry :: commit_intent where
  "sample_retry = sample_commit\<lparr>ci_attempt := second_attempt\<rparr>"

definition sample_failed_obs :: commit_observation where
  "sample_failed_obs = sample_commit_obs\<lparr>cobs_outcome := Commit_Failed (Retryable ''unavailable'')\<rparr>"

definition RF :: attempt_record where
  "RF = observed (Intent_Commit sample_commit) (Obs_Commit sample_failed_obs)"

lemma second_attempt_valid: "attempt_validate XT second_attempt = Inr ()"
  by (simp add: second_attempt_def sample_attempt_def attempt_validate_def attempt_expected_hash_def
      attempt_derived_id_def PUBLICATION_SCHEMA_VERSION_def)

lemma retry_valid:
  assumes "tree_validate_against XT t sample_eligibility = Inr ()" and "tb_parent_commit_oid t = PARENT"
  shows "commit_intent_validate XT (sample_retry\<lparr>ci_tree := t\<rparr>) sample_contract sample_eligibility = Inr ()"
proof -
  have "at_operation second_attempt = Op_Commit" by (simp add: second_attempt_def)
  with assms show ?thesis
    by (simp add: commit_intent_validate_def sample_retry_def sample_commit_def commit_intent_expected_hash_def
        commit_intent_id_def commit_effect_id_def Let_def PUBLICATION_SCHEMA_VERSION_def second_attempt_valid)
      (simp add: sample_contract_def)
qed

lemma sample_retry_valid: "commit_intent_validate XT sample_retry sample_contract sample_eligibility = Inr ()"
proof -
  have "sample_retry\<lparr>ci_tree := sample_tree\<rparr> = sample_retry" by (simp add: sample_retry_def sample_commit_def)
  moreover have "tree_validate_against XT sample_tree sample_eligibility = Inr ()"
    by (simp add: tree_validate_against_def sample_tree_def sample_eligibility_def tree_expected_hash_def)
  ultimately show ?thesis using retry_valid [of sample_tree] by (simp add: sample_tree_def)
qed

lemma sample_failed_valid: "commit_observation_validate XT sample_failed_obs sample_commit = Inr ()"
proof -
  have "safe_code_is_valid ''unavailable''" by code_simp
  then show ?thesis
    by (simp add: commit_observation_validate_def commit_observation_expected_hash_def commit_observation_id_def
        sample_failed_obs_def sample_commit_obs_def sample_commit_def PUBLICATION_SCHEMA_VERSION_def failure_validate_def)
qed

lemma retry_next: "next_attempt XT (sample_state [RF]) Op_Commit sample_contract = Inr second_attempt"
proof -
  have "attempt_new XT 2 Op_Commit 2 (Some ID) ''r1'' ID = Inr second_attempt"
    using second_attempt_valid
    by (simp add: attempt_new_def attempt_expected_hash_def attempt_derived_id_def PUBLICATION_SCHEMA_VERSION_def
        Let_def second_attempt_def sample_attempt_def)
  then show ?thesis
    by (simp add: next_attempt_def expected_next_operation_def operation_count_def last_of_def open_intent_def
        observed_next_operation_def retry_left_def RF_def sample_failed_obs_def Let_def)
qed

lemma retry_steps:
  "sample_apply (sample_state [fresh_record (Intent_Commit sample_commit)]) (CommitObserved sample_failed_obs) =
    Inr (sample_state [RF])"
  "sample_apply (sample_state [RF]) (CommitIntentPersisted sample_retry) =
    Inr (sample_state [RF, fresh_record (Intent_Commit sample_retry)])"
proof -
  show "sample_apply (sample_state [fresh_record (Intent_Commit sample_commit)]) (CommitObserved sample_failed_obs) =
      Inr (sample_state [RF])"
    using sample_step_observation [of "Intent_Commit sample_commit" "Obs_Commit sample_failed_obs" "[]"]
    by (simp add: RF_def sample_failed_valid)
  have "open_intent (sample_state [RF]) = None" by (simp add: open_intent_def last_of_def RF_def)
  moreover have "ci_attempt sample_retry = second_attempt" by (simp add: sample_retry_def)
  moreover have "intent_binding XT (sample_state [RF]) (Intent_Commit sample_retry) = Inr ()"
    by (simp add: intent_binding_def last_commit_intent_def RF_def agrees_with_def same_commit_identity_def
        sample_retry_def)
  ultimately show "sample_apply (sample_state [RF]) (CommitIntentPersisted sample_retry) =
      Inr (sample_state [RF, fresh_record (Intent_Commit sample_retry)])"
    using sample_step_intent [of "Intent_Commit sample_retry" "[RF]"] by (simp add: sample_retry_valid retry_next)
qed

lemma retried_reachable:
  "ledger_reachable XT sample_contract sample_eligibility (sample_state [RF, fresh_record (Intent_Commit sample_retry)])"
proof -
  have "ledger_reachable XT sample_contract sample_eligibility (sample_state [])" by simp
  note reachable_apply [OF reachable_apply [OF this sample_step1] retry_steps(1)]
  then show ?thesis using retry_steps(2) by (rule reachable_apply)
qed

text \<open>A second attempt that binds another tree is refused.\<close>

definition sample_changed :: commit_intent where
  "sample_changed = sample_retry\<lparr>ci_tree := sample_tree\<lparr>tb_repository_tree_oid := OID\<rparr>\<rparr>"

lemma changed_retry_refused:
  "sample_apply (sample_state [RF]) (CommitIntentPersisted sample_changed) =
    Inl (Pub_Invalid ''commit_retry_identity_changed'')"
proof -
  have "tree_validate_against XT (sample_tree\<lparr>tb_repository_tree_oid := OID\<rparr>) sample_eligibility = Inr ()"
    by (simp add: tree_validate_against_def sample_tree_def sample_eligibility_def tree_expected_hash_def)
  then have valid: "commit_intent_validate XT sample_changed sample_contract sample_eligibility = Inr ()"
    unfolding sample_changed_def by (rule retry_valid) (simp add: sample_tree_def)
  have "H \<noteq> OID" by (simp add: H_def OID_def)
  then have "intent_binding XT (sample_state [RF]) (Intent_Commit sample_changed) =
      Inl (Pub_Invalid ''commit_retry_identity_changed'')"
    by (simp add: intent_binding_def last_commit_intent_def RF_def agrees_with_def same_commit_identity_def
        sample_changed_def sample_retry_def sample_commit_def sample_tree_def)
  moreover have "open_intent (sample_state [RF]) = None" by (simp add: open_intent_def last_of_def RF_def)
  moreover have "ci_attempt sample_changed = second_attempt" "at_operation second_attempt = Op_Commit"
    by (simp_all add: sample_changed_def sample_retry_def second_attempt_def)
  ultimately show ?thesis by (simp add: ledger_apply_def apply_event_def persist_intent_def retry_next valid)
qed

end
