(* ===== verification/Publication_Properties.thy ===== *)
theory Publication_Properties
  imports Publication_Retries
begin

text \<open>
  The properties of the publication components, each with a witness on the sample run. \<open>reachable\<close>
  below means \<open>ledger_reachable\<close>: made by \<open>PublicationStateV1::new\<close> and changed only by successful
  calls of \<open>apply\<close>.
\<close>

section \<open>The ledger as a journal\<close>

text \<open>C3: \<open>PublicationStateV1::validate\<close> accepts a ledger exactly when it was made by \<open>new\<close> and changed
  only by successful calls of \<open>apply\<close> under the same contract and eligibility.\<close>

theorem ledger_validate_iff_reachable:
  "ledger_validate E s contract eligibility = Inr () \<longleftrightarrow> ledger_reachable E contract eligibility s"
  unfolding ledger_validate_iff
  using reachable_history [of E contract eligibility s] reachable_new reachable_run by metis

text \<open>C8: the ledger keeps its whole history: the events read back from the attempts and the terminal
  record are the events applied to the new ledger, in their order.\<close>

theorem ledger_history:
  assumes "ledger_new E execution node contract eligibility = Inr s"
    and "fold_res (ledger_apply E contract eligibility) s events = Inr t"
  shows "ledger_events t = events"
  using ledger.history [OF ledger_new_fresh [OF assms(1)] assms(2)] .

theorem ledger_history_witness: "ledger_events sample_final = sample_events"
  using ledger_history [OF sample_new sample_run] .

section \<open>Order, numbering and limits\<close>

text \<open>C5: the attempts of a reachable ledger are commits, then pushes, then pull requests, and no
  operation is attempted more often than the signed contract allows.\<close>

theorem ledger_operations_ordered_and_limited:
  assumes "ledger_reachable E contract eligibility s"
  shows "sorted (map (\<lambda>r. at_operation (rec_attempt r)) (ps_attempts s)) \<and>
    (\<forall>operation. operation_count s operation \<le> unat (operation_attempt_limit contract operation))"
proof -
  have "map (\<lambda>r. at_operation (rec_attempt r)) (ps_attempts s) = map record_operation (ps_attempts s)"
    using reachable_records_ok [OF assms] by (auto simp: record_ok_operation)
  with reachable_numbered [OF assms] show ?thesis unfolding numbered_def by metis
qed

theorem ledger_operations_ordered_and_limited_witness:
  "operation_count sample_final Op_Push \<le> 2"
  using ledger_operations_ordered_and_limited [OF sample_reachable(5)] sample_limit [of Op_Push]
  by (auto dest: spec [of _ Op_Push])

text \<open>C9: every run of the ledger ends: no more events can be applied to a new ledger than an intent and
  an observation for each attempt the contract allows, and one terminal record.\<close>

theorem ledger_run_bounded:
  assumes "ledger_new E execution node contract eligibility = Inr s"
    and "fold_res (ledger_apply E contract eligibility) s events = Inr t"
  shows "length events \<le> 2 * (unat (pc_max_commit_attempts contract) +
    unat (pc_max_push_attempts contract) + unat (pc_max_pr_attempts contract)) + 1"
  using length_ledger_events [OF reachable_run [OF reachable_new [OF assms(1)] assms(2)]]
    ledger.history [OF ledger_new_fresh [OF assms(1)] assms(2)] by simp

theorem ledger_run_bounded_witness: "length sample_events \<le> 2 * (2 + 2 + 2) + 1"
  using ledger_run_bounded [OF sample_new sample_run] by (simp add: sample_contract_def)

text \<open>C10: the attempts form one chain: the attempt at index \<open>i\<close> has the sequence number \<open>i + 1\<close>
  (saturated at \<open>u32::MAX\<close>), names the attempt before it, carries the eligibility and the revision of
  the ledger, and counts the earlier attempts of its own operation.\<close>

theorem ledger_attempt_chain:
  assumes "ledger_reachable E contract eligibility s"
    and "ps_attempts s = ys @ r # zs"
  shows "unat (at_sequence (rec_attempt r)) = min (length ys + 1) (2 ^ 32 - 1) \<and>
    at_prior_attempt_id (rec_attempt r) =
      map_option (\<lambda>p. at_attempt_id (rec_attempt p)) (last_of ys) \<and>
    at_eligibility_id (rec_attempt r) = ps_eligibility_id s \<and>
    at_repository_revision (rec_attempt r) = ps_repository_revision s \<and>
    unat (at_operation_attempt (rec_attempt r)) =
      length (filter (\<lambda>p. at_operation (rec_attempt p) = at_operation (rec_attempt r)) ys) + 1"
proof -
  from reachable_prefix [OF assms] obtain t where t: "ledger_reachable E contract eligibility t"
      "ps_attempts t = ys" "ps_eligibility_id t = ps_eligibility_id s"
      "ps_repository_revision t = ps_repository_revision s"
      and nxt: "next_attempt E t (record_operation r) contract = Inr (rec_attempt r)" by blast
  note a = next_attemptD [OF nxt]
  have "operation_count t (record_operation r) < 2 ^ 32 - 1"
    using expected_next_within_limit [OF t(1) a(1)]
      unsigned_less [of "operation_attempt_limit contract (record_operation r)", where 'a = nat]
    by simp
  with a t show ?thesis by (simp add: operation_count_def)
qed

theorem ledger_attempt_chain_witness:
  "at_prior_attempt_id (rec_attempt R3) = Some (at_attempt_id (rec_attempt R2))"
  using ledger_attempt_chain [OF sample_reachable(5), of "[R1, R2]" R3 "[]"]
  by (simp add: sample_final_def last_of_def)

section \<open>What an attempt is bound to\<close>

text \<open>C6: in a reachable ledger every push carries the confirmed commit, every pull request carries the
  head the confirmed push left on the remote, and that head is the confirmed commit.\<close>

theorem ledger_bound_to_confirmations:
  assumes "ledger_reachable E contract eligibility s" and "r \<in> set (ps_attempts s)"
  shows "case rec_intent r of
      Intent_Commit i \<Rightarrow> True
    | Intent_Push i \<Rightarrow> ledger_commit_oid s = Some (pi_commit_oid i)
    | Intent_PullRequest i \<Rightarrow> ledger_remote_head s = Some (pr_commit_oid i) \<and>
        ledger_commit_oid s = Some (pr_commit_oid i)"
  using reachable_bound [OF assms(1)] assms(2)
  by (auto simp: bound_to_confirmations_def split: attempt_intent.split)

theorem ledger_bound_to_confirmations_witness:
  "ledger_remote_head sample_final = Some (pr_commit_oid sample_pr)"
proof -
  have "R3 \<in> set (ps_attempts sample_final)" and "rec_intent R3 = Intent_PullRequest sample_pr"
    by (simp_all add: sample_final_def R3_def)
  with ledger_bound_to_confirmations [OF sample_reachable(5), of R3] show ?thesis by simp
qed

text \<open>C7: each of the three effects is confirmed at most once in the life of a ledger, however often it
  was attempted.\<close>

theorem ledger_confirmed_at_most_once:
  assumes "ledger_reachable E contract eligibility s"
  shows "length (filter (\<lambda>r. record_confirmed r \<and> record_operation r = operation) (ps_attempts s)) \<le> 1"
  using assms by (rule reachable_confirmed_once)

theorem ledger_confirmed_at_most_once_witness:
  "length (filter (\<lambda>r. record_confirmed r \<and> record_operation r = Op_Push)
    (ps_attempts sample_final)) \<le> 1"
  by (rule ledger_confirmed_at_most_once [of XT sample_contract sample_eligibility]) simp

text \<open>C11: a retry keeps the identity of the first try: any two commit intents of a reachable ledger bind
  the same tree and commit identity, any two pull-request intents the same title, body, draft flag and
  execution marker.\<close>

theorem ledger_retries_keep_identity:
  assumes "ledger_reachable E contract eligibility s"
    and "r \<in> set (ps_attempts s)" and "r' \<in> set (ps_attempts s)"
  shows "case (rec_intent r, rec_intent r') of
      (Intent_Commit i, Intent_Commit j) \<Rightarrow> same_commit_identity i j
    | (Intent_PullRequest p, Intent_PullRequest q) \<Rightarrow> same_pr_identity p q
    | _ \<Rightarrow> True"
proof -
  note same = reachable_same_retries [OF assms(1), unfolded same_retries_def]
  have "same_commit_identity i j"
    if "rec_intent r = Intent_Commit i" and "rec_intent r' = Intent_Commit j" for i j
    using same [rule_format, OF assms(2)] same [rule_format, OF assms(3)] that
    by (auto simp: same_commit_identity_def)
  moreover have "same_pr_identity p q"
    if "rec_intent r = Intent_PullRequest p" and "rec_intent r' = Intent_PullRequest q" for p q
    using same [rule_format, OF assms(2)] same [rule_format, OF assms(3)] that
    by (auto simp: same_pr_identity_def)
  ultimately show ?thesis by (cases "rec_intent r"; cases "rec_intent r'") simp_all
qed

theorem ledger_retries_keep_identity_witness:
  "\<exists>s r r' i j. ledger_reachable XT sample_contract sample_eligibility s \<and> ps_attempts s = [r, r'] \<and>
    rec_intent r = Intent_Commit i \<and> rec_intent r' = Intent_Commit j \<and> i \<noteq> j \<and> same_commit_identity i j"
proof -
  have first: "rec_intent RF = Intent_Commit sample_commit" by (simp add: RF_def)
  then have "same_commit_identity sample_commit sample_retry"
    using ledger_retries_keep_identity [OF retried_reachable, of RF "fresh_record (Intent_Commit sample_retry)"] by simp
  moreover have "sample_commit \<noteq> sample_retry"
    by (simp add: sample_retry_def sample_commit_def second_attempt_def sample_attempt_def)
  ultimately show ?thesis
    by (intro exI [of _ "sample_state [RF, fresh_record (Intent_Commit sample_retry)]"] exI [of _ RF]
        exI [of _ "fresh_record (Intent_Commit sample_retry)"] exI [of _ sample_commit] exI [of _ sample_retry])
      (simp add: retried_reachable first)
qed

section \<open>Progress\<close>

text \<open>C4: a reachable ledger with no open intent and no terminal record has exactly one way on: another
  attempt, the completion, or the convergence.\<close>

theorem ledger_exactly_one_way:
  assumes "ledger_reachable E contract eligibility s"
    and "json_total E" and "digest_is_hex E"
    and "open_intent s = None" and "ps_completion s = None" and "ps_convergence s = None"
  shows "can_attempt E s contract \<and> \<not> can_complete E s contract \<and> \<not> can_converge E s contract \<or>
     \<not> can_attempt E s contract \<and> can_complete E s contract \<and> \<not> can_converge E s contract \<or>
     \<not> can_attempt E s contract \<and> \<not> can_complete E s contract \<and> can_converge E s contract"
  using assms by (rule exactly_one_way)

theorem ledger_exactly_one_way_witness:
  "can_attempt XT (sample_state [R1]) sample_contract \<and>
    \<not> can_converge XT (sample_state [R1]) sample_contract"
proof -
  have "can_attempt XT (sample_state [R1]) sample_contract"
    using sample_next(2) by (auto simp: can_attempt_def)
  with ledger_exactly_one_way [of XT sample_contract sample_eligibility "sample_state [R1]"]
  show ?thesis by (simp add: XT_json_total XT_digest_is_hex)
qed



section \<open>How a publication ends\<close>

text \<open>C2: a recorded completion tells the truth: the commit it names is the confirmed commit and the
  pushed head, the pull request it names was confirmed at that head and for that branch, and it is a
  draft exactly when the contract asks for an external review.\<close>

theorem ledger_completion_sound:
  assumes "ledger_reachable E contract eligibility s" and "ps_completion s = Some v"
  shows "ledger_commit_oid s = Some (pcp_commit_oid v) \<and>
    ledger_remote_head s = Some (pcp_commit_oid v) \<and>
    pcp_head_branch v = pc_head_branch contract \<and>
    pcp_draft v = (pc_requested_mode contract = NormalWithExternalReview) \<and>
    (\<exists>q c. confirmed_pull_request s = Some q \<and> probs_outcome q = PR_Confirmed c \<and>
      pcf_observed_head c = pcp_commit_oid v \<and> pcf_head_branch c = pc_head_branch contract \<and>
      pcf_base_ref c = pc_base_ref contract \<and>
      pcf_pull_request_number c = pcp_pull_request_number v \<and> 0 < pcp_pull_request_number v)"
proof -
  have built: "build_completion_unchecked E s contract = Inr v"
    using reachable_completion [OF assms] by simp
  from completion_uncheckedD(1) [OF built] obtain q c where q: "confirmed_pull_request s = Some q"
      "probs_outcome q = PR_Confirmed c" "ledger_commit_oid s = Some (pcp_commit_oid v)"
      "pcp_pull_request_number v = pcf_pull_request_number c" "pcp_draft v = pcf_draft c" by blast
  from confirmed_pull_request_bound [OF assms(1) q(1)] obtain i where
      i: "pr_intent_validate E i contract = Inr ()" "pr_outcome_valid E i (PR_Confirmed c)"
        "ledger_remote_head s = Some (pr_commit_oid i)" "ledger_commit_oid s = Some (pr_commit_oid i)"
    using q(2) by auto
  with q pr_intent_validateD [OF i(1)] completion_uncheckedD(4) [OF built] show ?thesis
    by (auto simp: mode_is_draft_def)
qed

theorem ledger_completion_sound_witness:
  "ledger_remote_head sample_final = Some OID \<and> \<not> pcp_draft sample_record"
  using ledger_completion_sound [OF sample_reachable(5), of sample_record]
  by (simp add: sample_final_def) (simp add: sample_record_def sample_contract_def)

text \<open>C12: a recorded convergence tells the truth: attempts are called exhausted only when the last one
  failed retryably and the contract's limit is used up, a permanent failure is the last outcome, and a
  branch movement is one that the last push observed away from its lease and its commit.\<close>

theorem ledger_convergence_sound:
  assumes "ledger_reachable E contract eligibility s" and "ps_convergence s = Some v"
  shows "\<exists>ys r obs. ps_attempts s = ys @ [r] \<and> rec_observation r = Some obs \<and>
    pcv_final_attempt_id v = at_attempt_id (rec_attempt r) \<and>
    (case pcv_reason v of
       AttemptsExhausted operation \<Rightarrow> record_operation r = operation \<and>
         (\<exists>code. observation_failure obs = Some (Retryable code)) \<and>
         operation_count s operation = unat (operation_attempt_limit contract operation)
     | PermanentFailure operation code \<Rightarrow> record_operation r = operation \<and>
         observation_failure obs = Some (Permanent code)
     | RemoteBranchMoved m \<Rightarrow> \<exists>p mv i. obs = Obs_Push p \<and> rec_intent r = Intent_Push i \<and>
         pobs_outcome p = Push_RemoteBranchMoved mv \<and> bm_movement_id mv = m \<and>
         bm_observed_remote_head mv \<noteq> pc_expected_remote_head contract \<and>
         bm_observed_remote_head mv \<noteq> Some (pi_commit_oid i))"
proof -
  from reachable_convergence [OF assms] obtain ys r obs where
      last: "ps_attempts s = ys @ [r]" "rec_observation r = Some obs"
      and reason: "observation_reason obs = Inr (Some (pcv_reason v))"
      and final: "pcv_final_attempt_id v = at_attempt_id (rec_attempt r)"
    unfolding converged_from_def by blast
  have ok: "record_ok E contract eligibility r" using reachable_records_ok [OF assms(1)] last by simp
  with last(2) have valid: "observation_valid E (rec_intent r) obs" by (simp add: record_ok_def)
  have "case pcv_reason v of
       AttemptsExhausted operation \<Rightarrow> record_operation r = operation \<and>
         (\<exists>code. observation_failure obs = Some (Retryable code)) \<and>
         operation_count s operation = unat (operation_attempt_limit contract operation)
     | PermanentFailure operation code \<Rightarrow> record_operation r = operation \<and>
         observation_failure obs = Some (Permanent code)
     | RemoteBranchMoved m \<Rightarrow> \<exists>p mv i. obs = Obs_Push p \<and> rec_intent r = Intent_Push i \<and>
         pobs_outcome p = Push_RemoteBranchMoved mv \<and> bm_movement_id mv = m \<and>
         bm_observed_remote_head mv \<noteq> pc_expected_remote_head contract \<and>
         bm_observed_remote_head mv \<noteq> Some (pi_commit_oid i)"
  proof (cases "pcv_reason v")
    case (AttemptsExhausted operation)
    with reason_exhausted [OF _ valid] reason exhausted_count [OF assms AttemptsExhausted]
    show ?thesis by (simp add: record_operation_def)
  next
    case (PermanentFailure operation code)
    with reason_permanent [OF _ valid] reason show ?thesis by (simp add: record_operation_def)
  next
    case (RemoteBranchMoved m)
    with reason_moved [OF _ valid] reason ok push_intent_validateD(4) show ?thesis
      by (fastforce simp: record_ok_def)
  qed
  with last final show ?thesis by blast
qed

theorem ledger_convergence_sound_witness:
  "\<exists>r p mv. last_of (ps_attempts sample_stopped) = Some r \<and> rec_observation r = Some (Obs_Push p) \<and>
    pobs_outcome p = Push_RemoteBranchMoved mv \<and> bm_observed_remote_head mv \<noteq> Some PARENT"
  using ledger_convergence_sound [OF sample_reachable(6), of sample_moved_record]
  by (auto simp: sample_stopped_def sample_moved_record_def sample_contract_def last_of_def)

text \<open>C15: a terminal record is final: once a completion or a convergence is recorded, \<open>apply\<close> refuses
  every event, and the two are never recorded together.\<close>

theorem ledger_terminal_final:
  assumes "ledger_reachable E contract eligibility s"
    and "ps_completion s \<noteq> None \<or> ps_convergence s \<noteq> None"
  shows "ledger_apply E contract eligibility s event =
      Inl (Pub_Invalid ''publication_event_after_terminal_record'') \<and>
    (ps_completion s \<noteq> None) \<noteq> (ps_convergence s \<noteq> None)"
proof -
  have pre: "validate_prerequisites E s contract eligibility = Inr ()"
    using assms(1) by (rule reachable_prerequisites)
  with assms(2) have "ledger_apply E contract eligibility s event =
      Inl (Pub_Invalid ''publication_event_after_terminal_record'')"
    by (auto simp: ledger_apply_def)
  with pre assms(2) show ?thesis
    by (auto simp: validate_prerequisites_def result_simps split: if_splits)
qed

theorem ledger_terminal_final_witness:
  "sample_apply sample_final (CommitObserved sample_commit_obs) =
    Inl (Pub_Invalid ''publication_event_after_terminal_record'')"
  using ledger_terminal_final [OF sample_reachable(5)] by (simp add: sample_final_def)

text \<open>C14: the intent comes before the effect and one observation closes it, for each of the three intents:
  once \<open>apply\<close> has persisted an intent, it is the pending effect (for a pull request with raw material that
  passes its check, and an error without), the events \<open>apply\<close> accepts next are exactly the valid observations
  of that intent, and after one of them no effect is pending.\<close>

theorem ledger_intent_before_effect:
  assumes "ledger_apply E contract eligibility s (intent_event intent) = Inr s'"
  shows "(case intent of
      Intent_Commit i \<Rightarrow> pending_effect E s' None = Inr (Some (CreateCommit i))
    | Intent_Push i \<Rightarrow> pending_effect E s' None = Inr (Some (PushExactLease i))
    | Intent_PullRequest i \<Rightarrow>
        pending_effect E s' None = Inl (Pub_Invalid ''pull_request_material_missing'') \<and>
        (\<forall>raw. pending_effect E s' (Some raw) = (case material_validate_against E raw i of
            Inl e \<Rightarrow> Inl e | Inr _ \<Rightarrow> Inr (Some (EnsurePullRequest i raw))))) \<and>
    (\<forall>event. is_ok (ledger_apply E contract eligibility s' event) \<longleftrightarrow>
      (\<exists>obs. event = observation_event obs \<and> observation_valid E intent obs)) \<and>
    (\<forall>event s''. ledger_apply E contract eligibility s' event = Inr s'' \<longrightarrow> pending_effect E s'' None = Inr None)"
proof -
  have s': "s' = s\<lparr>ps_attempts := ps_attempts s @ [fresh_record intent]\<rparr>" and
    running: "ps_completion s' = None" "ps_convergence s' = None" and
    pre: "validate_prerequisites E s' contract eligibility = Inr ()"
    using assms apply_intent_iff [of E s intent] prerequisites_step [OF assms] by (auto simp: ledger_apply_iff)
  have opened: "open_intent s' = Some intent" by (simp add: s' open_intent_def)
  have only: "\<exists>obs. event = observation_event obs \<and> observation_valid E intent obs \<and> pending_effect E s'' None = Inr None"
    if "ledger_apply E contract eligibility s' event = Inr s''" for event s''
    using that
  proof (cases rule: ledger_apply_cases)
    case (observation obs ys r)
    with s' have "r = fresh_record intent" by simp
    with observation show ?thesis by (auto simp: pending_effect_def open_intent_def)
  next
    case (convergence c)
    then show ?thesis using opened by (auto simp: build_convergence_def)
  qed (use opened in \<open>auto simp: build_completion_iff\<close>)
  moreover have "is_ok (ledger_apply E contract eligibility s' (observation_event obs))"
    if "observation_valid E intent obs" for obs
    using that pre running unfolding is_ok_iff ledger_apply_iff apply_observation_iff by (auto simp: s')
  ultimately have accepted: "is_ok (ledger_apply E contract eligibility s' event) \<longleftrightarrow>
      (\<exists>obs. event = observation_event obs \<and> observation_valid E intent obs)" for event
    unfolding is_ok_iff by blast
  have "bnd r (\<lambda>_. Inr x) = (case r of Inl e \<Rightarrow> Inl e | Inr _ \<Rightarrow> Inr x)" for r :: "publication_error + unit" and x :: "effect_request option"
    by (cases r) simp_all
  then have "case intent of
      Intent_Commit i \<Rightarrow> pending_effect E s' None = Inr (Some (CreateCommit i))
    | Intent_Push i \<Rightarrow> pending_effect E s' None = Inr (Some (PushExactLease i))
    | Intent_PullRequest i \<Rightarrow>
        pending_effect E s' None = Inl (Pub_Invalid ''pull_request_material_missing'') \<and>
        (\<forall>raw. pending_effect E s' (Some raw) = (case material_validate_against E raw i of
            Inl e \<Rightarrow> Inl e | Inr _ \<Rightarrow> Inr (Some (EnsurePullRequest i raw))))"
    using opened by (cases intent) (simp_all add: pending_effect_def ok_or_def)
  with accepted only show ?thesis by blast
qed

theorem ledger_intent_before_effect_witness:
  "pending_effect XT (sample_state [fresh_record (Intent_Commit sample_commit)]) None =
    Inr (Some (CreateCommit sample_commit)) \<and>
  pending_effect XT (sample_state [R1, fresh_record (Intent_Push sample_push)]) None =
    Inr (Some (PushExactLease sample_push)) \<and>
  pending_effect XT (sample_state [R1, R2, fresh_record (Intent_PullRequest sample_pr)]) None =
    Inl (Pub_Invalid ''pull_request_material_missing'') \<and>
  is_ok (sample_apply (sample_state [R1, R2, fresh_record (Intent_PullRequest sample_pr)])
    (PullRequestObserved sample_pr_obs))"
  using ledger_intent_before_effect [of XT sample_contract sample_eligibility "sample_state []" "Intent_Commit sample_commit"]
    ledger_intent_before_effect [of XT sample_contract sample_eligibility "sample_state [R1]" "Intent_Push sample_push"]
    ledger_intent_before_effect [of XT sample_contract sample_eligibility "sample_state [R1, R2]"
      "Intent_PullRequest sample_pr"]
    sample_step1 sample_step3 sample_step5 sample_step6
  by simp

section \<open>Eligibility\<close>

lemma eligibility_new_expected:
  assumes "eligibility_new E policy ancestry manifest review review_proof completion completion_proof
    authority facts = Inr r"
  shows "expected_publication_predicates policy ancestry manifest review completion authority facts =
      Inr (er_predicates r)"
    and "er_disposition r = disposition_of (er_predicates r)"
    and "is_granted r \<longleftrightarrow> may_publish policy ancestry manifest review completion authority facts"
proof -
  from assms show expected: "expected_publication_predicates policy ancestry manifest review
      completion authority facts = Inr (er_predicates r)"
    and disposition: "er_disposition r = disposition_of (er_predicates r)"
    by (auto simp: eligibility_new_def Let_def result_simps)
  from expected_predicates_granted_iff [OF expected]
  show "is_granted r \<longleftrightarrow> may_publish policy ancestry manifest review completion authority facts"
    by (simp add: is_granted_def disposition)
qed

text \<open>C16: the eligibility decision is exactly the conjunction of its twelve predicates: the record
  \<open>PublicationEligibilityRecord::new\<close> returns names all twelve, is granted when \<open>may_publish\<close> holds and
  otherwise denied with the non-empty list of the predicates that failed.\<close>

theorem eligibility_decision:
  assumes "eligibility_new E policy ancestry manifest review review_proof completion completion_proof
    authority facts = Inr r"
  shows "bt_keys (er_predicates r) = PREDICATES_ALL \<and>
    (case er_disposition r of
       Granted \<Rightarrow> may_publish policy ancestry manifest review completion authority facts
     | Denied failed \<Rightarrow>
         \<not> may_publish policy ancestry manifest review completion authority facts \<and>
         failed \<noteq> [] \<and> failed = failed_predicates (er_predicates r))"
proof -
  note e = eligibility_new_expected [OF assms]
  from expected_predicates_total [OF e(1)] e(2,3) show ?thesis
    by (auto simp: is_granted_def disposition_of_def split: if_splits)
qed

theorem eligibility_decision_witness: "bt_keys (er_predicates sample_eligibility) = PREDICATES_ALL"
  using eligibility_decision [OF sample_eligibility_new] by simp

lemma eligibility_new_binds:
  assumes "eligibility_new E policy ancestry manifest review review_proof completion completion_proof
    authority facts = Inr r"
  shows "contract_validate E (fp_publication policy) = Inr ()"
    and "er_contract_id r = pc_contract_id (fp_publication policy)"
    and "er_requested_mode r = pc_requested_mode (fp_publication policy)"
    and "er_repository_revision r = dm_repository_revision manifest"
    and "er_manifest_id r = dm_manifest_id manifest"
    and "er_authority_id r = ao_authority_id authority"
  using assms by (auto simp: eligibility_new_def policy_validate_def Let_def result_simps)

text \<open>C1: publication starts exactly when it may: on a freshly decided eligibility record, the ledger can
  be created under the signed contract if and only if every publication predicate holds.\<close>

theorem ledger_starts_iff_may_publish:
  assumes "eligibility_new E policy ancestry manifest review review_proof completion completion_proof
    authority facts = Inr r"
    and "\<not> blank execution" and "\<not> blank node"
  shows "is_ok (ledger_new E execution node (fp_publication policy) r) \<longleftrightarrow>
    may_publish policy ancestry manifest review completion authority facts"
proof -
  note eligibility_new_expected(3) [OF assms(1)]
  moreover have "is_ok (ledger_new E execution node (fp_publication policy) r) \<longleftrightarrow> is_granted r"
    using assms(2,3) eligibility_new_binds [OF assms(1)]
    by (auto simp: is_ok_iff ledger_new_iff validate_for_publication_def)
  ultimately show ?thesis by simp
qed

theorem ledger_starts_iff_may_publish_witness:
  "is_ok (ledger_new XT ''x'' ''n'' (fp_publication sample_policy) sample_eligibility)"
proof -
  have "\<not> blank ''x''" "\<not> blank ''n''" by (simp_all add: not_blank_Cons byte_def)
  from ledger_starts_iff_may_publish [OF sample_eligibility_new this] sample_may_publish
  show ?thesis by simp
qed

text \<open>C17: the commit is bound to what was reviewed and to the head that was observed: a commit intent that
  \<open>apply\<close> accepts names the eligible manifest and the signed contract and commit identity, has the expected
  remote head as its parent where the contract has one, and if its tree binding was made from the review
  authority, it carries the diff hash of that manifest and the tree and head observed with a valid lease and
  no cancellation; and a confirmation that \<open>apply\<close> accepts for it names exactly that tree, parent and identity.\<close>

theorem commit_tree_bound_to_review:
  assumes "ledger_apply E contract eligibility s (CommitIntentPersisted i) = Inr s'"
  shows "tb_manifest_id (ci_tree i) = er_manifest_id eligibility \<and>
    ci_contract_id i = pc_contract_id contract \<and> ci_commit_identity_hash i = pc_commit_identity_hash contract \<and>
    (\<forall>expected. pc_expected_remote_head contract = Some expected \<longrightarrow>
      tb_parent_commit_oid (ci_tree i) = expected) \<and>
    (\<forall>manifest authority. tree_from_review_authority E eligibility manifest authority = Inr (ci_tree i) \<longrightarrow>
      dm_manifest_id manifest = er_manifest_id eligibility \<and> ao_authority_id authority = er_authority_id eligibility \<and>
      tb_diff_hash (ci_tree i) = dm_diff_hash manifest \<and>
      tb_repository_tree_oid (ci_tree i) = ao_repository_tree_oid authority \<and>
      tb_parent_commit_oid (ci_tree i) = ao_repository_head_oid authority \<and>
      ao_lease_valid authority \<and> ao_cancellation_absent authority) \<and>
    (\<forall>obs s'' r oid tree parent identity. ledger_apply E contract eligibility s' (CommitObserved obs) = Inr s'' \<longrightarrow>
      cobs_outcome obs = Commit_Confirmed r oid tree parent identity \<longrightarrow>
      tree = tb_repository_tree_oid (ci_tree i) \<and> parent = tb_parent_commit_oid (ci_tree i) \<and>
      identity = pc_commit_identity_hash contract)"
proof -
  have valid: "commit_intent_validate E i contract eligibility = Inr ()"
    and s': "s' = s\<lparr>ps_attempts := ps_attempts s @ [fresh_record (Intent_Commit i)]\<rparr>"
    using assms apply_intent_iff [of E s "Intent_Commit i"] by (auto simp: ledger_apply_iff)
  note bound = commit_intent_validateD [OF valid]
  have "tb_manifest_id (ci_tree i) = er_manifest_id eligibility"
    using bound(2) by (auto simp: tree_validate_against_def Let_def split: if_splits)
  moreover have "tree = tb_repository_tree_oid (ci_tree i) \<and> parent = tb_parent_commit_oid (ci_tree i) \<and>
      identity = pc_commit_identity_hash contract"
    if "ledger_apply E contract eligibility s' (CommitObserved obs) = Inr s''"
      and "cobs_outcome obs = Commit_Confirmed r oid tree parent identity" for obs s'' r oid tree parent identity
    using that apply_observation_iff [of E s' "Obs_Commit obs"] bound(5)
    by (auto simp: ledger_apply_iff s' dest!: commit_observation_validateD(4))
  moreover have "dm_manifest_id manifest = er_manifest_id eligibility \<and> ao_authority_id authority = er_authority_id eligibility \<and>
      tb_diff_hash t = dm_diff_hash manifest \<and>
      tb_repository_tree_oid t = ao_repository_tree_oid authority \<and>
      tb_parent_commit_oid t = ao_repository_head_oid authority \<and>
      ao_lease_valid authority \<and> ao_cancellation_absent authority"
    if "tree_from_review_authority E eligibility manifest authority = Inr t" for manifest authority t
    using that by (auto simp: tree_from_review_authority_def tree_new_def Let_def result_simps split: if_splits)
  ultimately show ?thesis using bound(4-6) by blast
qed

theorem commit_tree_bound_to_review_witness:
  "tb_parent_commit_oid (ci_tree sample_commit) = PARENT \<and>
    tb_parent_commit_oid (ci_tree sample_commit) = ao_repository_head_oid sample_authority"
proof -
  have "tree_from_review_authority XT sample_eligibility sample_manifest sample_authority = Inr (ci_tree sample_commit)"
    by (simp add: tree_from_review_authority_def tree_new_def tree_expected_hash_def
        tree_validate_against_def Let_def)
      (simp add: sample_eligibility_def sample_manifest_def sample_authority_def sample_tree_def sample_commit_def)
  moreover have "pc_expected_remote_head sample_contract = Some PARENT" by (simp add: sample_contract_def)
  ultimately show ?thesis using commit_tree_bound_to_review [OF sample_step1] by blast
qed

section \<open>Identities\<close>

text \<open>What the identity and the hash of an attempt are computed from.\<close>

definition attempt_ser :: "attempt \<Rightarrow> ser" where
  "attempt_ser a = Ser_Tuple
     [ser_u PUBLICATION_SCHEMA_VERSION, ser_u (at_sequence a), ser_operation (at_operation a),
      ser_u (at_operation_attempt a), ser_opt (at_prior_attempt_id a),
      Ser_Str (at_repository_revision a), Ser_Str (at_eligibility_id a)]"

definition attempt_id_parts :: "attempt \<Rightarrow> string list" where
  "attempt_id_parts a = [''execution-protocol-v1:publication-attempt'', at_eligibility_id a,
     decimal (unat (at_sequence a)), at_attempt_hash a]"

definition attempt_hash_parts :: "externs \<Rightarrow> attempt \<Rightarrow> string list" where
  "attempt_hash_parts E a = [''execution-protocol-v1:publication-attempt-record'',
     (case to_json E (attempt_ser a) of None \<Rightarrow> [] | Some json \<Rightarrow> json)]"

definition collides :: "('a \<Rightarrow> 'b) \<Rightarrow> 'a \<Rightarrow> 'a \<Rightarrow> bool" where
  "collides f x y \<longleftrightarrow> x \<noteq> y \<and> f x = f y"

definition framable :: "string list \<Rightarrow> bool" where
  "framable parts \<longleftrightarrow> (\<forall>p \<in> set parts. length p < 2 ^ 64)"

lemma stable_sha256_eqD:
  "stable_sha256 E ps = stable_sha256 E qs \<Longrightarrow> framable ps \<Longrightarrow> framable qs \<Longrightarrow>
    ps = qs \<or> collides (sha256_hex E) (frame ps) (frame qs)"
  using frame_inject [of ps qs] by (auto simp: stable_sha256_def collides_def framable_def)

lemma ser_u_inject [simp]: "ser_u a = ser_u b \<longleftrightarrow> a = b"
  by (simp add: ser_u_def unsigned_word_eqI iff_conv_conj_imp)

lemma ser_opt_inject [simp]: "ser_opt a = ser_opt b \<longleftrightarrow> a = b"
  by (cases a; cases b) simp_all

lemma ser_operation_inject [simp]: "ser_operation a = ser_operation b \<longleftrightarrow> a = b"
  by (cases a; cases b) simp_all

lemma attempt_validateD:
  assumes "attempt_validate E a = Inr ()"
  shows "at_schema_version a = PUBLICATION_SCHEMA_VERSION"
    and "\<exists>json. to_json E (attempt_ser a) = Some json"
    and "at_attempt_hash a = stable_sha256 E (attempt_hash_parts E a)"
    and "at_attempt_id a = epv1 E (attempt_id_parts a)"
  using assms
  by (auto simp: attempt_validate_def attempt_expected_hash_def record_hash_def pub_json_def
      attempt_ser_def attempt_hash_parts_def attempt_id_parts_def attempt_derived_id_def result_simps
      split: if_splits)

text \<open>C18: an attempt identity names one attempt: two valid attempts with the same identity are equal in
  every field, unless the digest collides on the very bytes the two identities or hashes were computed
  from, or the serialiser gives the two attempts the same text.\<close>

theorem attempt_identity_unique:
  assumes "attempt_validate E a = Inr ()" and "attempt_validate E b = Inr ()"
    and "at_attempt_id a = at_attempt_id b"
    and "framable (attempt_id_parts a)" and "framable (attempt_id_parts b)"
    and "framable (attempt_hash_parts E a)" and "framable (attempt_hash_parts E b)"
  shows "a = b
    \<or> collides (sha256_hex E) (frame (attempt_id_parts a)) (frame (attempt_id_parts b))
    \<or> collides (sha256_hex E) (frame (attempt_hash_parts E a)) (frame (attempt_hash_parts E b))
    \<or> collides (to_json E) (attempt_ser a) (attempt_ser b)"
proof -
  note va = attempt_validateD [OF assms(1)] and vb = attempt_validateD [OF assms(2)]
  have ids: "attempt_id_parts a = attempt_id_parts b \<or>
      collides (sha256_hex E) (frame (attempt_id_parts a)) (frame (attempt_id_parts b))"
    using assms(3) va(4) vb(4) by (intro stable_sha256_eqD assms(4,5)) simp
  have hashes: "attempt_hash_parts E a = attempt_hash_parts E b \<or>
      collides (sha256_hex E) (frame (attempt_hash_parts E a)) (frame (attempt_hash_parts E b))"
    if "attempt_id_parts a = attempt_id_parts b"
    using that va(3) vb(3) by (intro stable_sha256_eqD assms(6,7)) (simp add: attempt_id_parts_def)
  have sers: "attempt_ser a = attempt_ser b \<or> collides (to_json E) (attempt_ser a) (attempt_ser b)"
    if "attempt_hash_parts E a = attempt_hash_parts E b"
    using that va(2) vb(2) by (auto simp: attempt_hash_parts_def collides_def)
  have "a = b" if "attempt_ser a = attempt_ser b" and "attempt_id_parts a = attempt_id_parts b"
    using that va(1,4) vb(1,4) by (simp add: attempt_ser_def attempt_id_parts_def)
  with ids hashes sers show ?thesis by blast
qed

theorem attempt_identity_unique_witness:
  "let a = sample_attempt 1 Op_Commit None; b = sample_attempt 2 Op_Push (Some ID)
   in at_attempt_id a = at_attempt_id b \<and>
     (collides (sha256_hex XT) (frame (attempt_id_parts a)) (frame (attempt_id_parts b))
      \<or> collides (sha256_hex XT) (frame (attempt_hash_parts XT a)) (frame (attempt_hash_parts XT b))
      \<or> collides (to_json XT) (attempt_ser a) (attempt_ser b))"
proof -
  let ?a = "sample_attempt 1 Op_Commit None" and ?b = "sample_attempt 2 Op_Push (Some ID)"
  have framed: "framable (attempt_id_parts ?a)" "framable (attempt_id_parts ?b)"
      "framable (attempt_hash_parts XT ?a)" "framable (attempt_hash_parts XT ?b)"
    by (simp_all add: framable_def attempt_id_parts_def attempt_hash_parts_def sample_attempt_def
        ID_def H_def XT_def decimal.simps)
  have "?a \<noteq> ?b" by (simp add: sample_attempt_def)
  moreover have "at_attempt_id ?a = at_attempt_id ?b" by simp
  from attempt_identity_unique [OF _ _ this framed]
  have "?a = ?b \<or> collides (sha256_hex XT) (frame (attempt_id_parts ?a)) (frame (attempt_id_parts ?b))
      \<or> collides (sha256_hex XT) (frame (attempt_hash_parts XT ?a)) (frame (attempt_hash_parts XT ?b))
      \<or> collides (to_json XT) (attempt_ser ?a) (attempt_ser ?b)" by simp
  ultimately show ?thesis by (simp add: Let_def)
qed

end
