(* ===== verification/Protocol_Model.thy ===== *)
theory Protocol_Model
  imports Wire_Identity
begin

text \<open>
  The data of the execution protocol (\<open>src/execution_protocol/model.rs\<close> and \<open>error.rs\<close>): stages and
  positions, the nodes of the plan graph with their budgets and states, model calls, proofs, mission
  results, and the aggregate state as the components modelled here see it.
\<close>

section \<open>Stages and positions\<close>

datatype protocol_stage =
    St_Profiling | St_Discovery | St_Planning | St_Implementation | St_Validation | St_Repair
  | St_Review | St_Publication | St_Terminal

datatype profile_step = InspectingMetadata

datatype discovery_step = NeedCandidates | NeedGroundedReads | NeedRelations | Discovery_ReadyToSynthesize

datatype planning_step = Planning_ReadyToSynthesize | AwaitingPlan | EvidenceGap

datatype implementation_step =
    SelectTarget | PrepareContext | GenerateCandidate | ApplyCandidate | VerifyRepository | Barrier

datatype validation_step = ScheduleGate | Running | Completed | DiagnoseFailure | AllRequiredPassed

datatype repair_step = RankCandidates | CheckEligibility | TargetSelected | ExecuteTarget | ScheduleRerun

datatype review_step = DiffReview | Step_CompletionEvaluation | PublicationEligibility

datatype publication_step = Step_Commit | Step_Push | Step_PullRequest

datatype protocol_position =
    Pos_Profiling profile_step
  | Pos_Discovery discovery_step
  | Pos_Planning planning_step
  | Pos_Implementation implementation_step
  | Pos_Validation validation_step
  | Pos_Repair repair_step
  | Pos_Review review_step
  | Pos_Publication publication_step
  | Pos_Terminal

fun position_stage :: "protocol_position \<Rightarrow> protocol_stage" where
  "position_stage (Pos_Profiling s) = St_Profiling"
| "position_stage (Pos_Discovery s) = St_Discovery"
| "position_stage (Pos_Planning s) = St_Planning"
| "position_stage (Pos_Implementation s) = St_Implementation"
| "position_stage (Pos_Validation s) = St_Validation"
| "position_stage (Pos_Repair s) = St_Repair"
| "position_stage (Pos_Review s) = St_Review"
| "position_stage (Pos_Publication s) = St_Publication"
| "position_stage Pos_Terminal = St_Terminal"

fun position_initial :: "protocol_stage \<Rightarrow> protocol_position" where
  "position_initial St_Profiling = Pos_Profiling InspectingMetadata"
| "position_initial St_Discovery = Pos_Discovery NeedCandidates"
| "position_initial St_Planning = Pos_Planning Planning_ReadyToSynthesize"
| "position_initial St_Implementation = Pos_Implementation SelectTarget"
| "position_initial St_Validation = Pos_Validation ScheduleGate"
| "position_initial St_Repair = Pos_Repair RankCandidates"
| "position_initial St_Review = Pos_Review DiffReview"
| "position_initial St_Publication = Pos_Publication Step_Commit"
| "position_initial St_Terminal = Pos_Terminal"

lemma position_stage_initial [simp]: "position_stage (position_initial st) = st"
  by (cases st) simp_all

section \<open>Nodes\<close>

datatype node_kind =
    K_Discovery | K_Planning | K_Implementation | K_Validation | K_ValidationRepair | K_Review
  | K_CompletionEvaluation | K_Publication

fun kind_stage :: "node_kind \<Rightarrow> protocol_stage" where
  "kind_stage K_Discovery = St_Discovery"
| "kind_stage K_Planning = St_Planning"
| "kind_stage K_Implementation = St_Implementation"
| "kind_stage K_Validation = St_Validation"
| "kind_stage K_ValidationRepair = St_Repair"
| "kind_stage K_Review = St_Review"
| "kind_stage K_CompletionEvaluation = St_Review"
| "kind_stage K_Publication = St_Publication"

definition requires_model :: "node_kind \<Rightarrow> bool" where
  "requires_model k \<longleftrightarrow> k \<in> {K_Discovery, K_Planning, K_Implementation, K_ValidationRepair, K_Review,
     K_CompletionEvaluation}"

definition is_implementation :: "node_kind \<Rightarrow> bool" where
  "is_implementation k \<longleftrightarrow> k = K_Implementation"

datatype node_state =
    Pending
  | Ready
  | Active u32
  | Waiting u32 effect_id
  | Succeeded proof_id
  | FailedRecoverable failure_revision_id
  | FailedTerminal failure_revision_id
  | Superseded repository_revision_id
  | Skipped proof_id

fun is_active :: "node_state \<Rightarrow> bool" where
  "is_active (Active attempt) = True"
| "is_active _ = False"

fun owns_execution :: "node_state \<Rightarrow> bool" where
  "owns_execution (Active attempt) = True"
| "owns_execution (Waiting attempt effect) = True"
| "owns_execution _ = False"

fun satisfies_dependency :: "node_state \<Rightarrow> bool" where
  "satisfies_dependency (Succeeded proof) = True"
| "satisfies_dependency (Skipped proof) = True"
| "satisfies_dependency _ = False"

record mission_budget =
  mb_max_model_calls :: u32
  mb_max_cost_micros :: u64
  mb_max_duration_ms :: u64

record node_budget =
  nb_max_model_calls :: u32
  nb_max_cost_micros :: u64
  nb_max_duration_ms :: u64
  nb_max_mutation_attempts :: u32
  nb_max_context_rebuilds :: u32
  nb_max_input_tokens_per_call :: u32
  nb_max_output_tokens_per_call :: u32

definition budget_deterministic :: node_budget where
  "budget_deterministic = \<lparr>nb_max_model_calls = 0, nb_max_cost_micros = 0, nb_max_duration_ms = 0,
     nb_max_mutation_attempts = 0, nb_max_context_rebuilds = 0, nb_max_input_tokens_per_call = 0,
     nb_max_output_tokens_per_call = 0\<rparr>"

record budget_usage =
  bu_model_calls_reserved :: u32
  bu_model_calls_consumed :: u32
  bu_cost_micros_reserved :: u64
  bu_cost_micros_consumed :: u64
  bu_duration_ms_reserved :: u64
  bu_duration_ms_consumed :: u64
  bu_mutation_attempts :: u32
  bu_context_rebuilds :: u32

definition usage_default :: budget_usage where
  "usage_default = \<lparr>bu_model_calls_reserved = 0, bu_model_calls_consumed = 0,
     bu_cost_micros_reserved = 0, bu_cost_micros_consumed = 0, bu_duration_ms_reserved = 0,
     bu_duration_ms_consumed = 0, bu_mutation_attempts = 0, bu_context_rebuilds = 0\<rparr>"

record node_spec =
  ns_id :: node_id
  ns_kind :: node_kind
  ns_required :: bool
  ns_dependencies :: "node_id list"
  ns_budget :: node_budget

record execution_node =
  en_id :: node_id
  en_kind :: node_kind
  en_required :: bool
  en_dependencies :: "node_id list"
  en_budget :: node_budget
  en_usage :: budget_usage
  en_state :: node_state
  en_attempts_started :: u32

definition node_of_spec :: "node_spec \<Rightarrow> execution_node" where
  "node_of_spec spec = \<lparr>en_id = ns_id spec, en_kind = ns_kind spec, en_required = ns_required spec,
     en_dependencies = ns_dependencies spec, en_budget = ns_budget spec, en_usage = usage_default,
     en_state = Pending, en_attempts_started = 0\<rparr>"

section \<open>Proofs, calls and results\<close>

datatype proof_kind =
    P_RepositoryProfile | P_DiscoveryImpactMap | P_PlanAccepted | P_MutationVerified
  | P_AlreadySatisfied | P_ImplementationBarrier | P_ValidationPassed | P_ValidationFailure
  | P_RepairEligibility | P_RepairVerified | P_ValidationRerunScheduled | P_RequiredValidationPassed
  | P_ReviewCompleted | P_CompletionEvaluated | P_PublicationEligibility | P_PublicationCompleted
  | P_NoOpSatisfied

record proof_record =
  pf_id :: proof_id
  pf_kind :: proof_kind
  pf_repository_revision :: repository_revision_id
  pf_node_ids :: "node_id list"
  pf_related_proof_ids :: "proof_id list"
  pf_related_evidence_ids :: "evidence_id list"
  pf_detail_hash :: string

record admission =
  ad_call_id :: model_call_id
  ad_node_id :: node_id
  ad_action_id :: action_id
  ad_payload_hash :: string
  ad_input_tokens :: u32
  ad_output_tokens :: u32
  ad_reserved_cost_micros :: u64
  ad_duration_allowance_ms :: u64

datatype model_call_state =
    Admitted
  | Reserved
  | Dispatched
  | ReconciledConsumed u64 u64
  | ReconciledReleased

fun owns_reservation :: "model_call_state \<Rightarrow> bool" where
  "owns_reservation Reserved = True"
| "owns_reservation Dispatched = True"
| "owns_reservation _ = False"

text \<open>The pattern \<open>Admitted | Reserved | Dispatched\<close> of the reducer.\<close>

fun call_is_open :: "model_call_state \<Rightarrow> bool" where
  "call_is_open Admitted = True"
| "call_is_open Reserved = True"
| "call_is_open Dispatched = True"
| "call_is_open _ = False"

record call_record =
  cr_admission :: admission
  cr_state :: model_call_state

datatype reconciliation = Consumed u64 u64 | ReleasedUncontacted

datatype mission_outcome =
    MO_Succeeded | MO_SucceededNoOp | MO_PartialReviewable | MO_BlockedNoDiff | MO_NoValidRepair
  | MO_InsufficientEvidence | MO_ValidationFailed | MO_BudgetBlocked | MO_InfrastructureFailed
  | MO_PublicationFailed | MO_Canceled

definition outcome_is_success :: "mission_outcome \<Rightarrow> bool" where
  "outcome_is_success m \<longleftrightarrow> m \<in> {MO_Succeeded, MO_SucceededNoOp, MO_PartialReviewable}"

datatype process_health = Healthy | Degraded string | Process_Failed string

record fatal_blocker =
  fb_category :: string
  fb_code :: string
  fb_node_id :: "node_id option"

datatype mission_result =
    MR_Succeeded proof_id
  | MR_SucceededNoOp proof_id
  | MR_PartialReviewable proof_id string
  | MR_BlockedNoDiff fatal_blocker
  | MR_NoValidRepair fatal_blocker
  | MR_InsufficientEvidence fatal_blocker
  | MR_ValidationFailed fatal_blocker
  | MR_BudgetBlocked node_id fatal_blocker
  | MR_InfrastructureFailed fatal_blocker
  | MR_PublicationFailed fatal_blocker
  | MR_Canceled string

fun result_outcome :: "mission_result \<Rightarrow> mission_outcome" where
  "result_outcome (MR_Succeeded p) = MO_Succeeded"
| "result_outcome (MR_SucceededNoOp p) = MO_SucceededNoOp"
| "result_outcome (MR_PartialReviewable p c) = MO_PartialReviewable"
| "result_outcome (MR_BlockedNoDiff f) = MO_BlockedNoDiff"
| "result_outcome (MR_NoValidRepair f) = MO_NoValidRepair"
| "result_outcome (MR_InsufficientEvidence f) = MO_InsufficientEvidence"
| "result_outcome (MR_ValidationFailed f) = MO_ValidationFailed"
| "result_outcome (MR_BudgetBlocked n f) = MO_BudgetBlocked"
| "result_outcome (MR_InfrastructureFailed f) = MO_InfrastructureFailed"
| "result_outcome (MR_PublicationFailed f) = MO_PublicationFailed"
| "result_outcome (MR_Canceled c) = MO_Canceled"

fun result_proof_id :: "mission_result \<Rightarrow> proof_id option" where
  "result_proof_id (MR_Succeeded p) = Some p"
| "result_proof_id (MR_PartialReviewable p c) = Some p"
| "result_proof_id (MR_SucceededNoOp p) = Some p"
| "result_proof_id _ = None"

fun result_first_fatal_blocker :: "mission_result \<Rightarrow> fatal_blocker option" where
  "result_first_fatal_blocker (MR_BlockedNoDiff f) = Some f"
| "result_first_fatal_blocker (MR_NoValidRepair f) = Some f"
| "result_first_fatal_blocker (MR_InsufficientEvidence f) = Some f"
| "result_first_fatal_blocker (MR_ValidationFailed f) = Some f"
| "result_first_fatal_blocker (MR_BudgetBlocked n f) = Some f"
| "result_first_fatal_blocker (MR_InfrastructureFailed f) = Some f"
| "result_first_fatal_blocker (MR_PublicationFailed f) = Some f"
| "result_first_fatal_blocker _ = None"

lemma result_success_iff_proof:
  "outcome_is_success (result_outcome r) \<longleftrightarrow> result_proof_id r \<noteq> None"
  by (cases r) (simp_all add: outcome_is_success_def)

section \<open>Violations\<close>

datatype protocol_violation =
    V_UnsupportedVersion u16
  | V_InvalidIdentity string
  | V_RevisionConflict u64 u64
  | V_SequenceConflict u64 u64
  | V_EventIdentityConflict event_id
  | V_EventSerialization string
  | V_EnvelopeMismatch string
  | V_InvalidEventIdentity event_id
  | V_TerminalImmutable
  | V_IllegalTransition protocol_stage protocol_stage
  | V_MissingTransitionProof proof_kind
  | V_UnknownProof proof_id
  | V_InvalidProof proof_id string
  | V_DuplicateProof proof_id
  | V_UnknownNode node_id
  | V_DuplicateNode node_id
  | V_InvalidNodeState node_id string
  | V_WrongPosition node_id protocol_stage
  | V_ActiveOwnerConflict node_id node_id
  | V_UnsatisfiedDependency node_id node_id
  | V_InvalidGraph string "node_id option"
  | V_BudgetExceeded "node_id option" string
  | V_ModelCallLifecycle model_call_id string
  | V_RepositoryProfile string
  | V_DiscoveryContract string
  | V_PlanningContract string
  | V_ImplementationContract string
  | V_MutationContract string
  | V_ValidationContract string
  | V_ReviewContract string
  | V_PublicationContract string
  | V_DuplicateSearch string
  | V_ContextTooLarge u32 u32
  | V_ImplementationContextTooLarge u32 u32
  | V_TerminalPredicate string
  | V_Invariant string string

fun violation_code :: "protocol_violation \<Rightarrow> string" where
  "violation_code (V_UnsupportedVersion found) = ''unsupported_protocol_version''"
| "violation_code (V_InvalidIdentity field) = ''invalid_identity''"
| "violation_code (V_RevisionConflict e a) = ''aggregate_revision_conflict''"
| "violation_code (V_SequenceConflict e a) = ''event_sequence_conflict''"
| "violation_code (V_EventIdentityConflict e) = ''event_identity_conflict''"
| "violation_code (V_EventSerialization d) = ''event_serialization_failed''"
| "violation_code (V_EnvelopeMismatch field) = ''event_envelope_mismatch''"
| "violation_code (V_InvalidEventIdentity e) = ''invalid_event_identity''"
| "violation_code V_TerminalImmutable = ''canonical_result_immutable''"
| "violation_code (V_IllegalTransition f t) = ''illegal_protocol_transition''"
| "violation_code (V_MissingTransitionProof r) = ''transition_proof_missing''"
| "violation_code (V_UnknownProof p) = ''unknown_proof''"
| "violation_code (V_InvalidProof p code) = code"
| "violation_code (V_InvalidNodeState n code) = code"
| "violation_code (V_InvalidGraph code n) = code"
| "violation_code (V_ModelCallLifecycle c code) = code"
| "violation_code (V_RepositoryProfile code) = code"
| "violation_code (V_DiscoveryContract code) = code"
| "violation_code (V_PlanningContract code) = code"
| "violation_code (V_ImplementationContract code) = code"
| "violation_code (V_MutationContract code) = code"
| "violation_code (V_ValidationContract code) = code"
| "violation_code (V_ReviewContract code) = code"
| "violation_code (V_PublicationContract code) = code"
| "violation_code (V_TerminalPredicate code) = code"
| "violation_code (V_Invariant code detail) = code"
| "violation_code (V_DuplicateProof p) = ''duplicate_proof''"
| "violation_code (V_UnknownNode n) = ''unknown_node''"
| "violation_code (V_DuplicateNode n) = ''duplicate_node''"
| "violation_code (V_WrongPosition n p) = ''node_wrong_protocol_position''"
| "violation_code (V_ActiveOwnerConflict a r) = ''active_owner_conflict''"
| "violation_code (V_UnsatisfiedDependency n d) = ''unsatisfied_dependency''"
| "violation_code (V_BudgetExceeded n d) = ''signed_budget_exceeded''"
| "violation_code (V_DuplicateSearch s) = ''duplicate_discovery_search''"
| "violation_code (V_ContextTooLarge r c) = ''discovery_context_too_large''"
| "violation_code (V_ImplementationContextTooLarge r c) = ''implementation_context_too_large''"

section \<open>The aggregate state\<close>

text \<open>
  The fields of \<open>ExecutionState\<close> that the modelled reducer operations read or write. Where an operation
  reads one fact of a larger record, the field is that fact: whether the repository profile, the
  planning, the implementation, the validation and the publication state are present, the identity and
  admission of the current discovery, planning and review action, and of the event log the payloads the
  operations look for.
\<close>

record prepared_action =
  pa_payload_identity :: string
  pa_envelope_call_id :: model_call_id
  pa_admission :: admission

record mutation_action =
  mu_policy_node_id :: node_id
  mu_policy_attempt_id :: string
  mu_request_call_id :: model_call_id
  mu_request_wire :: ser
  mu_admission :: admission

datatype logged_event =
    Log_MutationActionPrepared mutation_action
  | Log_TargetContextSuperseded node_id
  | Log_NodesAdded proof_id "node_spec list"
  | Log_ValidationRepairNodeAdded proof_id node_spec
  | Log_Other

record budget_ledger =
  bl_mission_usage :: budget_usage
  bl_model_calls :: "(model_call_id, call_record) btree_map"

record execution_state =
  es_position :: protocol_position
  es_latest_transition_proof :: "proof_id option"
  es_mission_budget :: mission_budget
  es_nodes :: "(node_id, execution_node) btree_map"
  es_node_order :: "node_id list"
  es_proofs :: "(proof_id, proof_record) btree_map"
  es_has_profile :: bool
  es_discovery_action :: "prepared_action option"
  es_has_planning :: bool
  es_planning_action :: "prepared_action option"
  es_has_implementation :: bool
  es_has_validation :: bool
  es_review :: "prepared_action option option"
  es_has_publication :: bool
  es_budgets :: budget_ledger
  es_event_log :: "logged_event list"

definition state_stage :: "execution_state \<Rightarrow> protocol_stage" where
  "state_stage s = position_stage (es_position s)"

text \<open>The nodes in their stable order, the iterator the reducer writes out in five places.\<close>

definition ordered_nodes :: "execution_state \<Rightarrow> execution_node list" where
  "ordered_nodes s = List.map_filter (map_of (es_nodes s)) (es_node_order s)"

definition active_node :: "execution_state \<Rightarrow> execution_node option" where
  "active_node s = List.find (\<lambda>n. owns_execution (en_state n)) (ordered_nodes s)"

definition active_reservation_count :: "execution_state \<Rightarrow> nat" where
  "active_reservation_count s =
     length (filter (\<lambda>r. owns_reservation (cr_state r)) (bt_values (bl_model_calls (es_budgets s))))"

definition required_nodes :: "execution_state \<Rightarrow> node_kind \<Rightarrow> execution_node list" where
  "required_nodes s kind = filter (\<lambda>n. en_required n \<and> en_kind n = kind) (ordered_nodes s)"

definition proof_kind_of :: "execution_state \<Rightarrow> proof_id \<Rightarrow> proof_kind option" where
  "proof_kind_of s p = map_option pf_kind (map_of (es_proofs s) p)"

definition succeeded_proof_kind :: "execution_state \<Rightarrow> execution_node \<Rightarrow> proof_kind option" where
  "succeeded_proof_kind s n = (case en_state n of
       Succeeded p \<Rightarrow> proof_kind_of s p
     | Skipped p \<Rightarrow> proof_kind_of s p
     | _ \<Rightarrow> None)"

definition unresolved_required_nodes :: "execution_state \<Rightarrow> node_id list" where
  "unresolved_required_nodes s = remdups (sort (map en_id
     (filter (\<lambda>n. en_required n \<and> \<not> satisfies_dependency (en_state n)) (bt_values (es_nodes s)))))"

definition set_node :: "execution_node \<Rightarrow> node_id \<Rightarrow> execution_state \<Rightarrow> execution_state" where
  "set_node n i s = s\<lparr>es_nodes := bt_insert i n (es_nodes s)\<rparr>"

definition set_call :: "call_record \<Rightarrow> model_call_id \<Rightarrow> execution_state \<Rightarrow> execution_state" where
  "set_call r c s = s\<lparr>es_budgets := (es_budgets s)\<lparr>bl_model_calls :=
     bt_insert c r (bl_model_calls (es_budgets s))\<rparr>\<rparr>"

definition set_mission_usage :: "budget_usage \<Rightarrow> execution_state \<Rightarrow> execution_state" where
  "set_mission_usage u s = s\<lparr>es_budgets := (es_budgets s)\<lparr>bl_mission_usage := u\<rparr>\<rparr>"

section \<open>Bootstrap\<close>

definition bootstrap_specs :: "node_budget \<Rightarrow> node_budget \<Rightarrow> node_spec list" where
  "bootstrap_specs discovery_budget planning_budget =
     [\<lparr>ns_id = ''protocol-v1:discovery'', ns_kind = K_Discovery, ns_required = True,
       ns_dependencies = [], ns_budget = discovery_budget\<rparr>,
      \<lparr>ns_id = ''protocol-v1:planning'', ns_kind = K_Planning, ns_required = True,
       ns_dependencies = [''protocol-v1:discovery''], ns_budget = planning_budget\<rparr>]"

definition bootstrap_with_mode ::
  "mission_budget \<Rightarrow> node_budget \<Rightarrow> node_budget \<Rightarrow> execution_state" where
  "bootstrap_with_mode mission discovery_budget planning_budget =
     (let specs = bootstrap_specs discovery_budget planning_budget in
      \<lparr>es_position = Pos_Profiling InspectingMetadata, es_latest_transition_proof = None,
       es_mission_budget = mission,
       es_nodes = bt_of_list (map (\<lambda>spec. (ns_id spec, node_of_spec spec)) specs),
       es_node_order = map ns_id specs, es_proofs = [], es_has_profile = False,
       es_discovery_action = None, es_has_planning = False, es_planning_action = None,
       es_has_implementation = False, es_has_validation = False, es_review = None,
       es_has_publication = False,
       es_budgets = \<lparr>bl_mission_usage = usage_default, bl_model_calls = []\<rparr>, es_event_log = []\<rparr>)"

end
