(* ===== verification/Budget_Ledger.thy ===== *)
theory Budget_Ledger
  imports Protocol_Model
begin

text \<open>
  The model-call budget of the reducer (\<open>src/execution_protocol/reducer.rs\<close>): the four operations of a
  call's life (admit, reserve, dispatch, reconcile), the usage arithmetic they share, and the
  recomputation of all accounts that \<open>validate_budget_invariants\<close> runs after every event. Every
  addition saturates at the width of its field, as in the code.
\<close>

section \<open>Usage arithmetic\<close>

definition reserve_usage :: "budget_usage \<Rightarrow> admission \<Rightarrow> budget_usage" where
  "reserve_usage u a = u\<lparr>
     bu_model_calls_reserved := sat_add (bu_model_calls_reserved u) 1,
     bu_cost_micros_reserved := sat_add (bu_cost_micros_reserved u) (ad_reserved_cost_micros a),
     bu_duration_ms_reserved := sat_add (bu_duration_ms_reserved u) (ad_duration_allowance_ms a)\<rparr>"

definition release_usage :: "budget_usage \<Rightarrow> admission \<Rightarrow> budget_usage" where
  "release_usage u a = u\<lparr>
     bu_model_calls_reserved := sat_sub (bu_model_calls_reserved u) 1,
     bu_cost_micros_reserved := sat_sub (bu_cost_micros_reserved u) (ad_reserved_cost_micros a),
     bu_duration_ms_reserved := sat_sub (bu_duration_ms_reserved u) (ad_duration_allowance_ms a)\<rparr>"

definition add_consumed :: "budget_usage \<Rightarrow> u64 \<Rightarrow> u64 \<Rightarrow> budget_usage" where
  "add_consumed u actual_cost_micros duration_ms = u\<lparr>
     bu_model_calls_consumed := sat_add (bu_model_calls_consumed u) 1,
     bu_cost_micros_consumed := sat_add (bu_cost_micros_consumed u) actual_cost_micros,
     bu_duration_ms_consumed := sat_add (bu_duration_ms_consumed u) duration_ms\<rparr>"

definition consume_usage :: "budget_usage \<Rightarrow> admission \<Rightarrow> u64 \<Rightarrow> u64 \<Rightarrow> budget_usage" where
  "consume_usage u a actual_cost_micros duration_ms =
     add_consumed (release_usage u a) actual_cost_micros duration_ms"

definition add_mutation_attempt :: "budget_usage \<Rightarrow> budget_usage" where
  "add_mutation_attempt u = u\<lparr>bu_mutation_attempts := sat_add (bu_mutation_attempts u) 1\<rparr>"

definition add_context_rebuild :: "budget_usage \<Rightarrow> budget_usage" where
  "add_context_rebuild u = u\<lparr>bu_context_rebuilds := sat_add (bu_context_rebuilds u) 1\<rparr>"

definition ensure_usage_capacity ::
  "budget_usage \<Rightarrow> node_budget \<Rightarrow> admission \<Rightarrow> node_id option \<Rightarrow> protocol_violation + unit" where
  "ensure_usage_capacity u b a n =
     (if sat_add (sat_add (bu_model_calls_consumed u) (bu_model_calls_reserved u)) 1 >
         nb_max_model_calls b
      then Inl (V_BudgetExceeded n ''model_calls'')
      else if sat_add (sat_add (bu_cost_micros_consumed u) (bu_cost_micros_reserved u))
           (ad_reserved_cost_micros a) > nb_max_cost_micros b
      then Inl (V_BudgetExceeded n ''cost_micros'')
      else if sat_add (sat_add (bu_duration_ms_consumed u) (bu_duration_ms_reserved u))
           (ad_duration_allowance_ms a) > nb_max_duration_ms b
      then Inl (V_BudgetExceeded n ''duration_ms'')
      else Inr ())"

definition validate_usage_limits ::
  "budget_usage \<Rightarrow> node_budget \<Rightarrow> node_id option \<Rightarrow> protocol_violation + unit" where
  "validate_usage_limits u b n =
     (if sat_add (bu_model_calls_consumed u) (bu_model_calls_reserved u) > nb_max_model_calls b
      then Inl (V_BudgetExceeded n ''model_calls'')
      else if sat_add (bu_cost_micros_consumed u) (bu_cost_micros_reserved u) > nb_max_cost_micros b
      then Inl (V_BudgetExceeded n ''cost_micros'')
      else if sat_add (bu_duration_ms_consumed u) (bu_duration_ms_reserved u) > nb_max_duration_ms b
      then Inl (V_BudgetExceeded n ''duration_ms'')
      else Inr ())"

definition validate_mission_usage_limits ::
  "budget_usage \<Rightarrow> mission_budget \<Rightarrow> protocol_violation + unit" where
  "validate_mission_usage_limits u b =
     (if sat_add (bu_model_calls_consumed u) (bu_model_calls_reserved u) > mb_max_model_calls b
      then Inl (V_BudgetExceeded None ''model_calls'')
      else if sat_add (bu_cost_micros_consumed u) (bu_cost_micros_reserved u) > mb_max_cost_micros b
      then Inl (V_BudgetExceeded None ''cost_micros'')
      else if sat_add (bu_duration_ms_consumed u) (bu_duration_ms_reserved u) > mb_max_duration_ms b
      then Inl (V_BudgetExceeded None ''duration_ms'')
      else Inr ())"

definition node_budget_is_exhausted :: "execution_node \<Rightarrow> bool" where
  "node_budget_is_exhausted n \<longleftrightarrow>
     sat_add (bu_model_calls_consumed (en_usage n)) (bu_model_calls_reserved (en_usage n)) =
       nb_max_model_calls (en_budget n) \<or>
     sat_add (bu_cost_micros_consumed (en_usage n)) (bu_cost_micros_reserved (en_usage n)) =
       nb_max_cost_micros (en_budget n) \<or>
     sat_add (bu_duration_ms_consumed (en_usage n)) (bu_duration_ms_reserved (en_usage n)) =
       nb_max_duration_ms (en_budget n)"

definition ensure_model_call_capacity ::
  "execution_state \<Rightarrow> execution_node \<Rightarrow> admission \<Rightarrow> protocol_violation + unit" where
  "ensure_model_call_capacity s n a =
     bnd (ensure_usage_capacity (en_usage n) (en_budget n) a (Some (en_id n))) (\<lambda>_.
      let u = bl_mission_usage (es_budgets s); b = es_mission_budget s in
      if sat_add (sat_add (bu_model_calls_consumed u) (bu_model_calls_reserved u)) 1 >
         mb_max_model_calls b
      then Inl (V_BudgetExceeded None ''model_calls'')
      else if sat_add (sat_add (bu_cost_micros_consumed u) (bu_cost_micros_reserved u))
           (ad_reserved_cost_micros a) > mb_max_cost_micros b
      then Inl (V_BudgetExceeded None ''cost_micros'')
      else if sat_add (sat_add (bu_duration_ms_consumed u) (bu_duration_ms_reserved u))
           (ad_duration_allowance_ms a) > mb_max_duration_ms b
      then Inl (V_BudgetExceeded None ''duration_ms'')
      else Inr ())"

section \<open>Reading calls and events\<close>

definition has_open_model_call :: "execution_state \<Rightarrow> bool" where
  "has_open_model_call s \<longleftrightarrow>
     list_ex (\<lambda>r. call_is_open (cr_state r)) (bt_values (bl_model_calls (es_budgets s)))"

definition has_open_model_call_for_node :: "execution_state \<Rightarrow> node_id \<Rightarrow> bool" where
  "has_open_model_call_for_node s n \<longleftrightarrow>
     list_ex (\<lambda>r. ad_node_id (cr_admission r) = n \<and> call_is_open (cr_state r))
       (bt_values (bl_model_calls (es_budgets s)))"

fun action_prepared :: "logged_event \<Rightarrow> mutation_action option" where
  "action_prepared (Log_MutationActionPrepared prepared) = Some prepared"
| "action_prepared _ = None"

text \<open>The latest prepared mutation action of a call, the reverse \<open>find_map\<close> over the event log.\<close>

definition prepared_for_call :: "model_call_id \<Rightarrow> logged_event \<Rightarrow> mutation_action option" where
  "prepared_for_call c e = (case action_prepared e of
       None \<Rightarrow> None
     | Some prepared \<Rightarrow> if ad_call_id (mu_admission prepared) = c then Some prepared else None)"

definition latest_mutation_action :: "execution_state \<Rightarrow> model_call_id \<Rightarrow> mutation_action option" where
  "latest_mutation_action s c = find_map (prepared_for_call c) (rev (es_event_log s))"

text \<open>\<open>MutationProviderRequest::payload_hash\<close> (\<open>mutation.rs\<close>): the digest of the request's JSON bytes.\<close>

definition request_payload_hash :: "externs \<Rightarrow> mutation_action \<Rightarrow> protocol_violation + string" where
  "request_payload_hash E prepared =
     bnd (ok_or (V_MutationContract ''mutation_contract_serialization_failed'')
            (to_json E (mu_request_wire prepared)))
       (\<lambda>json. Inr (sha256_hex E json))"

section \<open>The operations\<close>

text \<open>The checks of \<open>admit_model_call\<close> that bind a call to the action prepared for it.\<close>

definition admission_binding ::
  "execution_state \<Rightarrow> execution_node \<Rightarrow> admission \<Rightarrow> protocol_violation + unit" where
  "admission_binding s n a =
     bnd (if en_kind n = K_Discovery \<and> es_has_profile s
          then bnd (ok_or (V_DiscoveryContract ''discovery_call_without_prepared_action'')
                      (es_discovery_action s)) (\<lambda>p.
               require (pa_admission p = a)
                 (V_DiscoveryContract ''discovery_call_does_not_match_prepared_admission''))
          else Inr ()) (\<lambda>_.
     bnd (if en_kind n = K_Planning \<and> es_has_planning s
          then bnd (ok_or (V_PlanningContract ''planning_call_without_prepared_action'')
                      (es_planning_action s)) (\<lambda>p.
               require (pa_admission p = a)
                 (V_PlanningContract ''planning_call_does_not_match_prepared_admission''))
          else Inr ()) (\<lambda>_.
     bnd (if (en_kind n = K_Implementation \<or> en_kind n = K_ValidationRepair) \<and>
             (es_has_implementation s \<or> es_has_validation s)
          then bnd (ok_or (if en_kind n = K_ValidationRepair
                      then V_ValidationContract ''repair_model_call_without_authoritative_action''
                      else V_MutationContract ''mutation_call_without_prepared_action'')
                      (latest_mutation_action s (ad_call_id a))) (\<lambda>p.
               require (mu_admission p = a)
                 (V_MutationContract ''mutation_call_does_not_match_prepared_admission''))
          else Inr ()) (\<lambda>_.
      if en_kind n = K_Review \<or> en_kind n = K_CompletionEvaluation
      then (case es_review s of
          None \<Rightarrow> Inr ()
        | Some current \<Rightarrow>
            bnd (ok_or (V_ReviewContract ''review_call_without_prepared_action'') current) (\<lambda>p.
              require (pa_admission p = a)
                (V_ReviewContract ''review_call_does_not_match_prepared_admission'')))
      else Inr ())))"

definition admit_model_call ::
  "execution_state \<Rightarrow> admission \<Rightarrow> protocol_violation + execution_state" where
  "admit_model_call s a =
     (if map_of (bl_model_calls (es_budgets s)) (ad_call_id a) \<noteq> None
      then Inl (V_ModelCallLifecycle (ad_call_id a) ''call_identity_already_exists'')
      else bnd (ok_or (V_UnknownNode (ad_node_id a)) (map_of (es_nodes s) (ad_node_id a))) (\<lambda>n.
      bnd (admission_binding s n a) (\<lambda>_.
       if \<not> is_active (en_state n) \<or> \<not> requires_model (en_kind n)
       then Inl (V_InvalidNodeState (ad_node_id a) ''model_call_admission'')
       else if blank (ad_payload_hash a)
       then Inl (V_ModelCallLifecycle (ad_call_id a) ''payload_hash_missing'')
       else if ad_input_tokens a > nb_max_input_tokens_per_call (en_budget n)
       then Inl (V_BudgetExceeded (Some (en_id n)) ''input_tokens_per_call'')
       else if ad_output_tokens a > nb_max_output_tokens_per_call (en_budget n)
       then Inl (V_BudgetExceeded (Some (en_id n)) ''output_tokens_per_call'')
       else if has_open_model_call_for_node s (en_id n)
       then Inl (V_ModelCallLifecycle (ad_call_id a) ''node_already_has_open_call'')
       else bnd (ensure_model_call_capacity s n a) (\<lambda>_.
         Inr (set_call \<lparr>cr_admission = a, cr_state = Admitted\<rparr> (ad_call_id a) s)))))"

definition reserve_model_call ::
  "execution_state \<Rightarrow> model_call_id \<Rightarrow> protocol_violation + execution_state" where
  "reserve_model_call s c =
     bnd (ok_or (V_ModelCallLifecycle c ''reservation_without_admission'')
            (map_of (bl_model_calls (es_budgets s)) c)) (\<lambda>r.
      if cr_state r \<noteq> Admitted
      then Inl (V_ModelCallLifecycle c ''reservation_not_admitted'')
      else let a = cr_admission r in
        bnd (ok_or (V_UnknownNode (ad_node_id a)) (map_of (es_nodes s) (ad_node_id a))) (\<lambda>n.
         if \<not> is_active (en_state n)
         then Inl (V_InvalidNodeState (en_id n) ''reservation_owner_not_active'')
         else bnd (ensure_model_call_capacity s n a) (\<lambda>_. Inr
           (set_call (r\<lparr>cr_state := Reserved\<rparr>) c
             (set_mission_usage (reserve_usage (bl_mission_usage (es_budgets s)) a)
               (set_node (n\<lparr>en_usage := reserve_usage (en_usage n) a\<rparr>) (ad_node_id a) s))))))"

definition payload_mismatch :: "prepared_action \<Rightarrow> model_call_id \<Rightarrow> string \<Rightarrow> bool" where
  "payload_mismatch p c payload_hash \<longleftrightarrow> ad_call_id (pa_admission p) = c \<and>
     (pa_payload_identity p \<noteq> payload_hash \<or> ad_payload_hash (pa_admission p) \<noteq> payload_hash)"

text \<open>The checks of \<open>start_provider_dispatch\<close> against the action prepared for the call.\<close>

definition dispatch_binding ::
  "externs \<Rightarrow> execution_state \<Rightarrow> model_call_id \<Rightarrow> string \<Rightarrow> protocol_violation + unit" where
  "dispatch_binding E s c payload_hash =
     (if (case es_discovery_action s of None \<Rightarrow> False | Some p \<Rightarrow> payload_mismatch p c payload_hash)
      then Inl (V_DiscoveryContract ''serialized_discovery_payload_mismatch'')
      else if (case es_planning_action s of None \<Rightarrow> False | Some p \<Rightarrow> payload_mismatch p c payload_hash)
      then Inl (V_PlanningContract ''serialized_planning_payload_mismatch'')
      else bnd (case latest_mutation_action s c of
          None \<Rightarrow> Inr ()
        | Some prepared \<Rightarrow> bnd (request_payload_hash E prepared) (\<lambda>h.
            require (h = payload_hash \<and> ad_payload_hash (mu_admission prepared) = payload_hash \<and>
                mu_request_call_id prepared = c)
              (V_MutationContract ''serialized_mutation_payload_mismatch''))) (\<lambda>_.
       case es_review s of
         Some (Some p) \<Rightarrow>
           if ad_call_id (pa_admission p) = c \<and>
              (pa_payload_identity p \<noteq> payload_hash \<or> ad_payload_hash (pa_admission p) \<noteq> payload_hash \<or>
               pa_envelope_call_id p \<noteq> c)
           then Inl (V_ReviewContract ''serialized_review_payload_mismatch'')
           else Inr ()
       | _ \<Rightarrow> Inr ()))"

definition start_provider_dispatch ::
  "externs \<Rightarrow> execution_state \<Rightarrow> model_call_id \<Rightarrow> string \<Rightarrow>
   protocol_violation + execution_state" where
  "start_provider_dispatch E s c payload_hash =
     bnd (dispatch_binding E s c payload_hash) (\<lambda>_.
     bnd (ok_or (V_ModelCallLifecycle c ''dispatch_without_reservation'')
            (map_of (bl_model_calls (es_budgets s)) c)) (\<lambda>r.
      if cr_state r \<noteq> Reserved
      then Inl (V_ModelCallLifecycle c ''dispatch_not_reserved'')
      else if ad_payload_hash (cr_admission r) \<noteq> payload_hash
      then Inl (V_ModelCallLifecycle c ''dispatch_payload_hash_mismatch'')
      else Inr (set_call (r\<lparr>cr_state := Dispatched\<rparr>) c s)))"

definition is_consumed :: "call_record \<Rightarrow> bool" where
  "is_consumed r \<longleftrightarrow> (case cr_state r of ReconciledConsumed cost ms \<Rightarrow> True | _ \<Rightarrow> False)"

definition prepared_attempt_is :: "model_call_id \<Rightarrow> string \<Rightarrow> logged_event \<Rightarrow> bool" where
  "prepared_attempt_is c attempt_id e \<longleftrightarrow> (case action_prepared e of
       None \<Rightarrow> False
     | Some p \<Rightarrow> ad_call_id (mu_admission p) = c \<and> mu_policy_attempt_id p = attempt_id)"

definition mutation_attempt_consumed :: "execution_state \<Rightarrow> string \<Rightarrow> bool" where
  "mutation_attempt_consumed s attempt_id \<longleftrightarrow>
     list_ex (\<lambda>existing. is_consumed existing \<and>
         list_ex (prepared_attempt_is (ad_call_id (cr_admission existing)) attempt_id) (es_event_log s))
       (bt_values (bl_model_calls (es_budgets s)))"

definition consume_guard ::
  "execution_state \<Rightarrow> model_call_id \<Rightarrow> protocol_violation + unit" where
  "consume_guard s c = (case latest_mutation_action s c of
       None \<Rightarrow> Inr ()
     | Some prepared \<Rightarrow>
         if mutation_attempt_consumed s (mu_policy_attempt_id prepared)
         then Inl (V_ModelCallLifecycle c ''mutation_attempt_already_consumed'')
         else let owner = mu_policy_node_id prepared in
           bnd (ok_or (V_UnknownNode owner) (map_of (es_nodes s) owner)) (\<lambda>n.
             if sat_add (bu_mutation_attempts (en_usage n)) 1 > nb_max_mutation_attempts (en_budget n)
             then Inl (V_BudgetExceeded (Some owner) ''mutation_attempts'')
             else Inr ()))"

definition count_mutation_attempt :: "node_id \<Rightarrow> execution_state \<Rightarrow> execution_state" where
  "count_mutation_attempt owner s = set_mission_usage
     (add_mutation_attempt (bl_mission_usage (es_budgets s)))
     (s\<lparr>es_nodes := bt_adjust owner (\<lambda>n. n\<lparr>en_usage := add_mutation_attempt (en_usage n)\<rparr>)
        (es_nodes s)\<rparr>)"

text \<open>
  The mutation of \<open>reconcile_model_call\<close> once its guards have passed: the usage change \<open>f\<close> is applied to
  the owner and to the mission, and the call gets its final state.
\<close>

definition settle_call ::
  "(budget_usage \<Rightarrow> budget_usage) \<Rightarrow> model_call_state \<Rightarrow> model_call_id \<Rightarrow> call_record \<Rightarrow>
   execution_state \<Rightarrow> execution_state" where
  "settle_call f final c r s = set_call (r\<lparr>cr_state := final\<rparr>) c
     (set_mission_usage (f (bl_mission_usage (es_budgets s)))
       (s\<lparr>es_nodes := bt_adjust (ad_node_id (cr_admission r)) (\<lambda>n. n\<lparr>en_usage := f (en_usage n)\<rparr>)
          (es_nodes s)\<rparr>))"

definition reconcile_model_call ::
  "execution_state \<Rightarrow> model_call_id \<Rightarrow> reconciliation \<Rightarrow> protocol_violation + execution_state" where
  "reconcile_model_call s c result =
     bnd (ok_or (V_ModelCallLifecycle c ''reconciliation_without_admission'')
            (map_of (bl_model_calls (es_budgets s)) c)) (\<lambda>r.
      if \<not> owns_reservation (cr_state r)
      then Inl (V_ModelCallLifecycle c ''reservation_already_reconciled'')
      else let a = cr_admission r in
       (case result of
          Consumed actual_cost_micros duration_ms \<Rightarrow>
            if cr_state r \<noteq> Dispatched
            then Inl (V_ModelCallLifecycle c ''consumed_call_was_not_dispatched'')
            else if actual_cost_micros > ad_reserved_cost_micros a
                  \<or> duration_ms > ad_duration_allowance_ms a
            then Inl (V_ModelCallLifecycle c ''actual_usage_exceeds_reservation'')
            else bnd (consume_guard s c) (\<lambda>_.
              let s' = settle_call (\<lambda>u. consume_usage u a actual_cost_micros duration_ms)
                (ReconciledConsumed actual_cost_micros duration_ms) c r s
              in Inr (case latest_mutation_action s c of
                   None \<Rightarrow> s'
                 | Some prepared \<Rightarrow> count_mutation_attempt (mu_policy_node_id prepared) s'))
        | ReleasedUncontacted \<Rightarrow>
            Inr (settle_call (\<lambda>u. release_usage u a) ReconciledReleased c r s)))"

datatype budget_event =
    ModelCallAdmitted admission
  | ModelCallReserved model_call_id
  | ProviderDispatchStarted model_call_id string
  | ModelCallReconciled model_call_id reconciliation

fun apply_budget_event ::
  "externs \<Rightarrow> execution_state \<Rightarrow> budget_event \<Rightarrow> protocol_violation + execution_state" where
  "apply_budget_event E s (ModelCallAdmitted a) = admit_model_call s a"
| "apply_budget_event E s (ModelCallReserved c) = reserve_model_call s c"
| "apply_budget_event E s (ProviderDispatchStarted c payload_hash) =
     start_provider_dispatch E s c payload_hash"
| "apply_budget_event E s (ModelCallReconciled c result) = reconcile_model_call s c result"

end
