(* ===== verification/Budget_Validation.thy ===== *)
theory Budget_Validation
  imports Budget_Ledger
begin

text \<open>
  \<open>validate_budget_invariants\<close> of the reducer: it checks every call against its node, recomputes every
  account from the calls and the event log, and compares. The two maps it builds are folds over the
  entries in key order. An \<open>expect\<close> that fails is a panic in the code; it stands here as
  \<open>V_UnknownNode\<close>, and needs a node stored under a key that is not its identity.
\<close>

section \<open>The check of each call\<close>

definition check_call ::
  "execution_state \<Rightarrow> (node_id, nat) btree_map \<Rightarrow> model_call_id \<times> call_record \<Rightarrow>
   protocol_violation + (node_id, nat) btree_map" where
  "check_call s opens entry = (case entry of (c, r) \<Rightarrow>
     let a = cr_admission r in
     if c \<noteq> ad_call_id a
     then Inl (V_Invariant ''model_call_map_key_identity_mismatch''
       (''model call map key `'' @ c @ ''` does not match its record''))
     else bnd (ok_or (V_UnknownNode (ad_node_id a)) (map_of (es_nodes s) (ad_node_id a))) (\<lambda>n.
       if \<not> requires_model (en_kind n)
       then Inl (V_ModelCallLifecycle c ''model_call_owned_by_deterministic_node'')
       else if blank (ad_payload_hash a)
       then Inl (V_ModelCallLifecycle c ''payload_hash_missing'')
       else if ad_input_tokens a > nb_max_input_tokens_per_call (en_budget n)
       then Inl (V_BudgetExceeded (Some (en_id n)) ''input_tokens_per_call'')
       else if ad_output_tokens a > nb_max_output_tokens_per_call (en_budget n)
       then Inl (V_BudgetExceeded (Some (en_id n)) ''output_tokens_per_call'')
       else bnd (if call_is_open (cr_state r) then
            if \<not> is_active (en_state n)
            then Inl (V_ModelCallLifecycle c ''open_call_owner_is_not_active'')
            else let open_count = (case map_of opens (en_id n) of None \<Rightarrow> 0 | Some k \<Rightarrow> k) + 1 in
              if open_count > 1
              then Inl (V_ModelCallLifecycle c ''node_has_multiple_open_calls'')
              else Inr (bt_insert (en_id n) open_count opens)
          else Inr opens) (\<lambda>opens'.
         case cr_state r of
           ReconciledConsumed actual_cost_micros duration_ms \<Rightarrow>
             if actual_cost_micros > ad_reserved_cost_micros a \<or> duration_ms > ad_duration_allowance_ms a
             then Inl (V_ModelCallLifecycle c ''actual_usage_exceeds_reservation'')
             else Inr opens'
         | _ \<Rightarrow> Inr opens')))"

section \<open>The recomputed accounts\<close>

type_synonym accounts = "(node_id, budget_usage) btree_map \<times> budget_usage"

definition account :: "call_record \<Rightarrow> budget_usage \<Rightarrow> budget_usage" where
  "account r u = (case cr_state r of
       Admitted \<Rightarrow> u
     | ReconciledReleased \<Rightarrow> u
     | Reserved \<Rightarrow> reserve_usage u (cr_admission r)
     | Dispatched \<Rightarrow> reserve_usage u (cr_admission r)
     | ReconciledConsumed actual_cost_micros duration_ms \<Rightarrow>
         add_consumed u actual_cost_micros duration_ms)"

text \<open>One entry of a node's account and of the mission's.\<close>

definition post :: "node_id \<Rightarrow> (budget_usage \<Rightarrow> budget_usage) \<Rightarrow> accounts \<Rightarrow> protocol_violation + accounts" where
  "post k f acc = (case acc of (m, mission) \<Rightarrow>
     bnd (ok_or (V_UnknownNode k) (map_of m k)) (\<lambda>u. Inr (bt_insert k (f u) m, f mission)))"

definition account_call :: "accounts \<Rightarrow> call_record \<Rightarrow> protocol_violation + accounts" where
  "account_call acc r = post (ad_node_id (cr_admission r)) (account r) acc"

definition mutation_calls ::
  "execution_state \<Rightarrow> (model_call_id, node_id \<times> string) btree_map" where
  "mutation_calls s = bt_of_list (List.map_filter (\<lambda>e. map_option (\<lambda>p.
     (ad_call_id (mu_admission p), (mu_policy_node_id p, mu_policy_attempt_id p)))
     (action_prepared e)) (es_event_log s))"

definition call_consumed :: "execution_state \<Rightarrow> model_call_id \<Rightarrow> bool" where
  "call_consumed s c \<longleftrightarrow>
     (case map_of (bl_model_calls (es_budgets s)) c of None \<Rightarrow> False | Some r \<Rightarrow> is_consumed r)"

definition account_mutation ::
  "execution_state \<Rightarrow> string list \<times> accounts \<Rightarrow> model_call_id \<times> node_id \<times> string \<Rightarrow>
   protocol_violation + string list \<times> accounts" where
  "account_mutation s st entry = (case (st, entry) of ((attempts, acc), (c, owner, attempt_id)) \<Rightarrow>
     if \<not> call_consumed s c then Inr (attempts, acc)
     else if attempt_id \<in> set attempts
     then Inl (V_Invariant ''mutation_attempt_has_multiple_consumed_calls''
       (''mutation attempt `'' @ attempt_id @ ''` was consumed more than once''))
     else bnd (post owner add_mutation_attempt acc) (\<lambda>acc'. Inr (attempt_id # attempts, acc')))"

definition account_supersession :: "accounts \<Rightarrow> logged_event \<Rightarrow> protocol_violation + accounts" where
  "account_supersession acc e = (case e of
       Log_TargetContextSuperseded owner \<Rightarrow> post owner add_context_rebuild acc
     | _ \<Rightarrow> Inr acc)"

definition computed_accounts :: "execution_state \<Rightarrow> protocol_violation + accounts" where
  "computed_accounts s =
     bnd (fold_res account_call (map (\<lambda>(k, n). (k, usage_default)) (es_nodes s), usage_default)
            (bt_values (bl_model_calls (es_budgets s)))) (\<lambda>acc.
     bnd (fold_res (account_mutation s) ([], acc) (mutation_calls s)) (\<lambda>(attempts, acc').
       fold_res account_supersession acc' (es_event_log s)))"

section \<open>The comparison\<close>

text \<open>The eight disjuncts of the code's comparison are the eight fields of \<open>budget_usage\<close>.\<close>

definition check_node_usage ::
  "(node_id, budget_usage) btree_map \<Rightarrow> execution_node \<Rightarrow> protocol_violation + unit" where
  "check_node_usage m n =
     bnd (ok_or (V_UnknownNode (en_id n)) (map_of m (en_id n))) (\<lambda>computed.
      if en_usage n \<noteq> computed
      then Inl (V_Invariant ''node_budget_usage_does_not_match_calls''
        (''node `'' @ en_id n @ ''` accounting diverged''))
      else bnd (validate_usage_limits (en_usage n) (en_budget n) (Some (en_id n))) (\<lambda>_.
       if bu_mutation_attempts (en_usage n) > nb_max_mutation_attempts (en_budget n)
       then Inl (V_BudgetExceeded (Some (en_id n)) ''mutation_attempts'')
       else if bu_context_rebuilds (en_usage n) > nb_max_context_rebuilds (en_budget n)
       then Inl (V_BudgetExceeded (Some (en_id n)) ''context_rebuilds'')
       else Inr ()))"

definition validate_budget_invariants :: "execution_state \<Rightarrow> protocol_violation + unit" where
  "validate_budget_invariants s =
     bnd (fold_res (check_call s) [] (bl_model_calls (es_budgets s))) (\<lambda>_.
     bnd (computed_accounts s) (\<lambda>(m, mission).
     bnd (fold_res (\<lambda>_ n. check_node_usage m n) () (bt_values (es_nodes s))) (\<lambda>_.
      if bl_mission_usage (es_budgets s) \<noteq> mission
      then Inl (V_Invariant ''mission_budget_usage_does_not_match_calls''
        ''mission accounting diverged'')
      else validate_mission_usage_limits (bl_mission_usage (es_budgets s)) (es_mission_budget s))))"

end
