(* ===== verification/Budget_Invariant.thy ===== *)
theory Budget_Invariant
  imports Budget_Validation
begin

text \<open>
  What the budget accounts mean, and that \<open>validate_budget_invariants\<close> decides it. A usage record is
  read along eight dimensions as natural numbers; every call, every consumed mutation attempt and every
  context rebuild is a posting to a node; an account is the sum of its postings, cut off at the width of
  its field. \<open>books_ok\<close> states the invariant over these sums, without the folds of the code.
\<close>

section \<open>Dimensions\<close>

datatype dim =
    Calls_Held | Calls_Spent | Cost_Held | Cost_Spent | Time_Held | Time_Spent | Attempts | Rebuilds

fun level :: "dim \<Rightarrow> budget_usage \<Rightarrow> nat" where
  "level Calls_Held u = unat (bu_model_calls_reserved u)"
| "level Calls_Spent u = unat (bu_model_calls_consumed u)"
| "level Cost_Held u = unat (bu_cost_micros_reserved u)"
| "level Cost_Spent u = unat (bu_cost_micros_consumed u)"
| "level Time_Held u = unat (bu_duration_ms_reserved u)"
| "level Time_Spent u = unat (bu_duration_ms_consumed u)"
| "level Attempts u = unat (bu_mutation_attempts u)"
| "level Rebuilds u = unat (bu_context_rebuilds u)"

fun cap :: "dim \<Rightarrow> nat" where
  "cap Cost_Held = 2 ^ 64 - 1"
| "cap Cost_Spent = 2 ^ 64 - 1"
| "cap Time_Held = 2 ^ 64 - 1"
| "cap Time_Spent = 2 ^ 64 - 1"
| "cap _ = 2 ^ 32 - 1"

fun held :: "dim \<Rightarrow> admission \<Rightarrow> nat" where
  "held Calls_Held a = 1"
| "held Cost_Held a = unat (ad_reserved_cost_micros a)"
| "held Time_Held a = unat (ad_duration_allowance_ms a)"
| "held _ a = 0"

fun spent :: "dim \<Rightarrow> u64 \<Rightarrow> u64 \<Rightarrow> nat" where
  "spent Calls_Spent cost ms = 1"
| "spent Cost_Spent cost ms = unat cost"
| "spent Time_Spent cost ms = unat ms"
| "spent _ cost ms = 0"

fun one_if :: "dim \<Rightarrow> dim \<Rightarrow> nat" where
  "one_if d e = (if d = e then 1 else 0)"

definition charge :: "dim \<Rightarrow> call_record \<Rightarrow> nat" where
  "charge d r = (case cr_state r of
       Reserved \<Rightarrow> held d (cr_admission r)
     | Dispatched \<Rightarrow> held d (cr_admission r)
     | ReconciledConsumed cost ms \<Rightarrow> spent d cost ms
     | _ \<Rightarrow> 0)"

named_theorems level_simps \<open>how the usage operations move a level\<close>

lemma u64_bound: "unat (x :: u64) \<le> 2 ^ 64 - 1"
  using unsigned_less [of x, where ?'a = nat] by simp

lemma u32_bound: "unat (y :: u32) \<le> 2 ^ 32 - 1"
  using unsigned_less [of y, where ?'a = nat] by simp

lemma level_cap: "level d u \<le> cap d"
  using u32_bound u64_bound by (cases d) simp_all

lemma held_cap: "held d a \<le> cap d"
  using u64_bound by (cases d) simp_all

lemma usage_eq_iff: "u = v \<longleftrightarrow> (\<forall>d. level d u = level d v)"
proof
  assume l: "\<forall>d. level d u = level d v"
  have "level Calls_Held u = level Calls_Held v" "level Calls_Spent u = level Calls_Spent v"
    "level Cost_Held u = level Cost_Held v" "level Cost_Spent u = level Cost_Spent v"
    "level Time_Held u = level Time_Held v" "level Time_Spent u = level Time_Spent v"
    "level Attempts u = level Attempts v" "level Rebuilds u = level Rebuilds v"
    using l by blast+
  then show "u = v" by (cases u; cases v) (simp add: unsigned_word_eqI)
qed simp

lemma level_default [level_simps]: "level d usage_default = 0"
  by (cases d) (simp_all add: usage_default_def)

lemma level_reserve [level_simps]:
  "level d (reserve_usage u a) = min (level d u + held d a) (cap d)"
  using level_cap [of d u] by (cases d) (simp_all add: reserve_usage_def word_simps)

lemma level_release [level_simps]: "level d (release_usage u a) = level d u - held d a"
  by (cases d) (simp_all add: release_usage_def word_simps)

lemma level_add_consumed [level_simps]:
  "level d (add_consumed u cost ms) = min (level d u + spent d cost ms) (cap d)"
  using level_cap [of d u] by (cases d) (simp_all add: add_consumed_def word_simps)

lemma level_consume [level_simps]:
  "level d (consume_usage u a cost ms) = min (level d u - held d a + spent d cost ms) (cap d)"
  by (simp add: consume_usage_def level_simps)

lemma level_attempt [level_simps]:
  "level d (add_mutation_attempt u) = min (level d u + one_if d Attempts) (cap d)"
  using level_cap [of d u] by (cases d) (simp_all add: add_mutation_attempt_def word_simps)

lemma level_rebuild [level_simps]:
  "level d (add_context_rebuild u) = min (level d u + one_if d Rebuilds) (cap d)"
  using level_cap [of d u] by (cases d) (simp_all add: add_context_rebuild_def word_simps)

lemma level_account [level_simps]: "level d (account r u) = min (level d u + charge d r) (cap d)"
  using level_cap [of d u]
  by (cases "cr_state r") (simp_all add: account_def charge_def level_simps)

section \<open>Postings\<close>

type_synonym posting = "node_id \<times> (dim \<Rightarrow> nat)"

definition call_owner :: "call_record \<Rightarrow> node_id" where
  "call_owner r = ad_node_id (cr_admission r)"

definition call_posting :: "call_record \<Rightarrow> posting" where
  "call_posting r = (call_owner r, \<lambda>d. charge d r)"

definition consumed_mutations :: "execution_state \<Rightarrow> (model_call_id \<times> node_id \<times> string) list" where
  "consumed_mutations s = filter (\<lambda>(c, _). call_consumed s c) (mutation_calls s)"

definition attempt_posting :: "model_call_id \<times> node_id \<times> string \<Rightarrow> posting" where
  "attempt_posting entry = (fst (snd entry), \<lambda>d. one_if d Attempts)"

fun superseded_target :: "logged_event \<Rightarrow> node_id option" where
  "superseded_target (Log_TargetContextSuperseded n) = Some n"
| "superseded_target _ = None"

definition rebuild_posting :: "node_id \<Rightarrow> posting" where
  "rebuild_posting n = (n, \<lambda>d. one_if d Rebuilds)"

definition rebuild_owners :: "execution_state \<Rightarrow> node_id list" where
  "rebuild_owners s = List.map_filter superseded_target (es_event_log s)"

definition postings :: "execution_state \<Rightarrow> posting list" where
  "postings s = map call_posting (bt_values (bl_model_calls (es_budgets s)))
     @ map attempt_posting (consumed_mutations s) @ map rebuild_posting (rebuild_owners s)"

text \<open>The sum along \<open>d\<close> of the postings whose node satisfies \<open>P\<close>.\<close>

definition due :: "(node_id \<Rightarrow> bool) \<Rightarrow> posting list \<Rightarrow> dim \<Rightarrow> nat" where
  "due P ps d = sum_list (map (\<lambda>(k, w). if P k then w d else 0) ps)"

lemma due_simps [simp]: "due P [] d = 0" "due P (p # ps) d = (if P (fst p) then snd p d else 0) + due P ps d"
  "due P (ps @ qs) d = due P ps d + due P qs d"
  by (simp_all add: due_def split: prod.splits)

text \<open>The accounts after some postings: each is the sum of its postings, cut off at the width.\<close>

definition tracks :: "node_id set \<Rightarrow> posting list \<Rightarrow> accounts \<Rightarrow> bool" where
  "tracks K ps acc \<longleftrightarrow> dom (map_of (fst acc)) = K \<and>
     (\<forall>k u. map_of (fst acc) k = Some u \<longrightarrow> (\<forall>d. level d u = min (due (\<lambda>n. n = k) ps d) (cap d))) \<and>
     (\<forall>d. level d (snd acc) = min (due (\<lambda>_. True) ps d) (cap d))"

lemma tracks_post:
  assumes "tracks K ps acc" and "\<And>d u. level d (f u) = min (level d u + w d) (cap d)"
    and "post k f acc = Inr acc'"
  shows "k \<in> K \<and> tracks K (ps @ [(k, w)]) acc'"
proof -
  obtain m ms where acc: "acc = (m, ms)" by fastforce
  with assms(3) obtain u where u: "map_of m k = Some u" and acc': "acc' = (bt_insert k (f u) m, f ms)"
    by (auto simp: post_def bnd_Inr_iff ok_or_def split: option.splits)
  have dims: "level d (f u) = min (due (\<lambda>n. n = k) ps d + w d) (cap d)"
    "level d (f ms) = min (due (\<lambda>_. True) ps d + w d) (cap d)" for d
    using assms(1) u by (simp_all add: acc tracks_def assms(2))
  show ?thesis
    using assms(1) u by (auto simp: acc acc' tracks_def map_simps dims)
qed

lemma post_ok: "tracks K ps acc \<Longrightarrow> k \<in> K \<Longrightarrow> \<exists>acc'. post k f acc = Inr acc'"
  by (cases acc) (auto simp: tracks_def post_def ok_or_def split: option.splits)

definition post_all :: "('a \<Rightarrow> node_id) \<Rightarrow> ('a \<Rightarrow> budget_usage \<Rightarrow> budget_usage) \<Rightarrow> accounts \<Rightarrow> 'a list \<Rightarrow>
    protocol_violation + accounts" where
  "post_all k f = fold_res (\<lambda>acc x. post (k x) (f x) acc)"

lemma tracks_post_all:
  assumes "\<And>x d u. level d (f x u) = min (level d u + w x d) (cap d)"
  shows "tracks K ps acc \<Longrightarrow> post_all k f acc xs = Inr acc' \<Longrightarrow>
    (\<forall>x \<in> set xs. k x \<in> K) \<and> tracks K (ps @ map (\<lambda>x. (k x, w x)) xs) acc'"
proof (induction xs arbitrary: ps acc)
  case (Cons x xs)
  from Cons.prems(2) obtain acc1 where post: "post (k x) (f x) acc = Inr acc1"
    and rest: "post_all k f acc1 xs = Inr acc'"
    by (auto simp: post_all_def bnd_Inr_iff)
  have "k x \<in> K \<and> tracks K (ps @ [(k x, w x)]) acc1"
    using tracks_post [OF Cons.prems(1) _ post, of "w x"] assms by simp
  with Cons.IH [OF _ rest] show ?case by fastforce
qed (simp add: post_all_def)

lemma post_all_ok:
  assumes "\<And>x d u. level d (f x u) = min (level d u + w x d) (cap d)"
  shows "tracks K ps acc \<Longrightarrow> \<forall>x \<in> set xs. k x \<in> K \<Longrightarrow> \<exists>acc'. post_all k f acc xs = Inr acc'"
proof (induction xs arbitrary: ps acc)
  case (Cons x xs)
  from post_ok [OF Cons.prems(1)] Cons.prems(2) obtain acc1 where post: "post (k x) (f x) acc = Inr acc1"
    by fastforce
  have "tracks K (ps @ [(k x, w x)]) acc1"
    using tracks_post [OF Cons.prems(1) _ post, of "w x"] assms by simp
  from Cons.IH [OF this] Cons.prems(2) post show ?case by (auto simp: post_all_def bnd_Inr_iff)
qed (simp add: post_all_def)

lemma calls_fold: "fold_res account_call = post_all call_owner account"
  by (simp add: post_all_def call_owner_def fun_eq_iff account_call_def [abs_def])

lemma supersessions_fold:
  "fold_res account_supersession acc es =
   post_all (\<lambda>n. n) (\<lambda>_. add_context_rebuild) acc (List.map_filter superseded_target es)"
proof (induction es arbitrary: acc)
  case (Cons e es)
  then show ?case
    by (cases e) (simp_all add: account_supersession_def post_all_def map_filter_simps)
qed (simp add: post_all_def map_filter_simps)

definition attempt_of :: "model_call_id \<times> node_id \<times> string \<Rightarrow> string" where
  "attempt_of entry = snd (snd entry)"

lemma attempt_of_triple [simp]: "attempt_of (c, n, a) = a"
  by (simp add: attempt_of_def)

lemma account_mutation_skip:
  "\<not> call_consumed s c \<Longrightarrow> account_mutation s (attempts, acc) (c, n, a) = Inr (attempts, acc)"
  by (simp add: account_mutation_def)

lemma account_mutation_Inr_iff:
  "call_consumed s c \<Longrightarrow> account_mutation s (attempts, acc) (c, n, a) = Inr st \<longleftrightarrow>
   a \<notin> set attempts \<and> (\<exists>acc'. post n add_mutation_attempt acc = Inr acc' \<and> st = (a # attempts, acc'))"
  by (auto simp: account_mutation_def bnd_Inr_iff)

lemma mutations_fold:
  "fold_res (account_mutation s) (attempts, acc) xs = Inr (attempts', acc') \<longleftrightarrow>
   (let ys = filter (\<lambda>(c, _). call_consumed s c) xs in
    distinct (map attempt_of ys) \<and> set (map attempt_of ys) \<inter> set attempts = {} \<and>
    attempts' = rev (map attempt_of ys) @ attempts \<and>
    post_all (\<lambda>e. fst (snd e)) (\<lambda>_. add_mutation_attempt) acc ys = Inr acc')"
proof (induction xs arbitrary: attempts acc)
  case Nil
  then show ?case by (auto simp: post_all_def)
next
  case (Cons x xs)
  obtain c n a where x: "x = (c, n, a)" by (cases x)
  show ?case
  proof (cases "call_consumed s c")
    case True
    have "fold_res (account_mutation s) (attempts, acc) (x # xs) = Inr (attempts', acc') \<longleftrightarrow>
      a \<notin> set attempts \<and> (\<exists>acc1. post n add_mutation_attempt acc = Inr acc1 \<and>
        fold_res (account_mutation s) (a # attempts, acc1) xs = Inr (attempts', acc'))"
      using True by (auto simp: x bnd_Inr_iff account_mutation_Inr_iff)
    then show ?thesis
      unfolding Cons.IH
      using True by (auto simp: x post_all_def bnd_Inr_iff Let_def)
  next
    case False
    then show ?thesis
      using Cons.IH [of attempts acc] by (simp add: x account_mutation_skip)
  qed
qed

section \<open>The accounts the code recomputes\<close>

definition owners_known :: "execution_state \<Rightarrow> bool" where
  "owners_known s \<longleftrightarrow> (\<forall>p \<in> set (postings s). map_of (es_nodes s) (fst p) \<noteq> None)"

definition attempts_distinct :: "execution_state \<Rightarrow> bool" where
  "attempts_distinct s \<longleftrightarrow> distinct (map attempt_of (consumed_mutations s))"

abbreviation node_ids :: "execution_state \<Rightarrow> node_id set" where
  "node_ids s \<equiv> dom (map_of (es_nodes s))"

abbreviation start_accounts :: "execution_state \<Rightarrow> accounts" where
  "start_accounts s \<equiv> (map (\<lambda>(k, n). (k, usage_default)) (es_nodes s), usage_default)"

lemma map_of_start: "map_of (map (\<lambda>(k, n). (k, usage_default)) m) =
    (\<lambda>k. map_option (\<lambda>_. usage_default) (map_of m k))"
  by (induction m) (auto simp: fun_eq_iff)

lemma tracks_start: "tracks (node_ids s) [] (start_accounts s)"
  by (auto simp: tracks_def map_of_start level_simps dom_def)

lemma owners_known_iff:
  "owners_known s \<longleftrightarrow>
     (\<forall>r \<in> set (bt_values (bl_model_calls (es_budgets s))). call_owner r \<in> node_ids s) \<and>
     (\<forall>e \<in> set (consumed_mutations s). fst (snd e) \<in> node_ids s) \<and>
     (\<forall>n \<in> set (rebuild_owners s). n \<in> node_ids s)"
  by (auto simp: owners_known_def postings_def call_posting_def attempt_posting_def
      rebuild_posting_def ball_Un domIff)

lemmas post_all_charge =
  tracks_post_all [where f = account and w = "\<lambda>r d. charge d r" and k = call_owner]
  tracks_post_all [where f = "\<lambda>_. add_mutation_attempt" and w = "\<lambda>_ d. one_if d Attempts"]
  tracks_post_all [where f = "\<lambda>_. add_context_rebuild" and w = "\<lambda>_ d. one_if d Rebuilds"]

lemma computed_accounts_sound:
  assumes "computed_accounts s = Inr acc"
  shows "owners_known s \<and> attempts_distinct s \<and> tracks (node_ids s) (postings s) acc"
proof -
  from assms obtain acc1 acc2 as where
    calls: "post_all call_owner account (start_accounts s)
      (bt_values (bl_model_calls (es_budgets s))) = Inr acc1" and
    mut: "fold_res (account_mutation s) ([], acc1) (mutation_calls s) = Inr (as, acc2)" and
    sup: "post_all (\<lambda>n. n) (\<lambda>_. add_context_rebuild) acc2 (rebuild_owners s) = Inr acc"
    by (auto simp: computed_accounts_def bnd_Inr_iff calls_fold supersessions_fold rebuild_owners_def)
  note t1 = post_all_charge(1) [OF level_account tracks_start calls]
  from mut have dist: "attempts_distinct s" and
    mut': "post_all (\<lambda>e. fst (snd e)) (\<lambda>_. add_mutation_attempt) acc1 (consumed_mutations s) = Inr acc2"
    by (simp_all add: mutations_fold Let_def attempts_distinct_def consumed_mutations_def)
  note t2 = post_all_charge(2) [OF level_attempt t1 [THEN conjunct2] mut']
  note t3 = post_all_charge(3) [OF level_rebuild t2 [THEN conjunct2] sup]
  from t1 t2 t3 dist show ?thesis
    by (simp add: owners_known_iff postings_def call_posting_def [abs_def]
        attempt_posting_def [abs_def] rebuild_posting_def [abs_def])
qed

lemma computed_accounts_complete:
  assumes "owners_known s" and "attempts_distinct s"
  shows "\<exists>acc. computed_accounts s = Inr acc"
proof -
  have known: "\<forall>r \<in> set (bt_values (bl_model_calls (es_budgets s))). call_owner r \<in> node_ids s"
    "\<forall>e \<in> set (consumed_mutations s). fst (snd e) \<in> node_ids s"
    "\<forall>n \<in> set (rebuild_owners s). n \<in> node_ids s"
    using assms(1) unfolding owners_known_iff by blast+
  obtain acc1 where calls: "post_all call_owner account (start_accounts s)
      (bt_values (bl_model_calls (es_budgets s))) = Inr acc1"
    using post_all_ok [where f = account and w = "\<lambda>r d. charge d r", OF level_account tracks_start known(1)] by blast
  note t1 = post_all_charge(1) [OF level_account tracks_start calls, THEN conjunct2]
  obtain acc2 where mut: "post_all (\<lambda>e. fst (snd e)) (\<lambda>_. add_mutation_attempt) acc1
      (consumed_mutations s) = Inr acc2"
    using post_all_ok [where f = "\<lambda>_. add_mutation_attempt" and w = "\<lambda>_ d. one_if d Attempts",
        OF level_attempt t1 known(2)] by blast
  note t2 = post_all_charge(2) [OF level_attempt t1 mut, THEN conjunct2]
  obtain acc where sup: "post_all (\<lambda>n. n) (\<lambda>_. add_context_rebuild) acc2 (rebuild_owners s) = Inr acc"
    using post_all_ok [where f = "\<lambda>_. add_context_rebuild" and w = "\<lambda>_ d. one_if d Rebuilds",
        OF level_rebuild t2 known(3)] by blast
  have "fold_res (account_mutation s) ([], acc1) (mutation_calls s) =
      Inr (rev (map attempt_of (consumed_mutations s)), acc2)"
    using mut assms(2) by (simp add: mutations_fold Let_def attempts_distinct_def consumed_mutations_def)
  with calls sup show ?thesis
    by (auto simp: computed_accounts_def bnd_Inr_iff calls_fold supersessions_fold rebuild_owners_def)
qed

section \<open>The invariant\<close>

text \<open>
  The state is keyed as the code keeps it: both maps in key order, every node under its own identity.
\<close>

definition budget_keys_ok :: "execution_state \<Rightarrow> bool" where
  "budget_keys_ok s \<longleftrightarrow> bt_wf (es_nodes s) \<and> bt_wf (bl_model_calls (es_budgets s)) \<and>
     (\<forall>(k, n) \<in> set (es_nodes s). en_id n = k)"

definition call_fits :: "execution_state \<Rightarrow> model_call_id \<times> call_record \<Rightarrow> bool" where
  "call_fits s entry \<longleftrightarrow> (case entry of (c, r) \<Rightarrow>
     ad_call_id (cr_admission r) = c \<and>
     (case map_of (es_nodes s) (call_owner r) of
        None \<Rightarrow> False
      | Some n \<Rightarrow>
          requires_model (en_kind n) \<and> \<not> blank (ad_payload_hash (cr_admission r)) \<and>
          ad_input_tokens (cr_admission r) \<le> nb_max_input_tokens_per_call (en_budget n) \<and>
          ad_output_tokens (cr_admission r) \<le> nb_max_output_tokens_per_call (en_budget n) \<and>
          (call_is_open (cr_state r) \<longrightarrow> is_active (en_state n))) \<and>
     (case cr_state r of
        ReconciledConsumed cost ms \<Rightarrow>
          cost \<le> ad_reserved_cost_micros (cr_admission r) \<and>
          ms \<le> ad_duration_allowance_ms (cr_admission r)
      | _ \<Rightarrow> True))"

definition open_owners :: "(model_call_id \<times> call_record) list \<Rightarrow> node_id list" where
  "open_owners calls = map (\<lambda>(c, r). call_owner r) (filter (\<lambda>(c, r). call_is_open (cr_state r)) calls)"

text \<open>
  A pair of levels fits a limit: their sum stays within it, or the limit is the largest value of its
  type, which the saturated sum of the code cannot exceed.
\<close>

definition fits :: "nat \<Rightarrow> nat \<Rightarrow> nat \<Rightarrow> nat \<Rightarrow> bool" where
  "fits a b limit widest \<longleftrightarrow> a + b \<le> limit \<or> limit = widest"

definition node_within :: "execution_node \<Rightarrow> bool" where
  "node_within n \<longleftrightarrow> (let u = en_usage n; b = en_budget n in
     fits (level Calls_Spent u) (level Calls_Held u) (unat (nb_max_model_calls b)) (2 ^ 32 - 1) \<and>
     fits (level Cost_Spent u) (level Cost_Held u) (unat (nb_max_cost_micros b)) (2 ^ 64 - 1) \<and>
     fits (level Time_Spent u) (level Time_Held u) (unat (nb_max_duration_ms b)) (2 ^ 64 - 1) \<and>
     level Attempts u \<le> unat (nb_max_mutation_attempts b) \<and>
     level Rebuilds u \<le> unat (nb_max_context_rebuilds b))"

definition mission_within :: "budget_usage \<Rightarrow> mission_budget \<Rightarrow> bool" where
  "mission_within u b \<longleftrightarrow>
     fits (level Calls_Spent u) (level Calls_Held u) (unat (mb_max_model_calls b)) (2 ^ 32 - 1) \<and>
     fits (level Cost_Spent u) (level Cost_Held u) (unat (mb_max_cost_micros b)) (2 ^ 64 - 1) \<and>
     fits (level Time_Spent u) (level Time_Held u) (unat (mb_max_duration_ms b)) (2 ^ 64 - 1)"

definition books_ok :: "execution_state \<Rightarrow> bool" where
  "books_ok s \<longleftrightarrow>
     (\<forall>entry \<in> set (bl_model_calls (es_budgets s)). call_fits s entry) \<and>
     distinct (open_owners (bl_model_calls (es_budgets s))) \<and>
     owners_known s \<and> attempts_distinct s \<and>
     (\<forall>(k, n) \<in> set (es_nodes s). node_within n \<and>
       (\<forall>d. level d (en_usage n) = min (due (\<lambda>x. x = k) (postings s) d) (cap d))) \<and>
     (\<forall>d. level d (bl_mission_usage (es_budgets s)) = min (due (\<lambda>_. True) (postings s) d) (cap d)) \<and>
     mission_within (bl_mission_usage (es_budgets s)) (es_mission_budget s)"

lemma check_call_Inr_iff:
  assumes "\<forall>(k, n) \<in> set (es_nodes s). en_id n = k"
  shows "check_call s opens (c, r) = Inr opens' \<longleftrightarrow> call_fits s (c, r) \<and>
     (if call_is_open (cr_state r)
      then (case map_of opens (call_owner r) of None \<Rightarrow> True | Some k \<Rightarrow> k = 0) \<and>
           opens' = bt_insert (call_owner r) 1 opens
      else opens' = opens)"
proof (cases "map_of (es_nodes s) (ad_node_id (cr_admission r))")
  case None
  then show ?thesis
    by (auto simp: check_call_def Let_def ok_or_def call_fits_def call_owner_def)
next
  case (Some n)
  then have "en_id n = ad_node_id (cr_admission r)"
    using assms map_of_SomeD by fastforce
  with Some show ?thesis
    by (cases "cr_state r")
      (auto simp: check_call_def Let_def ok_or_def call_fits_def call_owner_def not_less
        split: if_splits option.splits)
qed

lemma check_calls_iff:
  assumes ids: "\<forall>(k, n) \<in> set (es_nodes s). en_id n = k"
    and ones: "\<forall>v \<in> ran (map_of opens). v = 1"
  shows "is_ok (fold_res (check_call s) opens calls) \<longleftrightarrow>
     (\<forall>entry \<in> set calls. call_fits s entry) \<and> distinct (open_owners calls) \<and>
     set (open_owners calls) \<inter> dom (map_of opens) = {}"
  using ones
proof (induction calls arbitrary: opens)
  case (Cons x calls)
  obtain c r where x: "x = (c, r)" by (cases x)
  show ?case
  proof (cases "call_is_open (cr_state r)")
    case True
    have ones': "\<forall>v \<in> ran (map_of (bt_insert (call_owner r) 1 opens)). v = 1"
      using Cons.prems by (auto simp: map_simps ran_def)
    have free: "(case map_of opens (call_owner r) of None \<Rightarrow> True | Some k \<Rightarrow> k = 0) \<longleftrightarrow>
        call_owner r \<notin> dom (map_of opens)"
      using Cons.prems by (auto simp: ran_def split: option.splits)
    have "is_ok (fold_res (check_call s) opens (x # calls)) \<longleftrightarrow> call_fits s x \<and>
        call_owner r \<notin> dom (map_of opens) \<and>
        is_ok (fold_res (check_call s) (bt_insert (call_owner r) 1 opens) calls)"
      using True free by (auto simp: x is_ok_bnd check_call_Inr_iff [OF ids])
    then show ?thesis
      unfolding Cons.IH [OF ones'] using True by (auto simp: x open_owners_def map_simps)
  next
    case False
    have "is_ok (fold_res (check_call s) opens (x # calls)) \<longleftrightarrow> call_fits s x \<and>
        is_ok (fold_res (check_call s) opens calls)"
      using False by (simp add: x is_ok_bnd check_call_Inr_iff [OF ids])
    then show ?thesis
      unfolding Cons.IH [OF Cons.prems] using False by (auto simp: x open_owners_def)
  qed
qed (simp add: open_owners_def)

lemma sat_exceeds_u32: "limit < sat_add a (b :: u32) \<longleftrightarrow> \<not> fits (unat a) (unat b) (unat limit) (2 ^ 32 - 1)"
  using u32_bound [of limit] by (auto simp: word_simps fits_def)

lemma sat_exceeds_u64: "limit < sat_add a (b :: u64) \<longleftrightarrow> \<not> fits (unat a) (unat b) (unat limit) (2 ^ 64 - 1)"
  using u64_bound [of limit] by (auto simp: word_simps fits_def)

lemma validate_usage_limits_iff:
  "validate_usage_limits u b n = Inr () \<longleftrightarrow>
     fits (level Calls_Spent u) (level Calls_Held u) (unat (nb_max_model_calls b)) (2 ^ 32 - 1) \<and>
     fits (level Cost_Spent u) (level Cost_Held u) (unat (nb_max_cost_micros b)) (2 ^ 64 - 1) \<and>
     fits (level Time_Spent u) (level Time_Held u) (unat (nb_max_duration_ms b)) (2 ^ 64 - 1)"
  by (simp add: validate_usage_limits_def sat_exceeds_u32 sat_exceeds_u64)

lemma validate_mission_limits_iff:
  "validate_mission_usage_limits u b = Inr () \<longleftrightarrow> mission_within u b"
  by (simp add: validate_mission_usage_limits_def mission_within_def sat_exceeds_u32 sat_exceeds_u64)

lemma check_node_usage_iff:
  "check_node_usage m n = Inr () \<longleftrightarrow> map_of m (en_id n) = Some (en_usage n) \<and> node_within n"
  by (auto simp: check_node_usage_def bnd_Inr_iff ok_or_def validate_usage_limits_iff node_within_def
      Let_def word_le_nat_alt [symmetric] not_less split: option.splits)

lemma check_nodes_iff:
  "fold_res (\<lambda>_ n. check_node_usage m n) () ns = Inr () \<longleftrightarrow> (\<forall>n \<in> set ns. check_node_usage m n = Inr ())"
  by (induction ns) (auto simp: bnd_Inr_iff)

lemma tracks_node_usage:
  assumes "tracks K ps (m, ms)" and "k \<in> K"
  shows "map_of m k = Some u \<longleftrightarrow> (\<forall>d. level d u = min (due (\<lambda>x. x = k) ps d) (cap d))"
proof -
  obtain v where v: "map_of m k = Some v"
    and "\<forall>d. level d v = min (due (\<lambda>x. x = k) ps d) (cap d)"
    using assms by (auto simp: tracks_def dom_def)
  then show ?thesis by (simp add: usage_eq_iff [of v u]) metis
qed

lemma tracks_nodes:
  assumes "\<forall>(k, n) \<in> set nodes. en_id n = k" and "tracks (dom (map_of nodes)) ps (m, ms)"
  shows "(\<forall>n \<in> set (bt_values nodes). check_node_usage m n = Inr ()) \<longleftrightarrow>
    (\<forall>(k, n) \<in> set nodes. node_within n \<and>
      (\<forall>d. level d (en_usage n) = min (due (\<lambda>x. x = k) ps d) (cap d)))"
proof -
  have "check_node_usage m n = Inr () \<longleftrightarrow> node_within n \<and>
      (\<forall>d. level d (en_usage n) = min (due (\<lambda>x. x = k) ps d) (cap d))" if "(k, n) \<in> set nodes" for k n
  proof -
    have "k \<in> dom (map_of nodes)" using weak_map_of_SomeI [OF that] by blast
    moreover have "en_id n = k" using that assms(1) by blast
    ultimately show ?thesis
      using tracks_node_usage [OF assms(2)] by (auto simp: check_node_usage_iff)
  qed
  then show ?thesis by (fastforce simp: bt_values_def)
qed

theorem validate_iff_books_ok:
  assumes keys: "budget_keys_ok s"
  shows "validate_budget_invariants s = Inr () \<longleftrightarrow> books_ok s"
proof -
  let ?calls = "bl_model_calls (es_budgets s)" and ?u = "bl_mission_usage (es_budgets s)"
  have ids: "\<forall>(k, n) \<in> set (es_nodes s). en_id n = k"
    using keys by (simp add: budget_keys_ok_def)
  have calls: "(\<exists>opens. fold_res (check_call s) [] ?calls = Inr opens) \<longleftrightarrow>
      (\<forall>entry \<in> set ?calls. call_fits s entry) \<and> distinct (open_owners ?calls)"
    using check_calls_iff [OF ids, of "[]" ?calls] by (simp add: is_ok_iff)
  have accounts: "(\<exists>acc. computed_accounts s = Inr acc) \<longleftrightarrow> owners_known s \<and> attempts_distinct s"
    using computed_accounts_sound computed_accounts_complete by blast
  show ?thesis
  proof (cases "\<exists>acc. computed_accounts s = Inr acc")
    case False
    then show ?thesis
      using accounts by (auto simp: validate_budget_invariants_def bnd_Inr_iff books_ok_def)
  next
    case True
    then obtain m mission where acc: "computed_accounts s = Inr (m, mission)" by auto
    then have tracks: "tracks (node_ids s) (postings s) (m, mission)"
      using computed_accounts_sound by blast
    then have "?u = mission \<longleftrightarrow> (\<forall>d. level d ?u = min (due (\<lambda>_. True) (postings s) d) (cap d))"
      by (simp add: tracks_def usage_eq_iff)
    then show ?thesis
      using calls accounts acc tracks_nodes [OF ids tracks]
      by (auto simp: validate_budget_invariants_def bnd_Inr_iff books_ok_def check_nodes_iff
          validate_mission_limits_iff)
  qed
qed

declare level.simps [simp del]

end
