(* ===== verification/Budget_Steps.thy ===== *)
theory Budget_Steps
  imports Budget_Invariant
begin

text \<open>
  How the operations of \<open>Budget_Ledger\<close> move the accounts of \<open>Budget_Invariant\<close>: what a changed call
  does to the sum of the postings, one lemma that carries the invariant over every operation, and from
  it that admitting, reserving, dispatching and reconciling keep the books in order.
\<close>

section \<open>Lists keyed in order\<close>

lemma distinct_selected:
  assumes "bt_wf m"
  shows "distinct (map f (filter P m)) \<longleftrightarrow>
    (\<forall>c c' v v'. map_of m c = Some v \<and> map_of m c' = Some v' \<and> P (c, v) \<and> P (c', v') \<and>
       f (c, v) = f (c', v') \<longrightarrow> c = c')"
proof -
  have "distinct (filter P m)"
    using bt_wf_distinct [OF assms] by (simp add: distinct_map)
  then have "distinct (map f (filter P m)) \<longleftrightarrow> inj_on f {x \<in> set m. P x}"
    by (simp add: distinct_map)
  then show ?thesis
    unfolding inj_on_def using assms
    by (auto simp: bt_wf_map_of_iff) (metis assms bt_wf_map_of_iff option.inject)
qed

lemma sum_filter_new:
  assumes "bt_wf m" and "\<not> P c" and "\<And>k. Q k \<longleftrightarrow> k = c \<or> P k"
  shows "sum_list (map f (filter (\<lambda>(k, _). Q k) m)) = sum_list (map f (filter (\<lambda>(k, _). P k) m)) +
    (case map_of m c of None \<Rightarrow> 0 | Some v \<Rightarrow> (f (c, v) :: nat))"
  using assms(1)
proof (induction m)
  case (Cons x m)
  obtain k v where x: "x = (k, v)" by (cases x)
  have "k = c \<Longrightarrow> map_of m c = None"
    using Cons.prems by (auto simp: x bt_wf_Cons map_of_eq_None_iff)
  then show ?case
    using Cons assms(2) by (auto simp: x bt_wf_Cons assms(3) split: option.splits)
qed simp

section \<open>Mutation actions\<close>

lemma bt_wf_mutation_calls: "bt_wf (mutation_calls s)"
  by (simp add: mutation_calls_def bt_wf_of_list)

lemma rev_map_filter: "rev (List.map_filter f xs) = List.map_filter f (rev xs)"
  by (simp add: List.map_filter_def rev_map rev_filter)

lemma map_of_mutation_calls:
  "map_of (mutation_calls s) c =
   map_option (\<lambda>p. (mu_policy_node_id p, mu_policy_attempt_id p)) (latest_mutation_action s c)"
proof -
  have "map_of (List.map_filter (\<lambda>e. map_option (\<lambda>p.
      (ad_call_id (mu_admission p), (mu_policy_node_id p, mu_policy_attempt_id p)))
      (action_prepared e)) es) c =
    map_option (\<lambda>p. (mu_policy_node_id p, mu_policy_attempt_id p)) (find_map (prepared_for_call c) es)" for es
    by (induction es) (auto simp: map_filter_simps prepared_for_call_def split: option.splits)
  then show ?thesis
    by (simp add: mutation_calls_def map_of_of_list latest_mutation_action_def rev_map_filter)
qed

lemma latest_mutation_call: "latest_mutation_action s c = Some p \<Longrightarrow> ad_call_id (mu_admission p) = c"
  by (auto simp: latest_mutation_action_def prepared_for_call_def dest!: find_map_SomeD
      split: option.splits if_splits)

lemma latest_mutation_logged:
  "latest_mutation_action s c = Some p \<Longrightarrow> Log_MutationActionPrepared p \<in> set (es_event_log s)"
proof -
  assume "latest_mutation_action s c = Some p"
  then obtain e where e: "e \<in> set (es_event_log s)" and p: "prepared_for_call c e = Some p"
    by (auto simp: latest_mutation_action_def dest!: find_map_SomeD)
  from p have "e = Log_MutationActionPrepared p"
    by (cases e) (auto simp: prepared_for_call_def split: if_splits)
  with e show ?thesis by simp
qed

section \<open>Postings of a changed call\<close>

lemma due_calls: "due P (map call_posting rs) d =
    sum_list (map (\<lambda>r. if P (call_owner r) then charge d r else 0) rs)"
  by (induction rs) (auto simp: call_posting_def)

lemma due_attempts: "due P (map attempt_posting es) d =
    sum_list (map (\<lambda>e. if P (fst (snd e)) then one_if d Attempts else 0) es)"
  by (induction es) (auto simp: attempt_posting_def)

text \<open>The posting that consuming the call \<open>c\<close> adds when the call carries a mutation attempt.\<close>

definition attempt_due :: "(node_id \<Rightarrow> bool) \<Rightarrow> execution_state \<Rightarrow> model_call_id \<Rightarrow> dim \<Rightarrow> nat" where
  "attempt_due P s c d = (case latest_mutation_action s c of
       None \<Rightarrow> 0
     | Some p \<Rightarrow> if P (mu_policy_node_id p) then one_if d Attempts else 0)"

abbreviation calls_of :: "execution_state \<Rightarrow> (model_call_id, call_record) btree_map" where
  "calls_of s \<equiv> bl_model_calls (es_budgets s)"

lemma mutation_calls_same: "es_event_log t = es_event_log s \<Longrightarrow> mutation_calls t = mutation_calls s"
  by (simp add: mutation_calls_def)

lemma call_consumed_step:
  "calls_of t = bt_insert c r' (calls_of s) \<Longrightarrow>
   call_consumed t k = (if k = c then is_consumed r' else call_consumed s k)"
  by (simp add: call_consumed_def map_simps)

lemma due_attempts_step:
  assumes "es_event_log t = es_event_log s" and calls: "calls_of t = bt_insert c r' (calls_of s)"
    and old: "\<not> call_consumed s c"
  shows "due P (map attempt_posting (consumed_mutations t)) d =
    due P (map attempt_posting (consumed_mutations s)) d +
    (if is_consumed r' then attempt_due P s c d else 0)"
proof (cases "is_consumed r'")
  case True
  have "call_consumed t k \<longleftrightarrow> k = c \<or> call_consumed s k" for k
    by (simp add: call_consumed_step [OF calls] True)
  from sum_filter_new [OF bt_wf_mutation_calls old this,
      of "\<lambda>e. if P (fst (snd e)) then one_if d Attempts else 0" s]
  have "due P (map attempt_posting (consumed_mutations t)) d =
      due P (map attempt_posting (consumed_mutations s)) d +
      (case map_of (mutation_calls s) c of None \<Rightarrow> 0
       | Some v \<Rightarrow> (if P (fst v) then one_if d Attempts else 0))"
    by (simp add: due_attempts consumed_mutations_def mutation_calls_same [OF assms(1)]
        split: option.splits)
  then show ?thesis
    using True by (simp add: attempt_due_def map_of_mutation_calls split: option.splits)
next
  case False
  then have "call_consumed t = call_consumed s"
    using old by (auto simp: call_consumed_step [OF calls] fun_eq_iff)
  then show ?thesis
    using False by (simp add: consumed_mutations_def mutation_calls_same [OF assms(1)])
qed

lemma due_replace:
  assumes "bt_wf (calls_of s)" and "es_event_log t = es_event_log s"
    and "calls_of t = bt_insert c r' (calls_of s)"
    and "map_of (calls_of s) c = Some r" and "call_owner r' = call_owner r" and "\<not> is_consumed r"
  shows "due P (postings t) d + (if P (call_owner r) then charge d r else 0) =
    due P (postings s) d + (if P (call_owner r) then charge d r' else 0) +
    (if is_consumed r' then attempt_due P s c d else 0)"
  using due_attempts_step [OF assms(2,3), of P d] assms(6)
    bt.total_replace [OF assms(1,4), of "\<lambda>r. if P (call_owner r) then charge d r else 0" r']
  by (simp add: postings_def due_calls rebuild_owners_def assms(2,3,5) call_consumed_def assms(4))

lemma due_fresh:
  assumes "bt_wf (calls_of s)" and "es_event_log t = es_event_log s"
    and "calls_of t = bt_insert c r' (calls_of s)"
    and "map_of (calls_of s) c = None" and "\<And>d. charge d r' = 0" and "\<not> is_consumed r'"
  shows "due P (postings t) d = due P (postings s) d"
  using due_attempts_step [OF assms(2,3), of P d] assms(6)
    bt.total_fresh [OF assms(1,4), of "\<lambda>r. if P (call_owner r) then charge d r else 0" r']
  by (simp add: postings_def due_calls rebuild_owners_def assms(2,3,5) call_consumed_def assms(4))

section \<open>Carrying the invariant over an operation\<close>

lemma open_owners_iff:
  assumes "bt_wf m"
  shows "distinct (open_owners m) \<longleftrightarrow>
    (\<forall>c c' r r'. map_of m c = Some r \<and> map_of m c' = Some r' \<and> call_is_open (cr_state r) \<and>
       call_is_open (cr_state r') \<and> call_owner r = call_owner r' \<longrightarrow> c = c')"
  unfolding open_owners_def distinct_selected [OF assms] by simp

lemma attempts_distinct_iff:
  "attempts_distinct s \<longleftrightarrow>
    (\<forall>c c' v v'. map_of (mutation_calls s) c = Some v \<and> map_of (mutation_calls s) c' = Some v' \<and>
       call_consumed s c \<and> call_consumed s c' \<and> snd v = snd v' \<longrightarrow> c = c')"
  unfolding attempts_distinct_def consumed_mutations_def distinct_selected [OF bt_wf_mutation_calls]
  by (simp add: attempt_of_def)

lemma consumed_mutations_iff:
  "(c, v) \<in> set (consumed_mutations s) \<longleftrightarrow> call_consumed s c \<and> map_of (mutation_calls s) c = Some v"
  by (auto simp: consumed_mutations_def bt_wf_map_of_iff [OF bt_wf_mutation_calls])

lemma books_call_fits: "books_ok s \<Longrightarrow> map_of (calls_of s) c = Some r \<Longrightarrow> call_fits s (c, r)"
  by (auto simp: books_ok_def dest: map_of_SomeD)

lemma books_node:
  assumes "books_ok s" and "map_of (es_nodes s) k = Some n"
  shows "node_within n" and "level d (en_usage n) = min (due (\<lambda>x. x = k) (postings s) d) (cap d)"
  using assms(1) map_of_SomeD [OF assms(2)] unfolding books_ok_def by blast+

lemma books_mission:
  assumes "books_ok s"
  shows "mission_within (bl_mission_usage (es_budgets s)) (es_mission_budget s)"
    and "level d (bl_mission_usage (es_budgets s)) = min (due (\<lambda>_. True) (postings s) d) (cap d)"
  using assms unfolding books_ok_def by blast+

text \<open>
  The shape every budget operation has: usages change by \<open>g\<close> at the nodes and by \<open>gm\<close> at the mission, one
  call is written, nothing else that the accounts read.
\<close>

definition budget_step ::
  "(node_id \<Rightarrow> budget_usage \<Rightarrow> budget_usage) \<Rightarrow> (budget_usage \<Rightarrow> budget_usage) \<Rightarrow> model_call_id \<Rightarrow>
   call_record \<Rightarrow> execution_state \<Rightarrow> execution_state \<Rightarrow> bool" where
  "budget_step g gm c r s t \<longleftrightarrow>
     (\<exists>nodes. t = s\<lparr>es_nodes := nodes, es_budgets := (es_budgets s)\<lparr>
         bl_mission_usage := gm (bl_mission_usage (es_budgets s)),
         bl_model_calls := bt_insert c r (calls_of s)\<rparr>\<rparr> \<and>
       bt_wf nodes \<and>
       (\<forall>k. map_of nodes k = map_option (\<lambda>n. n\<lparr>en_usage := g k (en_usage n)\<rparr>) (map_of (es_nodes s) k)))"

lemma budget_stepD:
  assumes "budget_step g gm c r s t"
  shows "es_event_log t = es_event_log s" and "calls_of t = bt_insert c r (calls_of s)"
    and "bl_mission_usage (es_budgets t) = gm (bl_mission_usage (es_budgets s))"
    and "bt_wf (es_nodes t)" and "es_mission_budget t = es_mission_budget s"
    and "map_of (es_nodes t) k = map_option (\<lambda>n. n\<lparr>en_usage := g k (en_usage n)\<rparr>) (map_of (es_nodes s) k)"
    and "node_ids t = node_ids s"
  using assms by (auto simp: budget_step_def dom_def)

lemma budget_keys_ok_iff:
  "budget_keys_ok s \<longleftrightarrow> bt_wf (es_nodes s) \<and> bt_wf (calls_of s) \<and>
     (\<forall>k n. map_of (es_nodes s) k = Some n \<longrightarrow> en_id n = k)"
  by (auto simp: budget_keys_ok_def bt_wf_map_of_iff dest: map_of_SomeD)

lemma budget_step_keys:
  assumes "budget_step g gm c r s t" and "budget_keys_ok s"
  shows "budget_keys_ok t"
  using assms(2) budget_stepD [OF assms(1)]
  by (auto simp: budget_keys_ok_iff map_simps)

lemma budget_step_fits: "budget_step g gm c r s t \<Longrightarrow> call_fits t entry = call_fits s entry"
  by (auto simp: budget_stepD(6) call_fits_def split: prod.splits option.splits)

lemma budget_step_owners:
  assumes step: "budget_step g gm c r s t" and keys: "budget_keys_ok s" and "owners_known s"
    and "call_owner r \<in> node_ids s"
    and new: "\<And>v. is_consumed r \<Longrightarrow> map_of (mutation_calls s) c = Some v \<Longrightarrow> fst v \<in> node_ids s"
  shows "owners_known t"
proof -
  note d = budget_stepD [OF step]
  have wf: "bt_wf (calls_of s)" using keys by (simp add: budget_keys_ok_def)
  have "\<forall>x \<in> set (bt_values (calls_of t)). call_owner x \<in> node_ids s"
    unfolding d(2) bt.all_vals_store [OF wf]
    using assms(3,4) bt_lookup_vals [OF wf] by (auto simp: owners_known_iff)
  moreover have "fst v \<in> node_ids s" if "(k, v) \<in> set (consumed_mutations t)" for k v
  proof (cases "k = c \<and> is_consumed r")
    case True
    then show ?thesis
      using that new by (simp add: consumed_mutations_iff mutation_calls_same [OF d(1)])
  next
    case False
    then have "(k, v) \<in> set (consumed_mutations s)"
      using that call_consumed_step [OF d(2), of k]
      by (auto simp: consumed_mutations_iff mutation_calls_same [OF d(1)] split: if_splits)
    then show ?thesis using assms(3) unfolding owners_known_iff by force
  qed
  moreover have "\<forall>n \<in> set (rebuild_owners t). n \<in> node_ids s"
    using assms(3) by (simp add: owners_known_iff rebuild_owners_def d(1))
  ultimately show ?thesis unfolding owners_known_iff d(7) by fastforce
qed

lemma budget_step_open:
  assumes step: "budget_step g gm c r s t" and keys: "budget_keys_ok s"
    and "distinct (open_owners (calls_of s))"
    and only: "\<And>c' r'. call_is_open (cr_state r) \<Longrightarrow> map_of (calls_of s) c' = Some r' \<Longrightarrow>
      call_is_open (cr_state r') \<Longrightarrow> call_owner r' = call_owner r \<Longrightarrow> c' = c"
  shows "distinct (open_owners (calls_of t))"
proof -
  have wf: "bt_wf (calls_of s)" "bt_wf (calls_of t)"
    using keys by (auto simp: budget_keys_ok_def budget_stepD(2) [OF step] map_simps)
  have old: "k = k'" if "map_of (calls_of s) k = Some x" "map_of (calls_of s) k' = Some x'"
    "call_is_open (cr_state x)" "call_is_open (cr_state x')" "call_owner x = call_owner x'" for k k' x x'
    using assms(3) that unfolding open_owners_iff [OF wf(1)] by blast
  have at: "map_of (calls_of t) k = (if k = c then Some r else map_of (calls_of s) k)" for k
    by (simp add: budget_stepD(2) [OF step] map_simps)
  show ?thesis
    unfolding open_owners_iff [OF wf(2)] at using old only by (metis option.inject)
qed

lemma budget_step_attempts:
  assumes step: "budget_step g gm c r s t" and "attempts_distinct s"
    and new: "\<And>v c' v'. is_consumed r \<Longrightarrow> map_of (mutation_calls s) c = Some v \<Longrightarrow>
      map_of (mutation_calls s) c' = Some v' \<Longrightarrow> call_consumed s c' \<Longrightarrow> snd v' = snd v \<Longrightarrow> c' = c"
  shows "attempts_distinct t"
  using assms(2) new
  unfolding attempts_distinct_iff mutation_calls_same [OF budget_stepD(1) [OF step]]
    call_consumed_step [OF budget_stepD(2) [OF step]]
  by (metis (full_types))

lemma budget_step_books:
  assumes step: "budget_step g gm c r s t" and keys: "budget_keys_ok s" and books: "books_ok s"
    and fits: "call_fits s (c, r)"
    and only: "\<And>c' r'. call_is_open (cr_state r) \<Longrightarrow> map_of (calls_of s) c' = Some r' \<Longrightarrow>
      call_is_open (cr_state r') \<Longrightarrow> call_owner r' = call_owner r \<Longrightarrow> c' = c"
    and owner: "\<And>v. is_consumed r \<Longrightarrow> map_of (mutation_calls s) c = Some v \<Longrightarrow> fst v \<in> node_ids s"
    and fresh: "\<And>v c' v'. is_consumed r \<Longrightarrow> map_of (mutation_calls s) c = Some v \<Longrightarrow>
      map_of (mutation_calls s) c' = Some v' \<Longrightarrow> call_consumed s c' \<Longrightarrow> snd v' = snd v \<Longrightarrow> c' = c"
    and node: "\<And>k n. map_of (es_nodes s) k = Some n \<Longrightarrow> node_within (n\<lparr>en_usage := g k (en_usage n)\<rparr>) \<and>
      (\<forall>d. level d (g k (en_usage n)) = min (due (\<lambda>x. x = k) (postings t) d) (cap d))"
    and mission: "mission_within (gm (bl_mission_usage (es_budgets s))) (es_mission_budget s)"
      "\<And>d. level d (gm (bl_mission_usage (es_budgets s))) = min (due (\<lambda>_. True) (postings t) d) (cap d)"
  shows "budget_keys_ok t \<and> books_ok t"
proof -
  note d = budget_stepD [OF step]
  have keys_t: "budget_keys_ok t" by (rule budget_step_keys [OF step keys])
  have b: "owners_known s" "attempts_distinct s" "distinct (open_owners (calls_of s))"
    using books by (simp_all add: books_ok_def)
  have "call_owner r \<in> node_ids s"
    using fits by (auto simp: call_fits_def split: option.splits)
  then have "owners_known t" using budget_step_owners [OF step keys b(1)] owner by blast
  moreover have "attempts_distinct t" by (rule budget_step_attempts [OF step b(2) fresh])
  moreover have "distinct (open_owners (calls_of t))" by (rule budget_step_open [OF step keys b(3) only])
  moreover have "call_fits t entry" if "entry \<in> set (calls_of t)" for entry
  proof -
    obtain k x where "entry = (k, x)" by (cases entry)
    moreover have "map_of (calls_of t) k = Some x"
      using that keys_t by (simp add: calculation budget_keys_ok_def bt_wf_map_of_iff)
    ultimately show ?thesis
      using fits books_call_fits [OF books]
      by (auto simp: budget_step_fits [OF step] d(2) map_simps split: if_splits)
  qed
  moreover have "node_within n \<and> (\<forall>d. level d (en_usage n) = min (due (\<lambda>x. x = k) (postings t) d) (cap d))"
    if "(k, n) \<in> set (es_nodes t)" for k n
    using that node [of k] keys_t by (auto simp: budget_keys_ok_def bt_wf_map_of_iff d(6))
  ultimately show ?thesis
    using keys_t mission unfolding books_ok_def d(3) d(5) by blast
qed

section \<open>One owner of execution\<close>

text \<open>At most one node is active or waiting, the invariant of the scheduler.\<close>

definition sole_owner :: "execution_state \<Rightarrow> bool" where
  "sole_owner s \<longleftrightarrow> (\<forall>(k, n) \<in> set (es_nodes s). \<forall>(k', n') \<in> set (es_nodes s).
     owns_execution (en_state n) \<and> owns_execution (en_state n') \<longrightarrow> k = k')"

lemma sole_ownerD:
  assumes "sole_owner s" and "map_of (es_nodes s) k = Some n" and "map_of (es_nodes s) k' = Some n'"
    and "owns_execution (en_state n)" and "owns_execution (en_state n')"
  shows "k = k'"
  using assms(1,4,5) map_of_SomeD [OF assms(2)] map_of_SomeD [OF assms(3)]
  unfolding sole_owner_def by blast

lemma active_owns: "is_active st \<Longrightarrow> owns_execution st"
  by (cases st) simp_all

lemma reservation_open: "owns_reservation st \<Longrightarrow> call_is_open st"
  by (cases st) simp_all

lemma charge_held: "0 < held d a \<Longrightarrow> 0 < charge d r \<Longrightarrow> owns_reservation (cr_state r)"
  by (cases d; cases "cr_state r") (simp_all add: charge_def)

lemma open_call_sole:
  assumes keys: "budget_keys_ok s" and books: "books_ok s" and sole: "sole_owner s"
    and "map_of (calls_of s) c = Some r" "call_is_open (cr_state r)"
    and "map_of (calls_of s) c' = Some r'" "call_is_open (cr_state r')"
  shows "c = c'"
proof -
  obtain n where n: "map_of (es_nodes s) (call_owner r) = Some n" "is_active (en_state n)"
    using books_call_fits [OF books assms(4)] assms(5) by (auto simp: call_fits_def split: option.splits)
  obtain n' where n': "map_of (es_nodes s) (call_owner r') = Some n'" "is_active (en_state n')"
    using books_call_fits [OF books assms(6)] assms(7) by (auto simp: call_fits_def split: option.splits)
  have "call_owner r = call_owner r'"
    using sole_ownerD [OF sole n(1) n'(1)] n(2) n'(2) by (simp add: active_owns)
  moreover have wf: "bt_wf (calls_of s)" using keys by (simp add: budget_keys_ok_def)
  moreover have "distinct (open_owners (calls_of s))" using books by (simp add: books_ok_def)
  ultimately show ?thesis using assms(4-7) unfolding open_owners_iff [OF wf] by blast
qed

text \<open>
  While one node owns execution the reserved part of every account is what the one open call holds, so
  the saturating additions are exact there.
\<close>

lemma held_exact:
  assumes keys: "budget_keys_ok s" and books: "books_ok s" and sole: "sole_owner s"
    and call: "map_of (calls_of s) c = Some r" "owns_reservation (cr_state r)"
    and d: "0 < held d a"
  shows "due P (postings s) d = (if P (call_owner r) then charge d r else 0)"
proof -
  let ?f = "\<lambda>r. if P (call_owner r) then charge d r else 0"
  let ?r = "r\<lparr>cr_state := Admitted\<rparr>"
  have wf: "bt_wf (calls_of s)" using keys by (simp add: budget_keys_ok_def)
  have "charge d x = 0" if "map_of (calls_of s) k = Some x" "k \<noteq> c" for k x
    using that open_call_sole [OF keys books sole call(1) _ that(1)] charge_held [OF d, of x] call(2)
      reservation_open by (metis gr0I)
  then have "\<forall>x \<in> set (bt_values (bt_insert c ?r (calls_of s))). ?f x = 0"
    unfolding bt.all_vals_store [OF wf] by (auto simp: charge_def)
  then have "sum_list (map ?f (bt_values (bt_insert c ?r (calls_of s)))) = 0"
    by (simp add: sum_list_eq_0_iff)
  with bt.total_replace [OF wf call(1), of ?f ?r] have
    "sum_list (map ?f (bt_values (calls_of s))) = ?f r"
    by (simp add: charge_def)
  moreover have dims: "d \<noteq> Attempts" "d \<noteq> Rebuilds"
    using d by auto
  have "due P (map attempt_posting xs) d = 0" for xs
    by (induction xs) (simp_all add: attempt_posting_def dims)
  moreover have "due P (map rebuild_posting ys) d = 0" for ys
    by (induction ys) (simp_all add: rebuild_posting_def dims)
  ultimately show ?thesis by (simp add: postings_def due_calls)
qed

section \<open>The operations\<close>

definition node_room :: "execution_node \<Rightarrow> admission \<Rightarrow> bool" where
  "node_room n a \<longleftrightarrow> (let u = en_usage n; b = en_budget n in
     fits (level Calls_Spent u + level Calls_Held u) 1 (unat (nb_max_model_calls b)) (2 ^ 32 - 1) \<and>
     fits (level Cost_Spent u + level Cost_Held u) (unat (ad_reserved_cost_micros a))
       (unat (nb_max_cost_micros b)) (2 ^ 64 - 1) \<and>
     fits (level Time_Spent u + level Time_Held u) (unat (ad_duration_allowance_ms a))
       (unat (nb_max_duration_ms b)) (2 ^ 64 - 1))"

definition mission_room :: "budget_usage \<Rightarrow> mission_budget \<Rightarrow> admission \<Rightarrow> bool" where
  "mission_room u b a \<longleftrightarrow>
     fits (level Calls_Spent u + level Calls_Held u) 1 (unat (mb_max_model_calls b)) (2 ^ 32 - 1) \<and>
     fits (level Cost_Spent u + level Cost_Held u) (unat (ad_reserved_cost_micros a))
       (unat (mb_max_cost_micros b)) (2 ^ 64 - 1) \<and>
     fits (level Time_Spent u + level Time_Held u) (unat (ad_duration_allowance_ms a))
       (unat (mb_max_duration_ms b)) (2 ^ 64 - 1)"

lemma sat3_u32: "limit < sat_add (sat_add a b) (x :: u32) \<longleftrightarrow>
    \<not> fits (unat a + unat b) (unat x) (unat limit) (2 ^ 32 - 1)"
  using u32_bound [of limit] by (auto simp: word_simps fits_def)

lemma sat3_u64: "limit < sat_add (sat_add a b) (x :: u64) \<longleftrightarrow>
    \<not> fits (unat a + unat b) (unat x) (unat limit) (2 ^ 64 - 1)"
  using u64_bound [of limit] by (auto simp: word_simps fits_def)

lemma ensure_usage_capacity_iff:
  "ensure_usage_capacity (en_usage n) (en_budget n) a k = Inr () \<longleftrightarrow> node_room n a"
  by (simp add: ensure_usage_capacity_def sat3_u32 sat3_u64 node_room_def Let_def level.simps)

lemma ensure_model_call_capacity_iff:
  "ensure_model_call_capacity s n a = Inr () \<longleftrightarrow>
   node_room n a \<and> mission_room (bl_mission_usage (es_budgets s)) (es_mission_budget s) a"
  by (simp add: ensure_model_call_capacity_def bnd_Inr_iff ensure_usage_capacity_iff Let_def
      mission_room_def sat3_u32 sat3_u64 level.simps)

lemma fits_reserve: "fits (a + b) x l w \<Longrightarrow> fits (min a v) (min (b + x) v') l w"
  by (auto simp: fits_def)

lemma fits_reserve_call:
  "fits (a + b) (Suc 0) l w \<Longrightarrow> fits (min a v) (Suc (min b v')) l w"
  by (auto simp: fits_def)

lemma fits_consume: "fits a b l w \<Longrightarrow> y \<le> x \<Longrightarrow> x \<le> b \<Longrightarrow> fits (min (a + y) v) (min (b - x) v') l w"
  by (auto simp: fits_def)

lemma fits_consume_call:
  "fits a b l w \<Longrightarrow> Suc 0 \<le> b \<Longrightarrow> fits (Suc (min a v)) (b - Suc 0) l w"
  "fits a b l w \<Longrightarrow> Suc 0 \<le> b \<Longrightarrow> fits (Suc (min a v)) (min (b - Suc 0) v') l w"
  by (auto simp: fits_def)

lemma fits_release: "fits a b l w \<Longrightarrow> fits a (b - x) l w"
  by (auto simp: fits_def)

lemma level_capped: "level d u = min (level d u) (cap d)"
  by (simp add: level_cap min_absorb1)

lemma node_within_reserve:
  assumes "node_within n" and "node_room n a"
  shows "node_within (n\<lparr>en_usage := reserve_usage (en_usage n) a\<rparr>)"
  using assms by (auto simp: node_within_def node_room_def Let_def level_simps intro!: fits_reserve fits_reserve_call)

lemma mission_within_reserve:
  assumes "mission_within u b" and "mission_room u b a"
  shows "mission_within (reserve_usage u a) b"
  using assms by (auto simp: mission_within_def mission_room_def level_simps intro!: fits_reserve fits_reserve_call)

lemma node_within_release:
  "node_within n \<Longrightarrow> node_within (n\<lparr>en_usage := release_usage (en_usage n) a\<rparr>)"
  by (auto simp: node_within_def Let_def level_simps fits_def)

lemma mission_within_release: "mission_within u b \<Longrightarrow> mission_within (release_usage u a) b"
  by (auto simp: mission_within_def level_simps fits_def)

lemma fits_min: "fits a b l w \<Longrightarrow> fits (min a v) (min b v') l w"
  by (auto simp: fits_def)

lemma node_within_attempt:
  assumes "node_within n"
    and "level Attempts (add_mutation_attempt (en_usage n)) \<le> unat (nb_max_mutation_attempts (en_budget n))"
  shows "node_within (n\<lparr>en_usage := add_mutation_attempt (en_usage n)\<rparr>)"
  using assms by (auto simp: node_within_def Let_def level_simps intro!: fits_min)

lemma mission_within_attempt: "mission_within u b \<Longrightarrow> mission_within (add_mutation_attempt u) b"
  by (auto simp: mission_within_def level_simps intro!: fits_min)

text \<open>The actual usage stays within the reservation, and the reservation is in the account.\<close>

definition covered :: "admission \<Rightarrow> u64 \<Rightarrow> u64 \<Rightarrow> budget_usage \<Rightarrow> bool" where
  "covered a cost ms u \<longleftrightarrow> cost \<le> ad_reserved_cost_micros a \<and> ms \<le> ad_duration_allowance_ms a \<and>
     (\<forall>d. held d a \<le> level d u)"

lemma covered_levels:
  assumes "covered a cost ms u"
  shows "unat cost \<le> unat (ad_reserved_cost_micros a)" and "unat ms \<le> unat (ad_duration_allowance_ms a)"
    and "1 \<le> level Calls_Held u" and "unat (ad_reserved_cost_micros a) \<le> level Cost_Held u"
    and "unat (ad_duration_allowance_ms a) \<le> level Time_Held u"
proof -
  have "held d a \<le> level d u" for d using assms by (simp add: covered_def)
  from this [of Calls_Held] this [of Cost_Held] this [of Time_Held]
  show "1 \<le> level Calls_Held u" "unat (ad_reserved_cost_micros a) \<le> level Cost_Held u"
    "unat (ad_duration_allowance_ms a) \<le> level Time_Held u" by simp_all
qed (use assms in \<open>simp_all add: covered_def word_le_nat_alt\<close>)

lemma node_within_consume:
  assumes "node_within n" and "covered a cost ms (en_usage n)"
  shows "node_within (n\<lparr>en_usage := consume_usage (en_usage n) a cost ms\<rparr>)"
  using assms(1) covered_levels [OF assms(2)]
  by (auto simp: node_within_def Let_def level_simps intro!: fits_consume fits_consume_call)

lemma mission_within_consume:
  assumes "mission_within u b" and "covered a cost ms u"
  shows "mission_within (consume_usage u a cost ms) b"
  using assms(1) covered_levels [OF assms(2)]
  by (auto simp: mission_within_def level_simps intro!: fits_consume fits_consume_call)

end
