(* ===== verification/Budget_Preservation.thy ===== *)
theory Budget_Preservation
  imports Budget_Steps
begin

text \<open>
  Each operation on a model call in the shape of a \<open>budget_step\<close>, and that it keeps the books: admitting,
  reserving, dispatching, releasing and consuming, and so every \<open>BudgetEvent\<close> of the reducer.
\<close>

section \<open>What each operation checks and writes\<close>

lemma admit_Inr_iff:
  "admit_model_call s a = Inr t \<longleftrightarrow> map_of (calls_of s) (ad_call_id a) = None \<and>
   (\<exists>n. map_of (es_nodes s) (ad_node_id a) = Some n \<and> admission_binding s n a = Inr () \<and>
     is_active (en_state n) \<and> requires_model (en_kind n) \<and> \<not> blank (ad_payload_hash a) \<and>
     ad_input_tokens a \<le> nb_max_input_tokens_per_call (en_budget n) \<and>
     ad_output_tokens a \<le> nb_max_output_tokens_per_call (en_budget n) \<and>
     \<not> has_open_model_call_for_node s (en_id n) \<and> ensure_model_call_capacity s n a = Inr ()) \<and>
   t = set_call \<lparr>cr_admission = a, cr_state = Admitted\<rparr> (ad_call_id a) s"
proof (cases "map_of (calls_of s) (ad_call_id a) = None")
  case True
  show ?thesis
  proof (cases "map_of (es_nodes s) (ad_node_id a)")
    case None
    then show ?thesis by (simp add: admit_model_call_def True result_simps)
  next
    case (Some n)
    then show ?thesis
      by (auto simp: admit_model_call_def True result_simps if_Inl_iff not_less )
  qed
qed (simp add: admit_model_call_def)

lemma reserve_Inr_iff:
  "reserve_model_call s c = Inr t \<longleftrightarrow>
   (\<exists>r n. map_of (calls_of s) c = Some r \<and> cr_state r = Admitted \<and>
     map_of (es_nodes s) (call_owner r) = Some n \<and> is_active (en_state n) \<and>
     ensure_model_call_capacity s n (cr_admission r) = Inr () \<and>
     t = set_call (r\<lparr>cr_state := Reserved\<rparr>) c
       (set_mission_usage (reserve_usage (bl_mission_usage (es_budgets s)) (cr_admission r))
         (set_node (n\<lparr>en_usage := reserve_usage (en_usage n) (cr_admission r)\<rparr>) (call_owner r) s)))"
  by (auto simp: reserve_model_call_def result_simps if_Inl_iff Let_def call_owner_def)

lemma dispatch_Inr_iff:
  "start_provider_dispatch E s c h = Inr t \<longleftrightarrow>
   dispatch_binding E s c h = Inr () \<and>
   (\<exists>r. map_of (calls_of s) c = Some r \<and> cr_state r = Reserved \<and>
     ad_payload_hash (cr_admission r) = h \<and> t = set_call (r\<lparr>cr_state := Dispatched\<rparr>) c s)"
  by (auto simp: start_provider_dispatch_def result_simps if_Inl_iff)

lemma release_Inr_iff:
  "reconcile_model_call s c ReleasedUncontacted = Inr t \<longleftrightarrow>
   (\<exists>r. map_of (calls_of s) c = Some r \<and> owns_reservation (cr_state r) \<and>
     t = settle_call (\<lambda>u. release_usage u (cr_admission r)) ReconciledReleased c r s)"
  by (auto simp: reconcile_model_call_def result_simps if_Inl_iff Let_def)

lemma consume_Inr_iff:
  "reconcile_model_call s c (Consumed cost ms) = Inr t \<longleftrightarrow>
   (\<exists>r. map_of (calls_of s) c = Some r \<and> cr_state r = Dispatched \<and>
     cost \<le> ad_reserved_cost_micros (cr_admission r) \<and> ms \<le> ad_duration_allowance_ms (cr_admission r) \<and>
     consume_guard s c = Inr () \<and>
     (let s' = settle_call (\<lambda>u. consume_usage u (cr_admission r) cost ms) (ReconciledConsumed cost ms) c r s
      in t = (case latest_mutation_action s c of
          None \<Rightarrow> s'
        | Some p \<Rightarrow> count_mutation_attempt (mu_policy_node_id p) s')))"
  by (auto simp: reconcile_model_call_def result_simps if_Inl_iff Let_def not_less)

lemma consume_guard_iff:
  "consume_guard s c = Inr () \<longleftrightarrow> (case latest_mutation_action s c of
      None \<Rightarrow> True
    | Some p \<Rightarrow> \<not> mutation_attempt_consumed s (mu_policy_attempt_id p) \<and>
        (\<exists>n. map_of (es_nodes s) (mu_policy_node_id p) = Some n \<and>
          level Attempts (add_mutation_attempt (en_usage n)) \<le> unat (nb_max_mutation_attempts (en_budget n))))"
  by (auto simp: consume_guard_def bnd_Inr_iff ok_or_def Let_def not_less word_le_nat_alt
      add_mutation_attempt_def level.simps split: option.splits)

section \<open>The shape of each operation\<close>

definition at :: "node_id \<Rightarrow> (budget_usage \<Rightarrow> budget_usage) \<Rightarrow> node_id \<Rightarrow> budget_usage \<Rightarrow> budget_usage" where
  "at k f k' u = (if k' = k then f u else u)"

lemma budget_step_call:
  "bt_wf (es_nodes s) \<Longrightarrow> budget_step (\<lambda>_ u. u) (\<lambda>u. u) c r s (set_call r c s)"
  unfolding budget_step_def set_call_def
  by (rule exI [of _ "es_nodes s"]) (simp add: option.map_ident)

lemma budget_step_set_node:
  assumes "bt_wf (es_nodes s)" and "map_of (es_nodes s) k = Some n"
  shows "budget_step (at k f) f c r s
    (set_call r c (set_mission_usage (f (bl_mission_usage (es_budgets s)))
      (set_node (n\<lparr>en_usage := f (en_usage n)\<rparr>) k s)))"
  unfolding budget_step_def set_call_def set_mission_usage_def set_node_def
  using assms
  by (intro exI [of _ "bt_insert k (n\<lparr>en_usage := f (en_usage n)\<rparr>) (es_nodes s)"])
    (auto simp: map_simps at_def option.map_ident)

lemma budget_step_settle:
  assumes "bt_wf (es_nodes s)"
  shows "budget_step (at (call_owner r) f) f c (r\<lparr>cr_state := final\<rparr>) s (settle_call f final c r s)"
  unfolding budget_step_def settle_call_def set_call_def set_mission_usage_def call_owner_def
  using assms
  by (intro exI [of _ "bt_adjust (ad_node_id (cr_admission r)) (\<lambda>n. n\<lparr>en_usage := f (en_usage n)\<rparr>) (es_nodes s)"])
    (auto simp: map_of_adjust bt_wf_adjust at_def option.map_ident)

lemma budget_step_attempt:
  assumes "budget_step g gm c r s s'"
  shows "budget_step (\<lambda>k u. at owner add_mutation_attempt k (g k u)) (\<lambda>u. add_mutation_attempt (gm u)) c r s
    (count_mutation_attempt owner s')"
  using assms
  unfolding budget_step_def count_mutation_attempt_def set_mission_usage_def
  by (elim exE conjE,
      intro exI [of _ "bt_adjust owner (\<lambda>n. n\<lparr>en_usage := add_mutation_attempt (en_usage n)\<rparr>) (es_nodes s')"])
    (auto simp: map_of_adjust bt_wf_adjust at_def option.map_comp comp_def)

section \<open>Each operation keeps the books\<close>

text \<open>A usage that stands for the amounts \<open>D\<close>, and how the usage operations move it.\<close>

definition stands :: "(dim \<Rightarrow> nat) \<Rightarrow> budget_usage \<Rightarrow> bool" where
  "stands D u \<longleftrightarrow> (\<forall>d. level d u = min (D d) (cap d))"

lemma stands_node:
  "books_ok s \<Longrightarrow> map_of (es_nodes s) k = Some n \<Longrightarrow> stands (due (\<lambda>x. x = k) (postings s)) (en_usage n)"
  by (simp add: stands_def books_node)

lemma stands_mission:
  "books_ok s \<Longrightarrow> stands (due (\<lambda>_. True) (postings s)) (bl_mission_usage (es_budgets s))"
  by (simp add: stands_def books_mission)

lemma stands_same: "stands D u \<Longrightarrow> (\<And>d. D' d = D d) \<Longrightarrow> stands D' u"
  by (simp add: stands_def)

lemma min_add_cap: "min (min a c + b) c = min (a + b) (c :: nat)"
  by (simp add: min_def)

lemma stands_reserve:
  "stands D u \<Longrightarrow> (\<And>d. D' d = D d + held d a) \<Longrightarrow> stands D' (reserve_usage u a)"
  by (simp add: stands_def level_simps min_add_cap)

lemma stands_attempt:
  "stands D u \<Longrightarrow> (\<And>d. D' d = D d + one_if d Attempts) \<Longrightarrow> stands D' (add_mutation_attempt u)"
  by (simp add: stands_def level_simps min_add_cap)

lemma stands_release:
  assumes "stands D u" and exact: "\<And>d. 0 < held d a \<Longrightarrow> D d = held d a"
    and t: "\<And>d. D' d + held d a = D d"
  shows "stands D' (release_usage u a)"
  unfolding stands_def
proof
  fix d
  show "level d (release_usage u a) = min (D' d) (cap d)"
  proof (cases "held d a = 0")
    case True
    with t [of d] assms(1) show ?thesis by (simp add: stands_def level_simps)
  next
    case False
    with exact [of d] t [of d] assms(1) held_cap [of d a] show ?thesis
      by (simp add: stands_def level_simps)
  qed
qed

lemma stands_consume:
  assumes "stands D u" and exact: "\<And>d. 0 < held d a \<Longrightarrow> D d = held d a"
    and t: "\<And>d. D' d + held d a = D d + spent d cost ms"
  shows "stands D' (consume_usage u a cost ms)"
proof -
  have again: "D d - held d a + held d a = D d" for d
    using exact [of d] by (cases "held d a = 0") auto
  have "stands (\<lambda>d. D d - held d a) (release_usage u a)"
    by (rule stands_release [OF assms(1) exact]) (simp_all add: again)
  moreover have "D' d = D d - held d a + spent d cost ms" for d
    using t [of d] exact [of d] by (cases "held d a = 0") auto
  ultimately show ?thesis
    by (simp add: stands_def consume_usage_def level_simps min_add_cap)
qed

text \<open>An operation that changes usages at the owner of the call only.\<close>

lemma budget_step_at:
  assumes step: "budget_step (at (call_owner r) f) f c r s t"
    and keys: "budget_keys_ok s" and books: "books_ok s" and fits: "call_fits s (c, r)"
    and only: "\<And>c' r'. call_is_open (cr_state r) \<Longrightarrow> map_of (calls_of s) c' = Some r' \<Longrightarrow>
      call_is_open (cr_state r') \<Longrightarrow> call_owner r' = call_owner r \<Longrightarrow> c' = c"
    and no: "\<not> is_consumed r"
    and within: "\<And>n. map_of (es_nodes s) (call_owner r) = Some n \<Longrightarrow> node_within n \<Longrightarrow>
      node_within (n\<lparr>en_usage := f (en_usage n)\<rparr>)"
      "mission_within (bl_mission_usage (es_budgets s)) (es_mission_budget s) \<Longrightarrow>
       mission_within (f (bl_mission_usage (es_budgets s))) (es_mission_budget s)"
    and hit: "\<And>P u. P (call_owner r) \<Longrightarrow> stands (due P (postings s)) u \<Longrightarrow>
      stands (due P (postings t)) (f u)"
    and miss: "\<And>P d. \<not> P (call_owner r) \<Longrightarrow> due P (postings t) d = due P (postings s) d"
  shows "budget_keys_ok t \<and> books_ok t"
proof (rule budget_step_books [OF step keys books fits])
  fix k n assume k: "map_of (es_nodes s) k = Some n"
  show "node_within (n\<lparr>en_usage := at (call_owner r) f k (en_usage n)\<rparr>) \<and>
    (\<forall>d. level d (at (call_owner r) f k (en_usage n)) = min (due (\<lambda>x. x = k) (postings t) d) (cap d))"
  proof (cases "k = call_owner r")
    case True
    with k within(1) hit [OF _ stands_node [OF books k]] books_node(1) [OF books k] show ?thesis
      by (simp add: at_def stands_def)
  next
    case False
    with k miss [of "\<lambda>x. x = k"] stands_node [OF books k] books_node(1) [OF books k] show ?thesis
      by (simp add: at_def stands_def)
  qed
next
  show "mission_within (f (bl_mission_usage (es_budgets s))) (es_mission_budget s)"
    by (rule within(2) [OF books_mission(1) [OF books]])
next
  fix d
  show "level d (f (bl_mission_usage (es_budgets s))) = min (due (\<lambda>_. True) (postings t) d) (cap d)"
    using hit [OF _ stands_mission [OF books]] by (simp add: stands_def)
qed (use no only in blast)+

text \<open>The open call of a node is the only one: what the operations on that call need.\<close>

lemma open_call_only:
  assumes "budget_keys_ok s" and "books_ok s" and "map_of (calls_of s) c = Some r"
    and "call_is_open (cr_state r)" and "map_of (calls_of s) c' = Some r'"
    and "call_is_open (cr_state r')" and "call_owner r' = call_owner r"
  shows "c' = c"
proof -
  have wf: "bt_wf (calls_of s)" using assms(1) by (simp add: budget_keys_ok_def)
  have "distinct (open_owners (calls_of s))" using assms(2) by (simp add: books_ok_def)
  then show ?thesis using assms(3-7) unfolding open_owners_iff [OF wf] by metis
qed

lemma call_fits_state:
  assumes "call_fits s (c, r)" and "call_is_open st \<Longrightarrow> call_is_open (cr_state r)"
    and "\<And>cost ms. st = ReconciledConsumed cost ms \<Longrightarrow>
      cost \<le> ad_reserved_cost_micros (cr_admission r) \<and> ms \<le> ad_duration_allowance_ms (cr_admission r)"
  shows "call_fits s (c, r\<lparr>cr_state := st\<rparr>)"
  using assms by (auto simp: call_fits_def call_owner_def split: option.splits model_call_state.splits)

lemma call_owner_state [simp]: "call_owner (r\<lparr>cr_state := st\<rparr>) = call_owner r"
  by (simp add: call_owner_def)

lemma at_id: "at k (\<lambda>u. u) = (\<lambda>_ u. u)"
  by (simp add: at_def fun_eq_iff)

theorem admit_keeps:
  assumes keys: "budget_keys_ok s" and books: "books_ok s" and admit: "admit_model_call s a = Inr t"
  shows "budget_keys_ok t \<and> books_ok t"
proof -
  let ?r = "\<lparr>cr_admission = a, cr_state = Admitted\<rparr>" and ?c = "ad_call_id a"
  have wf: "bt_wf (es_nodes s)" "bt_wf (calls_of s)" using keys by (simp_all add: budget_keys_ok_def)
  obtain n where fresh: "map_of (calls_of s) ?c = None" and n: "map_of (es_nodes s) (ad_node_id a) = Some n"
    and guards: "is_active (en_state n)" "requires_model (en_kind n)" "\<not> blank (ad_payload_hash a)"
      "ad_input_tokens a \<le> nb_max_input_tokens_per_call (en_budget n)"
      "ad_output_tokens a \<le> nb_max_output_tokens_per_call (en_budget n)"
      "\<not> has_open_model_call_for_node s (en_id n)"
    and t: "t = set_call ?r ?c s"
    using admit by (auto simp: admit_Inr_iff)
  have id: "en_id n = ad_node_id a" using keys n by (simp add: budget_keys_ok_iff)
  have step: "budget_step (at (call_owner ?r) (\<lambda>u. u)) (\<lambda>u. u) ?c ?r s t"
    unfolding t at_id by (rule budget_step_call [OF wf(1)])
  have same: "due P (postings t) d = due P (postings s) d" for P d
    by (rule due_fresh [OF wf(2) budget_stepD(1,2) [OF step] fresh])
      (simp_all add: charge_def is_consumed_def)
  have none: "\<not> call_is_open (cr_state r')"
    if "map_of (calls_of s) c' = Some r'" "call_owner r' = call_owner ?r" for c' r'
    using guards(6) bt_lookup_vals [OF wf(2), of r'] that
    by (auto simp: has_open_model_call_for_node_def id list_ex_iff call_owner_def)
  show ?thesis
    by (rule budget_step_at [OF step keys books])
      (use guards n none same in \<open>auto simp: call_fits_def call_owner_def is_consumed_def stands_def\<close>)
qed

theorem dispatch_keeps:
  assumes keys: "budget_keys_ok s" and books: "books_ok s"
    and dispatch: "start_provider_dispatch E s c h = Inr t"
  shows "budget_keys_ok t \<and> books_ok t"
proof -
  have wf: "bt_wf (es_nodes s)" "bt_wf (calls_of s)" using keys by (simp_all add: budget_keys_ok_def)
  obtain r where r: "map_of (calls_of s) c = Some r" "cr_state r = Reserved"
    and t: "t = set_call (r\<lparr>cr_state := Dispatched\<rparr>) c s"
    using dispatch by (auto simp: dispatch_Inr_iff)
  let ?r = "r\<lparr>cr_state := Dispatched\<rparr>"
  have step: "budget_step (at (call_owner ?r) (\<lambda>u. u)) (\<lambda>u. u) c ?r s t"
    unfolding t at_id by (rule budget_step_call [OF wf(1)])
  have same: "due P (postings t) d = due P (postings s) d" for P d
    using due_replace [OF wf(2) budget_stepD(1,2) [OF step] r(1), of P d] r(2)
    by (simp add: is_consumed_def charge_def split: if_splits)
  have fits: "call_fits s (c, ?r)"
    by (rule call_fits_state [OF books_call_fits [OF books r(1)]]) (simp_all add: r(2))
  have only: "c' = c" if "map_of (calls_of s) c' = Some r'" "call_is_open (cr_state r')"
    "call_owner r' = call_owner ?r" for c' r'
    using open_call_only [OF keys books r(1) _ that(1,2)] that(3) r(2) by simp
  show ?thesis
    by (rule budget_step_at [OF step keys books fits])
      (use only same in \<open>auto simp: is_consumed_def stands_def\<close>)
qed

theorem reserve_keeps:
  assumes keys: "budget_keys_ok s" and books: "books_ok s" and reserve: "reserve_model_call s c = Inr t"
  shows "budget_keys_ok t \<and> books_ok t"
proof -
  have wf: "bt_wf (es_nodes s)" "bt_wf (calls_of s)" using keys by (simp_all add: budget_keys_ok_def)
  obtain r n where r: "map_of (calls_of s) c = Some r" "cr_state r = Admitted"
    and n: "map_of (es_nodes s) (call_owner r) = Some n"
    and room: "node_room n (cr_admission r)"
      "mission_room (bl_mission_usage (es_budgets s)) (es_mission_budget s) (cr_admission r)"
    and t: "t = set_call (r\<lparr>cr_state := Reserved\<rparr>) c
      (set_mission_usage (reserve_usage (bl_mission_usage (es_budgets s)) (cr_admission r))
        (set_node (n\<lparr>en_usage := reserve_usage (en_usage n) (cr_admission r)\<rparr>) (call_owner r) s))"
    using reserve by (auto simp: reserve_Inr_iff ensure_model_call_capacity_iff)
  let ?r = "r\<lparr>cr_state := Reserved\<rparr>" and ?f = "\<lambda>u. reserve_usage u (cr_admission r)"
  have step: "budget_step (at (call_owner ?r) ?f) ?f c ?r s t"
    unfolding t using budget_step_set_node [OF wf(1) n, of ?f c ?r] by simp
  have moved: "due P (postings t) d = due P (postings s) d +
      (if P (call_owner r) then held d (cr_admission r) else 0)" for P d
    using due_replace [OF wf(2) budget_stepD(1,2) [OF step] r(1), of P d] r(2)
    by (simp add: is_consumed_def charge_def split: if_splits)
  have fits: "call_fits s (c, ?r)"
    by (rule call_fits_state [OF books_call_fits [OF books r(1)]]) (simp_all add: r(2))
  have only: "c' = c" if "map_of (calls_of s) c' = Some r'" "call_is_open (cr_state r')"
    "call_owner r' = call_owner ?r" for c' r'
    using open_call_only [OF keys books r(1) _ that(1,2)] that(3) r(2) by simp
  show ?thesis
  proof (rule budget_step_at [OF step keys books fits])
    show "node_within (n'\<lparr>en_usage := ?f (en_usage n')\<rparr>)"
      if "map_of (es_nodes s) (call_owner ?r) = Some n'" "node_within n'" for n'
      using that n room(1) node_within_reserve by simp
    show "stands (due P (postings t)) (?f u)"
      if "P (call_owner ?r)" "stands (due P (postings s)) u" for P u
      by (rule stands_reserve [OF that(2)]) (use that(1) in \<open>simp add: moved\<close>)
  qed (use only mission_within_reserve room(2) moved in \<open>auto simp: is_consumed_def\<close>)
qed

theorem release_keeps:
  assumes keys: "budget_keys_ok s" and books: "books_ok s" and sole: "sole_owner s"
    and release: "reconcile_model_call s c ReleasedUncontacted = Inr t"
  shows "budget_keys_ok t \<and> books_ok t"
proof -
  have wf: "bt_wf (es_nodes s)" "bt_wf (calls_of s)" using keys by (simp_all add: budget_keys_ok_def)
  obtain r where r: "map_of (calls_of s) c = Some r" "owns_reservation (cr_state r)"
    and t: "t = settle_call (\<lambda>u. release_usage u (cr_admission r)) ReconciledReleased c r s"
    using release by (auto simp: release_Inr_iff)
  let ?r = "r\<lparr>cr_state := ReconciledReleased\<rparr>" and ?f = "\<lambda>u. release_usage u (cr_admission r)"
  have charge: "charge d r = held d (cr_admission r)" "\<not> is_consumed r" for d
    using r(2) by (cases "cr_state r"; simp add: charge_def is_consumed_def)+
  have step: "budget_step (at (call_owner ?r) ?f) ?f c ?r s t"
    unfolding t using budget_step_settle [OF wf(1), of r ?f c ReconciledReleased] by simp
  have moved: "due P (postings t) d + (if P (call_owner r) then held d (cr_admission r) else 0) =
      due P (postings s) d" for P d
    using due_replace [OF wf(2) budget_stepD(1,2) [OF step] r(1), of P d]
    by (simp add: charge is_consumed_def [of ?r] charge_def [of _ ?r] split: if_splits)
  have fits: "call_fits s (c, ?r)"
    by (rule call_fits_state [OF books_call_fits [OF books r(1)]]) simp_all
  show ?thesis
  proof (rule budget_step_at [OF step keys books fits])
    show "stands (due P (postings t)) (?f u)"
      if "P (call_owner ?r)" "stands (due P (postings s)) u" for P u
      by (rule stands_release [OF that(2)])
        (use that(1) held_exact [OF keys books sole r] moved [of P] charge in auto)
    show "due P (postings t) d = due P (postings s) d" if "\<not> P (call_owner ?r)" for P d
      using moved [of P d] that by simp
  qed (auto simp: is_consumed_def node_within_release mission_within_release)
qed

lemma mutation_attempt_free:
  assumes "budget_keys_ok s" and books: "books_ok s"
    and "\<not> mutation_attempt_consumed s (snd v)"
    and v: "map_of (mutation_calls s) c' = Some v'" and "call_consumed s c'"
  shows "snd v' \<noteq> snd v"
proof
  assume same: "snd v' = snd v"
  have wf: "bt_wf (calls_of s)" using assms(1) by (simp add: budget_keys_ok_def)
  obtain p where p: "latest_mutation_action s c' = Some p" "mu_policy_attempt_id p = snd v'"
    using v by (auto simp: map_of_mutation_calls)
  obtain r' where r': "map_of (calls_of s) c' = Some r'" "is_consumed r'"
    using assms(5) by (auto simp: call_consumed_def split: option.splits)
  have "ad_call_id (cr_admission r') = c'"
    using books_call_fits [OF books r'(1)] by (simp add: call_fits_def)
  then have "prepared_attempt_is (ad_call_id (cr_admission r')) (snd v) (Log_MutationActionPrepared p)"
    using p same latest_mutation_call [OF p(1)] by (simp add: prepared_attempt_is_def)
  then have "mutation_attempt_consumed s (snd v)"
    using latest_mutation_logged [OF p(1)] r' bt_lookup_vals [OF wf, of r']
    unfolding mutation_attempt_consumed_def list_ex_iff by blast
  with assms(3) show False by simp
qed

theorem consume_keeps:
  assumes keys: "budget_keys_ok s" and books: "books_ok s" and sole: "sole_owner s"
    and consume: "reconcile_model_call s c (Consumed cost ms) = Inr t"
  shows "budget_keys_ok t \<and> books_ok t"
proof -
  have wf: "bt_wf (es_nodes s)" "bt_wf (calls_of s)" using keys by (simp_all add: budget_keys_ok_def)
  obtain r where r: "map_of (calls_of s) c = Some r" "cr_state r = Dispatched"
    and actual: "cost \<le> ad_reserved_cost_micros (cr_admission r)" "ms \<le> ad_duration_allowance_ms (cr_admission r)"
    and guard: "consume_guard s c = Inr ()"
    and t: "t = (let s' = settle_call (\<lambda>u. consume_usage u (cr_admission r) cost ms)
        (ReconciledConsumed cost ms) c r s in case latest_mutation_action s c of None \<Rightarrow> s'
        | Some p \<Rightarrow> count_mutation_attempt (mu_policy_node_id p) s')"
    using consume by (auto simp: consume_Inr_iff Let_def)
  let ?r = "r\<lparr>cr_state := ReconciledConsumed cost ms\<rparr>"
    and ?f = "\<lambda>u. consume_usage u (cr_admission r) cost ms"
  let ?h = "\<lambda>P u. case latest_mutation_action s c of None \<Rightarrow> u
    | Some p \<Rightarrow> if P (mu_policy_node_id p) then add_mutation_attempt u else u"
  let ?g = "\<lambda>k u. ?h (\<lambda>x. x = k) (at (call_owner r) ?f k u)"
  have settle: "budget_step (at (call_owner r) ?f) ?f c ?r s (settle_call ?f (ReconciledConsumed cost ms) c r s)"
    by (rule budget_step_settle [OF wf(1)])
  have step: "budget_step ?g (\<lambda>u. ?h (\<lambda>_. True) (?f u)) c ?r s t"
  proof (cases "latest_mutation_action s c")
    case None
    with settle show ?thesis by (simp add: t Let_def)
  next
    case (Some p)
    have flip: "(k = mu_policy_node_id p) = (mu_policy_node_id p = k)" for k by blast
    from Some budget_step_attempt [OF settle, of "mu_policy_node_id p"] show ?thesis
      by (simp add: t Let_def at_def [of "mu_policy_node_id p"] flip)
  qed
  have moved: "due P (postings t) d + (if P (call_owner r) then held d (cr_admission r) else 0) =
      due P (postings s) d + (if P (call_owner r) then spent d cost ms else 0) + attempt_due P s c d" for P d
    using due_replace [OF wf(2) budget_stepD(1,2) [OF step] r(1), of P d] r(2)
    by (simp add: is_consumed_def charge_def split: if_splits)
  have exact: "due P (postings s) d = (if P (call_owner r) then held d (cr_admission r) else 0)"
    if "0 < held d (cr_admission r)" for P d
    using held_exact [OF keys books sole r(1) _ that, of P] r(2) by (simp add: charge_def)
  have core: "stands (due P (postings t)) (?h P (if P (call_owner r) then ?f u else u))"
    if u: "stands (due P (postings s)) u" for P u
  proof -
    let ?D = "\<lambda>d. if P (call_owner r) then due P (postings s) d - held d (cr_admission r) + spent d cost ms
      else due P (postings s) d"
    have "stands ?D (if P (call_owner r) then ?f u else u)"
    proof (cases "P (call_owner r)")
      case True
      have "?D d + held d (cr_admission r) = due P (postings s) d + spent d cost ms" for d
        using exact [of d P] True by (cases "held d (cr_admission r) = 0") auto
      with True show ?thesis using stands_consume [OF u, of "cr_admission r" ?D cost ms] exact by simp
    qed (use u in simp)
    moreover have "due P (postings t) d = ?D d + attempt_due P s c d" for d
      using moved [of P d] exact [of d P] by (cases "held d (cr_admission r) = 0") (auto split: if_splits)
    ultimately show ?thesis
      by (cases "latest_mutation_action s c")
        (auto simp: attempt_due_def intro: stands_attempt stands_same)
  qed
  have covered: "covered (cr_admission r) cost ms u"
    if "stands (due P (postings s)) u" "P (call_owner r)" for P u
    using actual that held_cap exact [of _ P]
    by (auto simp: covered_def stands_def) (metis gr0I le0 min.idem order_refl min_def)
  have owner: "fst v \<in> node_ids s \<and> \<not> mutation_attempt_consumed s (snd v)"
    if "map_of (mutation_calls s) c = Some v" for v
    using guard that by (auto simp: consume_guard_iff map_of_mutation_calls)
  have attempts: "level Attempts (add_mutation_attempt u') \<le> unat (nb_max_mutation_attempts (en_budget n))"
    if "latest_mutation_action s c = Some p" "map_of (es_nodes s) (mu_policy_node_id p) = Some n"
      "level Attempts u' = level Attempts (en_usage n)" for p n u'
    using guard that by (simp add: consume_guard_iff level_simps)
  have within: "node_within (n\<lparr>en_usage := ?g k (en_usage n)\<rparr>)" if n: "map_of (es_nodes s) k = Some n" for k n
  proof -
    let ?n = "n\<lparr>en_usage := at (call_owner r) ?f k (en_usage n)\<rparr>"
    have n': "node_within ?n"
      using books_node(1) [OF books n] covered [OF stands_node [OF books n]] node_within_consume
      by (simp add: at_def)
    have same: "level Attempts (en_usage ?n) = level Attempts (en_usage n)"
      using level_cap [of Attempts "en_usage n"] by (simp add: at_def level_simps)
    show ?thesis
    proof (cases "\<exists>p. latest_mutation_action s c = Some p \<and> mu_policy_node_id p = k")
      case True
      then obtain p where p: "latest_mutation_action s c = Some p" "mu_policy_node_id p = k" by blast
      then show ?thesis using node_within_attempt [OF n'] attempts [OF p(1), of n "en_usage ?n"] n same by simp
    next
      case False
      then show ?thesis using n' by (auto split: option.splits)
    qed
  qed
  have mission: "mission_within (?h (\<lambda>_. True) (?f (bl_mission_usage (es_budgets s)))) (es_mission_budget s)"
    using mission_within_consume [OF books_mission(1) [OF books] covered [OF stands_mission [OF books]]]
    by (simp add: mission_within_attempt split: option.split)
  have node: "level d (?g k (en_usage n)) = min (due (\<lambda>x. x = k) (postings t) d) (cap d)"
    if "map_of (es_nodes s) k = Some n" for k n d
  proof -
    have eq: "at (call_owner r) ?f k (en_usage n) = (if call_owner r = k then ?f (en_usage n) else en_usage n)"
      by (simp add: at_def eq_commute)
    have "stands (due (\<lambda>x. x = k) (postings t)) (?g k (en_usage n))"
      unfolding eq using core [OF stands_node [OF books that]] .
    then show ?thesis unfolding stands_def ..
  qed
  show ?thesis
  proof (rule budget_step_books [OF step keys books])
    show "call_fits s (c, ?r)"
      by (rule call_fits_state [OF books_call_fits [OF books r(1)]]) (use actual in auto)
    show "level d (?h (\<lambda>_. True) (?f (bl_mission_usage (es_budgets s)))) =
      min (due (\<lambda>_. True) (postings t) d) (cap d)" for d
      using core [OF stands_mission [OF books]] unfolding stands_def if_True by (rule spec)
    show "c' = c" if "map_of (mutation_calls s) c = Some v" "map_of (mutation_calls s) c' = Some v'"
      "call_consumed s c'" "snd v' = snd v" for v c' v'
      using mutation_attempt_free [OF keys books _ that(2,3)] owner [OF that(1)] that(4) by blast
  qed (use owner within node mission in auto)
qed

end
