(* ===== verification/Budget_Samples.thy ===== *)
theory Budget_Samples
  imports Budget_Preservation Publication_Samples
begin

text \<open>
  A bootstrapped mission and the life of one model call in it, on which the properties of the budget and of
  the handlers that read it are tried.
\<close>

section \<open>A sample mission\<close>

text \<open>A bootstrapped mission with the discovery node active, and one call from admission to its bill.\<close>

definition sample_node_budget :: node_budget where
  "sample_node_budget = \<lparr>nb_max_model_calls = 3, nb_max_cost_micros = 1000, nb_max_duration_ms = 5000,
     nb_max_mutation_attempts = 1, nb_max_context_rebuilds = 1, nb_max_input_tokens_per_call = 100,
     nb_max_output_tokens_per_call = 100\<rparr>"

definition sample_bootstrap :: execution_state where
  "sample_bootstrap = bootstrap_with_mode
     \<lparr>mb_max_model_calls = 5, mb_max_cost_micros = 2000, mb_max_duration_ms = 9000\<rparr>
     sample_node_budget sample_node_budget"

definition budget_start :: execution_state where
  "budget_start = sample_bootstrap\<lparr>es_nodes := bt_adjust ''protocol-v1:discovery''
     (\<lambda>n. n\<lparr>en_state := Active 1, en_attempts_started := 1\<rparr>) (es_nodes sample_bootstrap)\<rparr>"

definition sample_admission :: admission where
  "sample_admission = \<lparr>ad_call_id = ''call-1'', ad_node_id = ''protocol-v1:discovery'',
     ad_action_id = ''action-1'', ad_payload_hash = ''h'', ad_input_tokens = 10, ad_output_tokens = 10,
     ad_reserved_cost_micros = 400, ad_duration_allowance_ms = 900\<rparr>"

definition sample_call :: "budget_event list" where
  "sample_call = [ModelCallAdmitted sample_admission, ModelCallReserved ''call-1'',
     ProviderDispatchStarted ''call-1'' ''h'', ModelCallReconciled ''call-1'' (Consumed 300 800)]"

definition after_events :: "budget_event list \<Rightarrow> execution_state" where
  "after_events es = (case fold_res (apply_budget_event XT) budget_start es of Inr t \<Rightarrow> t | Inl v \<Rightarrow> budget_start)"

lemma after_eventsI:
  "is_ok (fold_res (apply_budget_event XT) budget_start es) \<Longrightarrow>
   fold_res (apply_budget_event XT) budget_start es = Inr (after_events es)"
  by (auto simp: after_events_def is_ok_iff)

lemmas sample_data = budget_start_def sample_bootstrap_def bootstrap_with_mode_def bootstrap_specs_def
  bt_of_list_def less_char_def bt_adjust_def node_of_spec_def sample_node_budget_def usage_default_def
  sample_admission_def bt_values_def

lemmas sample_operations = admit_model_call_def reserve_model_call_def start_provider_dispatch_def
  reconcile_model_call_def admission_binding_def dispatch_binding_def consume_guard_def
  ensure_model_call_capacity_def ensure_usage_capacity_def settle_call_def set_call_def set_node_def
  set_mission_usage_def consume_usage_def release_usage_def reserve_usage_def add_consumed_def
  latest_mutation_action_def has_open_model_call_for_node_def ok_or_def sat_add_def sat_sub_def
  requires_model_def

lemma budget_start_sound: "budget_keys_ok budget_start" "sole_owner budget_start"
  "validate_budget_invariants budget_start = Inr ()"
  by (simp_all add: sample_data budget_keys_ok_def sole_owner_def bt_wf_def validate_budget_invariants_def
      computed_accounts_def mutation_calls_def check_node_usage_def ok_or_def validate_usage_limits_def
      validate_mission_usage_limits_def sat_add_def map_filter_simps)

lemma sample_call_runs:
  "is_ok (fold_res (apply_budget_event XT) budget_start sample_call)"
  "is_ok (fold_res (apply_budget_event XT) budget_start (take 1 sample_call))"
  "is_ok (fold_res (apply_budget_event XT) budget_start (take 2 sample_call))"
  by (simp_all add: sample_data sample_operations sample_call_def Let_def not_blank_Cons byte_def)

lemma after_take:
  "fold_res (apply_budget_event XT) budget_start (take 1 sample_call) = Inr (after_events (take 1 sample_call))"
  "fold_res (apply_budget_event XT) budget_start (take 2 sample_call) = Inr (after_events (take 2 sample_call))"
  "fold_res (apply_budget_event XT) budget_start sample_call = Inr (after_events sample_call)"
  using sample_call_runs after_eventsI by blast+

end
