(* ===== verification/Budget_Properties.thy ===== *)
theory Budget_Properties
  imports Budget_Samples
begin

text \<open>
  What the model-call budget guarantees: the validator decides the accounts, no event breaks them, no run
  spends past its budget, and every call goes through its life once.
\<close>

section \<open>Events and runs\<close>

lemma budget_step_states:
  assumes "budget_step g gm c r s t" and "bt_wf (es_nodes s)"
  shows "map_of (es_nodes t) k = Some n' \<Longrightarrow> \<exists>n. map_of (es_nodes s) k = Some n \<and> en_state n' = en_state n"
  by (auto simp: budget_stepD(6) [OF assms(1)])

lemma budget_step_sole:
  assumes step: "budget_step g gm c r s t" and keys: "budget_keys_ok s" and sole: "sole_owner s"
  shows "sole_owner t"
proof -
  have wf: "bt_wf (es_nodes s)" using keys by (simp add: budget_keys_ok_def)
  note st = budget_step_states [OF step wf]
  have "k = k'" if "(k, n) \<in> set (es_nodes t)" "(k', n') \<in> set (es_nodes t)"
    "owns_execution (en_state n)" "owns_execution (en_state n')" for k n k' n'
  proof -
    have "map_of (es_nodes t) k = Some n" "map_of (es_nodes t) k' = Some n'"
      using that budget_stepD(4) [OF step] by (simp_all add: bt_wf_map_of_iff)
    then show ?thesis using st sole_ownerD [OF sole] that(3,4) by metis
  qed
  then show ?thesis unfolding sole_owner_def by blast
qed

text \<open>The state the events are applied in: keyed in order, one owner of execution, the books in order.\<close>

definition budget_sound :: "execution_state \<Rightarrow> bool" where
  "budget_sound s \<longleftrightarrow> budget_keys_ok s \<and> sole_owner s \<and> books_ok s"

fun event_call :: "budget_event \<Rightarrow> model_call_id" where
  "event_call (ModelCallAdmitted a) = ad_call_id a"
| "event_call (ModelCallReserved c) = c"
| "event_call (ProviderDispatchStarted c h) = c"
| "event_call (ModelCallReconciled c res) = c"

text \<open>The life of a call: which state may follow which.\<close>

fun may_follow :: "model_call_state \<Rightarrow> model_call_state \<Rightarrow> bool" where
  "may_follow Admitted Reserved = True"
| "may_follow Reserved Dispatched = True"
| "may_follow Reserved ReconciledReleased = True"
| "may_follow Dispatched ReconciledReleased = True"
| "may_follow Dispatched (ReconciledConsumed cost ms) = True"
| "may_follow _ _ = False"

definition call_advances :: "call_record option \<Rightarrow> call_record \<Rightarrow> bool" where
  "call_advances old r \<longleftrightarrow> (case old of
       None \<Rightarrow> cr_state r = Admitted
     | Some r0 \<Rightarrow> cr_admission r = cr_admission r0 \<and> may_follow (cr_state r0) (cr_state r))"

lemma budget_event_step:
  assumes "budget_keys_ok s" and event: "apply_budget_event E s e = Inr t"
  shows "\<exists>g gm r. budget_step g gm (event_call e) r s t \<and>
    call_advances (map_of (calls_of s) (event_call e)) r"
proof -
  have wf: "bt_wf (es_nodes s)" using assms(1) by (simp add: budget_keys_ok_def)
  note advances = call_advances_def
  show ?thesis
  proof (cases e)
    case (ModelCallAdmitted a)
    then have "map_of (calls_of s) (ad_call_id a) = None"
      "t = set_call \<lparr>cr_admission = a, cr_state = Admitted\<rparr> (ad_call_id a) s"
      using event by (auto simp: admit_Inr_iff)
    with ModelCallAdmitted show ?thesis
      using budget_step_call [OF wf, of "ad_call_id a" "\<lparr>cr_admission = a, cr_state = Admitted\<rparr>"]
      by (fastforce simp: advances)
  next
    case (ModelCallReserved c)
    then obtain r n where "map_of (calls_of s) c = Some r" "cr_state r = Admitted"
      "map_of (es_nodes s) (call_owner r) = Some n"
      "t = set_call (r\<lparr>cr_state := Reserved\<rparr>) c
       (set_mission_usage (reserve_usage (bl_mission_usage (es_budgets s)) (cr_admission r))
         (set_node (n\<lparr>en_usage := reserve_usage (en_usage n) (cr_admission r)\<rparr>) (call_owner r) s))"
      using event by (auto simp: reserve_Inr_iff)
    with ModelCallReserved show ?thesis
      using budget_step_set_node [OF wf, of "call_owner r" n "\<lambda>u. reserve_usage u (cr_admission r)" c
          "r\<lparr>cr_state := Reserved\<rparr>"] by (fastforce simp: advances)
  next
    case (ProviderDispatchStarted c h)
    then obtain r where "map_of (calls_of s) c = Some r" "cr_state r = Reserved"
      "t = set_call (r\<lparr>cr_state := Dispatched\<rparr>) c s"
      using event by (auto simp: dispatch_Inr_iff)
    with ProviderDispatchStarted show ?thesis
      using budget_step_call [OF wf, of c "r\<lparr>cr_state := Dispatched\<rparr>"] by (fastforce simp: advances)
  next
    case (ModelCallReconciled c res)
    show ?thesis
    proof (cases res)
      case (Consumed cost ms)
      let ?f = "\<lambda>r u. consume_usage u (cr_admission r) cost ms"
      from Consumed obtain r where r: "map_of (calls_of s) c = Some r" "cr_state r = Dispatched"
        and t: "t = (let s' = settle_call (?f r) (ReconciledConsumed cost ms) c r s in
          case latest_mutation_action s c of None \<Rightarrow> s'
          | Some p \<Rightarrow> count_mutation_attempt (mu_policy_node_id p) s')"
        using event by (auto simp: ModelCallReconciled consume_Inr_iff Let_def)
      note settle = budget_step_settle [OF wf, of r "?f r" c "ReconciledConsumed cost ms"]
      have "\<exists>g gm. budget_step g gm c (r\<lparr>cr_state := ReconciledConsumed cost ms\<rparr>) s t"
        using settle budget_step_attempt [OF settle]
        by (cases "latest_mutation_action s c") (auto simp: t Let_def)
      with r ModelCallReconciled show ?thesis by (fastforce simp: advances)
    next
      case ReleasedUncontacted
      then obtain r where "map_of (calls_of s) c = Some r" "owns_reservation (cr_state r)"
        "t = settle_call (\<lambda>u. release_usage u (cr_admission r)) ReconciledReleased c r s"
        using event by (auto simp: ModelCallReconciled release_Inr_iff)
      moreover from this have "may_follow (cr_state r) ReconciledReleased"
        by (cases "cr_state r") simp_all
      ultimately show ?thesis
        using budget_step_settle [OF wf, of r "\<lambda>u. release_usage u (cr_admission r)" c ReconciledReleased]
        by (fastforce simp: ModelCallReconciled advances)
    qed
  qed
qed

lemma budget_event_sound:
  assumes "budget_sound s" and event: "apply_budget_event E s e = Inr t"
  shows "budget_sound t"
proof -
  have keys: "budget_keys_ok s" and sole: "sole_owner s" and books: "books_ok s"
    using assms(1) by (simp_all add: budget_sound_def)
  have "budget_keys_ok t \<and> books_ok t"
  proof (cases e)
    case (ModelCallReconciled c res)
    then show ?thesis
      using event consume_keeps [OF keys books sole] release_keeps [OF keys books sole]
      by (cases res) auto
  qed (use event admit_keeps [OF keys books] reserve_keeps [OF keys books] dispatch_keeps [OF keys books]
      in auto)
  moreover have "sole_owner t"
    using budget_event_step [OF keys event] budget_step_sole [OF _ keys sole] by blast
  ultimately show ?thesis by (simp add: budget_sound_def)
qed

lemma budget_run_sound:
  "budget_sound s \<Longrightarrow> fold_res (apply_budget_event E) s es = Inr t \<Longrightarrow> budget_sound t"
  by (induction es arbitrary: s) (auto simp: bnd_Inr_iff dest: budget_event_sound)

lemma budget_run_limits:
  "budget_sound s \<Longrightarrow> fold_res (apply_budget_event E) s es = Inr t \<Longrightarrow>
   es_mission_budget t = es_mission_budget s"
proof (induction es arbitrary: s)
  case (Cons e es)
  then obtain s' where e: "apply_budget_event E s e = Inr s'"
    and rest: "fold_res (apply_budget_event E) s' es = Inr t" by (auto simp: bnd_Inr_iff)
  have "es_mission_budget s' = es_mission_budget s"
    using budget_event_step [OF _ e] budget_stepD(5) Cons.prems(1) unfolding budget_sound_def by blast
  with Cons.IH [OF budget_event_sound [OF Cons.prems(1) e] rest] show ?case by simp
qed simp

lemma budget_sound_iff:
  "budget_sound s \<longleftrightarrow> budget_keys_ok s \<and> sole_owner s \<and> validate_budget_invariants s = Inr ()"
  using validate_iff_books_ok by (auto simp: budget_sound_def)

section \<open>What is committed\<close>

text \<open>
  What a call commits of the budget: its reservation while it is reserved or dispatched, its actual usage
  once it is consumed, nothing before and nothing once it is released.
\<close>

fun committed_calls :: "call_record \<Rightarrow> nat" where
  "committed_calls r = (case cr_state r of Admitted \<Rightarrow> 0 | ReconciledReleased \<Rightarrow> 0 | _ \<Rightarrow> 1)"

fun committed_cost :: "call_record \<Rightarrow> nat" where
  "committed_cost r = (case cr_state r of Admitted \<Rightarrow> 0 | ReconciledReleased \<Rightarrow> 0
     | ReconciledConsumed cost ms \<Rightarrow> unat cost | _ \<Rightarrow> unat (ad_reserved_cost_micros (cr_admission r)))"

fun committed_time :: "call_record \<Rightarrow> nat" where
  "committed_time r = (case cr_state r of Admitted \<Rightarrow> 0 | ReconciledReleased \<Rightarrow> 0
     | ReconciledConsumed cost ms \<Rightarrow> unat ms | _ \<Rightarrow> unat (ad_duration_allowance_ms (cr_admission r)))"

definition committed :: "(call_record \<Rightarrow> nat) \<Rightarrow> (node_id \<Rightarrow> bool) \<Rightarrow> execution_state \<Rightarrow> nat" where
  "committed f P s = sum_list (map f (filter (\<lambda>r. P (call_owner r)) (bt_values (calls_of s))))"

lemma due_plain:
  assumes "d \<noteq> Attempts" and "d \<noteq> Rebuilds"
  shows "due P (postings s) d = committed (charge d) P s"
proof -
  have "due P (map attempt_posting xs) d = 0" "due P (map rebuild_posting ys) d = 0" for xs ys
    by (induction xs; simp add: attempt_posting_def assms)
      (induction ys; simp add: rebuild_posting_def assms)
  moreover have "sum_list (map (\<lambda>r. if P (call_owner r) then charge d r else 0) rs) =
      sum_list (map (charge d) (filter (\<lambda>r. P (call_owner r)) rs))" for rs
    by (induction rs) simp_all
  ultimately show ?thesis by (simp add: postings_def due_calls committed_def)
qed

lemma committed_add: "committed f P s + committed g P s = committed (\<lambda>r. f r + g r) P s"
  by (simp add: committed_def sum_list_addf)

lemma committed_sums:
  "committed (charge Calls_Spent) P s + committed (charge Calls_Held) P s = committed committed_calls P s"
  "committed (charge Cost_Spent) P s + committed (charge Cost_Held) P s = committed committed_cost P s"
  "committed (charge Time_Spent) P s + committed (charge Time_Held) P s = committed committed_time P s"
  unfolding committed_add
  by (rule arg_cong [where f = "\<lambda>f. committed f P s"];
      auto simp: fun_eq_iff charge_def split: model_call_state.split)+

lemma fits_exact: "fits (min a w) (min b w) l w \<Longrightarrow> l < w \<Longrightarrow> a + b \<le> l"
  by (auto simp: fits_def min_def split: if_splits)

lemma stands_committed:
  assumes "stands (due P (postings s)) u"
  shows "fits (level Calls_Spent u) (level Calls_Held u) l (2 ^ 32 - 1) \<Longrightarrow> l < 2 ^ 32 - 1 \<Longrightarrow>
      committed committed_calls P s \<le> l"
    and "fits (level Cost_Spent u) (level Cost_Held u) l (2 ^ 64 - 1) \<Longrightarrow> l < 2 ^ 64 - 1 \<Longrightarrow>
      committed committed_cost P s \<le> l"
    and "fits (level Time_Spent u) (level Time_Held u) l (2 ^ 64 - 1) \<Longrightarrow> l < 2 ^ 64 - 1 \<Longrightarrow>
      committed committed_time P s \<le> l"
  unfolding committed_sums [symmetric]
  by (rule fits_exact; use assms in \<open>simp add: stands_def due_plain\<close>)+

lemma sound_committed_mission:
  assumes "budget_sound s"
  shows "unat (mb_max_model_calls (es_mission_budget s)) < 2 ^ 32 - 1 \<Longrightarrow>
      committed committed_calls (\<lambda>_. True) s \<le> unat (mb_max_model_calls (es_mission_budget s))"
    and "unat (mb_max_cost_micros (es_mission_budget s)) < 2 ^ 64 - 1 \<Longrightarrow>
      committed committed_cost (\<lambda>_. True) s \<le> unat (mb_max_cost_micros (es_mission_budget s))"
    and "unat (mb_max_duration_ms (es_mission_budget s)) < 2 ^ 64 - 1 \<Longrightarrow>
      committed committed_time (\<lambda>_. True) s \<le> unat (mb_max_duration_ms (es_mission_budget s))"
proof -
  have books: "books_ok s" using assms by (simp add: budget_sound_def)
  note m = stands_committed [OF stands_mission [OF books]]
  show "unat (mb_max_model_calls (es_mission_budget s)) < 2 ^ 32 - 1 \<Longrightarrow>
      committed committed_calls (\<lambda>_. True) s \<le> unat (mb_max_model_calls (es_mission_budget s))"
    and "unat (mb_max_cost_micros (es_mission_budget s)) < 2 ^ 64 - 1 \<Longrightarrow>
      committed committed_cost (\<lambda>_. True) s \<le> unat (mb_max_cost_micros (es_mission_budget s))"
    and "unat (mb_max_duration_ms (es_mission_budget s)) < 2 ^ 64 - 1 \<Longrightarrow>
      committed committed_time (\<lambda>_. True) s \<le> unat (mb_max_duration_ms (es_mission_budget s))"
    using m books_mission(1) [OF books] unfolding mission_within_def by blast+
qed

lemma sound_committed_node:
  assumes "budget_sound s" and "map_of (es_nodes s) k = Some n"
    and "unat (nb_max_cost_micros (en_budget n)) < 2 ^ 64 - 1"
  shows "committed committed_cost (\<lambda>x. x = k) s \<le> unat (nb_max_cost_micros (en_budget n))"
proof -
  have books: "books_ok s" using assms(1) by (simp add: budget_sound_def)
  show ?thesis
    using stands_committed(2) [OF stands_node [OF books assms(2)]] books_node(1) [OF books assms(2)] assms(3)
    unfolding node_within_def Let_def by blast
qed

section \<open>The accounts\<close>

text \<open>C21: \<open>validate_budget_invariants\<close> accepts a state exactly when its books are in order: every call fits
  its node, no node has two open calls, no mutation attempt was consumed twice, and every account of every
  node and of the mission is the sum of its postings, cut off at the width of its field, within its limits.\<close>

theorem budget_validation_exact:
  assumes "budget_keys_ok s"
  shows "validate_budget_invariants s = Inr () \<longleftrightarrow> books_ok s"
  by (rule validate_iff_books_ok [OF assms])

theorem budget_validation_exact_witness: "books_ok budget_start"
  using budget_validation_exact [OF budget_start_sound(1)] budget_start_sound(3) by blast

text \<open>C20: no sequence of budget events that succeeds can break the accounts: from a state that validates,
  with one owner of execution, every state reached validates again, saturating arithmetic included.\<close>

theorem budget_run_keeps_accounts:
  assumes "budget_keys_ok s" and "sole_owner s" and "validate_budget_invariants s = Inr ()"
    and "fold_res (apply_budget_event E) s es = Inr t"
  shows "budget_keys_ok t \<and> sole_owner t \<and> validate_budget_invariants t = Inr ()"
  using budget_run_sound [OF _ assms(4)] assms(1-3) by (simp add: budget_sound_iff)

theorem budget_run_keeps_accounts_witness:
  "validate_budget_invariants (after_events sample_call) = Inr ()"
  using budget_run_keeps_accounts [OF budget_start_sound after_take(3)] by blast

text \<open>C19: a mission never commits more than its budget: after any successful run of budget events the calls,
  the cost and the time that open and consumed calls commit are within the signed limits of the mission
  (a limit equal to the largest value of its type is no limit).\<close>

theorem budget_run_within_limits:
  assumes "budget_keys_ok s" and "sole_owner s" and "validate_budget_invariants s = Inr ()"
    and "fold_res (apply_budget_event E) s es = Inr t" and "es_mission_budget s = b"
    and "unat (mb_max_model_calls b) < 2 ^ 32 - 1" and "unat (mb_max_cost_micros b) < 2 ^ 64 - 1"
    and "unat (mb_max_duration_ms b) < 2 ^ 64 - 1"
  shows "committed committed_calls (\<lambda>_. True) t \<le> unat (mb_max_model_calls b) \<and>
    committed committed_cost (\<lambda>_. True) t \<le> unat (mb_max_cost_micros b) \<and>
    committed committed_time (\<lambda>_. True) t \<le> unat (mb_max_duration_ms b)"
proof -
  have s: "budget_sound s" using assms(1-3) by (simp add: budget_sound_iff)
  have "es_mission_budget t = b" using budget_run_limits [OF s assms(4)] assms(5) by simp
  then show ?thesis using sound_committed_mission [OF budget_run_sound [OF s assms(4)]] assms(6-8) by simp
qed

theorem budget_run_within_limits_witness:
  "committed committed_cost (\<lambda>_. True) (after_events sample_call) \<le> 2000"
  using budget_run_within_limits [OF budget_start_sound after_take(3) refl]
  by (simp add: sample_data)

section \<open>The life of a call\<close>

text \<open>C24: a budget event moves one call one step along its life and touches nothing else: every other call,
  and of the state everything but the usages, is as before.\<close>

theorem budget_event_moves_one_call:
  assumes "budget_keys_ok s" and "apply_budget_event E s e = Inr t"
  shows "(\<exists>r. map_of (calls_of t) (event_call e) = Some r \<and>
      call_advances (map_of (calls_of s) (event_call e)) r) \<and>
    (\<forall>c. c \<noteq> event_call e \<longrightarrow> map_of (calls_of t) c = map_of (calls_of s) c) \<and>
    t\<lparr>es_nodes := es_nodes s, es_budgets := es_budgets s\<rparr> = s \<and>
    (\<forall>k. map_option (\<lambda>n. n\<lparr>en_usage := usage_default\<rparr>) (map_of (es_nodes t) k) =
      map_option (\<lambda>n. n\<lparr>en_usage := usage_default\<rparr>) (map_of (es_nodes s) k))"
proof -
  obtain g gm r where step: "budget_step g gm (event_call e) r s t"
    and r: "call_advances (map_of (calls_of s) (event_call e)) r"
    using budget_event_step [OF assms] by blast
  have "t\<lparr>es_nodes := es_nodes s, es_budgets := es_budgets s\<rparr> = s"
    using step unfolding budget_step_def by auto
  with r show ?thesis
    by (auto simp: budget_stepD(2,6) [OF step] map_simps option.map_comp comp_def)
qed

theorem budget_event_moves_one_call_witness:
  "\<exists>t. apply_budget_event XT budget_start (ModelCallAdmitted sample_admission) = Inr t \<and>
     map_option cr_state (map_of (calls_of t) ''call-1'') = Some Admitted"
proof -
  obtain t where t: "apply_budget_event XT budget_start (ModelCallAdmitted sample_admission) = Inr t"
    using after_take(1) by (auto simp: sample_call_def bnd_Inr_iff)
  have "map_of (calls_of budget_start) ''call-1'' = None" by (simp add: sample_data)
  with budget_event_moves_one_call [OF budget_start_sound(1) t] t show ?thesis
    by (auto simp: sample_admission_def call_advances_def)
qed

lemma settled_stays:
  assumes "budget_sound s" and "map_of (calls_of s) c = Some r" and "\<not> call_is_open (cr_state r)"
    and "fold_res (apply_budget_event E) s es = Inr t"
  shows "map_of (calls_of t) c = Some r"
  using assms(1,2,4)
proof (induction es arbitrary: s)
  case (Cons e es)
  then obtain s' where e: "apply_budget_event E s e = Inr s'"
    and rest: "fold_res (apply_budget_event E) s' es = Inr t" by (auto simp: bnd_Inr_iff)
  obtain g gm r' where step: "budget_step g gm (event_call e) r' s s'"
    and r': "call_advances (map_of (calls_of s) (event_call e)) r'"
    using budget_event_step [OF _ e] Cons.prems(1) unfolding budget_sound_def by blast
  have "c \<noteq> event_call e"
    using r' Cons.prems(2) assms(3) by (cases "cr_state r") (auto simp: call_advances_def)
  then have "map_of (calls_of s') c = Some r"
    using Cons.prems(2) by (simp add: budget_stepD(2) [OF step] map_simps)
  from Cons.IH [OF budget_event_sound [OF Cons.prems(1) e] this rest] show ?case .
qed simp

text \<open>C22: a reconciled call is settled for good: whatever events follow, its record does not change, and a
  second reconciliation, reservation or admission under its identity is refused with its own code.\<close>

theorem budget_settled_is_final:
  assumes "budget_keys_ok s" and "sole_owner s" and "validate_budget_invariants s = Inr ()"
    and "map_of (calls_of s) c = Some r" and "\<not> call_is_open (cr_state r)"
    and "fold_res (apply_budget_event E) s es = Inr t"
  shows "map_of (calls_of t) c = Some r \<and>
    reconcile_model_call t c result = Inl (V_ModelCallLifecycle c ''reservation_already_reconciled'') \<and>
    reserve_model_call t c = Inl (V_ModelCallLifecycle c ''reservation_not_admitted'') \<and>
    (\<forall>a. ad_call_id a = c \<longrightarrow>
      admit_model_call t a = Inl (V_ModelCallLifecycle c ''call_identity_already_exists''))"
proof -
  have "map_of (calls_of t) c = Some r"
    using settled_stays [OF _ assms(4,5,6)] assms(1-3) by (simp add: budget_sound_iff)
  moreover have "\<not> owns_reservation (cr_state r)" "cr_state r \<noteq> Admitted"
    using assms(5) by (cases "cr_state r"; simp)+
  ultimately show ?thesis
    by (simp add: reconcile_model_call_def reserve_model_call_def admit_model_call_def ok_or_def)
qed

theorem budget_settled_is_final_witness:
  "reconcile_model_call (after_events sample_call) ''call-1'' ReleasedUncontacted =
   Inl (V_ModelCallLifecycle ''call-1'' ''reservation_already_reconciled'')"
proof -
  note s = budget_run_sound [OF _ after_take(3)]
  have sound: "budget_sound (after_events sample_call)"
    using s budget_start_sound by (simp add: budget_sound_iff)
  have r: "map_of (calls_of (after_events sample_call)) ''call-1'' =
      Some \<lparr>cr_admission = sample_admission, cr_state = ReconciledConsumed 300 800\<rparr>"
    by (simp add: after_events_def sample_data sample_operations sample_call_def Let_def not_blank_Cons byte_def)
  show ?thesis
    using budget_settled_is_final [OF _ _ _ r, of XT "[]"] sound by (simp add: budget_sound_iff)
qed

text \<open>The usages of a state, and that reserving them and releasing them again is the identity.\<close>

lemma release_reserve: "(\<And>d. 0 < held d a \<Longrightarrow> level d u = 0) \<Longrightarrow> release_usage (reserve_usage u a) a = u"
proof -
  assume zero: "\<And>d. 0 < held d a \<Longrightarrow> level d u = 0"
  have "level d (release_usage (reserve_usage u a) a) = level d u" for d
    using zero [of d] level_cap [of d u] held_cap [of d a]
    by (cases "held d a = 0") (simp_all add: level_simps min_def)
  then show ?thesis by (simp add: usage_eq_iff)
qed

lemma held_none:
  assumes sound: "budget_sound s" and reserve: "reserve_model_call s c = Inr t"
    and r: "map_of (calls_of s) c = Some r" and d: "0 < held d (cr_admission r)"
  shows "due P (postings s) d = 0"
proof -
  have wf: "bt_wf (calls_of s)" using sound by (simp add: budget_sound_def budget_keys_ok_def)
  have event: "apply_budget_event XT s (ModelCallReserved c) = Inr t" using reserve by simp
  note t = budget_event_sound [OF sound event]
  obtain n where state: "cr_state r = Admitted"
    and t_eq: "t = set_call (r\<lparr>cr_state := Reserved\<rparr>) c
      (set_mission_usage (reserve_usage (bl_mission_usage (es_budgets s)) (cr_admission r))
        (set_node (n\<lparr>en_usage := reserve_usage (en_usage n) (cr_admission r)\<rparr>) (call_owner r) s))"
    using reserve r by (auto simp: reserve_Inr_iff)
  have calls: "calls_of t = bt_insert c (r\<lparr>cr_state := Reserved\<rparr>) (calls_of s)"
    and log: "es_event_log t = es_event_log s"
    by (simp_all add: t_eq set_call_def set_mission_usage_def set_node_def)
  have "map_of (calls_of t) c = Some (r\<lparr>cr_state := Reserved\<rparr>)" by (simp add: calls map_simps)
  then have "due P (postings t) d = (if P (call_owner r) then held d (cr_admission r) else 0)"
    using held_exact [of t c "r\<lparr>cr_state := Reserved\<rparr>" d "cr_admission r" P] t d
    by (simp add: budget_sound_def charge_def)
  then show ?thesis
    using due_replace [OF wf log calls r, of P d] state
    by (simp add: is_consumed_def charge_def split: if_splits)
qed

text \<open>C23: a reservation that is released before the provider was contacted gives everything back: the nodes
  and the mission account are exactly what they were before the reservation.\<close>

theorem budget_release_restores:
  assumes "budget_keys_ok s" and "sole_owner s" and "validate_budget_invariants s = Inr ()"
    and reserve: "reserve_model_call s c = Inr t"
    and release: "reconcile_model_call t c ReleasedUncontacted = Inr u"
  shows "es_nodes u = es_nodes s \<and>
    bl_mission_usage (es_budgets u) = bl_mission_usage (es_budgets s)"
proof -
  have sound: "budget_sound s" using assms(1-3) by (simp add: budget_sound_iff)
  then have books: "books_ok s" and wf: "bt_wf (es_nodes s)"
    by (simp_all add: budget_sound_def budget_keys_ok_def)
  obtain r n where r: "map_of (calls_of s) c = Some r" and n: "map_of (es_nodes s) (call_owner r) = Some n"
    and t: "t = set_call (r\<lparr>cr_state := Reserved\<rparr>) c
      (set_mission_usage (reserve_usage (bl_mission_usage (es_budgets s)) (cr_admission r))
        (set_node (n\<lparr>en_usage := reserve_usage (en_usage n) (cr_admission r)\<rparr>) (call_owner r) s))"
    using reserve by (auto simp: reserve_Inr_iff)
  note none = held_none [OF sound reserve r]
  have node: "release_usage (reserve_usage (en_usage n) (cr_admission r)) (cr_admission r) = en_usage n"
    using none stands_node [OF books n] by (intro release_reserve) (simp add: stands_def)
  have mission: "release_usage (reserve_usage (bl_mission_usage (es_budgets s)) (cr_admission r))
      (cr_admission r) = bl_mission_usage (es_budgets s)"
    using none stands_mission [OF books] by (intro release_reserve) (simp add: stands_def)
  have t': "map_of (calls_of t) c = Some (r\<lparr>cr_state := Reserved\<rparr>)"
    by (simp add: t set_call_def map_simps)
  show ?thesis
    using release t' mission node bt_insert_same [OF wf n]
    by (auto simp: release_Inr_iff settle_call_def t set_call_def set_mission_usage_def set_node_def
        bt_adjust_def map_simps bt_insert_twice call_owner_def)
qed

theorem budget_release_restores_witness:
  "\<exists>u. reconcile_model_call (after_events (take 2 sample_call)) ''call-1'' ReleasedUncontacted = Inr u \<and>
     bl_mission_usage (es_budgets u) = usage_default"
proof -
  let ?s = "after_events (take 1 sample_call)" and ?t = "after_events (take 2 sample_call)"
  have sound: "budget_sound ?s"
    using budget_run_sound [OF _ after_take(1)] budget_start_sound by (simp add: budget_sound_iff)
  have reserve: "reserve_model_call ?s ''call-1'' = Inr ?t"
    using after_take(1,2) by (simp add: sample_call_def numeral_2_eq_2 bnd_Inr_iff)
  obtain u where u: "reconcile_model_call ?t ''call-1'' ReleasedUncontacted = Inr u"
    using reserve by (auto simp: reserve_Inr_iff release_Inr_iff set_call_def map_simps)
  have "bl_mission_usage (es_budgets ?s) = usage_default"
    by (simp add: after_events_def sample_data sample_operations sample_call_def Let_def not_blank_Cons byte_def)
  with budget_release_restores [OF _ _ _ reserve u] sound u show ?thesis by (simp add: budget_sound_iff)
qed

text \<open>C40: an admitted call is never stranded: the reservation that follows its admission succeeds, and the
  reserved call can be dispatched with the admitted payload once it matches its prepared action.\<close>

theorem budget_admitted_call_proceeds:
  assumes "admit_model_call s a = Inr t"
  shows "\<exists>u. reserve_model_call t (ad_call_id a) = Inr u \<and>
    (dispatch_binding E u (ad_call_id a) (ad_payload_hash a) = Inr () \<longrightarrow>
      (\<exists>v. start_provider_dispatch E u (ad_call_id a) (ad_payload_hash a) = Inr v)) \<and>
    (\<exists>w. reconcile_model_call u (ad_call_id a) ReleasedUncontacted = Inr w)"
proof -
  let ?r = "\<lparr>cr_admission = a, cr_state = Admitted\<rparr>" and ?c = "ad_call_id a"
  obtain n where n: "map_of (es_nodes s) (ad_node_id a) = Some n" "is_active (en_state n)"
      "ensure_model_call_capacity s n a = Inr ()" and t: "t = set_call ?r ?c s"
    using assms by (auto simp: admit_Inr_iff)
  define u where "u = set_call (?r\<lparr>cr_state := Reserved\<rparr>) ?c
      (set_mission_usage (reserve_usage (bl_mission_usage (es_budgets t)) a)
        (set_node (n\<lparr>en_usage := reserve_usage (en_usage n) a\<rparr>) (ad_node_id a) t))"
  have "ensure_model_call_capacity t n a = Inr ()"
    using n(3) by (simp add: t ensure_model_call_capacity_iff set_call_def)
  then have "reserve_model_call t ?c = Inr u"
    using n(1,2) by (simp add: reserve_Inr_iff u_def t set_call_def map_simps call_owner_def)
  moreover have "map_of (calls_of u) ?c = Some (?r\<lparr>cr_state := Reserved\<rparr>)"
    by (simp add: u_def set_call_def map_simps)
  ultimately show ?thesis by (auto simp: dispatch_Inr_iff release_Inr_iff)
qed

theorem budget_admitted_call_proceeds_witness:
  "\<exists>u. reserve_model_call (after_events (take 1 sample_call)) ''call-1'' = Inr u"
proof -
  have "admit_model_call budget_start sample_admission = Inr (after_events (take 1 sample_call))"
    using after_take(1) by (simp add: sample_call_def bnd_Inr_iff)
  from budget_admitted_call_proceeds [OF this] show ?thesis by (auto simp: sample_admission_def)
qed

end
