(* ===== verification/Discovery_Model.thy ===== *)
theory Discovery_Model
  imports Protocol_Model
begin

text \<open>
  The evidence of discovery (\<open>src/execution_protocol/discovery.rs\<close>): repository paths in their normal form,
  search requests, the evidence each observation leaves, questions, the goal, and the identities the
  worker derives from them. A \<open>BTreeSet\<close> is the list of its elements in order; its JSON is an array.
\<close>

type_synonym search_id = string
type_synonym discovery_path = string
type_synonym criterion_id = string
type_synonym question_id = string

definition DISCOVERY_SCHEMA_VERSION :: u16 where "DISCOVERY_SCHEMA_VERSION = 1"
definition MAX_SEARCH_QUERY_BYTES :: nat where "MAX_SEARCH_QUERY_BYTES = 512"
definition MAX_SEARCH_ROOTS :: nat where "MAX_SEARCH_ROOTS = 32"
definition MAX_SEARCH_EXTENSIONS :: nat where "MAX_SEARCH_EXTENSIONS = 32"
definition MAX_SEARCH_MATCHES :: nat where "MAX_SEARCH_MATCHES = 256"
definition MAX_DISCOVERY_SEARCH_TERMS :: nat where "MAX_DISCOVERY_SEARCH_TERMS = 32"
definition MAX_DISCOVERY_CRITERIA :: nat where "MAX_DISCOVERY_CRITERIA = 64"
definition MAX_DISCOVERY_CANDIDATES :: nat where "MAX_DISCOVERY_CANDIDATES = 64"
definition MAX_COMPLETED_SEARCHES :: nat where "MAX_COMPLETED_SEARCHES = 128"
definition MAX_FILE_EVIDENCE :: nat where "MAX_FILE_EVIDENCE = 128"
definition MAX_RELATIONSHIP_EVIDENCE :: nat where "MAX_RELATIONSHIP_EVIDENCE = 128"
definition MAX_UNRESOLVED_QUESTIONS :: nat where "MAX_UNRESOLVED_QUESTIONS = 32"
definition MAX_CONTEXT_EVIDENCE :: nat where "MAX_CONTEXT_EVIDENCE = 128"
definition MAX_ACTION_PATHS :: nat where "MAX_ACTION_PATHS = 64"
definition MAX_GROUNDING_PATHS_PER_ACTION :: nat where "MAX_GROUNDING_PATHS_PER_ACTION = 16"

datatype discovery_error =
    Disc_EmptyField string
  | Disc_InvalidPath
  | Disc_InvalidExtension
  | Disc_InvalidHash string
  | Disc_LimitExceeded string nat
  | Disc_InvalidRange
  | Disc_InvalidAction string
  | Disc_InvalidContext string
  | Disc_RepositoryRevisionMismatch
  | Disc_Serialization

fun discovery_error_code :: "discovery_error \<Rightarrow> string" where
  "discovery_error_code (Disc_EmptyField field) = ''discovery_empty_field''"
| "discovery_error_code Disc_InvalidPath = ''discovery_invalid_repository_path''"
| "discovery_error_code Disc_InvalidExtension = ''discovery_invalid_extension''"
| "discovery_error_code (Disc_InvalidHash field) = ''discovery_invalid_hash''"
| "discovery_error_code (Disc_LimitExceeded field limit) = ''discovery_limit_exceeded''"
| "discovery_error_code Disc_InvalidRange = ''discovery_invalid_file_range''"
| "discovery_error_code (Disc_InvalidAction code) = code"
| "discovery_error_code (Disc_InvalidContext code) = code"
| "discovery_error_code Disc_RepositoryRevisionMismatch = ''discovery_repository_revision_mismatch''"
| "discovery_error_code Disc_Serialization = ''discovery_serialization_failed''"

definition discovery_json :: "externs \<Rightarrow> ser \<Rightarrow> discovery_error + string" where
  "discovery_json E value = ok_or Disc_Serialization (to_json E value)"

definition disc_validate_hash :: "string \<Rightarrow> string \<Rightarrow> discovery_error + unit" where
  "disc_validate_hash field value =
     (if length value \<noteq> 64 \<or> \<not> list_all ascii_hexdigit value then Inl (Disc_InvalidHash field) else Inr ())"

definition ser_strs :: "string list \<Rightarrow> ser" where
  "ser_strs xs = Ser_Tuple (map Ser_Str xs)"

section \<open>Paths\<close>

fun path_components :: "string list \<Rightarrow> discovery_error + string list" where
  "path_components [] = Inr []"
| "path_components (c # cs) =
     (if c = [] \<or> c = ''.'' then path_components cs
      else if c = ''..'' then Inl Disc_InvalidPath
      else bnd (path_components cs) (\<lambda>components. Inr (c # components)))"

definition BACKSLASH :: char where "BACKSLASH = CHR 0x5C"
definition SLASH :: char where "SLASH = CHR 0x2F"

text \<open>\<open>portable.len() >= 2 && portable.as_bytes()[1] == b':'\<close>: a drive letter.\<close>

definition has_drive :: "string \<Rightarrow> bool" where
  "has_drive s \<longleftrightarrow> length s \<ge> 2 \<and> s ! 1 = CHR '':''"

definition normalize_repository_path :: "string \<Rightarrow> discovery_error + string" where
  "normalize_repository_path value =
     (if value = [] \<or> starts_with [SLASH] value \<or> starts_with [BACKSLASH] value \<or>
         list_ex (\<lambda>b. byte b = 0 \<or> ascii_control b) value
      then Inl Disc_InvalidPath
      else let portable = replace_char BACKSLASH SLASH value in
        if has_drive portable then Inl Disc_InvalidPath
        else bnd (path_components (split_on SLASH portable)) (\<lambda>components.
          if components = [] then Inl Disc_InvalidPath else Inr (join_with [SLASH] components)))"

definition discovery_path_new :: "string \<Rightarrow> discovery_error + discovery_path" where
  "discovery_path_new value = normalize_repository_path value"

text \<open>\<open>strip_prefix(root).is_some_and(|suffix| suffix.starts_with('/'))\<close>.\<close>

definition path_is_at_or_below :: "discovery_path \<Rightarrow> discovery_path \<Rightarrow> bool" where
  "path_is_at_or_below path root \<longleftrightarrow>
     path = root \<or> starts_with root path \<and> starts_with [SLASH] (drop (length root) path)"

section \<open>Searches\<close>

datatype search_mode =
    LiteralCaseSensitive | LiteralCaseInsensitive | RegexCaseSensitive | RegexCaseInsensitive | FileName

definition is_case_insensitive :: "search_mode \<Rightarrow> bool" where
  "is_case_insensitive m \<longleftrightarrow> m = LiteralCaseInsensitive \<or> m = RegexCaseInsensitive"

record search_scope =
  sc_roots :: "discovery_path list"
  sc_excluded_roots :: "discovery_path list"

definition scope_repository :: search_scope where
  "scope_repository = \<lparr>sc_roots = [], sc_excluded_roots = []\<rparr>"

definition scope_validate :: "search_scope \<Rightarrow> discovery_error + unit" where
  "scope_validate s =
     (if length (sc_roots s) > MAX_SEARCH_ROOTS then Inl (Disc_LimitExceeded ''search_scope.roots'' MAX_SEARCH_ROOTS)
      else if length (sc_excluded_roots s) > MAX_SEARCH_ROOTS
      then Inl (Disc_LimitExceeded ''search_scope.excluded_roots'' MAX_SEARCH_ROOTS)
      else if list_ex (\<lambda>root. root \<in> set (sc_excluded_roots s)) (sc_roots s)
      then Inl (Disc_InvalidAction ''search_scope_root_excluded'')
      else Inr ())"

record search_request =
  sr_schema_version :: u16
  sr_search_id :: search_id
  sr_repository_revision :: repository_revision_id
  sr_repository_profile_id :: repository_profile_id
  sr_criterion_ids :: "criterion_id list"
  sr_normalized_query :: string
  sr_scope :: search_scope
  sr_extensions :: "string list"
  sr_mode :: search_mode
  sr_context_evidence_ids :: "evidence_id list"

definition normalize_search_query :: "externs \<Rightarrow> string \<Rightarrow> search_mode \<Rightarrow> discovery_error + string" where
  "normalize_search_query E query mode =
     (if list_ex (\<lambda>b. byte b = 0 \<or> ascii_control b \<and> \<not> ascii_whitespace b) query
      then Inl (Disc_EmptyField ''search.query'')
      else let joined = join_with '' '' (split_white [] query);
             normalized = (if is_case_insensitive mode then str_lowercase E joined else joined) in
        if normalized = [] then Inl (Disc_EmptyField ''search.query'')
        else if length normalized > MAX_SEARCH_QUERY_BYTES
        then Inl (Disc_LimitExceeded ''search.query'' MAX_SEARCH_QUERY_BYTES)
        else Inr normalized)"

definition normalize_extension :: "string \<Rightarrow> discovery_error + string" where
  "normalize_extension extension =
     (let e = ascii_lower (dropWhile (\<lambda>c. c = CHR ''.'') (trim extension)) in
      if e = [] \<or> length e > 32 \<or>
         \<not> list_all (\<lambda>b. ascii_alphanumeric b \<or> b \<in> {CHR ''+'', CHR ''-'', CHR ''_''}) e
      then Inl Disc_InvalidExtension else Inr e)"

fun ser_mode :: "search_mode \<Rightarrow> ser" where
  "ser_mode LiteralCaseSensitive = Ser_Str ''literal_case_sensitive''"
| "ser_mode LiteralCaseInsensitive = Ser_Str ''literal_case_insensitive''"
| "ser_mode RegexCaseSensitive = Ser_Str ''regex_case_sensitive''"
| "ser_mode RegexCaseInsensitive = Ser_Str ''regex_case_insensitive''"
| "ser_mode FileName = Ser_Str ''file_name''"

definition ser_scope :: "search_scope \<Rightarrow> ser" where
  "ser_scope s = Ser_Struct
     [(''roots'', ser_strs (sc_roots s)), (''excluded_roots'', ser_strs (sc_excluded_roots s))]"

definition search_identity ::
  "repository_revision_id \<Rightarrow> repository_profile_id \<Rightarrow> criterion_id list \<Rightarrow> string \<Rightarrow> search_scope \<Rightarrow>
   string list \<Rightarrow> search_mode \<Rightarrow> evidence_id list \<Rightarrow> ser" where
  "search_identity revision profile criteria query scope extensions mode context = Ser_Struct
     [(''schema_version'', ser_u DISCOVERY_SCHEMA_VERSION), (''repository_revision'', Ser_Str revision),
      (''repository_profile_id'', Ser_Str profile), (''criterion_ids'', ser_strs criteria),
      (''normalized_query'', Ser_Str query), (''scope'', ser_scope scope),
      (''extensions'', ser_strs extensions), (''mode'', ser_mode mode),
      (''context_evidence_ids'', ser_strs context)]"

definition search_request_new ::
  "externs \<Rightarrow> repository_revision_id \<Rightarrow> repository_profile_id \<Rightarrow> criterion_id list \<Rightarrow> string \<Rightarrow>
   search_scope \<Rightarrow> string list \<Rightarrow> search_mode \<Rightarrow> evidence_id list \<Rightarrow> discovery_error + search_request" where
  "search_request_new E repository_revision repository_profile_id criterion_ids query scope extensions mode
     context_evidence_ids =
     bnd (scope_validate scope) (\<lambda>_.
     if criterion_ids = [] then Inl (Disc_EmptyField ''search.criterion_ids'')
     else if length criterion_ids > MAX_DISCOVERY_CRITERIA
     then Inl (Disc_LimitExceeded ''search.criterion_ids'' MAX_DISCOVERY_CRITERIA)
     else bnd (normalize_search_query E query mode) (\<lambda>normalized_query.
     bnd (map_res normalize_extension extensions) (\<lambda>normalized.
     let extensions' = bset_of normalized in
     if length extensions' > MAX_SEARCH_EXTENSIONS
     then Inl (Disc_LimitExceeded ''search.extensions'' MAX_SEARCH_EXTENSIONS)
     else if length context_evidence_ids > MAX_CONTEXT_EVIDENCE
     then Inl (Disc_LimitExceeded ''search.context_evidence_ids'' MAX_CONTEXT_EVIDENCE)
     else bnd (discovery_json E (search_identity repository_revision repository_profile_id criterion_ids
         normalized_query scope extensions' mode context_evidence_ids)) (\<lambda>canonical.
       Inr \<lparr>sr_schema_version = DISCOVERY_SCHEMA_VERSION,
         sr_search_id = epv1 E [''execution-protocol-v1:search'', canonical],
         sr_repository_revision = repository_revision, sr_repository_profile_id = repository_profile_id,
         sr_criterion_ids = criterion_ids, sr_normalized_query = normalized_query, sr_scope = scope,
         sr_extensions = extensions', sr_mode = mode, sr_context_evidence_ids = context_evidence_ids\<rparr>))))"

definition search_request_validate :: "externs \<Rightarrow> search_request \<Rightarrow> discovery_error + unit" where
  "search_request_validate E r =
     bnd (search_request_new E (sr_repository_revision r) (sr_repository_profile_id r) (sr_criterion_ids r)
       (sr_normalized_query r) (sr_scope r) (sr_extensions r) (sr_mode r) (sr_context_evidence_ids r))
     (\<lambda>rebuilt. require (rebuilt = r) (Disc_InvalidAction ''search_request_not_canonical''))"

definition permits_path :: "search_request \<Rightarrow> discovery_path \<Rightarrow> bool" where
  "permits_path r path =
     (let within_roots = sc_roots (sr_scope r) = [] \<or>
            list_ex (path_is_at_or_below path) (sc_roots (sr_scope r));
        excluded = list_ex (path_is_at_or_below path) (sc_excluded_roots (sr_scope r));
        extension_allowed = sr_extensions r = [] \<or>
            (case behind_last (CHR ''.'') path of None \<Rightarrow> False | Some e \<Rightarrow> e \<in> set (sr_extensions r))
      in within_roots \<and> \<not> excluded \<and> extension_allowed)"

section \<open>Evidence\<close>

record line_range =
  lr_start :: u32
  lr_end_inclusive :: u32

definition line_range_new :: "u32 \<Rightarrow> u32 \<Rightarrow> discovery_error + line_range" where
  "line_range_new start end_inclusive =
     (if start = 0 \<or> end_inclusive < start then Inl Disc_InvalidRange
      else Inr \<lparr>lr_start = start, lr_end_inclusive = end_inclusive\<rparr>)"

datatype candidate_reason =
    SearchMatch | ProfileSourceRoot | ProfileTestRoot | MetadataReference | Reason_Relationship

datatype text_encoding = Utf8 | Utf8WithBom | UnknownText

datatype relationship_kind =
    Rel_Imports | Rel_ImportedBy | Rel_Defines | Rel_Tests | Rel_TestedBy | Rel_Configures
  | Rel_GeneratedFrom | Rel_Related

datatype evidence_confidence = Confidence_Low | Confidence_Medium | Confidence_High

record search_evidence =
  se_schema_version :: u16
  se_evidence_id :: evidence_id
  se_producer_node_id :: node_id
  se_request :: search_request
  se_matched_paths :: "discovery_path list"
  se_result_set_hash :: string
  se_truncated :: bool

record candidate_evidence =
  cp_schema_version :: u16
  cp_evidence_id :: evidence_id
  cp_producer_node_id :: node_id
  cp_repository_revision :: repository_revision_id
  cp_path :: discovery_path
  cp_rank :: u32
  cp_reasons :: "candidate_reason list"
  cp_source_search_ids :: "search_id list"
  cp_criterion_ids :: "criterion_id list"

record file_evidence =
  fe_schema_version :: u16
  fe_evidence_id :: evidence_id
  fe_producer_node_id :: node_id
  fe_repository_revision :: repository_revision_id
  fe_path :: discovery_path
  fe_line_range :: line_range
  fe_content_hash :: string
  fe_artifact_reference_hash :: string
  fe_encoding :: text_encoding
  fe_truncated :: bool

record relationship_evidence =
  re_schema_version :: u16
  re_evidence_id :: evidence_id
  re_producer_node_id :: node_id
  re_repository_revision :: repository_revision_id
  re_from :: discovery_path
  re_to :: discovery_path
  re_kind :: relationship_kind
  re_supporting_evidence_ids :: "evidence_id list"

record impact_area =
  ia_criterion_id :: criterion_id
  ia_paths :: "discovery_path list"
  ia_evidence_ids :: "evidence_id list"
  ia_confidence :: evidence_confidence

record impact_map_evidence =
  im_schema_version :: u16
  im_evidence_id :: evidence_id
  im_producer_node_id :: node_id
  im_repository_revision :: repository_revision_id
  im_areas :: "impact_area list"
  im_unresolved_question_ids :: "question_id list"

section \<open>Serialised evidence\<close>

fun ser_reason :: "candidate_reason \<Rightarrow> ser" where
  "ser_reason SearchMatch = Ser_Str ''search_match''"
| "ser_reason ProfileSourceRoot = Ser_Str ''profile_source_root''"
| "ser_reason ProfileTestRoot = Ser_Str ''profile_test_root''"
| "ser_reason MetadataReference = Ser_Str ''metadata_reference''"
| "ser_reason Reason_Relationship = Ser_Str ''relationship''"

fun ser_encoding :: "text_encoding \<Rightarrow> ser" where
  "ser_encoding Utf8 = Ser_Str ''utf8''"
| "ser_encoding Utf8WithBom = Ser_Str ''utf8_with_bom''"
| "ser_encoding UnknownText = Ser_Str ''unknown_text''"

fun ser_relationship_kind :: "relationship_kind \<Rightarrow> ser" where
  "ser_relationship_kind Rel_Imports = Ser_Str ''imports''"
| "ser_relationship_kind Rel_ImportedBy = Ser_Str ''imported_by''"
| "ser_relationship_kind Rel_Defines = Ser_Str ''defines''"
| "ser_relationship_kind Rel_Tests = Ser_Str ''tests''"
| "ser_relationship_kind Rel_TestedBy = Ser_Str ''tested_by''"
| "ser_relationship_kind Rel_Configures = Ser_Str ''configures''"
| "ser_relationship_kind Rel_GeneratedFrom = Ser_Str ''generated_from''"
| "ser_relationship_kind Rel_Related = Ser_Str ''related''"

fun ser_confidence :: "evidence_confidence \<Rightarrow> ser" where
  "ser_confidence Confidence_Low = Ser_Str ''low''"
| "ser_confidence Confidence_Medium = Ser_Str ''medium''"
| "ser_confidence Confidence_High = Ser_Str ''high''"

definition ser_line_range :: "line_range \<Rightarrow> ser" where
  "ser_line_range r = Ser_Struct
     [(''start'', ser_u (lr_start r)), (''end_inclusive'', ser_u (lr_end_inclusive r))]"

definition ser_search_request :: "search_request \<Rightarrow> ser" where
  "ser_search_request r = Ser_Struct
     [(''schema_version'', ser_u (sr_schema_version r)), (''search_id'', Ser_Str (sr_search_id r)),
      (''repository_revision'', Ser_Str (sr_repository_revision r)),
      (''repository_profile_id'', Ser_Str (sr_repository_profile_id r)),
      (''criterion_ids'', ser_strs (sr_criterion_ids r)), (''normalized_query'', Ser_Str (sr_normalized_query r)),
      (''scope'', ser_scope (sr_scope r)), (''extensions'', ser_strs (sr_extensions r)),
      (''mode'', ser_mode (sr_mode r)), (''context_evidence_ids'', ser_strs (sr_context_evidence_ids r))]"

definition ser_area :: "impact_area \<Rightarrow> ser" where
  "ser_area a = Ser_Struct
     [(''criterion_id'', Ser_Str (ia_criterion_id a)), (''paths'', ser_strs (ia_paths a)),
      (''evidence_ids'', ser_strs (ia_evidence_ids a)), (''confidence'', ser_confidence (ia_confidence a))]"

section \<open>Derived identities\<close>

definition derived_evidence_id :: "externs \<Rightarrow> string \<Rightarrow> ser \<Rightarrow> discovery_error + evidence_id" where
  "derived_evidence_id E kind value =
     bnd (discovery_json E value) (\<lambda>canonical.
       Inr (epv1 E [''execution-protocol-v1:discovery-evidence'', kind, canonical]))"

definition search_result_set_hash :: "externs \<Rightarrow> discovery_path list \<Rightarrow> discovery_error + string" where
  "search_result_set_hash E paths =
     bnd (discovery_json E (ser_strs paths)) (\<lambda>canonical.
       Inr (stable_sha256 E [''execution-protocol-v1:search-result-set'', canonical]))"

definition search_expected_id :: "externs \<Rightarrow> search_evidence \<Rightarrow> discovery_error + evidence_id" where
  "search_expected_id E x = derived_evidence_id E ''search'' (Ser_Tuple
     [ser_u (se_schema_version x), Ser_Str (se_producer_node_id x), ser_search_request (se_request x),
      ser_strs (se_matched_paths x), Ser_Str (se_result_set_hash x), Ser_Bool (se_truncated x)])"

definition search_evidence_new ::
  "externs \<Rightarrow> node_id \<Rightarrow> search_request \<Rightarrow> discovery_path list \<Rightarrow> bool \<Rightarrow>
   discovery_error + search_evidence" where
  "search_evidence_new E producer_node_id request matched_paths truncated =
     bnd (search_request_validate E request) (\<lambda>_.
     if length matched_paths > MAX_SEARCH_MATCHES \<or> \<not> list_all (permits_path request) matched_paths
     then Inl (Disc_InvalidAction ''search_result_outside_authorized_scope'')
     else bnd (search_result_set_hash E matched_paths) (\<lambda>result_set_hash.
     bnd (derived_evidence_id E ''search'' (Ser_Tuple
       [ser_u DISCOVERY_SCHEMA_VERSION, Ser_Str producer_node_id, ser_search_request request,
        ser_strs matched_paths, Ser_Str result_set_hash, Ser_Bool truncated])) (\<lambda>evidence_id.
     Inr \<lparr>se_schema_version = DISCOVERY_SCHEMA_VERSION, se_evidence_id = evidence_id,
       se_producer_node_id = producer_node_id, se_request = request, se_matched_paths = matched_paths,
       se_result_set_hash = result_set_hash, se_truncated = truncated\<rparr>)))"

definition candidate_expected_id :: "externs \<Rightarrow> candidate_evidence \<Rightarrow> discovery_error + evidence_id" where
  "candidate_expected_id E x = derived_evidence_id E ''candidate'' (Ser_Tuple
     [ser_u (cp_schema_version x), Ser_Str (cp_producer_node_id x), Ser_Str (cp_repository_revision x),
      Ser_Str (cp_path x), ser_u (cp_rank x), Ser_Tuple (map ser_reason (cp_reasons x)),
      ser_strs (cp_source_search_ids x), ser_strs (cp_criterion_ids x)])"

definition candidate_canonicalize_id ::
  "externs \<Rightarrow> candidate_evidence \<Rightarrow> discovery_error + candidate_evidence" where
  "candidate_canonicalize_id E x = bnd (candidate_expected_id E x) (\<lambda>i. Inr (x\<lparr>cp_evidence_id := i\<rparr>))"

definition file_expected_id :: "externs \<Rightarrow> file_evidence \<Rightarrow> discovery_error + evidence_id" where
  "file_expected_id E x = derived_evidence_id E ''file'' (Ser_Tuple
     [ser_u (fe_schema_version x), Ser_Str (fe_producer_node_id x), Ser_Str (fe_repository_revision x),
      Ser_Str (fe_path x), ser_line_range (fe_line_range x), Ser_Str (fe_content_hash x),
      Ser_Str (fe_artifact_reference_hash x), ser_encoding (fe_encoding x), Ser_Bool (fe_truncated x)])"

definition file_evidence_new ::
  "externs \<Rightarrow> node_id \<Rightarrow> repository_revision_id \<Rightarrow> discovery_path \<Rightarrow> line_range \<Rightarrow> string \<Rightarrow> string \<Rightarrow>
   text_encoding \<Rightarrow> bool \<Rightarrow> discovery_error + file_evidence" where
  "file_evidence_new E producer_node_id repository_revision path line_range content_hash artifact_reference_hash
     encoding truncated =
     bnd (line_range_new (lr_start line_range) (lr_end_inclusive line_range)) (\<lambda>_.
     bnd (disc_validate_hash ''file.content_hash'' content_hash) (\<lambda>_.
     bnd (disc_validate_hash ''file.artifact_reference_hash'' artifact_reference_hash) (\<lambda>_.
     let evidence = \<lparr>fe_schema_version = DISCOVERY_SCHEMA_VERSION, fe_evidence_id = ''pending:file-evidence'',
       fe_producer_node_id = producer_node_id, fe_repository_revision = repository_revision, fe_path = path,
       fe_line_range = line_range, fe_content_hash = content_hash,
       fe_artifact_reference_hash = artifact_reference_hash, fe_encoding = encoding, fe_truncated = truncated\<rparr>
     in bnd (file_expected_id E evidence) (\<lambda>i. Inr (evidence\<lparr>fe_evidence_id := i\<rparr>)))))"

definition relationship_expected_id :: "externs \<Rightarrow> relationship_evidence \<Rightarrow> discovery_error + evidence_id" where
  "relationship_expected_id E x = derived_evidence_id E ''relationship'' (Ser_Tuple
     [ser_u (re_schema_version x), Ser_Str (re_producer_node_id x), Ser_Str (re_repository_revision x),
      Ser_Str (re_from x), Ser_Str (re_to x), ser_relationship_kind (re_kind x),
      ser_strs (re_supporting_evidence_ids x)])"

definition relationship_evidence_new ::
  "externs \<Rightarrow> node_id \<Rightarrow> repository_revision_id \<Rightarrow> discovery_path \<Rightarrow> discovery_path \<Rightarrow>
   relationship_kind \<Rightarrow> evidence_id list \<Rightarrow> discovery_error + relationship_evidence" where
  "relationship_evidence_new E producer_node_id repository_revision from_path to_path kind supporting =
     (if from_path = to_path \<or> supporting = []
      then Inl (Disc_InvalidAction ''relationship_evidence_binding_invalid'')
      else let evidence = \<lparr>re_schema_version = DISCOVERY_SCHEMA_VERSION,
          re_evidence_id = ''pending:relationship-evidence'', re_producer_node_id = producer_node_id,
          re_repository_revision = repository_revision, re_from = from_path, re_to = to_path, re_kind = kind,
          re_supporting_evidence_ids = supporting\<rparr>
        in bnd (relationship_expected_id E evidence) (\<lambda>i. Inr (evidence\<lparr>re_evidence_id := i\<rparr>)))"

definition impact_map_expected_id :: "externs \<Rightarrow> impact_map_evidence \<Rightarrow> discovery_error + evidence_id" where
  "impact_map_expected_id E x = derived_evidence_id E ''impact-map'' (Ser_Tuple
     [ser_u (im_schema_version x), Ser_Str (im_producer_node_id x), Ser_Str (im_repository_revision x),
      Ser_Tuple (map ser_area (im_areas x)), ser_strs (im_unresolved_question_ids x)])"

definition impact_map_new ::
  "externs \<Rightarrow> node_id \<Rightarrow> repository_revision_id \<Rightarrow> impact_area list \<Rightarrow> question_id list \<Rightarrow>
   discovery_error + impact_map_evidence" where
  "impact_map_new E producer_node_id repository_revision areas unresolved_question_ids =
     (let evidence = \<lparr>im_schema_version = DISCOVERY_SCHEMA_VERSION,
        im_evidence_id = ''pending:impact-map-evidence'', im_producer_node_id = producer_node_id,
        im_repository_revision = repository_revision, im_areas = areas,
        im_unresolved_question_ids = unresolved_question_ids\<rparr>
      in bnd (impact_map_expected_id E evidence) (\<lambda>i. Inr (evidence\<lparr>im_evidence_id := i\<rparr>)))"

section \<open>Questions and the goal\<close>

definition criterion_id_new :: "string \<Rightarrow> discovery_error + criterion_id" where
  "criterion_id_new value =
     (if blank value \<or> \<not> trimmed value \<or> length value > 128 \<or> list_ex ascii_control value
      then Inl (Disc_EmptyField ''criterion_id'') else Inr value)"

definition question_id_new :: "string \<Rightarrow> discovery_error + question_id" where
  "question_id_new value =
     (if blank value \<or> \<not> trimmed value \<or> length value > 128 \<or> list_ex ascii_control value
      then Inl (Disc_EmptyField ''question_id'') else Inr value)"

record unresolved_question =
  uq_id :: question_id
  uq_kind :: relationship_kind
  uq_subject_path :: discovery_path
  uq_criterion_ids :: "criterion_id list"

definition question_new ::
  "externs \<Rightarrow> relationship_kind \<Rightarrow> discovery_path \<Rightarrow> criterion_id list \<Rightarrow>
   discovery_error + unresolved_question" where
  "question_new E kind subject_path criterion_ids =
     (if criterion_ids = [] then Inl (Disc_EmptyField ''question.criterion_ids'')
      else bnd (discovery_json E (Ser_Tuple [ser_u DISCOVERY_SCHEMA_VERSION, ser_relationship_kind kind,
          Ser_Str subject_path, ser_strs criterion_ids])) (\<lambda>canonical.
        bnd (question_id_new (epv1 E [''execution-protocol-v1:discovery-question'', canonical])) (\<lambda>i.
        Inr \<lparr>uq_id = i, uq_kind = kind, uq_subject_path = subject_path, uq_criterion_ids = criterion_ids\<rparr>)))"

definition question_expected_id :: "externs \<Rightarrow> unresolved_question \<Rightarrow> discovery_error + question_id" where
  "question_expected_id E q =
     bnd (question_new E (uq_kind q) (uq_subject_path q) (uq_criterion_ids q)) (\<lambda>q'. Inr (uq_id q'))"

record discovery_goal =
  dg_goal_hash :: string
  dg_criterion_ids :: "criterion_id list"
  dg_normalized_search_terms :: "string list"

definition goal_new ::
  "externs \<Rightarrow> string \<Rightarrow> criterion_id list \<Rightarrow> string list \<Rightarrow> discovery_error + discovery_goal" where
  "goal_new E goal_hash criterion_ids search_terms =
     bnd (disc_validate_hash ''goal_hash'' goal_hash) (\<lambda>_.
     if criterion_ids = [] then Inl (Disc_EmptyField ''criterion_ids'')
     else if length criterion_ids > MAX_DISCOVERY_CRITERIA
     then Inl (Disc_LimitExceeded ''criterion_ids'' MAX_DISCOVERY_CRITERIA)
     else bnd (map_res (\<lambda>term. normalize_search_query E term LiteralCaseInsensitive) search_terms) (\<lambda>terms.
     let normalized = bset_of terms in
     if normalized = [] then Inl (Disc_EmptyField ''search_terms'')
     else if length normalized > MAX_DISCOVERY_SEARCH_TERMS
     then Inl (Disc_LimitExceeded ''search_terms'' MAX_DISCOVERY_SEARCH_TERMS)
     else Inr \<lparr>dg_goal_hash = goal_hash, dg_criterion_ids = criterion_ids,
       dg_normalized_search_terms = normalized\<rparr>))"

definition goal_validate :: "externs \<Rightarrow> discovery_goal \<Rightarrow> discovery_error + unit" where
  "goal_validate E g =
     bnd (goal_new E (dg_goal_hash g) (dg_criterion_ids g) (dg_normalized_search_terms g)) (\<lambda>rebuilt.
       require (rebuilt = g) (Disc_InvalidAction ''discovery_goal_not_normalized''))"

end
