(* ===== verification/Discovery_State.thy ===== *)
theory Discovery_State
  imports Discovery_Model
begin

text \<open>
  The state of discovery (\<open>DiscoveryState\<close> in \<open>src/execution_protocol/discovery.rs\<close>): what it grounds, how it
  is validated, the next step the worker selects from it, and how discovery converges.
\<close>

datatype discovery_substate =
    Sub_NeedCandidates | Sub_NeedGroundedReads | Sub_NeedRelations | Sub_ReadyToSynthesize

datatype insufficient_reason = NoUsefulCandidates | NoCriterionCoverage

datatype discovery_block_reason =
    GroundedEvidenceMissing | RelationshipEvidenceMissing | ImpactMapIncomplete

datatype discovery_convergence =
    ImpactMapAccepted evidence_id
  | EvidenceSufficient "(criterion_id, discovery_path list) btree_map" "evidence_id list"
  | Conv_InsufficientEvidence insufficient_reason
  | Conv_BudgetBlocked discovery_block_reason

record discovery_state =
  ds_schema_version :: u16
  ds_node_id :: node_id
  ds_repository_revision :: repository_revision_id
  ds_repository_profile_id :: repository_profile_id
  ds_goal :: discovery_goal
  ds_completed_searches :: "(search_id, search_evidence) btree_map"
  ds_candidates :: "(discovery_path, candidate_evidence) btree_map"
  ds_file_evidence :: "(evidence_id, file_evidence) btree_map"
  ds_relationships :: "(evidence_id, relationship_evidence) btree_map"
  ds_unresolved_questions :: "(question_id, unresolved_question) btree_map"
  ds_impact_map :: "impact_map_evidence option"
  ds_convergence :: "discovery_convergence option"

definition discovery_state_new ::
  "node_id \<Rightarrow> repository_revision_id \<Rightarrow> repository_profile_id \<Rightarrow> discovery_goal \<Rightarrow> discovery_state" where
  "discovery_state_new node_id repository_revision repository_profile_id goal =
     \<lparr>ds_schema_version = DISCOVERY_SCHEMA_VERSION, ds_node_id = node_id,
       ds_repository_revision = repository_revision, ds_repository_profile_id = repository_profile_id,
       ds_goal = goal, ds_completed_searches = [], ds_candidates = [], ds_file_evidence = [],
       ds_relationships = [], ds_unresolved_questions = [], ds_impact_map = None, ds_convergence = None\<rparr>"

section \<open>What the evidence grounds\<close>

definition grounded_candidate_paths :: "discovery_state \<Rightarrow> discovery_path list" where
  "grounded_candidate_paths s = bset_of (map fe_path
     (filter (\<lambda>e. fe_repository_revision e = ds_repository_revision s \<and> map_of (ds_candidates s) (fe_path e) \<noteq> None)
       (bt_values (ds_file_evidence s))))"

definition grounded_criterion_ids :: "discovery_state \<Rightarrow> criterion_id list" where
  "grounded_criterion_ids s = bset_of (concat (map cp_criterion_ids
     (filter (\<lambda>c. cp_path c \<in> set (grounded_candidate_paths s)) (bt_values (ds_candidates s)))))"

definition non_relationship_evidence_touches_path ::
  "discovery_state \<Rightarrow> evidence_id \<Rightarrow> discovery_path \<Rightarrow> bool" where
  "non_relationship_evidence_touches_path s evidence_id path \<longleftrightarrow>
     list_ex (\<lambda>e. se_evidence_id e = evidence_id \<and> path \<in> set (se_matched_paths e))
       (bt_values (ds_completed_searches s)) \<or>
     list_ex (\<lambda>e. cp_evidence_id e = evidence_id \<and> cp_path e = path) (bt_values (ds_candidates s)) \<or>
     list_ex (\<lambda>e. fe_evidence_id e = evidence_id \<and> fe_path e = path) (bt_values (ds_file_evidence s))"

text \<open>\<open>sort_by\<close> rank, then path: the stable sort by the pair.\<close>

definition rank_order :: "candidate_evidence list \<Rightarrow> candidate_evidence list" where
  "rank_order cs = sort_key cp_rank (sort_key cp_path cs)"

definition all_ranked_candidate_paths :: "discovery_state \<Rightarrow> discovery_path list" where
  "all_ranked_candidate_paths s =
     map cp_path (take MAX_ACTION_PATHS (rank_order (bt_values (ds_candidates s))))"

definition ranked_candidate_paths :: "discovery_state \<Rightarrow> discovery_path list" where
  "ranked_candidate_paths s = take MAX_GROUNDING_PATHS_PER_ACTION
     (filter (\<lambda>p. p \<notin> set (grounded_candidate_paths s)) (all_ranked_candidate_paths s))"

definition substate :: "discovery_state \<Rightarrow> discovery_substate" where
  "substate s =
     (let candidate_criteria = bset_of (concat (map cp_criterion_ids (bt_values (ds_candidates s)))) in
      if ds_candidates s = [] then Sub_NeedCandidates
      else if ranked_candidate_paths s \<noteq> [] then Sub_NeedGroundedReads
      else if candidate_criteria \<noteq> dg_criterion_ids (ds_goal s) then Sub_NeedCandidates
      else if ds_unresolved_questions s \<noteq> [] then Sub_NeedRelations
      else Sub_ReadyToSynthesize)"

text \<open>\<open>min()\<close> of an iterator.\<close>

definition least_of :: "string list \<Rightarrow> string option" where
  "least_of xs = (case bset_of xs of [] \<Rightarrow> None | x # _ \<Rightarrow> Some x)"

definition candidate_selection :: "discovery_state \<Rightarrow> candidate_evidence \<Rightarrow> evidence_id list" where
  "candidate_selection s c =
     (case least_of (map fe_evidence_id (filter (\<lambda>e. fe_path e = cp_path c) (bt_values (ds_file_evidence s)))) of
        None \<Rightarrow> [] | Some i \<Rightarrow> [i]) @
     (case least_of (map re_evidence_id (filter (\<lambda>e. re_from e = cp_path c \<or> re_to e = cp_path c)
          (bt_values (ds_relationships s)))) of
        None \<Rightarrow> [] | Some i \<Rightarrow> [i])"

definition criterion_selection :: "discovery_state \<Rightarrow> criterion_id \<Rightarrow> evidence_id list" where
  "criterion_selection s criterion_id =
     (let candidates = rank_order (filter (\<lambda>c. criterion_id \<in> set (cp_criterion_ids c) \<and>
            cp_path c \<in> set (grounded_candidate_paths s)) (bt_values (ds_candidates s)))
      in case List.find (\<lambda>c. list_ex (\<lambda>e. fe_path e = cp_path c) (bt_values (ds_file_evidence s))) candidates of
          None \<Rightarrow> []
        | Some c \<Rightarrow> candidate_selection s c)"

definition impact_map_evidence_ids :: "discovery_state \<Rightarrow> evidence_id list" where
  "impact_map_evidence_ids s = bset_of (concat (map (criterion_selection s) (dg_criterion_ids (ds_goal s))))"

definition path_supports_area :: "discovery_state \<Rightarrow> impact_area \<Rightarrow> discovery_path \<Rightarrow> bool" where
  "path_supports_area s area path \<longleftrightarrow> path \<in> set (grounded_candidate_paths s) \<and>
     (case map_of (ds_candidates s) path of
        None \<Rightarrow> False
      | Some c \<Rightarrow> ia_criterion_id area \<in> set (cp_criterion_ids c))"

definition evidence_supports_area :: "discovery_state \<Rightarrow> impact_area \<Rightarrow> evidence_id \<Rightarrow> bool" where
  "evidence_supports_area s area evidence_id \<longleftrightarrow>
     (case map_of (ds_file_evidence s) evidence_id of
        None \<Rightarrow> False
      | Some e \<Rightarrow> fe_path e \<in> set (ia_paths area)) \<or>
     (case map_of (ds_relationships s) evidence_id of
        None \<Rightarrow> False
      | Some e \<Rightarrow> re_from e \<in> set (ia_paths area) \<or> re_to e \<in> set (ia_paths area))"

definition impact_area_is_semantically_grounded :: "discovery_state \<Rightarrow> impact_area \<Rightarrow> bool" where
  "impact_area_is_semantically_grounded s area \<longleftrightarrow>
     ia_criterion_id area \<in> set (dg_criterion_ids (ds_goal s)) \<and> ia_paths area \<noteq> [] \<and>
     ia_evidence_ids area \<noteq> [] \<and> list_all (path_supports_area s area) (ia_paths area) \<and>
     list_all (evidence_supports_area s area) (ia_evidence_ids area)"

datatype search_admission = SearchNew search_id | DuplicateCompleted search_id

definition classify_search :: "discovery_state \<Rightarrow> search_request \<Rightarrow> search_admission" where
  "classify_search s request =
     (if map_of (ds_completed_searches s) (sr_search_id request) \<noteq> None
      then DuplicateCompleted (sr_search_id request) else SearchNew (sr_search_id request))"

section \<open>Convergence\<close>

definition impact_map_is_complete :: "discovery_state \<Rightarrow> impact_map_evidence \<Rightarrow> bool" where
  "impact_map_is_complete s m \<longleftrightarrow>
     im_repository_revision m = ds_repository_revision s \<and> im_unresolved_question_ids m = [] \<and>
     list_all (\<lambda>criterion. criterion \<in> ia_criterion_id ` set (im_areas m)) (dg_criterion_ids (ds_goal s)) \<and>
     list_all (impact_area_is_semantically_grounded s) (im_areas m)"

definition add_criterion_path ::
  "discovery_path \<Rightarrow> (criterion_id, discovery_path list) btree_map \<Rightarrow> criterion_id \<Rightarrow>
   (criterion_id, discovery_path list) btree_map" where
  "add_criterion_path path m criterion = bt_adjust criterion (\<lambda>paths. bset_of (path # paths)) m"

definition criterion_paths :: "discovery_state \<Rightarrow> (criterion_id, discovery_path list) btree_map" where
  "criterion_paths s =
     foldl (\<lambda>m c. foldl (add_criterion_path (cp_path c)) m (cp_criterion_ids c))
       (bt_of_list (map (\<lambda>criterion. (criterion, [])) (dg_criterion_ids (ds_goal s))))
       (filter (\<lambda>c. cp_path c \<in> set (grounded_candidate_paths s)) (bt_values (ds_candidates s)))"

definition accepted_impact :: "discovery_state \<Rightarrow> impact_map_evidence option" where
  "accepted_impact s = (case ds_impact_map s of
       None \<Rightarrow> None
     | Some m \<Rightarrow> if impact_map_is_complete s m then Some m else None)"

definition evaluate_discovery_convergence :: "discovery_state \<Rightarrow> discovery_convergence" where
  "evaluate_discovery_convergence s = (case accepted_impact s of
       Some m \<Rightarrow> ImpactMapAccepted (im_evidence_id m)
     | None \<Rightarrow>
         if ds_candidates s = [] then Conv_InsufficientEvidence NoUsefulCandidates
         else if grounded_candidate_paths s = [] then Conv_BudgetBlocked GroundedEvidenceMissing
         else if ds_unresolved_questions s \<noteq> [] then Conv_BudgetBlocked RelationshipEvidenceMissing
         else if list_ex (\<lambda>paths. paths = []) (bt_values (criterion_paths s))
         then Conv_InsufficientEvidence NoCriterionCoverage
         else EvidenceSufficient (criterion_paths s) (impact_map_evidence_ids s))"

datatype discovery_action =
    Act_DiscoverCandidates | Act_GroundCandidateEvidence | Act_ResolveNamedRelationship | Act_RecordImpactMap

datatype discovery_next = Next_Action discovery_action | Next_Converge discovery_convergence

definition all_goal_searches_completed :: "discovery_state \<Rightarrow> bool" where
  "all_goal_searches_completed s \<longleftrightarrow>
     list_all (\<lambda>criterion_id. list_all (\<lambda>term.
       list_ex (\<lambda>e. sr_criterion_ids (se_request e) = [criterion_id] \<and> sr_normalized_query (se_request e) = term)
         (bt_values (ds_completed_searches s)))
       (dg_normalized_search_terms (ds_goal s))) (dg_criterion_ids (ds_goal s))"

definition select_next_discovery_step :: "discovery_state \<Rightarrow> u32 \<Rightarrow> discovery_next" where
  "select_next_discovery_step s admissible_model_calls_remaining =
     (if accepted_impact s \<noteq> None \<or> admissible_model_calls_remaining = 0
      then Next_Converge (evaluate_discovery_convergence s)
      else (case substate s of
          Sub_NeedCandidates \<Rightarrow>
            if all_goal_searches_completed s then Next_Converge (evaluate_discovery_convergence s)
            else Next_Action Act_DiscoverCandidates
        | Sub_NeedGroundedReads \<Rightarrow> Next_Action Act_GroundCandidateEvidence
        | Sub_NeedRelations \<Rightarrow> Next_Action Act_ResolveNamedRelationship
        | Sub_ReadyToSynthesize \<Rightarrow> Next_Action Act_RecordImpactMap))"

section \<open>Validation\<close>

definition enforce_limit :: "string \<Rightarrow> nat \<Rightarrow> nat \<Rightarrow> discovery_error + unit" where
  "enforce_limit field actual limit =
     (if actual > limit then Inl (Disc_LimitExceeded field limit) else Inr ())"

definition enforce_state_limits :: "discovery_state \<Rightarrow> discovery_error + unit" where
  "enforce_state_limits s =
     bnd (enforce_limit ''discovery.completed_searches'' (length (ds_completed_searches s)) MAX_COMPLETED_SEARCHES) (\<lambda>_.
     bnd (enforce_limit ''discovery.candidates'' (length (ds_candidates s)) MAX_DISCOVERY_CANDIDATES) (\<lambda>_.
     bnd (enforce_limit ''discovery.file_evidence'' (length (ds_file_evidence s)) MAX_FILE_EVIDENCE) (\<lambda>_.
     bnd (enforce_limit ''discovery.relationships'' (length (ds_relationships s)) MAX_RELATIONSHIP_EVIDENCE) (\<lambda>_.
     enforce_limit ''discovery.unresolved_questions'' (length (ds_unresolved_questions s)) MAX_UNRESOLVED_QUESTIONS))))"

definition validate_revision :: "discovery_state \<Rightarrow> discovery_error + unit" where
  "validate_revision s =
     (let r = ds_repository_revision s in
      require (list_all (\<lambda>e. sr_repository_revision (se_request e) = r) (bt_values (ds_completed_searches s)) \<and>
          list_all (\<lambda>e. cp_repository_revision e = r) (bt_values (ds_candidates s)) \<and>
          list_all (\<lambda>e. fe_repository_revision e = r) (bt_values (ds_file_evidence s)) \<and>
          list_all (\<lambda>e. re_repository_revision e = r) (bt_values (ds_relationships s)) \<and>
          (case ds_impact_map s of None \<Rightarrow> True | Some m \<Rightarrow> im_repository_revision m = r))
        Disc_RepositoryRevisionMismatch)"

text \<open>The insertion into \<open>all_evidence_ids\<close>, an error when the identity is there.\<close>

definition claim_evidence_id :: "evidence_id list \<Rightarrow> evidence_id \<Rightarrow> discovery_error + evidence_id list" where
  "claim_evidence_id seen i =
     (if i \<in> set seen then Inl (Disc_InvalidAction ''discovery_evidence_id_duplicate'') else Inr (i # seen))"

definition check_search ::
  "externs \<Rightarrow> discovery_state \<Rightarrow> evidence_id list \<Rightarrow> search_id \<times> search_evidence \<Rightarrow>
   discovery_error + evidence_id list" where
  "check_search E s seen entry = (case entry of (search_id, e) \<Rightarrow>
     let r = se_request e; binding = Disc_InvalidAction ''search_evidence_binding_invalid'' in
     if se_schema_version e \<noteq> DISCOVERY_SCHEMA_VERSION \<or> sr_search_id r \<noteq> search_id \<or>
        se_producer_node_id e \<noteq> ds_node_id s \<or> sr_repository_revision r \<noteq> ds_repository_revision s \<or>
        sr_repository_profile_id r \<noteq> ds_repository_profile_id s \<or>
        \<not> set (sr_criterion_ids r) \<subseteq> set (dg_criterion_ids (ds_goal s))
     then Inl binding
     else bnd (search_expected_id E e) (\<lambda>expected.
       if se_evidence_id e \<noteq> expected then Inl binding
       else bnd (search_request_validate E r) (\<lambda>_.
       if length (se_matched_paths e) > MAX_SEARCH_MATCHES
       then Inl (Disc_LimitExceeded ''search.matched_paths'' MAX_SEARCH_MATCHES)
       else if \<not> list_all (permits_path r) (se_matched_paths e)
       then Inl (Disc_InvalidAction ''search_result_outside_authorized_scope'')
       else bnd (disc_validate_hash ''search.result_set_hash'' (se_result_set_hash e)) (\<lambda>_.
       bnd (search_result_set_hash E (se_matched_paths e)) (\<lambda>h.
       if se_result_set_hash e \<noteq> h then Inl (Disc_InvalidAction ''search_result_set_hash_mismatch'')
       else claim_evidence_id seen (se_evidence_id e))))))"

definition source_criteria :: "discovery_state \<Rightarrow> candidate_evidence \<Rightarrow> criterion_id list" where
  "source_criteria s c = bset_of (concat (map (\<lambda>search_id. case map_of (ds_completed_searches s) search_id of
       None \<Rightarrow> [] | Some e \<Rightarrow> sr_criterion_ids (se_request e)) (cp_source_search_ids c)))"

definition check_candidate ::
  "externs \<Rightarrow> discovery_state \<Rightarrow> evidence_id list \<Rightarrow> discovery_path \<times> candidate_evidence \<Rightarrow>
   discovery_error + evidence_id list" where
  "check_candidate E s seen entry = (case entry of (path, c) \<Rightarrow>
     let binding = Disc_InvalidAction ''candidate_evidence_binding_invalid'' in
     if cp_schema_version c \<noteq> DISCOVERY_SCHEMA_VERSION \<or> cp_path c \<noteq> path \<or>
        cp_producer_node_id c \<noteq> ds_node_id s \<or> cp_repository_revision c \<noteq> ds_repository_revision s \<or>
        cp_rank c = 0 \<or> cp_reasons c = [] \<or> cp_criterion_ids c = []
     then Inl binding
     else bnd (candidate_expected_id E c) (\<lambda>expected.
       if cp_evidence_id c \<noteq> expected \<or>
          \<not> list_all (\<lambda>x. x \<in> set (dg_criterion_ids (ds_goal s))) (cp_criterion_ids c) \<or>
          \<not> list_all (\<lambda>i. map_of (ds_completed_searches s) i \<noteq> None) (cp_source_search_ids c) \<or>
          SearchMatch \<in> set (cp_reasons c) \<and> cp_source_search_ids c = [] \<or>
          cp_reasons c = [SearchMatch] \<and> cp_criterion_ids c \<noteq> source_criteria s c
       then Inl binding
       else claim_evidence_id seen (cp_evidence_id c)))"

definition check_file ::
  "externs \<Rightarrow> discovery_state \<Rightarrow> evidence_id list \<Rightarrow> evidence_id \<times> file_evidence \<Rightarrow>
   discovery_error + evidence_id list" where
  "check_file E s seen entry = (case entry of (evidence_id, e) \<Rightarrow>
     let binding = Disc_InvalidAction ''file_evidence_binding_invalid'' in
     if fe_schema_version e \<noteq> DISCOVERY_SCHEMA_VERSION \<or> fe_evidence_id e \<noteq> evidence_id \<or>
        fe_producer_node_id e \<noteq> ds_node_id s \<or> fe_repository_revision e \<noteq> ds_repository_revision s
     then Inl binding
     else bnd (file_expected_id E e) (\<lambda>expected.
       if fe_evidence_id e \<noteq> expected then Inl binding
       else bnd (line_range_new (lr_start (fe_line_range e)) (lr_end_inclusive (fe_line_range e))) (\<lambda>_.
       bnd (disc_validate_hash ''file.content_hash'' (fe_content_hash e)) (\<lambda>_.
       bnd (disc_validate_hash ''file.artifact_reference_hash'' (fe_artifact_reference_hash e)) (\<lambda>_.
       claim_evidence_id seen (fe_evidence_id e))))))"

definition check_relationship ::
  "externs \<Rightarrow> discovery_state \<Rightarrow> evidence_id list \<Rightarrow> evidence_id list \<Rightarrow> evidence_id \<times> relationship_evidence \<Rightarrow>
   discovery_error + evidence_id list" where
  "check_relationship E s non_relationship_ids seen entry = (case entry of (evidence_id, e) \<Rightarrow>
     let binding = Disc_InvalidAction ''relationship_evidence_binding_invalid'' in
     if re_schema_version e \<noteq> DISCOVERY_SCHEMA_VERSION \<or> re_evidence_id e \<noteq> evidence_id \<or>
        re_producer_node_id e \<noteq> ds_node_id s \<or> re_repository_revision e \<noteq> ds_repository_revision s \<or>
        re_from e = re_to e
     then Inl binding
     else bnd (relationship_expected_id E e) (\<lambda>expected.
       if re_evidence_id e \<noteq> expected \<or> re_supporting_evidence_ids e = [] \<or>
          \<not> list_all (\<lambda>i. i \<in> set non_relationship_ids) (re_supporting_evidence_ids e) \<or>
          \<not> list_all (\<lambda>i. non_relationship_evidence_touches_path s i (re_from e) \<or>
              non_relationship_evidence_touches_path s i (re_to e)) (re_supporting_evidence_ids e)
       then Inl binding
       else claim_evidence_id seen (re_evidence_id e)))"

definition check_question ::
  "externs \<Rightarrow> discovery_state \<Rightarrow> question_id \<times> unresolved_question \<Rightarrow> discovery_error + unit" where
  "check_question E s entry = (case entry of (question_id, q) \<Rightarrow>
     let binding = Disc_InvalidAction ''unresolved_question_binding_invalid'' in
     if uq_id q \<noteq> question_id then Inl binding
     else bnd (question_expected_id E q) (\<lambda>expected.
       if uq_id q \<noteq> expected then Inl binding
       else (case map_of (ds_candidates s) (uq_subject_path q) of
           None \<Rightarrow> Inl binding
         | Some c \<Rightarrow> if uq_criterion_ids q = [] \<or> \<not> set (uq_criterion_ids q) \<subseteq> set (cp_criterion_ids c)
             then Inl binding else Inr ())))"

definition check_impact_map ::
  "externs \<Rightarrow> discovery_state \<Rightarrow> evidence_id list \<Rightarrow> impact_map_evidence \<Rightarrow>
   discovery_error + evidence_id list" where
  "check_impact_map E s seen m =
     (let binding = Disc_InvalidAction ''impact_map_binding_invalid'';
          mapped_criteria = bset_of (map ia_criterion_id (im_areas m)) in
      if im_schema_version m \<noteq> DISCOVERY_SCHEMA_VERSION \<or> im_producer_node_id m \<noteq> ds_node_id s \<or>
         im_repository_revision m \<noteq> ds_repository_revision s \<or> im_areas m = [] \<or>
         length (im_areas m) > length (dg_criterion_ids (ds_goal s)) \<or>
         length mapped_criteria \<noteq> length (im_areas m)
      then Inl binding
      else bnd (impact_map_expected_id E m) (\<lambda>expected.
        if im_evidence_id m \<noteq> expected \<or>
           \<not> list_all (\<lambda>(a, b). ia_criterion_id a < ia_criterion_id b) (zip (im_areas m) (tl (im_areas m))) \<or>
           \<not> list_all (\<lambda>q. map_of (ds_unresolved_questions s) q \<noteq> None) (im_unresolved_question_ids m)
        then Inl binding
        else if \<not> list_all (impact_area_is_semantically_grounded s) (im_areas m)
        then Inl (Disc_InvalidAction ''impact_area_grounding_invalid'')
        else claim_evidence_id seen (im_evidence_id m)))"

definition discovery_state_validate :: "externs \<Rightarrow> discovery_state \<Rightarrow> discovery_error + unit" where
  "discovery_state_validate E s =
     (if ds_schema_version s \<noteq> DISCOVERY_SCHEMA_VERSION
      then Inl (Disc_InvalidAction ''discovery_schema_version_invalid'')
      else bnd (goal_validate E (ds_goal s)) (\<lambda>_.
      bnd (enforce_state_limits s) (\<lambda>_.
      bnd (fold_res (check_search E s) [] (ds_completed_searches s)) (\<lambda>after_searches.
      bnd (fold_res (check_candidate E s) after_searches (ds_candidates s)) (\<lambda>after_candidates.
      bnd (fold_res (check_file E s) after_candidates (ds_file_evidence s)) (\<lambda>after_files.
      bnd (fold_res (check_relationship E s after_files) after_files (ds_relationships s)) (\<lambda>after_relationships.
      bnd (fold_res (\<lambda>_. check_question E s) () (ds_unresolved_questions s)) (\<lambda>_.
      bnd (case ds_impact_map s of
          None \<Rightarrow> Inr after_relationships
        | Some m \<Rightarrow> check_impact_map E s after_relationships m) (\<lambda>_.
      if ds_convergence s \<noteq> None \<and> ds_convergence s \<noteq> Some (evaluate_discovery_convergence s)
      then Inl (Disc_InvalidAction ''discovery_convergence_not_authoritative'')
      else validate_revision s)))))))))"

end
