(* ===== verification/Discovery_Action.thy ===== *)
theory Discovery_Action
  imports Discovery_State
begin

text \<open>
  The action discovery asks a model for (\<open>src/execution_protocol/discovery.rs\<close>): its constraints, the manifest
  of the context it is shown, with the token estimate that keeps it under the signed ceiling, and the envelope
  that authorises its tools and carries the identity of the provider payload.
\<close>

definition MAX_CONTEXT_SECTIONS :: nat where "MAX_CONTEXT_SECTIONS = 224"

section \<open>Data\<close>

datatype model_purpose =
    For_DiscoverCandidates | For_GroundCandidateEvidence | For_ResolveNamedRelationship | For_RecordImpactMap

fun purpose_of :: "discovery_action \<Rightarrow> model_purpose" where
  "purpose_of Act_DiscoverCandidates = For_DiscoverCandidates"
| "purpose_of Act_GroundCandidateEvidence = For_GroundCandidateEvidence"
| "purpose_of Act_ResolveNamedRelationship = For_ResolveNamedRelationship"
| "purpose_of Act_RecordImpactMap = For_RecordImpactMap"

datatype discovery_constraints =
    Con_Search search_request
  | Con_ExactPaths "discovery_path list"
  | Con_NamedRelationship unresolved_question "discovery_path list" "search_request option"
  | Con_ImpactMap "criterion_id list" "evidence_id list"

fun constraints_class :: "discovery_constraints \<Rightarrow> discovery_action" where
  "constraints_class (Con_Search r) = Act_DiscoverCandidates"
| "constraints_class (Con_ExactPaths ps) = Act_GroundCandidateEvidence"
| "constraints_class (Con_NamedRelationship q ps t) = Act_ResolveNamedRelationship"
| "constraints_class (Con_ImpactMap cs es) = Act_RecordImpactMap"

datatype context_section =
    Sec_ProtocolInstructions string
  | Sec_Goal string
  | Sec_AcceptanceCriterion criterion_id
  | Sec_RepositoryProfile repository_profile_id
  | Sec_Evidence evidence_id
  | Sec_UnresolvedRelationship question_id

datatype compaction_kind = OmittedOptional | BoundedRange | DeterministicSummary

record compaction_decision =
  cd_section :: context_section
  cd_kind :: compaction_kind
  cd_original_estimated_tokens :: u32
  cd_retained_estimated_tokens :: u32

record context_manifest =
  cm_schema_version :: u16
  cm_context_manifest_id :: string
  cm_action_id :: action_id
  cm_node_id :: node_id
  cm_purpose :: model_purpose
  cm_repository_revision :: repository_revision_id
  cm_evidence_ids :: "evidence_id list"
  cm_mandatory_sections :: "context_section list"
  cm_optional_sections :: "context_section list"
  cm_input_token_ceiling :: u32
  cm_estimated_input_tokens :: u32
  cm_compaction :: "compaction_decision list"
  cm_materialized_context_hash :: string

datatype context_error =
    Ctx_Contract discovery_error
  | Ctx_MandatoryTooLarge u32 u32

definition from_contract :: "discovery_error + 'a \<Rightarrow> context_error + 'a" where
  "from_contract r = map_err Ctx_Contract r"

datatype discovery_tool =
    Tool_ListFiles | Tool_SearchText | Tool_ReadFile | Tool_ReadFiles | Tool_RelatedTests | Tool_RecordImpactMap

record tool_authorization =
  tz_tool :: discovery_tool
  tz_permitted_paths :: "discovery_path list"
  tz_search_id :: "search_id option"
  tz_relationship_question_id :: "question_id option"

datatype tool_choice = Choice_Required | Choice_Named discovery_tool

record action_envelope =
  ae_schema_version :: u16
  ae_action_id :: action_id
  ae_node_id :: node_id
  ae_action_class :: discovery_action
  ae_repository_revision :: repository_revision_id
  ae_context_manifest_id :: string
  ae_constraints :: discovery_constraints
  ae_allowed_tools :: "tool_authorization list"
  ae_tool_choice :: tool_choice
  ae_input_token_ceiling :: u32
  ae_output_token_allowance :: u32
  ae_budget_owner :: node_id
  ae_reservation_id :: string
  ae_payload_identity :: string

section \<open>Serialised actions\<close>

fun ser_purpose :: "model_purpose \<Rightarrow> ser" where
  "ser_purpose For_DiscoverCandidates = Ser_Str ''discover_candidates''"
| "ser_purpose For_GroundCandidateEvidence = Ser_Str ''ground_candidate_evidence''"
| "ser_purpose For_ResolveNamedRelationship = Ser_Str ''resolve_named_relationship''"
| "ser_purpose For_RecordImpactMap = Ser_Str ''record_impact_map''"

fun ser_action_class :: "discovery_action \<Rightarrow> ser" where
  "ser_action_class Act_DiscoverCandidates = Ser_Str ''discover_candidates''"
| "ser_action_class Act_GroundCandidateEvidence = Ser_Str ''ground_candidate_evidence''"
| "ser_action_class Act_ResolveNamedRelationship = Ser_Str ''resolve_named_relationship''"
| "ser_action_class Act_RecordImpactMap = Ser_Str ''record_impact_map''"

definition ser_question :: "unresolved_question \<Rightarrow> ser" where
  "ser_question q = Ser_Struct
     [(''id'', Ser_Str (uq_id q)), (''kind'', ser_relationship_kind (uq_kind q)),
      (''subject_path'', Ser_Str (uq_subject_path q)), (''criterion_ids'', ser_strs (uq_criterion_ids q))]"

definition ser_constraint :: "string \<Rightarrow> (string \<times> ser) list \<Rightarrow> ser" where
  "ser_constraint constraint data = Ser_Struct [(''constraint'', Ser_Str constraint), (''data'', Ser_Struct data)]"

fun ser_constraints :: "discovery_constraints \<Rightarrow> ser" where
  "ser_constraints (Con_Search r) = ser_constraint ''search'' [(''request'', ser_search_request r)]"
| "ser_constraints (Con_ExactPaths ps) = ser_constraint ''exact_paths'' [(''paths'', ser_strs ps)]"
| "ser_constraints (Con_NamedRelationship q ps t) = ser_constraint ''named_relationship''
     [(''question'', ser_question q), (''paths'', ser_strs ps),
      (''targeted_search'', case t of None \<Rightarrow> Ser_Null | Some r \<Rightarrow> ser_search_request r)]"
| "ser_constraints (Con_ImpactMap cs es) = ser_constraint ''impact_map''
     [(''criterion_ids'', ser_strs cs), (''evidence_ids'', ser_strs es)]"

definition ser_tagged_section :: "string \<Rightarrow> string \<Rightarrow> string \<Rightarrow> ser" where
  "ser_tagged_section section_name field value = Ser_Struct
     [(''section'', Ser_Str section_name), (''reference'', Ser_Struct [(field, Ser_Str value)])]"

fun ser_section :: "context_section \<Rightarrow> ser" where
  "ser_section (Sec_ProtocolInstructions h) = ser_tagged_section ''protocol_instructions'' ''schema_hash'' h"
| "ser_section (Sec_Goal h) = ser_tagged_section ''goal'' ''goal_hash'' h"
| "ser_section (Sec_AcceptanceCriterion i) = ser_tagged_section ''acceptance_criterion'' ''criterion_id'' i"
| "ser_section (Sec_RepositoryProfile i) = ser_tagged_section ''repository_profile'' ''profile_id'' i"
| "ser_section (Sec_Evidence i) = ser_tagged_section ''evidence'' ''evidence_id'' i"
| "ser_section (Sec_UnresolvedRelationship i) = ser_tagged_section ''unresolved_relationship'' ''question_id'' i"

definition ser_sections :: "context_section list \<Rightarrow> ser" where
  "ser_sections xs = Ser_Tuple (map ser_section xs)"

fun ser_compaction_kind :: "compaction_kind \<Rightarrow> ser" where
  "ser_compaction_kind OmittedOptional = Ser_Str ''omitted_optional''"
| "ser_compaction_kind BoundedRange = Ser_Str ''bounded_range''"
| "ser_compaction_kind DeterministicSummary = Ser_Str ''deterministic_summary''"

definition ser_compaction :: "compaction_decision list \<Rightarrow> ser" where
  "ser_compaction ds = Ser_Tuple (map (\<lambda>d. Ser_Struct
     [(''section'', ser_section (cd_section d)), (''kind'', ser_compaction_kind (cd_kind d)),
      (''original_estimated_tokens'', ser_u (cd_original_estimated_tokens d)),
      (''retained_estimated_tokens'', ser_u (cd_retained_estimated_tokens d))]) ds)"

fun ser_tool :: "discovery_tool \<Rightarrow> ser" where
  "ser_tool Tool_ListFiles = Ser_Str ''list_files''"
| "ser_tool Tool_SearchText = Ser_Str ''search_text''"
| "ser_tool Tool_ReadFile = Ser_Str ''read_file''"
| "ser_tool Tool_ReadFiles = Ser_Str ''read_files''"
| "ser_tool Tool_RelatedTests = Ser_Str ''related_tests''"
| "ser_tool Tool_RecordImpactMap = Ser_Str ''record_impact_map''"

definition ser_authorization :: "tool_authorization \<Rightarrow> ser" where
  "ser_authorization a = Ser_Struct
     [(''tool'', ser_tool (tz_tool a)), (''permitted_paths'', ser_strs (tz_permitted_paths a)),
      (''search_id'', ser_opt (tz_search_id a)),
      (''relationship_question_id'', ser_opt (tz_relationship_question_id a))]"

fun ser_tool_choice :: "tool_choice \<Rightarrow> ser" where
  "ser_tool_choice Choice_Required = Ser_Struct [(''kind'', Ser_Str ''required'')]"
| "ser_tool_choice (Choice_Named tool) = Ser_Struct [(''kind'', Ser_Str ''named''), (''tool'', ser_tool tool)]"

section \<open>What an action must be shown\<close>

text \<open>
  \<open>ordered_discovery_evidence\<close>: a stable sort by several keys is one sort for each key, the last key first.
  \<open>relationship_kind_index\<close> is the derived order of the enum.
\<close>

fun relationship_kind_index :: "relationship_kind \<Rightarrow> nat" where
  "relationship_kind_index Rel_Imports = 0"
| "relationship_kind_index Rel_ImportedBy = 1"
| "relationship_kind_index Rel_Defines = 2"
| "relationship_kind_index Rel_Tests = 3"
| "relationship_kind_index Rel_TestedBy = 4"
| "relationship_kind_index Rel_Configures = 5"
| "relationship_kind_index Rel_GeneratedFrom = 6"
| "relationship_kind_index Rel_Related = 7"

definition ordered_discovery_evidence :: "discovery_state \<Rightarrow> evidence_id list" where
  "ordered_discovery_evidence s =
     map se_evidence_id (bt_values (ds_completed_searches s)) @
     map cp_evidence_id (sort_key cp_rank (sort_key cp_path (sort_key cp_evidence_id (bt_values (ds_candidates s))))) @
     map fe_evidence_id (sort_key fe_path (sort_key (\<lambda>e. lr_start (fe_line_range e))
       (sort_key (\<lambda>e. lr_end_inclusive (fe_line_range e)) (sort_key fe_evidence_id (bt_values (ds_file_evidence s)))))) @
     map re_evidence_id (sort_key re_from (sort_key re_to (sort_key (\<lambda>e. relationship_kind_index (re_kind e))
       (sort_key re_evidence_id (bt_values (ds_relationships s))))))"

definition invalid_context :: "string \<Rightarrow> discovery_error + 'a" where
  "invalid_context code = Inl (Disc_InvalidContext code)"

definition invalid_action :: "string \<Rightarrow> discovery_error + 'a" where
  "invalid_action code = Inl (Disc_InvalidAction code)"

definition context_candidate :: "discovery_state \<Rightarrow> discovery_path \<Rightarrow> discovery_error + candidate_evidence" where
  "context_candidate s path =
     ok_or (Disc_InvalidContext ''grounding_context_candidate_missing'') (map_of (ds_candidates s) path)"

definition relationship_evidence_ids_for :: "discovery_state \<Rightarrow> unresolved_question \<Rightarrow> evidence_id list" where
  "relationship_evidence_ids_for s q = bset_of
     ((case map_of (ds_candidates s) (uq_subject_path q) of None \<Rightarrow> [] | Some c \<Rightarrow> [cp_evidence_id c]) @
      (case least_of (map fe_evidence_id (filter (\<lambda>e. fe_path e = uq_subject_path q)
          (bt_values (ds_file_evidence s)))) of None \<Rightarrow> [] | Some i \<Rightarrow> [i]))"

definition mandatory_evidence_for_action ::
  "discovery_state \<Rightarrow> discovery_constraints \<Rightarrow> discovery_error + evidence_id list" where
  "mandatory_evidence_for_action s constraints = (case constraints of
       Con_Search request \<Rightarrow> Inr (sr_context_evidence_ids request)
     | Con_ExactPaths paths \<Rightarrow>
         if paths = [] then invalid_context ''grounding_context_candidates_missing''
         else bnd (map_res (context_candidate s) paths) (\<lambda>cs. Inr (bset_of (map cp_evidence_id cs)))
     | Con_NamedRelationship question paths t \<Rightarrow>
         if map_of (ds_unresolved_questions s) (uq_id question) \<noteq> Some question
         then invalid_context ''relationship_context_question_missing''
         else Inr (relationship_evidence_ids_for s question)
     | Con_ImpactMap criterion_ids evidence_ids \<Rightarrow>
         if evidence_ids = [] then invalid_context ''impact_map_context_evidence_missing'' else Inr evidence_ids)"

definition mandatory_question_for_action ::
  "discovery_state \<Rightarrow> discovery_constraints \<Rightarrow> discovery_error + question_id option" where
  "mandatory_question_for_action s constraints = (case constraints of
       Con_NamedRelationship question paths t \<Rightarrow>
         if map_of (ds_unresolved_questions s) (uq_id question) \<noteq> Some question
         then invalid_context ''relationship_context_question_missing'' else Inr (Some (uq_id question))
     | _ \<Rightarrow> Inr None)"

definition relevant_criteria_for_action ::
  "discovery_state \<Rightarrow> discovery_constraints \<Rightarrow> discovery_error + criterion_id list" where
  "relevant_criteria_for_action s constraints =
     bnd (case constraints of
         Con_Search request \<Rightarrow> Inr (sr_criterion_ids request)
       | Con_ExactPaths paths \<Rightarrow>
           bnd (map_res (context_candidate s) paths) (\<lambda>cs. Inr (bset_of (concat (map cp_criterion_ids cs))))
       | Con_NamedRelationship question paths t \<Rightarrow> Inr (uq_criterion_ids question)
       | Con_ImpactMap criterion_ids evidence_ids \<Rightarrow> Inr criterion_ids) (\<lambda>selected.
     if selected = [] then invalid_context ''action_context_criteria_missing'' else Inr selected)"

section \<open>The token estimate\<close>

definition estimate_evidence_materialization_tokens :: "discovery_state \<Rightarrow> evidence_id \<Rightarrow> u32" where
  "estimate_evidence_materialization_tokens s evidence_id =
     (case List.find (\<lambda>e. se_evidence_id e = evidence_id) (bt_values (ds_completed_searches s)) of
        Some e \<Rightarrow> sat_add 48 (sat_mul (clip_word (length (se_matched_paths e))) 12)
      | None \<Rightarrow>
     (case List.find (\<lambda>c. cp_evidence_id c = evidence_id) (bt_values (ds_candidates s)) of
        Some c \<Rightarrow> sat_add (sat_add 48 (sat_mul (clip_word (length (cp_criterion_ids c))) 12))
          (sat_mul (clip_word (length (cp_source_search_ids c))) 8)
      | None \<Rightarrow>
     (case map_of (ds_file_evidence s) evidence_id of
        Some e \<Rightarrow> sat_add 32 (sat_mul (sat_add (sat_sub (lr_end_inclusive (fe_line_range e))
          (lr_start (fe_line_range e))) 1) 16)
      | None \<Rightarrow>
     (case map_of (ds_relationships s) evidence_id of
        Some e \<Rightarrow> sat_add 48 (sat_mul (clip_word (length (re_supporting_evidence_ids e))) 12)
      | None \<Rightarrow> 32))))"

definition section_materialization_tokens :: "discovery_state \<Rightarrow> context_section \<Rightarrow> u32" where
  "section_materialization_tokens s x = (case x of
       Sec_ProtocolInstructions h \<Rightarrow> 192
     | Sec_Goal h \<Rightarrow> 64
     | Sec_AcceptanceCriterion i \<Rightarrow> 48
     | Sec_RepositoryProfile i \<Rightarrow> 96
     | Sec_UnresolvedRelationship i \<Rightarrow> 64
     | Sec_Evidence i \<Rightarrow> estimate_evidence_materialization_tokens s i)"

definition estimate_context_section_tokens ::
  "externs \<Rightarrow> discovery_state \<Rightarrow> context_section \<Rightarrow> discovery_error + u32" where
  "estimate_context_section_tokens E s x =
     bnd (discovery_json E (ser_section x)) (\<lambda>canonical.
       let identity_tokens = sat_add (clip_word ((length canonical + 3) div 4)) 8
       in Inr (sat_add identity_tokens (section_materialization_tokens s x)))"

definition estimate_context_tokens ::
  "externs \<Rightarrow> discovery_state \<Rightarrow> context_section list \<Rightarrow> discovery_error + u32" where
  "estimate_context_tokens E s sections =
     fold_res (\<lambda>total x. bnd (estimate_context_section_tokens E s x) (\<lambda>tokens. Inr (sat_add total tokens))) 0 sections"

section \<open>The context manifest\<close>

definition manifest_identity ::
  "action_id \<Rightarrow> node_id \<Rightarrow> model_purpose \<Rightarrow> repository_revision_id \<Rightarrow> evidence_id list \<Rightarrow> context_section list \<Rightarrow>
   context_section list \<Rightarrow> u32 \<Rightarrow> u32 \<Rightarrow> compaction_decision list \<Rightarrow> string \<Rightarrow> ser" where
  "manifest_identity action_id node_id purpose revision evidence_ids mandatory optional ceiling estimated
     compaction context_hash = Ser_Tuple
     [ser_u DISCOVERY_SCHEMA_VERSION, Ser_Str action_id, Ser_Str node_id, ser_purpose purpose, Ser_Str revision,
      ser_strs evidence_ids, ser_sections mandatory, ser_sections optional, ser_u ceiling, ser_u estimated,
      ser_compaction compaction, Ser_Str context_hash]"

definition context_manifest_new ::
  "externs \<Rightarrow> action_id \<Rightarrow> node_id \<Rightarrow> model_purpose \<Rightarrow> repository_revision_id \<Rightarrow> evidence_id list \<Rightarrow>
   context_section list \<Rightarrow> context_section list \<Rightarrow> u32 \<Rightarrow> u32 \<Rightarrow> compaction_decision list \<Rightarrow> string \<Rightarrow>
   discovery_error + context_manifest" where
  "context_manifest_new E action_id node_id purpose revision evidence_ids mandatory optional ceiling estimated
     compaction context_hash =
     bnd (disc_validate_hash ''materialized_context_hash'' context_hash) (\<lambda>_.
     if length evidence_ids > MAX_CONTEXT_EVIDENCE
     then Inl (Disc_LimitExceeded ''context.evidence_ids'' MAX_CONTEXT_EVIDENCE)
     else if length mandatory + length optional > MAX_CONTEXT_SECTIONS
     then Inl (Disc_LimitExceeded ''context.sections'' MAX_CONTEXT_SECTIONS)
     else if ceiling = 0 \<or> estimated > ceiling then invalid_context ''context_token_ceiling_exceeded''
     else bnd (discovery_json E (manifest_identity action_id node_id purpose revision evidence_ids mandatory optional
         ceiling estimated compaction context_hash)) (\<lambda>identity.
       Inr \<lparr>cm_schema_version = DISCOVERY_SCHEMA_VERSION,
         cm_context_manifest_id = epv1 E [''execution-protocol-v1:context-manifest'', identity],
         cm_action_id = action_id, cm_node_id = node_id, cm_purpose = purpose, cm_repository_revision = revision,
         cm_evidence_ids = evidence_ids, cm_mandatory_sections = mandatory, cm_optional_sections = optional,
         cm_input_token_ceiling = ceiling, cm_estimated_input_tokens = estimated, cm_compaction = compaction,
         cm_materialized_context_hash = context_hash\<rparr>))"

definition compaction_invalid :: "context_section list \<Rightarrow> compaction_decision \<Rightarrow> bool" where
  "compaction_invalid sections d \<longleftrightarrow>
     cd_retained_estimated_tokens d > cd_original_estimated_tokens d \<or>
     (case cd_kind d of
        OmittedOptional \<Rightarrow> cd_retained_estimated_tokens d \<noteq> 0 \<or> cd_section d \<in> set sections
      | _ \<Rightarrow> cd_section d \<notin> set sections)"

definition context_manifest_validate :: "externs \<Rightarrow> context_manifest \<Rightarrow> discovery_error + unit" where
  "context_manifest_validate E m =
     (let sections = cm_mandatory_sections m @ cm_optional_sections m;
          referenced = List.map_filter (\<lambda>x. case x of Sec_Evidence i \<Rightarrow> Some i | _ \<Rightarrow> None) sections in
      if cm_schema_version m \<noteq> DISCOVERY_SCHEMA_VERSION then invalid_context ''context_schema_version_invalid''
      else if \<not> distinct sections then invalid_context ''context_section_duplicate''
      else if \<not> set referenced \<subseteq> set (cm_evidence_ids m)
      then invalid_context ''context_evidence_reference_invalid''
      else if \<not> set (cm_evidence_ids m) \<subseteq> set referenced
      then invalid_context ''context_evidence_section_missing''
      else if length (cm_compaction m) > MAX_CONTEXT_SECTIONS
      then Inl (Disc_LimitExceeded ''context.compaction'' MAX_CONTEXT_SECTIONS)
      else if \<not> distinct (map cd_section (cm_compaction m)) \<or> list_ex (compaction_invalid sections) (cm_compaction m)
      then invalid_context ''context_compaction_invalid''
      else bnd (context_manifest_new E (cm_action_id m) (cm_node_id m) (cm_purpose m) (cm_repository_revision m)
          (cm_evidence_ids m) (cm_mandatory_sections m) (cm_optional_sections m) (cm_input_token_ceiling m)
          (cm_estimated_input_tokens m) (cm_compaction m) (cm_materialized_context_hash m)) (\<lambda>rebuilt.
        require (rebuilt = m) (Disc_InvalidContext ''context_identity_mismatch'')))"

definition mandatory_sections ::
  "externs \<Rightarrow> discovery_state \<Rightarrow> criterion_id list \<Rightarrow> question_id option \<Rightarrow> evidence_id list \<Rightarrow> context_section list" where
  "mandatory_sections E s criteria question evidence =
     [Sec_ProtocolInstructions (stable_sha256 E [''execution-protocol-v1:discovery-context-schema'', ''1'']),
      Sec_Goal (dg_goal_hash (ds_goal s))] @
     map Sec_AcceptanceCriterion criteria @
     [Sec_RepositoryProfile (ds_repository_profile_id s)] @
     (case question of None \<Rightarrow> [] | Some q \<Rightarrow> [Sec_UnresolvedRelationship q]) @
     map Sec_Evidence (filter (\<lambda>i. i \<in> set evidence) (ordered_discovery_evidence s))"

text \<open>
  One optional section: it is kept while the estimate stays under the ceiling, and recorded as omitted otherwise.
  The code's list of optional candidates is empty; the loop over it is the fold in \<open>build_discovery_context\<close>.
\<close>

definition add_optional ::
  "externs \<Rightarrow> discovery_state \<Rightarrow> u32 \<Rightarrow> u32 \<times> context_section list \<times> compaction_decision list \<Rightarrow> context_section \<Rightarrow>
   discovery_error + u32 \<times> context_section list \<times> compaction_decision list" where
  "add_optional E s ceiling acc x = (case acc of (estimated, optional, compaction) \<Rightarrow>
     bnd (estimate_context_section_tokens E s x) (\<lambda>tokens.
       if sat_add estimated tokens \<le> ceiling then Inr (sat_add estimated tokens, optional @ [x], compaction)
       else Inr (estimated, optional, compaction @ [\<lparr>cd_section = x, cd_kind = OmittedOptional,
         cd_original_estimated_tokens = tokens, cd_retained_estimated_tokens = 0\<rparr>])))"

definition optional_candidates :: "context_section list" where
  "optional_candidates = []"

definition build_discovery_context ::
  "externs \<Rightarrow> discovery_state \<Rightarrow> action_id \<Rightarrow> discovery_constraints \<Rightarrow> u32 \<Rightarrow> context_error + context_manifest" where
  "build_discovery_context E s action_id constraints ceiling =
     bnd (from_contract (discovery_state_validate E s)) (\<lambda>_.
     bnd (from_contract (mandatory_evidence_for_action s constraints)) (\<lambda>evidence.
     bnd (from_contract (mandatory_question_for_action s constraints)) (\<lambda>question.
     bnd (from_contract (relevant_criteria_for_action s constraints)) (\<lambda>criteria.
     let mandatory = mandatory_sections E s criteria question evidence in
     if length mandatory > MAX_CONTEXT_SECTIONS
     then Inl (Ctx_Contract (Disc_LimitExceeded ''context.mandatory_sections'' MAX_CONTEXT_SECTIONS))
     else bnd (from_contract (estimate_context_tokens E s mandatory)) (\<lambda>required_tokens.
     if required_tokens > ceiling then Inl (Ctx_MandatoryTooLarge required_tokens ceiling)
     else bnd (from_contract (fold_res (add_optional E s ceiling) (required_tokens, [], [])
         (take (MAX_CONTEXT_SECTIONS - length mandatory) optional_candidates))) (\<lambda>(estimated, optional, compaction).
     bnd (from_contract (discovery_json E (Ser_Tuple
         [ser_u DISCOVERY_SCHEMA_VERSION, Ser_Str action_id, Ser_Str (ds_node_id s), ser_constraints constraints,
          Ser_Str (ds_repository_revision s), ser_sections mandatory, ser_sections optional, ser_u ceiling,
          ser_u estimated, ser_compaction compaction]))) (\<lambda>materialized_identity.
     from_contract (bnd (context_manifest_new E action_id (ds_node_id s) (purpose_of (constraints_class constraints))
         (ds_repository_revision s)
         (bset_of (List.map_filter (\<lambda>x. case x of Sec_Evidence i \<Rightarrow> Some i | _ \<Rightarrow> None) (mandatory @ optional)))
         mandatory optional ceiling estimated compaction
         (stable_sha256 E [''execution-protocol-v1:discovery-materialized-context'', materialized_identity]))
       (\<lambda>manifest. bnd (context_manifest_validate E manifest) (\<lambda>_. Inr manifest)))))))))) "

section \<open>The action envelope\<close>

definition validate_action_paths :: "discovery_path list \<Rightarrow> discovery_error + unit" where
  "validate_action_paths paths =
     (if paths = [] then invalid_action ''action_paths_empty''
      else if length paths > MAX_ACTION_PATHS then Inl (Disc_LimitExceeded ''action.paths'' MAX_ACTION_PATHS)
      else Inr ())"

definition authorize :: "discovery_tool \<Rightarrow> discovery_path list \<Rightarrow> search_id option \<Rightarrow> question_id option \<Rightarrow> tool_authorization" where
  "authorize tool paths search_id question_id = \<lparr>tz_tool = tool, tz_permitted_paths = paths,
     tz_search_id = search_id, tz_relationship_question_id = question_id\<rparr>"

definition read_tool :: "discovery_path list \<Rightarrow> discovery_tool" where
  "read_tool paths = (if length paths = 1 then Tool_ReadFile else Tool_ReadFiles)"

definition authorize_tools ::
  "externs \<Rightarrow> discovery_constraints \<Rightarrow> discovery_error + discovery_action \<times> tool_authorization list \<times> tool_choice" where
  "authorize_tools E constraints = (case constraints of
       Con_Search request \<Rightarrow>
         bnd (search_request_validate E request) (\<lambda>_.
         let paths = sc_roots (sr_scope request); search_id = Some (sr_search_id request) in
         Inr (Act_DiscoverCandidates,
           [authorize Tool_ListFiles paths search_id None, authorize Tool_SearchText paths search_id None],
           Choice_Required))
     | Con_ExactPaths paths \<Rightarrow>
         bnd (validate_action_paths paths) (\<lambda>_.
         Inr (Act_GroundCandidateEvidence, [authorize (read_tool paths) paths None None], Choice_Named (read_tool paths)))
     | Con_NamedRelationship question paths targeted_search \<Rightarrow>
         bnd (validate_action_paths paths) (\<lambda>_.
         bnd (case targeted_search of None \<Rightarrow> Inr () | Some search \<Rightarrow> search_request_validate E search) (\<lambda>_.
         let question_id = Some (uq_id question) in
         Inr (Act_ResolveNamedRelationship,
           [authorize Tool_RelatedTests paths None question_id] @
           (case targeted_search of None \<Rightarrow> []
            | Some search \<Rightarrow> [authorize Tool_SearchText (sc_roots (sr_scope search)) (Some (sr_search_id search)) question_id]) @
           [authorize (read_tool paths) paths None question_id], Choice_Required)))
     | Con_ImpactMap criterion_ids evidence_ids \<Rightarrow>
         if criterion_ids = [] \<or> evidence_ids = [] then invalid_action ''impact_map_inputs_empty''
         else Inr (Act_RecordImpactMap, [authorize Tool_RecordImpactMap [] None None], Choice_Named Tool_RecordImpactMap))"

definition context_criteria :: "context_manifest \<Rightarrow> criterion_id list" where
  "context_criteria m = bset_of
     (List.map_filter (\<lambda>x. case x of Sec_AcceptanceCriterion i \<Rightarrow> Some i | _ \<Rightarrow> None) (cm_mandatory_sections m))"

definition constraints_bound ::
  "repository_revision_id \<Rightarrow> context_manifest \<Rightarrow> discovery_constraints \<Rightarrow> discovery_error + unit" where
  "constraints_bound revision m constraints = (case constraints of
       Con_Search request \<Rightarrow>
         if sr_repository_revision request \<noteq> revision then Inl Disc_RepositoryRevisionMismatch
         else if sr_criterion_ids request \<noteq> context_criteria m \<or> sr_context_evidence_ids request \<noteq> cm_evidence_ids m
         then invalid_action ''search_context_binding_mismatch''
         else Inr ()
     | Con_NamedRelationship question paths targeted_search \<Rightarrow>
         if Sec_UnresolvedRelationship (uq_id question) \<notin> set (cm_mandatory_sections m) \<or>
            uq_subject_path question \<notin> set paths \<or>
            (case targeted_search of None \<Rightarrow> False
             | Some search \<Rightarrow> sr_repository_revision search \<noteq> revision \<or>
                 \<not> set (sr_context_evidence_ids search) \<subseteq> set (cm_evidence_ids m))
         then invalid_action ''relationship_action_binding_invalid''
         else Inr ()
     | Con_ImpactMap criterion_ids evidence_ids \<Rightarrow>
         if length evidence_ids > MAX_CONTEXT_EVIDENCE \<or> \<not> set evidence_ids \<subseteq> set (cm_evidence_ids m)
         then invalid_action ''impact_map_context_evidence_mismatch''
         else Inr ()
     | Con_ExactPaths paths \<Rightarrow> Inr ())"

definition action_envelope_new ::
  "externs \<Rightarrow> action_id \<Rightarrow> node_id \<Rightarrow> repository_revision_id \<Rightarrow> context_manifest \<Rightarrow> discovery_constraints \<Rightarrow> u32 \<Rightarrow>
   u32 \<Rightarrow> node_id \<Rightarrow> string \<Rightarrow> discovery_error + action_envelope" where
  "action_envelope_new E action_id node_id revision context constraints ceiling allowance budget_owner reservation_id =
     bnd (context_manifest_validate E context) (\<lambda>_.
     if cm_action_id context \<noteq> action_id \<or> cm_node_id context \<noteq> node_id \<or> cm_repository_revision context \<noteq> revision
     then invalid_context ''action_context_binding_mismatch''
     else if budget_owner \<noteq> node_id then invalid_action ''discovery_budget_owner_mismatch''
     else if ceiling = 0 \<or> ceiling > cm_input_token_ceiling context \<or> cm_estimated_input_tokens context > ceiling \<or>
       allowance = 0
     then invalid_action ''action_token_allowance_invalid''
     else bnd (authorize_tools E constraints) (\<lambda>(action_class, allowed_tools, tool_choice).
     bnd (constraints_bound revision context constraints) (\<lambda>_.
     if cm_purpose context \<noteq> purpose_of action_class then invalid_context ''action_context_purpose_mismatch''
     else bnd (discovery_json E (Ser_Tuple
         [ser_u DISCOVERY_SCHEMA_VERSION, Ser_Str action_id, Ser_Str node_id, ser_action_class action_class,
          Ser_Str revision, Ser_Str (cm_context_manifest_id context), ser_constraints constraints,
          Ser_Tuple (map ser_authorization allowed_tools), ser_tool_choice tool_choice, ser_u ceiling, ser_u allowance,
          Ser_Str budget_owner, Ser_Str reservation_id])) (\<lambda>identity.
       Inr \<lparr>ae_schema_version = DISCOVERY_SCHEMA_VERSION, ae_action_id = action_id, ae_node_id = node_id,
         ae_action_class = action_class, ae_repository_revision = revision,
         ae_context_manifest_id = cm_context_manifest_id context, ae_constraints = constraints,
         ae_allowed_tools = allowed_tools, ae_tool_choice = tool_choice, ae_input_token_ceiling = ceiling,
         ae_output_token_allowance = allowance, ae_budget_owner = budget_owner, ae_reservation_id = reservation_id,
         ae_payload_identity = stable_sha256 E [''execution-protocol-v1:discovery-provider-payload'', identity]\<rparr>))))"

definition envelope_validate_against_context ::
  "externs \<Rightarrow> action_envelope \<Rightarrow> context_manifest \<Rightarrow> discovery_error + unit" where
  "envelope_validate_against_context E e context =
     (if ae_schema_version e \<noteq> DISCOVERY_SCHEMA_VERSION then invalid_action ''action_schema_version_invalid''
      else bnd (action_envelope_new E (ae_action_id e) (ae_node_id e) (ae_repository_revision e) context (ae_constraints e)
          (ae_input_token_ceiling e) (ae_output_token_allowance e) (ae_budget_owner e) (ae_reservation_id e)) (\<lambda>rebuilt.
        require (rebuilt = e) (Disc_InvalidAction ''action_envelope_not_canonical'')))"

end
