(* ===== verification/Discovery_Reducer.thy ===== *)
theory Discovery_Reducer
  imports Discovery_Action
begin

text \<open>
  The discovery handlers of the aggregate (\<open>apply_discovery_event\<close> and what it calls in
  \<open>src/execution_protocol/reducer.rs\<close>). \<open>discovery_execution\<close> extends the aggregate state with the discovery
  state and the current action. The budget reads the current action as \<open>es_discovery_action\<close>, the part of
  \<open>dx_prepared\<close> it needs; \<open>set_action\<close> and \<open>clear_action\<close> change both. Where the reducer would panic on a missing
  discovery state behind a guard that has found one, the model (\<open>the_discovery\<close>) has the error
  \<open>discovery_state_missing\<close>.
\<close>

record prepared_discovery_action =
  pd_context :: context_manifest
  pd_envelope :: action_envelope
  pd_admission :: admission

record discovery_execution = execution_state +
  dx_execution_id :: execution_id
  dx_execution_attempt :: u32
  dx_repository_revision :: repository_revision_id
  dx_profile_id :: "repository_profile_id option"
  dx_requested_goal :: "discovery_goal option option"
  dx_discovery :: "discovery_state option"
  dx_prepared :: "prepared_discovery_action option"

text \<open>
  \<open>dx_requested_goal\<close> is \<open>None\<close> outside the mode \<open>StrictV1\<close> and \<open>Some\<close> of \<open>requested_discovery_goal\<close> in it.
\<close>

definition contract :: "string \<Rightarrow> protocol_violation" where
  "contract code = V_DiscoveryContract code"

definition from_discovery :: "discovery_error + 'a \<Rightarrow> protocol_violation + 'a" where
  "from_discovery r = map_err (\<lambda>e. V_DiscoveryContract (discovery_error_code e)) r"

definition DISCOVERY_NODE :: node_id where "DISCOVERY_NODE = ''protocol-v1:discovery''"

section \<open>Guards\<close>

definition require_active_discovery_node :: "discovery_execution \<Rightarrow> protocol_violation + unit" where
  "require_active_discovery_node s =
     (if position_stage (es_position s) \<noteq> St_Discovery then Inl (contract ''discovery_event_outside_discovery'')
      else (case active_node (execution_state.truncate s) of
          None \<Rightarrow> Inl (contract ''discovery_event_without_active_node'')
        | Some n \<Rightarrow> if en_kind n \<noteq> K_Discovery \<or> en_id n \<noteq> DISCOVERY_NODE
            then Inl (contract ''discovery_event_owner_mismatch'') else Inr ()))"

definition require_current_discovery_action ::
  "discovery_execution \<Rightarrow> action_id \<Rightarrow> protocol_violation + prepared_discovery_action" where
  "require_current_discovery_action s action_id =
     bnd (require_active_discovery_node s) (\<lambda>_.
     bnd (ok_or (contract ''discovery_action_missing'') (dx_prepared s)) (\<lambda>prepared.
     if ae_action_id (pd_envelope prepared) \<noteq> action_id then Inl (contract ''discovery_action_identity_mismatch'')
     else Inr prepared))"

definition require_consumed_discovery_action ::
  "discovery_execution \<Rightarrow> action_id \<Rightarrow> protocol_violation + prepared_discovery_action" where
  "require_consumed_discovery_action s action_id =
     bnd (require_current_discovery_action s action_id) (\<lambda>prepared.
     let call_id = ad_call_id (pd_admission prepared) in
     (case map_of (bl_model_calls (es_budgets s)) call_id of
        None \<Rightarrow> Inl (V_ModelCallLifecycle call_id ''discovery_observation_without_call'')
      | Some call \<Rightarrow> (case cr_state call of
            ReconciledConsumed cost ms \<Rightarrow> Inr prepared
          | _ \<Rightarrow> Inl (V_ModelCallLifecycle call_id
              ''discovery_observation_before_consumed_reconciliation''))))"

definition clear_action :: "discovery_execution \<Rightarrow> discovery_execution" where
  "clear_action s = s\<lparr>es_discovery_action := None, dx_prepared := None\<rparr>"

definition budget_view :: "prepared_discovery_action \<Rightarrow> prepared_action" where
  "budget_view p = \<lparr>pa_payload_identity = ae_payload_identity (pd_envelope p),
     pa_envelope_call_id = ae_reservation_id (pd_envelope p), pa_admission = pd_admission p\<rparr>"

definition set_action :: "prepared_discovery_action \<Rightarrow> discovery_execution \<Rightarrow> discovery_execution" where
  "set_action p s = s\<lparr>es_discovery_action := Some (budget_view p), dx_prepared := Some p\<rparr>"

text \<open>The last statement of a handler, \<open>discovery.validate()?\<close>.\<close>

definition commit_discovery ::
  "externs \<Rightarrow> discovery_execution \<Rightarrow> discovery_state \<Rightarrow> protocol_violation + discovery_execution" where
  "commit_discovery E s d =
     bnd (from_discovery (discovery_state_validate E d)) (\<lambda>_. Inr (s\<lparr>dx_discovery := Some d\<rparr>))"

definition the_discovery :: "discovery_execution \<Rightarrow> protocol_violation + discovery_state" where
  "the_discovery s = ok_or (contract ''discovery_state_missing'') (dx_discovery s)"

section \<open>The remaining budget\<close>

record discovery_remaining =
  dr_model_calls :: u32
  dr_cost_micros :: u64
  dr_duration_ms :: u64

definition discovery_budget_remaining ::
  "discovery_execution \<Rightarrow> node_id \<Rightarrow> protocol_violation + discovery_remaining" where
  "discovery_budget_remaining s node_id = (case map_of (es_nodes s) node_id of
       None \<Rightarrow> Inl (V_UnknownNode node_id)
     | Some n \<Rightarrow> (let nb = en_budget n; nu = en_usage n; mb = es_mission_budget s;
           mu = bl_mission_usage (es_budgets s) in
         Inr \<lparr>dr_model_calls =
             min (sat_sub (nb_max_model_calls nb) (sat_add (bu_model_calls_consumed nu) (bu_model_calls_reserved nu)))
               (sat_sub (mb_max_model_calls mb) (sat_add (bu_model_calls_consumed mu) (bu_model_calls_reserved mu))),
           dr_cost_micros =
             min (sat_sub (nb_max_cost_micros nb) (sat_add (bu_cost_micros_consumed nu) (bu_cost_micros_reserved nu)))
               (sat_sub (mb_max_cost_micros mb) (sat_add (bu_cost_micros_consumed mu) (bu_cost_micros_reserved mu))),
           dr_duration_ms =
             min (sat_sub (nb_max_duration_ms nb) (sat_add (bu_duration_ms_consumed nu) (bu_duration_ms_reserved nu)))
               (sat_sub (mb_max_duration_ms mb) (sat_add (bu_duration_ms_consumed mu) (bu_duration_ms_reserved mu)))\<rparr>))"

definition remaining_is_exhausted :: "discovery_remaining \<Rightarrow> bool" where
  "remaining_is_exhausted r \<longleftrightarrow> dr_model_calls r = 0 \<or> dr_cost_micros r = 0 \<or> dr_duration_ms r = 0"

definition admissible_model_calls :: "discovery_remaining \<Rightarrow> u32" where
  "admissible_model_calls r = (if remaining_is_exhausted r then 0 else dr_model_calls r)"

section \<open>Preparing an action\<close>

definition from_context :: "context_error + 'a \<Rightarrow> protocol_violation + 'a" where
  "from_context r = map_err (\<lambda>e. case e of
       Ctx_Contract d \<Rightarrow> V_DiscoveryContract (discovery_error_code d)
     | Ctx_MandatoryTooLarge required ceiling \<Rightarrow> V_ContextTooLarge required ceiling) r"

definition known_evidence :: "discovery_state \<Rightarrow> evidence_id set" where
  "known_evidence d = set (map se_evidence_id (bt_values (ds_completed_searches d)) @
     map cp_evidence_id (bt_values (ds_candidates d)) @ bt_keys (ds_file_evidence d) @ bt_keys (ds_relationships d))"

definition validate_discovery_action_constraints ::
  "discovery_state \<Rightarrow> action_envelope \<Rightarrow> protocol_violation + unit" where
  "validate_discovery_action_constraints d envelope = (case ae_constraints envelope of
       Con_Search request \<Rightarrow>
         if sr_repository_profile_id request \<noteq> ds_repository_profile_id d \<or>
            sr_repository_revision request \<noteq> ds_repository_revision d \<or>
            \<not> set (sr_context_evidence_ids request) \<subseteq> known_evidence d
         then Inl (contract ''discovery_search_profile_binding_mismatch'')
         else (case classify_search d request of
             DuplicateCompleted search_id \<Rightarrow> Inl (V_DuplicateSearch search_id)
           | SearchNew search_id \<Rightarrow> Inr ())
     | Con_ExactPaths paths \<Rightarrow>
         require (paths = bset_of (ranked_candidate_paths d)) (contract ''discovery_read_paths_not_ranked_candidates'')
     | Con_NamedRelationship question paths targeted_search \<Rightarrow>
         if (case bt_values (ds_unresolved_questions d) of [] \<Rightarrow> None | q # qs \<Rightarrow> Some q) \<noteq> Some question \<or>
            paths \<noteq> [uq_subject_path question] \<or> map_of (ds_candidates d) (uq_subject_path question) = None \<or>
            targeted_search \<noteq> None
         then Inl (contract ''discovery_relationship_action_not_authoritative'')
         else Inr ()
     | Con_ImpactMap criterion_ids evidence_ids \<Rightarrow>
         if criterion_ids \<noteq> dg_criterion_ids (ds_goal d) \<or> evidence_ids = [] \<or>
            evidence_ids \<noteq> impact_map_evidence_ids d
         then Inl (contract ''discovery_impact_map_inputs_not_authoritative'')
         else Inr ())"

text \<open>The first criterion and term, in this order, that no completed search covers.\<close>

definition search_completed :: "discovery_state \<Rightarrow> criterion_id \<times> string \<Rightarrow> bool" where
  "search_completed d x \<longleftrightarrow> list_ex (\<lambda>e. sr_criterion_ids (se_request e) = [fst x] \<and>
     sr_normalized_query (se_request e) = snd x) (bt_values (ds_completed_searches d))"

definition selected_search :: "discovery_state \<Rightarrow> (criterion_id \<times> string) option" where
  "selected_search d = List.find (\<lambda>x. \<not> search_completed d x)
     (List.product (dg_criterion_ids (ds_goal d)) (dg_normalized_search_terms (ds_goal d)))"

definition authoritative_constraints ::
  "externs \<Rightarrow> discovery_state \<Rightarrow> discovery_action \<Rightarrow> protocol_violation + discovery_constraints" where
  "authoritative_constraints E d action_class = (case action_class of
       Act_DiscoverCandidates \<Rightarrow>
         bnd (ok_or (contract ''discovery_search_terms_exhausted'') (selected_search d)) (\<lambda>(criterion_id, term).
         bnd (from_discovery (search_request_new E (ds_repository_revision d) (ds_repository_profile_id d) [criterion_id]
             term scope_repository [] LiteralCaseInsensitive [])) (\<lambda>request.
           Inr (Con_Search request)))
     | Act_GroundCandidateEvidence \<Rightarrow> Inr (Con_ExactPaths (bset_of (ranked_candidate_paths d)))
     | Act_ResolveNamedRelationship \<Rightarrow>
         (case bt_values (ds_unresolved_questions d) of
            [] \<Rightarrow> Inl (contract ''discovery_relationship_question_missing'')
          | question # rest \<Rightarrow> Inr (Con_NamedRelationship question [uq_subject_path question] None))
     | Act_RecordImpactMap \<Rightarrow> Inr (Con_ImpactMap (dg_criterion_ids (ds_goal d)) (impact_map_evidence_ids d)))"

text \<open>The text of a \<open>serde_json\<close> error is not modelled; the violation carries the empty text.\<close>

definition discovery_action_identity ::
  "externs \<Rightarrow> discovery_execution \<Rightarrow> discovery_state \<Rightarrow> u32 \<Rightarrow> nat \<Rightarrow> discovery_constraints \<Rightarrow>
   protocol_violation + action_id" where
  "discovery_action_identity E s d attempt action_ordinal constraints =
     bnd (ok_or (V_EventSerialization []) (to_json E (ser_constraints constraints))) (\<lambda>constraints_identity.
       Inr (epv1 E [''execution-protocol-v1:discovery-action'', dx_execution_id s,
         decimal (unat (dx_execution_attempt s)), ds_node_id d, decimal (unat attempt), decimal action_ordinal,
         dx_repository_revision s, constraints_identity]))"

definition action_ordinal_of :: "discovery_execution \<Rightarrow> discovery_state \<Rightarrow> nat" where
  "action_ordinal_of s d = length (filter (\<lambda>r. ad_node_id (cr_admission r) = ds_node_id d)
     (bt_values (bl_model_calls (es_budgets s)))) + 1"

definition authoritative_prepared_discovery_action ::
  "externs \<Rightarrow> discovery_execution \<Rightarrow> protocol_violation + prepared_discovery_action" where
  "authoritative_prepared_discovery_action E s =
     bnd (the_discovery s) (\<lambda>d.
     bnd (require_active_discovery_node s) (\<lambda>_.
     if dx_prepared s \<noteq> None then Inl (contract ''discovery_action_already_active'')
     else bnd (ok_or (V_UnknownNode (ds_node_id d)) (map_of (es_nodes s) (ds_node_id d))) (\<lambda>n.
     bnd (case en_state n of Active attempt \<Rightarrow> Inr attempt
         | _ \<Rightarrow> Inl (V_InvalidNodeState (en_id n) ''discovery_action_owner_not_active'')) (\<lambda>attempt.
     bnd (discovery_budget_remaining s (ds_node_id d)) (\<lambda>remaining.
     bnd (case select_next_discovery_step d (admissible_model_calls remaining) of
           Next_Action action_class \<Rightarrow> Inr action_class
         | Next_Converge c \<Rightarrow> Inl (contract ''discovery_action_prepared_when_convergence_required'')) (\<lambda>action_class.
     bnd (authoritative_constraints E d action_class) (\<lambda>constraints.
     bnd (discovery_action_identity E s d attempt (action_ordinal_of s d) constraints) (\<lambda>action_id.
     let reservation = epv1 E [''execution-protocol-v1:discovery-reservation'', action_id, ds_node_id d,
           decimal (action_ordinal_of s d)] in
     bnd (from_context (build_discovery_context E d action_id constraints
         (nb_max_input_tokens_per_call (en_budget n)))) (\<lambda>context.
     bnd (from_discovery (action_envelope_new E action_id (ds_node_id d) (dx_repository_revision s) context constraints
         (nb_max_input_tokens_per_call (en_budget n)) (nb_max_output_tokens_per_call (en_budget n)) (ds_node_id d)
         reservation)) (\<lambda>envelope.
     Inr \<lparr>pd_context = context, pd_envelope = envelope, pd_admission =
       \<lparr>ad_call_id = reservation, ad_node_id = ds_node_id d, ad_action_id = action_id,
         ad_payload_hash = ae_payload_identity envelope, ad_input_tokens = cm_estimated_input_tokens context,
         ad_output_tokens = ae_output_token_allowance envelope, ad_reserved_cost_micros = dr_cost_micros remaining,
         ad_duration_allowance_ms = dr_duration_ms remaining\<rparr>\<rparr>))))))))))"

definition admission_binds :: "discovery_execution \<Rightarrow> discovery_state \<Rightarrow> prepared_discovery_action \<Rightarrow> bool" where
  "admission_binds s d p \<longleftrightarrow> (let context = pd_context p; envelope = pd_envelope p; admission = pd_admission p in
     ae_node_id envelope = ds_node_id d \<and> ae_repository_revision envelope = dx_repository_revision s \<and>
     ae_budget_owner envelope = ds_node_id d \<and> ad_node_id admission = ds_node_id d \<and>
     ad_action_id admission = ae_action_id envelope \<and> ad_call_id admission = ae_reservation_id envelope \<and>
     ad_payload_hash admission = ae_payload_identity envelope \<and>
     ad_input_tokens admission = cm_estimated_input_tokens context \<and>
     ad_output_tokens admission = ae_output_token_allowance envelope)"

definition prepare_discovery_action ::
  "externs \<Rightarrow> discovery_execution \<Rightarrow> prepared_discovery_action \<Rightarrow> protocol_violation + discovery_execution" where
  "prepare_discovery_action E s prepared =
     bnd (require_active_discovery_node s) (\<lambda>_.
     if dx_prepared s \<noteq> None then Inl (contract ''discovery_action_already_active'')
     else bnd (the_discovery s) (\<lambda>d.
     if ds_convergence d \<noteq> None then Inl (contract ''discovery_action_after_convergence'')
     else bnd (from_discovery (context_manifest_validate E (pd_context prepared))) (\<lambda>_.
     bnd (from_discovery (envelope_validate_against_context E (pd_envelope prepared) (pd_context prepared))) (\<lambda>_.
     if \<not> admission_binds s d prepared then Inl (contract ''discovery_action_admission_binding_mismatch'')
     else bnd (validate_discovery_action_constraints d (pd_envelope prepared)) (\<lambda>_.
     bnd (discovery_budget_remaining s (ds_node_id d)) (\<lambda>remaining.
     bnd (case select_next_discovery_step d (admissible_model_calls remaining) of
           Next_Action action_class \<Rightarrow> Inr action_class
         | Next_Converge c \<Rightarrow> Inl (contract ''discovery_action_prepared_when_convergence_required'')) (\<lambda>expected_class.
     if ae_action_class (pd_envelope prepared) \<noteq> expected_class
     then Inl (contract ''discovery_action_class_not_authoritative'')
     else bnd (authoritative_prepared_discovery_action E s) (\<lambda>expected.
     if prepared \<noteq> expected then Inl (contract ''discovery_action_not_authoritative'')
     else Inr (set_action prepared s)))))))))"

section \<open>The candidate projection\<close>

definition max_rank :: "discovery_state \<Rightarrow> u32" where
  "max_rank d = foldl max 0 (map cp_rank (bt_values (ds_candidates d)))"

definition new_candidate :: "discovery_state \<Rightarrow> discovery_path \<Rightarrow> u32 \<Rightarrow> candidate_evidence" where
  "new_candidate d path rank = \<lparr>cp_schema_version = DISCOVERY_SCHEMA_VERSION,
     cp_evidence_id = ''pending:candidate-evidence'', cp_producer_node_id = ds_node_id d,
     cp_repository_revision = ds_repository_revision d, cp_path = path, cp_rank = rank, cp_reasons = [],
     cp_source_search_ids = [], cp_criterion_ids = []\<rparr>"

text \<open>A \<open>BTreeSet<CandidateReason>\<close> in declaration order, of which \<open>SearchMatch\<close> is the least.\<close>

definition add_search :: "search_id \<Rightarrow> search_evidence \<Rightarrow> candidate_evidence \<Rightarrow> candidate_evidence" where
  "add_search search_id search c = c\<lparr>
     cp_reasons := (if SearchMatch \<in> set (cp_reasons c) then cp_reasons c else SearchMatch # cp_reasons c),
     cp_source_search_ids := bset_of (search_id # cp_source_search_ids c),
     cp_criterion_ids := bset_of (sr_criterion_ids (se_request search) @ cp_criterion_ids c)\<rparr>"

type_synonym projection = "u32 \<times> nat \<times> candidate_evidence list"

definition project_path ::
  "externs \<Rightarrow> discovery_state \<Rightarrow> search_id \<Rightarrow> search_evidence \<Rightarrow> projection \<Rightarrow> discovery_path \<Rightarrow>
   protocol_violation + projection" where
  "project_path E d search_id search acc path = (case acc of (next_rank, remaining_new, projected) \<Rightarrow>
     let push = (\<lambda>next_rank' remaining' c.
           bnd (from_discovery (candidate_canonicalize_id E (add_search search_id search c))) (\<lambda>c'.
             Inr (next_rank', remaining',
               if map_of (ds_candidates d) path \<noteq> Some c' then projected @ [c'] else projected)))
     in case map_of (ds_candidates d) path of
         Some existing \<Rightarrow> push next_rank remaining_new existing
       | None \<Rightarrow>
           if remaining_new = 0 then Inr acc
           else push (sat_add next_rank 1) (remaining_new - 1) (new_candidate d path next_rank))"

definition canonical_candidate_projection ::
  "externs \<Rightarrow> discovery_state \<Rightarrow> search_id \<Rightarrow> protocol_violation + candidate_evidence list" where
  "canonical_candidate_projection E d search_id = (case map_of (ds_completed_searches d) search_id of
       None \<Rightarrow> Inl (contract ''candidate_source_search_missing'')
     | Some search \<Rightarrow>
         bnd (fold_res (project_path E d search_id search)
             (sat_add (max_rank d) 1, MAX_DISCOVERY_CANDIDATES - length (ds_candidates d), [])
             (se_matched_paths search)) (\<lambda>(next_rank, remaining_new, projected). Inr projected))"

section \<open>The deterministic impact map\<close>

definition area_evidence :: "discovery_state \<Rightarrow> evidence_id list \<Rightarrow> discovery_path list \<Rightarrow> evidence_id list" where
  "area_evidence d evidence_ids paths = bset_of (filter (\<lambda>i. i \<in> set evidence_ids)
     (map fe_evidence_id (filter (\<lambda>e. fe_path e \<in> set paths) (bt_values (ds_file_evidence d))) @
      map re_evidence_id (filter (\<lambda>e. re_from e \<in> set paths \<or> re_to e \<in> set paths)
        (bt_values (ds_relationships d)))))"

definition deterministic_area ::
  "discovery_state \<Rightarrow> evidence_id list \<Rightarrow> criterion_id \<times> discovery_path list \<Rightarrow>
   protocol_violation + impact_area" where
  "deterministic_area d evidence_ids entry = (case entry of (criterion_id, paths) \<Rightarrow>
     if paths = [] \<or> area_evidence d evidence_ids paths = []
     then Inl (contract ''deterministic_impact_area_has_no_grounding'')
     else Inr \<lparr>ia_criterion_id = criterion_id, ia_paths = paths,
       ia_evidence_ids = area_evidence d evidence_ids paths, ia_confidence = Confidence_Medium\<rparr>)"

definition deterministic_discovery_impact_map ::
  "externs \<Rightarrow> discovery_execution \<Rightarrow> protocol_violation + impact_map_evidence" where
  "deterministic_discovery_impact_map E s =
     bnd (the_discovery s) (\<lambda>d. case ds_convergence d of
         Some (EvidenceSufficient paths evidence_ids) \<Rightarrow>
           bnd (map_res (deterministic_area d evidence_ids) paths) (\<lambda>areas.
             from_discovery (impact_map_new E (ds_node_id d) (ds_repository_revision d) areas []))
       | _ \<Rightarrow> Inl (contract ''deterministic_impact_map_not_available''))"


section \<open>The handlers\<close>

text \<open>
  \<open>strict_v1_discovery_goal_mismatch\<close> is the branch of a requested goal that is not the recorded one.
\<close>

definition record_discovery_goal ::
  "externs \<Rightarrow> discovery_execution \<Rightarrow> discovery_goal \<Rightarrow> protocol_violation + discovery_execution" where
  "record_discovery_goal E s goal =
     (if position_stage (es_position s) \<noteq> St_Profiling
      then Inl (contract ''discovery_goal_recorded_outside_profiling'')
      else bnd (ok_or (contract ''discovery_goal_requires_repository_profile'') (dx_profile_id s)) (\<lambda>profile_id.
      if dx_discovery s \<noteq> None then Inl (contract ''discovery_goal_already_recorded'')
      else if dx_requested_goal s \<noteq> None \<and> dx_requested_goal s \<noteq> Some (Some goal)
      then Inl (contract ''strict_v1_discovery_goal_mismatch'')
      else commit_discovery E s
        (discovery_state_new DISCOVERY_NODE (dx_repository_revision s) profile_id goal)))"

definition release_discovery_action ::
  "discovery_execution \<Rightarrow> action_id \<Rightarrow> protocol_violation + discovery_execution" where
  "release_discovery_action s action_id =
     bnd (require_current_discovery_action s action_id) (\<lambda>prepared.
     let call_id = ad_call_id (pd_admission prepared) in
     (case map_of (bl_model_calls (es_budgets s)) call_id of
        None \<Rightarrow> Inl (V_ModelCallLifecycle call_id ''discovery_action_release_without_call'')
      | Some call \<Rightarrow>
          if cr_state call \<noteq> ReconciledReleased
          then Inl (V_ModelCallLifecycle call_id ''discovery_action_release_before_reconciliation'')
          else Inr (clear_action s)))"

definition reject_discovery_action ::
  "discovery_execution \<Rightarrow> action_id \<Rightarrow> protocol_violation + discovery_execution" where
  "reject_discovery_action s action_id =
     bnd (require_consumed_discovery_action s action_id) (\<lambda>_. Inr (clear_action s))"

definition record_discovery_search ::
  "externs \<Rightarrow> discovery_execution \<Rightarrow> action_id \<Rightarrow> search_evidence \<Rightarrow>
   protocol_violation + discovery_execution" where
  "record_discovery_search E s action_id evidence =
     bnd (require_consumed_discovery_action s action_id) (\<lambda>prepared.
     (case ae_constraints (pd_envelope prepared) of
        Con_Search request \<Rightarrow>
          if request \<noteq> se_request evidence then Inl (contract ''search_observation_request_mismatch'')
          else bnd (the_discovery s) (\<lambda>d.
            let search_id = sr_search_id (se_request evidence) in
            if map_of (ds_completed_searches d) search_id \<noteq> None then Inl (V_DuplicateSearch search_id)
            else commit_discovery E (clear_action s)
              (d\<lparr>ds_completed_searches := bt_insert search_id evidence (ds_completed_searches d)\<rparr>))
      | _ \<Rightarrow> Inl (contract ''search_observation_for_non_search_action'')))"

definition insert_candidates :: "discovery_state \<Rightarrow> candidate_evidence list \<Rightarrow> discovery_state" where
  "insert_candidates d candidates = d\<lparr>ds_candidates :=
     foldl (\<lambda>m c. bt_insert (cp_path c) c m) (ds_candidates d) candidates\<rparr>"

definition record_discovery_candidates ::
  "externs \<Rightarrow> discovery_execution \<Rightarrow> search_id \<Rightarrow> candidate_evidence list \<Rightarrow>
   protocol_violation + discovery_execution" where
  "record_discovery_candidates E s search_id candidates =
     bnd (require_active_discovery_node s) (\<lambda>_.
     if es_discovery_action s \<noteq> None then Inl (contract ''candidate_projection_with_active_action'')
     else bnd (the_discovery s) (\<lambda>d.
     bnd (canonical_candidate_projection E d search_id) (\<lambda>expected.
     if candidates = [] \<or> candidates \<noteq> expected
     then Inl (contract ''candidate_projection_not_authoritative'')
     else commit_discovery E s (insert_candidates d candidates))))"

definition read_paths :: "discovery_constraints \<Rightarrow> discovery_path list option" where
  "read_paths c = (case c of
       Con_ExactPaths paths \<Rightarrow> Some paths
     | Con_NamedRelationship q paths t \<Rightarrow> Some paths
     | _ \<Rightarrow> None)"

definition question_observation_invalid ::
  "discovery_state \<Rightarrow> discovery_path list \<Rightarrow> unresolved_question \<Rightarrow> bool" where
  "question_observation_invalid d permitted q \<longleftrightarrow>
     map_of (ds_unresolved_questions d) (uq_id q) \<noteq> None \<or> uq_subject_path q \<notin> set permitted \<or>
     uq_criterion_ids q = [] \<or>
     (case map_of (ds_candidates d) (uq_subject_path q) of
        None \<Rightarrow> True
      | Some c \<Rightarrow> \<not> set (uq_criterion_ids q) \<subseteq> set (cp_criterion_ids c))"

definition insert_files ::
  "discovery_state \<Rightarrow> file_evidence list \<Rightarrow> unresolved_question list \<Rightarrow> discovery_state" where
  "insert_files d evidence questions = d\<lparr>
     ds_file_evidence := foldl (\<lambda>m e. bt_insert (fe_evidence_id e) e m) (ds_file_evidence d) evidence,
     ds_unresolved_questions := foldl (\<lambda>m q. bt_insert (uq_id q) q m) (ds_unresolved_questions d) questions\<rparr>"

definition record_discovery_files ::
  "externs \<Rightarrow> discovery_execution \<Rightarrow> action_id \<Rightarrow> file_evidence list \<Rightarrow> unresolved_question list \<Rightarrow>
   protocol_violation + discovery_execution" where
  "record_discovery_files E s action_id evidence questions =
     bnd (require_consumed_discovery_action s action_id) (\<lambda>prepared.
     bnd (ok_or (contract ''file_observation_for_non_read_action'') (read_paths (ae_constraints (pd_envelope prepared)))) (\<lambda>permitted.
     let observed = bset_of (map fe_path evidence) in
     if evidence = [] \<or> length observed \<noteq> length evidence \<or> observed \<noteq> permitted
     then Inl (contract ''file_observation_paths_incomplete'')
     else if length (bset_of (map uq_id questions)) \<noteq> length questions
     then Inl (contract ''unresolved_question_observation_duplicate'')
     else bnd (the_discovery s) (\<lambda>d.
     if list_ex (\<lambda>e. map_of (ds_file_evidence d) (fe_evidence_id e) \<noteq> None) evidence
     then Inl (contract ''file_evidence_already_recorded'')
     else if list_ex (question_observation_invalid d permitted) questions
     then Inl (contract ''unresolved_question_observation_invalid'')
     else commit_discovery E (clear_action s) (insert_files d evidence questions))))"

definition relationship_outside ::
  "discovery_state \<Rightarrow> unresolved_question \<Rightarrow> discovery_path list \<Rightarrow> relationship_evidence \<Rightarrow> bool" where
  "relationship_outside d question paths item \<longleftrightarrow>
     (let subject = uq_subject_path question;
          touches_subject = (re_from item = subject \<or> re_to item = subject);
          related = (if re_from item = subject then re_to item else re_from item);
          authorized = (related \<in> set paths \<or> map_of (ds_candidates d) related \<noteq> None \<or>
            uq_kind question = Rel_Tests \<or> uq_kind question = Rel_TestedBy)
      in re_kind item \<noteq> uq_kind question \<or> \<not> touches_subject \<or> subject \<notin> set paths \<or> \<not> authorized)"

definition bt_remove :: "'k \<Rightarrow> ('k, 'v) btree_map \<Rightarrow> ('k, 'v) btree_map" where
  "bt_remove k m = filter (\<lambda>(k', v). k' \<noteq> k) m"

definition insert_relationships ::
  "discovery_state \<Rightarrow> relationship_evidence list \<Rightarrow> question_id \<Rightarrow> discovery_state" where
  "insert_relationships d evidence question_id = d\<lparr>
     ds_relationships := foldl (\<lambda>m e. bt_insert (re_evidence_id e) e m) (ds_relationships d) evidence,
     ds_unresolved_questions := bt_remove question_id (ds_unresolved_questions d)\<rparr>"

definition record_discovery_relationships ::
  "externs \<Rightarrow> discovery_execution \<Rightarrow> action_id \<Rightarrow> relationship_evidence list \<Rightarrow>
   protocol_violation + discovery_execution" where
  "record_discovery_relationships E s action_id evidence =
     bnd (require_consumed_discovery_action s action_id) (\<lambda>prepared.
     (case ae_constraints (pd_envelope prepared) of
        Con_NamedRelationship question paths t \<Rightarrow>
          bnd (the_discovery s) (\<lambda>d.
          if evidence = [] \<or> length evidence > MAX_ACTION_PATHS \<or>
             list_ex (relationship_outside d question paths) evidence
          then Inl (contract ''relationship_observation_outside_authorized_paths'')
          else if list_ex (\<lambda>e. \<not> set (re_supporting_evidence_ids e) \<subseteq> set (cm_evidence_ids (pd_context prepared)))
            evidence
          then Inl (contract ''relationship_support_outside_prepared_context'')
          else if list_ex (\<lambda>e. \<not> list_all (\<lambda>i. non_relationship_evidence_touches_path d i
              (uq_subject_path question)) (re_supporting_evidence_ids e)) evidence
          then Inl (contract ''relationship_support_not_subject_evidence'')
          else if list_ex (\<lambda>e. map_of (ds_relationships d) (re_evidence_id e) \<noteq> None) evidence
          then Inl (contract ''relationship_evidence_already_recorded'')
          else commit_discovery E (clear_action s) (insert_relationships d evidence (uq_id question)))
      | _ \<Rightarrow> Inl (contract ''relationship_observation_for_wrong_action'')))"

definition impact_map_source_guard ::
  "externs \<Rightarrow> discovery_execution \<Rightarrow> action_id option \<Rightarrow> impact_map_evidence \<Rightarrow> protocol_violation + unit" where
  "impact_map_source_guard E s action_id evidence = (case action_id of
       Some action_id \<Rightarrow>
         bnd (require_consumed_discovery_action s action_id) (\<lambda>prepared.
         (case ae_constraints (pd_envelope prepared) of
            Con_ImpactMap criterion_ids evidence_ids \<Rightarrow>
              if list_ex (\<lambda>a. ia_criterion_id a \<notin> set criterion_ids \<or>
                  \<not> set (ia_evidence_ids a) \<subseteq> set evidence_ids) (im_areas evidence)
              then Inl (contract ''impact_map_observation_outside_action_context'') else Inr ()
          | _ \<Rightarrow> Inl (contract ''impact_map_for_wrong_action'')))
     | None \<Rightarrow>
         (case dx_discovery s of
            Some d \<Rightarrow> (case ds_convergence d of
                Some (EvidenceSufficient ps es) \<Rightarrow>
                  bnd (deterministic_discovery_impact_map E s) (\<lambda>expected.
                    require (expected = evidence) (contract ''deterministic_impact_map_mismatch''))
              | _ \<Rightarrow> Inl (contract ''deterministic_impact_map_without_convergence''))
          | None \<Rightarrow> Inl (contract ''deterministic_impact_map_without_convergence'')))"

definition record_discovery_impact_map ::
  "externs \<Rightarrow> discovery_execution \<Rightarrow> action_id option \<Rightarrow> impact_map_evidence \<Rightarrow>
   protocol_violation + discovery_execution" where
  "record_discovery_impact_map E s action_id evidence =
     bnd (require_active_discovery_node s) (\<lambda>_.
     if (case dx_discovery s of None \<Rightarrow> False | Some d \<Rightarrow> accepted_impact d \<noteq> None)
     then Inl (contract ''complete_impact_map_already_recorded'')
     else bnd (impact_map_source_guard E s action_id evidence) (\<lambda>_.
     bnd (the_discovery s) (\<lambda>d.
     commit_discovery E (if action_id \<noteq> None then clear_action s else s)
       (d\<lparr>ds_impact_map := Some evidence, ds_convergence := None\<rparr>))))"

fun is_impact_map_accepted :: "discovery_convergence \<Rightarrow> bool" where
  "is_impact_map_accepted (ImpactMapAccepted i) = True"
| "is_impact_map_accepted _ = False"

fun is_insufficient_evidence :: "discovery_convergence \<Rightarrow> bool" where
  "is_insufficient_evidence (Conv_InsufficientEvidence r) = True"
| "is_insufficient_evidence _ = False"

definition record_discovery_convergence ::
  "externs \<Rightarrow> discovery_execution \<Rightarrow> discovery_convergence \<Rightarrow> protocol_violation + discovery_execution" where
  "record_discovery_convergence E s convergence =
     bnd (require_active_discovery_node s) (\<lambda>_.
     if es_discovery_action s \<noteq> None then Inl (contract ''convergence_with_active_discovery_action'')
     else bnd (the_discovery s) (\<lambda>d.
     bnd (discovery_budget_remaining s (ds_node_id d)) (\<lambda>remaining.
     let requires_exact_exhaustion = \<not> is_impact_map_accepted convergence;
         early_search_exhaustion = (is_insufficient_evidence convergence \<and> all_goal_searches_completed d)
     in if requires_exact_exhaustion \<and> admissible_model_calls remaining \<noteq> 0 \<and> \<not> early_search_exhaustion
        then Inl (contract ''discovery_convergence_before_exact_exhaustion'')
        else if ds_convergence d \<noteq> None \<or> convergence \<noteq> evaluate_discovery_convergence d
        then Inl (contract ''discovery_convergence_not_authoritative'')
        else commit_discovery E s (d\<lparr>ds_convergence := Some convergence\<rparr>))))"

datatype discovery_event =
    GoalRecorded discovery_goal
  | ActionPrepared prepared_discovery_action
  | ActionReleased action_id
  | ActionRejected action_id
  | SearchCompleted action_id search_evidence
  | CandidatesRecorded search_id "candidate_evidence list"
  | FileEvidenceRecorded action_id "file_evidence list" "unresolved_question list"
  | RelationshipEvidenceRecorded action_id "relationship_evidence list"
  | ImpactMapRecorded "action_id option" impact_map_evidence
  | ConvergenceEvaluated discovery_convergence

definition refresh_discovery_position :: "discovery_execution \<Rightarrow> discovery_execution" where
  "refresh_discovery_position s =
     (if position_stage (es_position s) \<noteq> St_Discovery then s
      else (case dx_discovery s of
          None \<Rightarrow> s
        | Some d \<Rightarrow> s\<lparr>es_position := Pos_Discovery (case substate d of
              Sub_NeedCandidates \<Rightarrow> NeedCandidates
            | Sub_NeedGroundedReads \<Rightarrow> NeedGroundedReads
            | Sub_NeedRelations \<Rightarrow> NeedRelations
            | Sub_ReadyToSynthesize \<Rightarrow> Discovery_ReadyToSynthesize)\<rparr>))"

fun discovery_handler ::
  "externs \<Rightarrow> discovery_execution \<Rightarrow> discovery_event \<Rightarrow> protocol_violation + discovery_execution" where
  "discovery_handler E s (GoalRecorded goal) = record_discovery_goal E s goal"
| "discovery_handler E s (ActionPrepared p) = prepare_discovery_action E s p"
| "discovery_handler E s (ActionReleased a) = release_discovery_action s a"
| "discovery_handler E s (ActionRejected a) = reject_discovery_action s a"
| "discovery_handler E s (SearchCompleted a e) = record_discovery_search E s a e"
| "discovery_handler E s (CandidatesRecorded i cs) = record_discovery_candidates E s i cs"
| "discovery_handler E s (FileEvidenceRecorded a es qs) = record_discovery_files E s a es qs"
| "discovery_handler E s (RelationshipEvidenceRecorded a es) = record_discovery_relationships E s a es"
| "discovery_handler E s (ImpactMapRecorded a m) = record_discovery_impact_map E s a m"
| "discovery_handler E s (ConvergenceEvaluated c) = record_discovery_convergence E s c"

definition apply_discovery_event ::
  "externs \<Rightarrow> discovery_execution \<Rightarrow> discovery_event \<Rightarrow> protocol_violation + discovery_execution" where
  "apply_discovery_event E s event =
     bnd (discovery_handler E s event) (\<lambda>s'. Inr (refresh_discovery_position s'))"

end
