(* ===== verification/Profile_Model.thy ===== *)
theory Profile_Model
  imports Discovery_Model "HOL-Library.Product_Lexorder"
begin

text \<open>
  The repository profile (\<open>src/execution_protocol/profile.rs\<close>): paths, the inventory of observed files and
  the data of a profile. A structure that derives \<open>Ord\<close> and is sorted is a \<open>datatype\<close> with its instance of
  \<open>linorder\<close>, the order of its fields; the others are records.
\<close>

type_synonym profile_path = string
type_synonym content_hash = string

definition REPOSITORY_PROFILE_SCHEMA_VERSION :: u16 where "REPOSITORY_PROFILE_SCHEMA_VERSION = 1"
definition MAX_INVENTORY_FILES :: nat where "MAX_INVENTORY_FILES = 20000"
definition MAX_CAPTURED_FILE_BYTES :: nat where "MAX_CAPTURED_FILE_BYTES = 128 * 1024"
definition MAX_CAPTURED_TOTAL_BYTES :: nat where "MAX_CAPTURED_TOTAL_BYTES = 4 * 1024 * 1024"

section \<open>Errors and paths\<close>

datatype invalid_path_reason =
    Path_Empty | Path_Absolute | Path_NotNormalized | Path_ParentTraversal | Path_ControlCharacter

datatype profile_error =
    Prof_InvalidPath invalid_path_reason
  | Prof_InvalidContentHash
  | Prof_InventoryFileLimitExceeded nat nat
  | Prof_CapturedFileLimitExceeded nat nat
  | Prof_CapturedTotalLimitExceeded nat nat
  | Prof_ConflictingObservation profile_path
  | Prof_IdentityEncoding
  | Prof_UnsupportedSchema u16 u16
  | Prof_NonCanonicalField string
  | Prof_InconsistentProfile string
  | Prof_ProfileIdentityMismatch

text \<open>\<open>char::is_control\<close>: the ASCII controls and U+0080 to U+009F, which are two bytes each.\<close>

fun c1_control :: "string \<Rightarrow> bool" where
  "c1_control (a # b # s) \<longleftrightarrow> byte a = 194 \<and> 128 \<le> byte b \<and> byte b \<le> 159 \<or> c1_control (b # s)"
| "c1_control _ \<longleftrightarrow> False"

definition has_control :: "string \<Rightarrow> bool" where
  "has_control s \<longleftrightarrow> list_ex ascii_control s \<or> c1_control s"

fun check_path_components :: "string list \<Rightarrow> profile_error + unit" where
  "check_path_components [] = Inr ()"
| "check_path_components (c # cs) =
     (if c = ''..'' then Inl (Prof_InvalidPath Path_ParentTraversal)
      else if c = [] \<or> c = ''.'' then Inl (Prof_InvalidPath Path_NotNormalized)
      else check_path_components cs)"

definition validate_profile_path :: "string \<Rightarrow> profile_error + unit" where
  "validate_profile_path value =
     (if value = [] then Inl (Prof_InvalidPath Path_Empty)
      else if starts_with [SLASH] value \<or> starts_with [BACKSLASH] value \<or>
        (length value > 1 \<and> value ! 1 = CHR '':'') then Inl (Prof_InvalidPath Path_Absolute)
      else if has_control value then Inl (Prof_InvalidPath Path_ControlCharacter)
      else if BACKSLASH \<in> set value \<or> ends_with [SLASH] value \<or> contains_str [SLASH, SLASH] value
      then Inl (Prof_InvalidPath Path_NotNormalized)
      else if value = ''.'' then Inr ()
      else check_path_components (split_on SLASH value))"

definition profile_path_new :: "string \<Rightarrow> profile_error + profile_path" where
  "profile_path_new value = bnd (validate_profile_path value) (\<lambda>_. Inr value)"

definition root_path :: profile_path where "root_path = ''.''"

definition is_root :: "profile_path \<Rightarrow> bool" where "is_root p \<longleftrightarrow> p = ''.''"

definition path_parent :: "profile_path \<Rightarrow> profile_path" where
  "path_parent p = (if SLASH \<in> set p then join_with [SLASH] (butlast (split_on SLASH p)) else root_path)"

definition content_hash_new :: "string \<Rightarrow> profile_error + content_hash" where
  "content_hash_new value =
     (if length value \<noteq> 64 \<or> \<not> list_all lower_hex value then Inl Prof_InvalidContentHash else Inr value)"

section \<open>The inventory\<close>

record file_observation =
  fo_path :: profile_path
  fo_byte_len :: u64
  fo_content_hash :: content_hash
  fo_captured_content :: "string option"

definition observation_path :: "string \<Rightarrow> profile_error + profile_path" where
  "observation_path value = bnd (profile_path_new value) (\<lambda>path.
     if is_root path then Inl (Prof_InvalidPath Path_NotNormalized) else Inr path)"

definition file_from_bytes :: "externs \<Rightarrow> string \<Rightarrow> string \<Rightarrow> profile_error + file_observation" where
  "file_from_bytes E path content = bnd (observation_path path) (\<lambda>path.
     if length content > MAX_CAPTURED_FILE_BYTES
     then Inl (Prof_CapturedFileLimitExceeded (length content) MAX_CAPTURED_FILE_BYTES)
     else Inr \<lparr>fo_path = path, fo_byte_len = of_nat (length content), fo_content_hash = sha256_hex E content,
       fo_captured_content = Some content\<rparr>)"

definition file_opaque :: "string \<Rightarrow> u64 \<Rightarrow> content_hash \<Rightarrow> profile_error + file_observation" where
  "file_opaque path byte_len content_hash = bnd (observation_path path) (\<lambda>path.
     Inr \<lparr>fo_path = path, fo_byte_len = byte_len, fo_content_hash = content_hash, fo_captured_content = None\<rparr>)"

record inventory =
  iv_repository_revision :: repository_revision_id
  iv_files :: "file_observation list"
  iv_total_bytes :: u64
  iv_captured_bytes :: nat

definition canonical_observation ::
  "(profile_path, file_observation) btree_map \<Rightarrow> file_observation \<Rightarrow>
   profile_error + (profile_path, file_observation) btree_map" where
  "canonical_observation m x = (case map_of m (fo_path x) of
       None \<Rightarrow> Inr (bt_insert (fo_path x) x m)
     | Some existing \<Rightarrow>
         if fo_content_hash existing \<noteq> fo_content_hash x \<or> fo_byte_len existing \<noteq> fo_byte_len x
         then Inl (Prof_ConflictingObservation (fo_path x))
         else if fo_captured_content existing = None \<and> fo_captured_content x \<noteq> None
         then Inr (bt_insert (fo_path x) x m)
         else Inr m)"

definition inventory_new ::
  "repository_revision_id \<Rightarrow> file_observation list \<Rightarrow> profile_error + inventory" where
  "inventory_new repository_revision files =
     (if length files > MAX_INVENTORY_FILES
      then Inl (Prof_InventoryFileLimitExceeded (length files) MAX_INVENTORY_FILES)
      else bnd (fold_res canonical_observation [] files) (\<lambda>canonical.
        let files' = bt_values canonical;
            captured = sum_list (map length (List.map_filter fo_captured_content files'))
        in if captured \<ge> 2 ^ 64 then Inl (Prof_CapturedTotalLimitExceeded (2 ^ 64 - 1) MAX_CAPTURED_TOTAL_BYTES)
           else if captured > MAX_CAPTURED_TOTAL_BYTES
           then Inl (Prof_CapturedTotalLimitExceeded captured MAX_CAPTURED_TOTAL_BYTES)
           else Inr \<lparr>iv_repository_revision = repository_revision, iv_files = files',
             iv_total_bytes = foldl (\<lambda>total f. sat_add total (fo_byte_len f)) 0 files',
             iv_captured_bytes = captured\<rparr>))"

section \<open>Kinds\<close>

datatype ecosystem_kind = Eco_Rust | Eco_Node | Eco_Python | Eco_Go | Eco_Unknown

datatype capability_kind =
    CargoProject | PackageScripts | Cap_PythonProject | Cap_GoModule | GenericTextStructure

datatype metadata_kind =
    CargoManifest | CargoLock | PackageManifest | NpmLock | PnpmLock | YarnLock | PythonProject | PoetryLock
  | UvLock | GoModule | GoChecksum

datatype metadata_status = Parsed | Observed | Malformed | ContentUnavailable

datatype path_disposition =
    OrdinarySource | ReadOnlyGeneratedOutput | RegenerateThroughAuthorizedCommand

datatype marker_kind = AtGenerated | CodeGeneratedDoNotEdit | GeneratedFileDoNotEdit

datatype rule_provenance =
    FileMarker evidence_id marker_kind content_hash
  | GeneratorConfiguration evidence_id

datatype validation_class = TestSuite | Class_Build | Typecheck | Lint

datatype command_kind =
    CargoTest | CargoBuild | NpmTest | NpmBuild | NpmTypecheck | NpmLint | PythonPytest | PythonBuild
  | GoTestAll | GoBuildAll

datatype command_provenance =
    SignedExecutionPolicy evidence_id | ParsedProjectMetadata evidence_id | ParsedCiConfiguration evidence_id

datatype command_authority = CandidateOnly

datatype size_class = Size_Tiny | Size_Small | Size_Medium | Size_Large

datatype uncertainty_kind = NoKnownEcosystem | MalformedMetadata | MetadataContentUnavailable

fun argv :: "command_kind \<Rightarrow> string list" where
  "argv CargoTest = [''cargo'', ''test'']"
| "argv CargoBuild = [''cargo'', ''build'']"
| "argv NpmTest = [''npm'', ''run'', ''test'']"
| "argv NpmBuild = [''npm'', ''run'', ''build'']"
| "argv NpmTypecheck = [''npm'', ''run'', ''typecheck'']"
| "argv NpmLint = [''npm'', ''run'', ''lint'']"
| "argv PythonPytest = [''python'', ''-m'', ''pytest'']"
| "argv PythonBuild = [''python'', ''-m'', ''build'']"
| "argv GoTestAll = [''go'', ''test'', ''./...'']"
| "argv GoBuildAll = [''go'', ''build'', ''./...'']"

fun identity_key :: "command_kind \<Rightarrow> string" where
  "identity_key CargoTest = ''cargo_test''"
| "identity_key CargoBuild = ''cargo_build''"
| "identity_key NpmTest = ''npm_test''"
| "identity_key NpmBuild = ''npm_build''"
| "identity_key NpmTypecheck = ''npm_typecheck''"
| "identity_key NpmLint = ''npm_lint''"
| "identity_key PythonPytest = ''python_pytest''"
| "identity_key PythonBuild = ''python_build''"
| "identity_key GoTestAll = ''go_test_all''"
| "identity_key GoBuildAll = ''go_build_all''"

fun class_of :: "command_kind \<Rightarrow> validation_class" where
  "class_of CargoTest = TestSuite"
| "class_of NpmTest = TestSuite"
| "class_of PythonPytest = TestSuite"
| "class_of GoTestAll = TestSuite"
| "class_of CargoBuild = Class_Build"
| "class_of NpmBuild = Class_Build"
| "class_of PythonBuild = Class_Build"
| "class_of GoBuildAll = Class_Build"
| "class_of NpmTypecheck = Typecheck"
| "class_of NpmLint = Lint"

end
