(* ===== verification/Plan_Model.thy ===== *)
theory Plan_Model
  imports Profile_Model
begin

text \<open>
  The plan of a mission (\<open>src/execution_protocol/planning.rs\<close>): targets with their operation, evidence,
  validation and dependencies, the candidate a provider proposes, its hard bounds, and the identities the
  worker derives. A \<open>BTreeSet\<close> is the list of its elements in order; its JSON is an array.
\<close>

type_synonym plan_id = string
type_synonym plan_revision_id = string
type_synonym change_id = string
type_synonym target_id = string
type_synonym validation_expectation_id = string

definition PLANNING_SCHEMA_VERSION :: u16 where "PLANNING_SCHEMA_VERSION = 1"
definition MAX_PLAN_TARGETS :: nat where "MAX_PLAN_TARGETS = 32"
definition MAX_TARGET_DEPENDENCIES :: nat where "MAX_TARGET_DEPENDENCIES = 16"
definition MAX_TARGET_EVIDENCE :: nat where "MAX_TARGET_EVIDENCE = 32"
definition MAX_TARGET_CRITERIA :: nat where "MAX_TARGET_CRITERIA = 32"
definition MAX_VALIDATION_EXPECTATIONS :: nat where "MAX_VALIDATION_EXPECTATIONS = 16"
definition MAX_CRITERION_SATISFACTION_OBSERVATIONS :: nat where
  "MAX_CRITERION_SATISFACTION_OBSERVATIONS = 64"
definition MAX_SATISFACTION_SUPPORTING_EVIDENCE :: nat where "MAX_SATISFACTION_SUPPORTING_EVIDENCE = 32"
definition MAX_TEXT_BYTES :: nat where "MAX_TEXT_BYTES = 2048"
definition MAX_PATH_BYTES :: nat where "MAX_PATH_BYTES = 4096"
definition MAX_SEMANTIC_ID_BYTES :: nat where "MAX_SEMANTIC_ID_BYTES = 256"
definition MAX_PLAN_CANDIDATE_BYTES :: nat where "MAX_PLAN_CANDIDATE_BYTES = 256 * 1024"

datatype planning_error =
    Plan_InvalidCandidate string
  | Plan_InvalidContext string
  | Plan_LimitExceeded string nat
  | Plan_Serialization

fun planning_error_code :: "planning_error \<Rightarrow> string" where
  "planning_error_code (Plan_InvalidCandidate code) = code"
| "planning_error_code (Plan_InvalidContext code) = code"
| "planning_error_code (Plan_LimitExceeded field limit) = ''planning_limit_exceeded''"
| "planning_error_code Plan_Serialization = ''planning_identity_serialization_failed''"

definition plan_json :: "externs \<Rightarrow> ser \<Rightarrow> planning_error + string" where
  "plan_json E value = ok_or Plan_Serialization (to_json E value)"

section \<open>Graph budgets\<close>

record plan_graph_budget =
  pg_max_implementation_nodes :: u32
  pg_max_validation_nodes :: u32
  pg_max_total_nodes :: u32
  pg_implementation :: node_budget
  pg_validation :: node_budget
  pg_review :: node_budget
  pg_completion_evaluation :: node_budget
  pg_publication :: node_budget

definition model_node_budget_is_feasible :: "node_budget \<Rightarrow> bool \<Rightarrow> bool" where
  "model_node_budget_is_feasible b mutation \<longleftrightarrow>
     nb_max_model_calls b > 0 \<and> nb_max_cost_micros b > 0 \<and> nb_max_duration_ms b > 0 \<and>
     nb_max_input_tokens_per_call b > 0 \<and> nb_max_output_tokens_per_call b > 0 \<and>
     (\<not> mutation \<or> nb_max_mutation_attempts b > 0)"

definition graph_budget_validate :: "plan_graph_budget \<Rightarrow> planning_error + unit" where
  "graph_budget_validate b =
     (if pg_max_implementation_nodes b = 0 \<or> pg_max_validation_nodes b = 0 \<or> pg_max_total_nodes b < 5 \<or>
         \<not> model_node_budget_is_feasible (pg_implementation b) True \<or>
         \<not> model_node_budget_is_feasible (pg_review b) False \<or>
         \<not> model_node_budget_is_feasible (pg_completion_evaluation b) False \<or>
         pg_validation b \<noteq> budget_deterministic \<or> pg_publication b \<noteq> budget_deterministic
      then Inl (Plan_InvalidCandidate ''plan_graph_budget_contract_invalid'')
      else Inr ())"

record plan_capacity =
  pm_remaining_model_calls :: u32
  pm_remaining_cost_micros :: u64
  pm_remaining_duration_ms :: u64

section \<open>Byte tests\<close>

definition validate_bounded_text :: "string \<Rightarrow> string \<Rightarrow> planning_error + unit" where
  "validate_bounded_text field value =
     (if value = [] \<or> \<not> trimmed value \<or> length value > MAX_TEXT_BYTES \<or> list_ex ascii_control value
      then Inl (Plan_InvalidCandidate field) else Inr ())"

definition validate_collection_limit :: "string \<Rightarrow> nat \<Rightarrow> nat \<Rightarrow> planning_error + unit" where
  "validate_collection_limit field actual limit =
     (if actual > limit then Inl (Plan_LimitExceeded field limit) else Inr ())"

definition validate_identifier :: "string \<Rightarrow> string \<Rightarrow> planning_error + unit" where
  "validate_identifier field value =
     (if value = [] \<or> \<not> trimmed value \<or> length value > MAX_SEMANTIC_ID_BYTES \<or> list_ex ascii_control value
      then Inl (Plan_InvalidCandidate field) else Inr ())"

definition validate_path_length :: "string \<Rightarrow> string \<Rightarrow> planning_error + unit" where
  "validate_path_length field value =
     (if length value > MAX_PATH_BYTES then Inl (Plan_LimitExceeded field MAX_PATH_BYTES) else Inr ())"

definition validate_content_hash :: "string \<Rightarrow> planning_error + unit" where
  "validate_content_hash value =
     (if length value \<noteq> 64 \<or> \<not> list_all lower_hex value
      then Inl (Plan_InvalidCandidate ''plan_expected_content_hash_invalid'') else Inr ())"

section \<open>Targets\<close>

datatype target_role = Role_Source | Role_Test | Role_Documentation | Role_Configuration | Role_Metadata | Role_Other

datatype created_file_kind =
    Created_Source | Created_Test | Created_Documentation | Created_Configuration | Created_Metadata
  | Created_Other

record creation_specification =
  cs_kind :: created_file_kind
  cs_purpose :: string

datatype target_operation =
    ModifyExisting string
  | CreateFile creation_specification
  | DeleteFile string
  | MoveFile profile_path string

fun requires_existing :: "target_operation \<Rightarrow> bool" where
  "requires_existing (CreateFile s) = False"
| "requires_existing _ = True"

fun destination :: "target_operation \<Rightarrow> profile_path option" where
  "destination (MoveFile d h) = Some d"
| "destination _ = None"

fun expected_content_hash :: "target_operation \<Rightarrow> string option" where
  "expected_content_hash (ModifyExisting h) = Some h"
| "expected_content_hash (DeleteFile h) = Some h"
| "expected_content_hash (MoveFile d h) = Some h"
| "expected_content_hash (CreateFile s) = None"

datatype change_size = Tiny | Small | Medium | Large
datatype change_risk = Risk_Low | Risk_Medium | Risk_High

record change_estimate =
  ce_size :: change_size
  ce_risk :: change_risk
  ce_estimated_changed_lines :: u32

record validation_expectation =
  ve_expectation_id :: validation_expectation_id
  ve_command_candidate_id :: evidence_id
  ve_criterion_ids :: "criterion_id list"

record planned_target =
  pt_target_id :: target_id
  pt_change_id :: change_id
  pt_path :: profile_path
  pt_operation :: target_operation
  pt_role :: target_role
  pt_rationale :: string
  pt_acceptance_criteria :: "criterion_id list"
  pt_required_evidence :: "evidence_id list"
  pt_expected_validation :: "validation_expectation list"
  pt_dependencies :: "target_id list"
  pt_estimated_change :: change_estimate

datatype satisfaction_authority =
    Auth_RequiredValidationPassed proof_id
  | Auth_CompletionEvaluated proof_id

fun authority_proof_id :: "satisfaction_authority \<Rightarrow> proof_id" where
  "authority_proof_id (Auth_RequiredValidationPassed p) = p"
| "authority_proof_id (Auth_CompletionEvaluated p) = p"

record satisfaction_observation =
  so_schema_version :: u16
  so_observation_id :: evidence_id
  so_repository_revision :: repository_revision_id
  so_criterion_id :: criterion_id
  so_authority :: satisfaction_authority
  so_supporting_evidence_ids :: "evidence_id list"

datatype evidence_gap_reason =
    TargetEvidenceMissing | ValidationProvenanceMissing | UnsafeGeneratedTarget | DependencyUnresolved

datatype plan_decision =
    Changes "planned_target list"
  | NoOp "satisfaction_observation list"
  | Decision_EvidenceGap "criterion_id list" evidence_gap_reason

record plan_candidate =
  cand_schema_version :: u16
  cand_plan_id :: plan_id
  cand_plan_revision_id :: plan_revision_id
  cand_revision_index :: u32
  cand_repository_revision :: repository_revision_id
  cand_discovery_impact_map_id :: evidence_id
  cand_decision :: plan_decision

record accepted_plan =
  ap_schema_version :: u16
  ap_plan_id :: plan_id
  ap_plan_revision_id :: plan_revision_id
  ap_repository_revision :: repository_revision_id
  ap_discovery_impact_map_id :: evidence_id
  ap_targets :: "planned_target list"

record accepted_no_op =
  an_schema_version :: u16
  an_plan_id :: plan_id
  an_plan_revision_id :: plan_revision_id
  an_repository_revision :: repository_revision_id
  an_discovery_impact_map_id :: evidence_id
  an_criterion_satisfaction :: "satisfaction_observation list"

section \<open>Serialised values\<close>

fun ser_role :: "target_role \<Rightarrow> ser" where
  "ser_role Role_Source = Ser_Str ''source''"
| "ser_role Role_Test = Ser_Str ''test''"
| "ser_role Role_Documentation = Ser_Str ''documentation''"
| "ser_role Role_Configuration = Ser_Str ''configuration''"
| "ser_role Role_Metadata = Ser_Str ''metadata''"
| "ser_role Role_Other = Ser_Str ''other''"

fun ser_created_kind :: "created_file_kind \<Rightarrow> ser" where
  "ser_created_kind Created_Source = Ser_Str ''source''"
| "ser_created_kind Created_Test = Ser_Str ''test''"
| "ser_created_kind Created_Documentation = Ser_Str ''documentation''"
| "ser_created_kind Created_Configuration = Ser_Str ''configuration''"
| "ser_created_kind Created_Metadata = Ser_Str ''metadata''"
| "ser_created_kind Created_Other = Ser_Str ''other''"

fun ser_operation :: "target_operation \<Rightarrow> ser" where
  "ser_operation (ModifyExisting h) =
     Ser_Struct [(''operation'', Ser_Str ''modify_existing''), (''expected_content_hash'', Ser_Str h)]"
| "ser_operation (CreateFile s) =
     Ser_Struct [(''operation'', Ser_Str ''create_file''),
       (''specification'', Ser_Struct [(''kind'', ser_created_kind (cs_kind s)), (''purpose'', Ser_Str (cs_purpose s))])]"
| "ser_operation (DeleteFile h) =
     Ser_Struct [(''operation'', Ser_Str ''delete_file''), (''expected_content_hash'', Ser_Str h)]"
| "ser_operation (MoveFile d h) =
     Ser_Struct [(''operation'', Ser_Str ''move_file''), (''destination'', Ser_Str d),
       (''expected_content_hash'', Ser_Str h)]"

fun ser_size :: "change_size \<Rightarrow> ser" where
  "ser_size Tiny = Ser_Str ''tiny''"
| "ser_size Small = Ser_Str ''small''"
| "ser_size Medium = Ser_Str ''medium''"
| "ser_size Large = Ser_Str ''large''"

fun ser_risk :: "change_risk \<Rightarrow> ser" where
  "ser_risk Risk_Low = Ser_Str ''low''"
| "ser_risk Risk_Medium = Ser_Str ''medium''"
| "ser_risk Risk_High = Ser_Str ''high''"

definition ser_estimate :: "change_estimate \<Rightarrow> ser" where
  "ser_estimate e = Ser_Struct [(''size'', ser_size (ce_size e)), (''risk'', ser_risk (ce_risk e)),
     (''estimated_changed_lines'', ser_u (ce_estimated_changed_lines e))]"

definition ser_expectation :: "validation_expectation \<Rightarrow> ser" where
  "ser_expectation v = Ser_Struct [(''expectation_id'', Ser_Str (ve_expectation_id v)),
     (''command_candidate_id'', Ser_Str (ve_command_candidate_id v)),
     (''criterion_ids'', ser_strs (ve_criterion_ids v))]"

definition ser_target :: "planned_target \<Rightarrow> ser" where
  "ser_target t = Ser_Struct
     [(''target_id'', Ser_Str (pt_target_id t)), (''change_id'', Ser_Str (pt_change_id t)),
      (''path'', Ser_Str (pt_path t)), (''operation'', ser_operation (pt_operation t)),
      (''role'', ser_role (pt_role t)), (''rationale'', Ser_Str (pt_rationale t)),
      (''acceptance_criteria'', ser_strs (pt_acceptance_criteria t)),
      (''required_evidence'', ser_strs (pt_required_evidence t)),
      (''expected_validation'', Ser_Tuple (map ser_expectation (pt_expected_validation t))),
      (''dependencies'', ser_strs (pt_dependencies t)),
      (''estimated_change'', ser_estimate (pt_estimated_change t))]"

fun ser_authority :: "satisfaction_authority \<Rightarrow> ser" where
  "ser_authority (Auth_RequiredValidationPassed p) =
     Ser_Struct [(''authority'', Ser_Str ''required_validation_passed''), (''proof_id'', Ser_Str p)]"
| "ser_authority (Auth_CompletionEvaluated p) =
     Ser_Struct [(''authority'', Ser_Str ''completion_evaluated''), (''proof_id'', Ser_Str p)]"

definition ser_observation :: "satisfaction_observation \<Rightarrow> ser" where
  "ser_observation x = Ser_Struct
     [(''schema_version'', ser_u (so_schema_version x)), (''observation_id'', Ser_Str (so_observation_id x)),
      (''repository_revision'', Ser_Str (so_repository_revision x)),
      (''criterion_id'', Ser_Str (so_criterion_id x)), (''authority'', ser_authority (so_authority x)),
      (''supporting_evidence_ids'', ser_strs (so_supporting_evidence_ids x))]"

fun ser_gap_reason :: "evidence_gap_reason \<Rightarrow> ser" where
  "ser_gap_reason TargetEvidenceMissing = Ser_Str ''target_evidence_missing''"
| "ser_gap_reason ValidationProvenanceMissing = Ser_Str ''validation_provenance_missing''"
| "ser_gap_reason UnsafeGeneratedTarget = Ser_Str ''unsafe_generated_target''"
| "ser_gap_reason DependencyUnresolved = Ser_Str ''dependency_unresolved''"

fun ser_decision :: "plan_decision \<Rightarrow> ser" where
  "ser_decision (Changes ts) =
     Ser_Struct [(''decision'', Ser_Str ''changes''), (''targets'', Ser_Tuple (map ser_target ts))]"
| "ser_decision (NoOp os) =
     Ser_Struct [(''decision'', Ser_Str ''no_op''),
       (''criterion_satisfaction'', Ser_Tuple (map ser_observation os))]"
| "ser_decision (Decision_EvidenceGap cs reason) =
     Ser_Struct [(''decision'', Ser_Str ''evidence_gap''), (''criterion_ids'', ser_strs cs),
       (''reason_code'', ser_gap_reason reason)]"

end
