(* ===== verification/Plan_Candidate.thy ===== *)
theory Plan_Candidate
  imports Plan_Model
begin

text \<open>
  How a plan candidate is made (\<open>src/execution_protocol/planning.rs\<close>): derived identities, hard bounds, the
  canonical order of its targets and the canonical form of its decision.
\<close>

section \<open>Derived identities\<close>

definition expectation_new ::
  "externs \<Rightarrow> evidence_id \<Rightarrow> criterion_id list \<Rightarrow> planning_error + validation_expectation" where
  "expectation_new E command_candidate_id criterion_ids =
     (if criterion_ids = [] \<or> length criterion_ids > MAX_TARGET_CRITERIA
      then Inl (Plan_InvalidCandidate ''validation_expectation_criteria_invalid'')
      else bnd (plan_json E (Ser_Tuple [Ser_Str command_candidate_id, ser_strs criterion_ids])) (\<lambda>identity.
        Inr \<lparr>ve_expectation_id = epv1 E [''execution-protocol-v1:validation-expectation'', identity],
          ve_command_candidate_id = command_candidate_id, ve_criterion_ids = criterion_ids\<rparr>))"

definition expectation_validate_identity :: "externs \<Rightarrow> validation_expectation \<Rightarrow> planning_error + unit" where
  "expectation_validate_identity E v =
     bnd (expectation_new E (ve_command_candidate_id v) (ve_criterion_ids v)) (\<lambda>expected.
       require (expected = v) (Plan_InvalidCandidate ''validation_expectation_identity_mismatch''))"

definition observation_new ::
  "externs \<Rightarrow> repository_revision_id \<Rightarrow> criterion_id \<Rightarrow> satisfaction_authority \<Rightarrow> evidence_id list \<Rightarrow>
   planning_error + satisfaction_observation" where
  "observation_new E repository_revision criterion_id authority supporting =
     (if supporting = [] \<or> length supporting > MAX_SATISFACTION_SUPPORTING_EVIDENCE
      then Inl (Plan_InvalidCandidate ''criterion_satisfaction_support_invalid'')
      else bnd (plan_json E (Ser_Tuple [ser_u PLANNING_SCHEMA_VERSION, Ser_Str repository_revision,
          Ser_Str criterion_id, ser_authority authority, ser_strs supporting])) (\<lambda>identity.
        Inr \<lparr>so_schema_version = PLANNING_SCHEMA_VERSION,
          so_observation_id = epv1 E [''execution-protocol-v1:criterion-satisfaction'', identity],
          so_repository_revision = repository_revision, so_criterion_id = criterion_id,
          so_authority = authority, so_supporting_evidence_ids = supporting\<rparr>))"

definition observation_validate_identity :: "externs \<Rightarrow> satisfaction_observation \<Rightarrow> planning_error + unit" where
  "observation_validate_identity E x =
     bnd (observation_new E (so_repository_revision x) (so_criterion_id x) (so_authority x)
            (so_supporting_evidence_ids x)) (\<lambda>expected.
       require (expected = x) (Plan_InvalidCandidate ''criterion_satisfaction_identity_mismatch''))"

definition derive_target_id :: "externs \<Rightarrow> planned_target \<Rightarrow> planning_error + target_id" where
  "derive_target_id E t =
     bnd (plan_json E (Ser_Tuple [ser_u PLANNING_SCHEMA_VERSION, Ser_Str (pt_path t),
       ser_operation (pt_operation t), ser_role (pt_role t), ser_strs (pt_acceptance_criteria t),
       ser_strs (pt_required_evidence t),
       Ser_Tuple (map ser_expectation (pt_expected_validation t))])) (\<lambda>identity.
     Inr (epv1 E [''execution-protocol-v1:plan-target'', identity]))"

definition derive_change_id :: "externs \<Rightarrow> planned_target \<Rightarrow> planning_error + change_id" where
  "derive_change_id E t =
     bnd (plan_json E (Ser_Tuple [ser_u PLANNING_SCHEMA_VERSION, Ser_Str (pt_target_id t),
       Ser_Str (pt_rationale t), ser_strs (pt_dependencies t), ser_estimate (pt_estimated_change t)]))
     (\<lambda>identity. Inr (epv1 E [''execution-protocol-v1:plan-change'', identity]))"

section \<open>Hard bounds\<close>

definition check_all :: "('a \<Rightarrow> planning_error + unit) \<Rightarrow> 'a list \<Rightarrow> planning_error + unit" where
  "check_all f xs = fold_res (\<lambda>_ x. f x) () xs"

definition operation_bounds :: "target_operation \<Rightarrow> planning_error + unit" where
  "operation_bounds operation = (case operation of
       ModifyExisting h \<Rightarrow> validate_content_hash h
     | DeleteFile h \<Rightarrow> validate_content_hash h
     | MoveFile d h \<Rightarrow> bnd (validate_path_length ''plan.move_destination'' d) (\<lambda>_. validate_content_hash h)
     | CreateFile s \<Rightarrow> validate_bounded_text ''plan.creation_purpose'' (cs_purpose s))"

definition target_bounds :: "planned_target \<Rightarrow> planning_error + unit" where
  "target_bounds t =
     bnd (validate_identifier ''plan.target_id'' (pt_target_id t)) (\<lambda>_.
     bnd (validate_identifier ''plan.change_id'' (pt_change_id t)) (\<lambda>_.
     bnd (validate_path_length ''plan.target_path'' (pt_path t)) (\<lambda>_.
     bnd (validate_bounded_text ''plan.rationale'' (pt_rationale t)) (\<lambda>_.
     bnd (validate_collection_limit ''plan.target.criteria'' (length (pt_acceptance_criteria t)) MAX_TARGET_CRITERIA) (\<lambda>_.
     bnd (validate_collection_limit ''plan.target.evidence'' (length (pt_required_evidence t)) MAX_TARGET_EVIDENCE) (\<lambda>_.
     bnd (validate_collection_limit ''plan.target.validation'' (length (pt_expected_validation t))
            MAX_VALIDATION_EXPECTATIONS) (\<lambda>_.
     bnd (validate_collection_limit ''plan.target.dependencies'' (length (pt_dependencies t))
            MAX_TARGET_DEPENDENCIES) (\<lambda>_.
     bnd (check_all (validate_identifier ''plan.evidence_id'') (pt_required_evidence t)) (\<lambda>_.
     bnd (check_all (validate_identifier ''plan.dependency_id'') (pt_dependencies t)) (\<lambda>_.
     bnd (check_all (\<lambda>v. bnd (validate_identifier ''plan.validation_expectation_id'' (ve_expectation_id v)) (\<lambda>_.
            validate_identifier ''plan.validation_candidate_id'' (ve_command_candidate_id v)))
          (pt_expected_validation t)) (\<lambda>_.
     operation_bounds (pt_operation t))))))))))))"

definition observation_bounds :: "satisfaction_observation \<Rightarrow> planning_error + unit" where
  "observation_bounds x =
     bnd (validate_identifier ''plan.satisfaction_observation_id'' (so_observation_id x)) (\<lambda>_.
     bnd (validate_identifier ''plan.satisfaction_authority_proof_id'' (authority_proof_id (so_authority x))) (\<lambda>_.
     bnd (validate_collection_limit ''plan.satisfaction_evidence'' (length (so_supporting_evidence_ids x))
            MAX_SATISFACTION_SUPPORTING_EVIDENCE) (\<lambda>_.
     check_all (validate_identifier ''plan.evidence_id'') (so_supporting_evidence_ids x))))"

definition validate_plan_decision_hard_bounds :: "externs \<Rightarrow> plan_decision \<Rightarrow> planning_error + unit" where
  "validate_plan_decision_hard_bounds E decision =
     bnd (case decision of
         Changes targets \<Rightarrow>
           bnd (validate_collection_limit ''plan.targets'' (length targets) MAX_PLAN_TARGETS) (\<lambda>_.
             check_all target_bounds targets)
       | NoOp observations \<Rightarrow>
           bnd (validate_collection_limit ''plan.criterion_satisfaction'' (length observations)
                  MAX_CRITERION_SATISFACTION_OBSERVATIONS) (\<lambda>_.
             check_all observation_bounds observations)
       | Decision_EvidenceGap criterion_ids reason \<Rightarrow>
           if criterion_ids = [] then Inl (Plan_InvalidCandidate ''plan_evidence_gap_criteria_empty'')
           else validate_collection_limit ''plan.evidence_gap_criteria'' (length criterion_ids)
                  MAX_CRITERION_SATISFACTION_OBSERVATIONS) (\<lambda>_.
     bnd (plan_json E (ser_decision decision)) (\<lambda>serialized.
       validate_collection_limit ''plan.candidate_bytes'' (length serialized) MAX_PLAN_CANDIDATE_BYTES))"

section \<open>The canonical order of targets\<close>

text \<open>
  The loop of \<open>canonical_target_order\<close>: the first remaining target, in identity order, whose dependencies
  are all completed goes next; when there is none the order fails.
\<close>

definition target_ready ::
  "(target_id, planned_target) btree_map \<Rightarrow> target_id list \<Rightarrow> target_id \<Rightarrow> bool" where
  "target_ready by_id completed target_id = (case map_of by_id target_id of
       None \<Rightarrow> False
     | Some t \<Rightarrow> list_all (\<lambda>d. d \<in> set completed) (pt_dependencies t))"

lemma find_remove1_shorter [termination_simp]:
  "List.find P xs = Some y \<Longrightarrow> length (remove1 y xs) < length xs"
  by (auto simp: find_Some_iff length_remove1)

function order_loop ::
  "(target_id, planned_target) btree_map \<Rightarrow> target_id list \<Rightarrow> target_id list \<Rightarrow> planned_target list \<Rightarrow>
   planned_target list option" where
  "order_loop by_id remaining completed ordered =
     (if remaining = [] then Some ordered
      else case List.find (target_ready by_id completed) remaining of
          None \<Rightarrow> None
        | Some next_id \<Rightarrow> order_loop by_id (remove1 next_id remaining) (next_id # completed)
            (ordered @ (case map_of by_id next_id of None \<Rightarrow> [] | Some t \<Rightarrow> [t])))"
  by pat_completeness auto

termination
  by (relation "measure (\<lambda>(by_id, remaining, completed, ordered). length remaining)")
    (auto simp: find_Some_iff length_remove1)

declare order_loop.simps [simp del]

definition targets_by_id :: "planned_target list \<Rightarrow> (target_id, planned_target) btree_map" where
  "targets_by_id targets = bt_of_list (map (\<lambda>t. (pt_target_id t, t)) targets)"

definition canonical_target_order :: "planned_target list \<Rightarrow> planned_target list option" where
  "canonical_target_order targets =
     (let by_id = targets_by_id targets in
      if length by_id \<noteq> length targets then None
      else order_loop by_id (bt_keys by_id) [] [])"

section \<open>The canonical decision\<close>

definition canonical_target ::
  "externs \<Rightarrow> (target_id, target_id) btree_map \<Rightarrow> planned_target \<Rightarrow> planning_error + planned_target" where
  "canonical_target E semantic_ids t =
     (let deps = bset_of (map (\<lambda>d. case map_of semantic_ids d of None \<Rightarrow> d | Some s \<Rightarrow> s) (pt_dependencies t));
          t' = t\<lparr>pt_dependencies := deps, pt_target_id := the (map_of semantic_ids (pt_target_id t))\<rparr>
      in bnd (derive_change_id E t') (\<lambda>change_id. Inr (t'\<lparr>pt_change_id := change_id\<rparr>)))"

definition canonicalize_plan_decision :: "externs \<Rightarrow> plan_decision \<Rightarrow> planning_error + plan_decision" where
  "canonicalize_plan_decision E decision = (case decision of
       Changes targets \<Rightarrow>
         if \<not> distinct (map pt_target_id targets)
         then Inl (Plan_InvalidCandidate ''plan_provider_target_identity_ambiguous'')
         else bnd (map_res (\<lambda>t. bnd (derive_target_id E t) (\<lambda>s. Inr (pt_target_id t, s))) targets) (\<lambda>ids.
           bnd (map_res (canonical_target E (bt_of_list ids)) targets) (\<lambda>targets'.
             Inr (Changes (case canonical_target_order targets' of
                 Some ordered \<Rightarrow> ordered
               | None \<Rightarrow> sort_key pt_target_id targets'))))
     | NoOp observations \<Rightarrow> Inr (NoOp (sort_key so_observation_id observations))
     | other \<Rightarrow> Inr other)"

definition candidate_new ::
  "externs \<Rightarrow> u32 \<Rightarrow> repository_revision_id \<Rightarrow> evidence_id \<Rightarrow> plan_decision \<Rightarrow>
   planning_error + plan_candidate" where
  "candidate_new E revision_index repository_revision discovery_impact_map_id decision =
     (if revision_index = 0 then Inl (Plan_InvalidCandidate ''plan_revision_index_invalid'')
      else bnd (validate_plan_decision_hard_bounds E decision) (\<lambda>_.
      bnd (canonicalize_plan_decision E decision) (\<lambda>decision'.
      bnd (plan_json E (Ser_Tuple [ser_u PLANNING_SCHEMA_VERSION, Ser_Str repository_revision,
        Ser_Str discovery_impact_map_id, ser_decision decision'])) (\<lambda>identity.
      let plan_id = epv1 E [''execution-protocol-v1:plan'', identity] in
      Inr \<lparr>cand_schema_version = PLANNING_SCHEMA_VERSION, cand_plan_id = plan_id,
        cand_plan_revision_id = epv1 E [''execution-protocol-v1:plan-revision'', plan_id,
          decimal (unat revision_index)],
        cand_revision_index = revision_index, cand_repository_revision = repository_revision,
        cand_discovery_impact_map_id = discovery_impact_map_id, cand_decision = decision'\<rparr>))))"

definition candidate_validate_identity :: "externs \<Rightarrow> plan_candidate \<Rightarrow> planning_error + unit" where
  "candidate_validate_identity E c =
     bnd (validate_plan_decision_hard_bounds E (cand_decision c)) (\<lambda>_.
      if cand_schema_version c \<noteq> PLANNING_SCHEMA_VERSION
      then Inl (Plan_InvalidCandidate ''plan_candidate_identity_mismatch'')
      else bnd (candidate_new E (cand_revision_index c) (cand_repository_revision c)
             (cand_discovery_impact_map_id c) (cand_decision c)) (\<lambda>rebuilt.
        require (rebuilt = c) (Plan_InvalidCandidate ''plan_candidate_identity_mismatch'')))"

definition ser_candidate :: "plan_candidate \<Rightarrow> ser" where
  "ser_candidate c = Ser_Struct
     [(''schema_version'', ser_u (cand_schema_version c)), (''plan_id'', Ser_Str (cand_plan_id c)),
      (''plan_revision_id'', Ser_Str (cand_plan_revision_id c)), (''revision_index'', ser_u (cand_revision_index c)),
      (''repository_revision'', Ser_Str (cand_repository_revision c)),
      (''discovery_impact_map_id'', Ser_Str (cand_discovery_impact_map_id c)),
      (''decision'', ser_decision (cand_decision c))]"

definition candidate_validate_output_allowance ::
  "externs \<Rightarrow> plan_candidate \<Rightarrow> u32 \<Rightarrow> planning_error + unit" where
  "candidate_validate_output_allowance E c output_token_allowance =
     bnd (plan_json E (ser_candidate c)) (\<lambda>bytes.
       if length bytes > unat output_token_allowance
       then Inl (Plan_InvalidCandidate ''plan_candidate_output_allowance_exceeded'') else Inr ())"

end
