(* ===== verification/Plan_Order.thy ===== *)
theory Plan_Order
  imports Plan_Candidate "HOL-Library.Multiset"
begin

text \<open>
  That \<open>canonical_target_order\<close> is a topological sort: what it returns is a permutation in which every
  target follows its dependencies, it returns something whenever such a permutation exists, and the result
  depends on the set of targets only.
\<close>

section \<open>Dependency order\<close>

fun deps_before :: "target_id list \<Rightarrow> planned_target list \<Rightarrow> bool" where
  "deps_before seen [] = True"
| "deps_before seen (t # ts) = (set (pt_dependencies t) \<subseteq> set seen \<and> deps_before (pt_target_id t # seen) ts)"

lemma deps_before_mono: "deps_before seen ts \<Longrightarrow> set seen \<subseteq> set seen' \<Longrightarrow> deps_before seen' ts"
  by (induction ts arbitrary: seen seen') (auto, metis insert_mono list.simps(15))

lemma deps_before_pull:
  "deps_before seen ts \<Longrightarrow> t \<in> set ts \<Longrightarrow> set (pt_dependencies t) \<subseteq> set seen \<Longrightarrow>
   deps_before (pt_target_id t # seen) (remove1 t ts)"
proof (induction ts arbitrary: seen)
  case (Cons u ts)
  show ?case
  proof (cases "t = u")
    case True
    then show ?thesis using Cons.prems(1) by simp
  next
    case False
    with Cons.prems have "deps_before (pt_target_id t # pt_target_id u # seen) (remove1 t ts)"
      by (intro Cons.IH) auto
    then have "deps_before (pt_target_id u # pt_target_id t # seen) (remove1 t ts)"
      by (rule deps_before_mono) auto
    with False Cons.prems show ?thesis by auto
  qed
qed simp

text \<open>Targets stored under their own identity.\<close>

definition keyed :: "(target_id, planned_target) btree_map \<Rightarrow> planned_target list \<Rightarrow> bool" where
  "keyed m ts \<longleftrightarrow> (\<forall>t \<in> set ts. map_of m (pt_target_id t) = Some t)"

lemma target_ready_iff:
  "map_of m k = Some t \<Longrightarrow> target_ready m completed k \<longleftrightarrow> set (pt_dependencies t) \<subseteq> set completed"
  by (auto simp: target_ready_def list_all_iff)

lemma order_loop_sound:
  assumes m: "\<And>k t. map_of m k = Some t \<Longrightarrow> pt_target_id t = k"
    and "set remaining \<subseteq> dom (map_of m)" and "order_loop m remaining completed ordered = Some out"
  shows "\<exists>ts. out = ordered @ ts \<and> mset (map pt_target_id ts) = mset remaining \<and> keyed m ts \<and>
    deps_before completed ts"
  using assms(2,3)
proof (induction "length remaining" arbitrary: remaining completed ordered)
  case 0
  then show ?case by (simp add: order_loop.simps keyed_def)
next
  case (Suc l)
  then have "remaining \<noteq> []" by auto
  with Suc.prems(2) obtain k where k: "List.find (target_ready m completed) remaining = Some k"
    by (auto simp: order_loop.simps split: option.splits)
  then have mem: "k \<in> set remaining" and ready: "target_ready m completed k"
    by (auto simp: find_Some_iff)
  then obtain t where t: "map_of m k = Some t" using Suc.prems(1) by auto
  have loop: "order_loop m (remove1 k remaining) (k # completed) (ordered @ [t]) = Some out"
    using Suc.prems(2) \<open>remaining \<noteq> []\<close> k t by (simp add: order_loop.simps [of m remaining])
  have "set (remove1 k remaining) \<subseteq> dom (map_of m)"
    using Suc.prems(1) set_remove1_subset by fastforce
  moreover have "l = length (remove1 k remaining)" using Suc.hyps(2) mem by (simp add: length_remove1)
  ultimately obtain ts where ts: "out = (ordered @ [t]) @ ts"
    "mset (map pt_target_id ts) = mset (remove1 k remaining)" "keyed m ts" "deps_before (k # completed) ts"
    using Suc.hyps(1) [OF _ _ loop] by blast
  have id: "pt_target_id t = k" by (rule m [OF t])
  have "mset (map pt_target_id (t # ts)) = mset remaining" using ts(2) mem id by simp
  moreover have "keyed m (t # ts)" using ts(3) t id by (simp add: keyed_def)
  moreover have "deps_before completed (t # ts)" using ts(4) ready id by (simp add: target_ready_iff [OF t])
  ultimately show ?case using ts(1) by (intro exI [of _ "t # ts"]) simp
qed

lemma mset_map_remove1:
  assumes "x \<in> set xs"
  shows "mset (map f (remove1 x xs)) = mset (map f xs) - {#f x#}"
proof -
  have "mset xs = add_mset x (mset (remove1 x xs))" using assms by simp
  then have "mset (map f xs) = add_mset (f x) (mset (map f (remove1 x xs)))" by (metis image_mset_add_mset mset_map)
  then show ?thesis by simp
qed

lemma order_loop_complete:
  assumes "mset (map pt_target_id ts) = mset remaining" and "keyed m ts" and "deps_before completed ts"
    and "distinct remaining"
  shows "order_loop m remaining completed ordered \<noteq> None"
  using assms
proof (induction "length remaining" arbitrary: remaining completed ordered ts)
  case 0
  then show ?case by (simp add: order_loop.simps)
next
  case (Suc l)
  then have "remaining \<noteq> []" by auto
  from Suc.hyps(2) Suc.prems(1) obtain u us where ts: "ts = u # us"
    by (cases ts) (auto dest: arg_cong [where f = size])
  have set_eq: "set remaining = pt_target_id ` set ts"
    using Suc.prems(1) by (metis list.set_map set_mset_mset)
  have "map_of m (pt_target_id u) = Some u" using Suc.prems(2) ts by (simp add: keyed_def)
  then have "target_ready m completed (pt_target_id u)"
    using Suc.prems(3) ts by (simp add: target_ready_iff)
  moreover have "pt_target_id u \<in> set remaining" using set_eq ts by simp
  ultimately obtain k where k: "List.find (target_ready m completed) remaining = Some k"
    by (metis find_None_iff not_None_eq)
  then have mem: "k \<in> set remaining" and ready: "target_ready m completed k"
    by (auto simp: find_Some_iff)
  then obtain t where t: "t \<in> set ts" "pt_target_id t = k" using set_eq by auto
  have lookup: "map_of m k = Some t" using Suc.prems(2) t by (auto simp: keyed_def)
  have "order_loop m (remove1 k remaining) (k # completed) (ordered @ [t]) \<noteq> None"
  proof (rule Suc.hyps(1))
    show "l = length (remove1 k remaining)" using Suc.hyps(2) mem by (simp add: length_remove1)
    show "mset (map pt_target_id (remove1 t ts)) = mset (remove1 k remaining)"
      using Suc.prems(1) t by (simp only: mset_map_remove1 mset_remove1)
    show "keyed m (remove1 t ts)"
      using Suc.prems(2) set_remove1_subset by (fastforce simp: keyed_def)
    show "deps_before (k # completed) (remove1 t ts)"
      using deps_before_pull [OF Suc.prems(3) t(1)] ready t(2) by (simp add: target_ready_iff [OF lookup])
    show "distinct (remove1 k remaining)" using Suc.prems(4) by simp
  qed
  with k lookup \<open>remaining \<noteq> []\<close> show ?case by (simp add: order_loop.simps [of m remaining])
qed


section \<open>The map of targets\<close>

lemma map_of_distinct_keys:
  "distinct (map f ts) \<Longrightarrow> map_of (map (\<lambda>t. (f t, t)) ts) k = Some t \<longleftrightarrow> t \<in> set ts \<and> f t = k"
  by (subst map_of_eq_Some_iff) (auto simp: comp_def)

lemma targets_by_id_length: "length (targets_by_id ts) = length ts \<longleftrightarrow> distinct (map pt_target_id ts)"
  using bt_of_list_length [of "map (\<lambda>t. (pt_target_id t, t)) ts"]
  by (simp add: targets_by_id_def comp_def)

lemma targets_by_id_lookup:
  "distinct (map pt_target_id ts) \<Longrightarrow>
   map_of (targets_by_id ts) k = Some t \<longleftrightarrow> t \<in> set ts \<and> pt_target_id t = k"
  using map_of_distinct_keys [of pt_target_id "rev ts" k t]
  by (simp add: targets_by_id_def map_of_of_list rev_map distinct_rev flip: rev_map)

lemma targets_by_id_keys: "set (bt_keys (targets_by_id ts)) = pt_target_id ` set ts"
  by (simp add: bt_keys_def targets_by_id_def bt_of_list_keys image_image)

lemma targets_by_id_distinct_keys: "distinct (bt_keys (targets_by_id ts))"
  using bt_wf_distinct [OF bt_wf_of_list] by (simp add: bt_keys_def targets_by_id_def)

lemma targets_by_id_mset:
  "distinct (map pt_target_id ts) \<Longrightarrow> mset (bt_keys (targets_by_id ts)) = mset (map pt_target_id ts)"
  by (rule set_eq_iff_mset_eq_distinct [THEN iffD1])
    (simp_all add: targets_by_id_distinct_keys targets_by_id_keys)

lemma targets_by_id_cong:
  assumes "mset ts = mset ts'" and "distinct (map pt_target_id ts)"
  shows "targets_by_id ts = targets_by_id ts'"
proof (rule bt_wf_unique)
  have d: "distinct (map pt_target_id ts')" and s: "set ts = set ts'"
    using assms by (metis mset_eq_imp_distinct_iff mset_map, metis set_mset_mset)
  show "map_of (targets_by_id ts) = map_of (targets_by_id ts')"
  proof
    fix k
    show "map_of (targets_by_id ts) k = map_of (targets_by_id ts') k"
      using targets_by_id_lookup [OF assms(2), of k] targets_by_id_lookup [OF d, of k] s
      by (cases "map_of (targets_by_id ts) k"; cases "map_of (targets_by_id ts') k") auto
  qed
qed (simp_all add: targets_by_id_def bt_wf_of_list)

section \<open>The order\<close>

lemma keyed_same_targets:
  assumes "distinct (map pt_target_id ts)" and "keyed (targets_by_id ts) us"
    and "mset (map pt_target_id us) = mset (map pt_target_id ts)"
  shows "mset us = mset ts"
proof -
  have sub: "set us \<subseteq> set ts" using assms(2) by (auto simp: keyed_def targets_by_id_lookup [OF assms(1)])
  have d: "distinct (map pt_target_id us)" using assms(1,3) by (metis mset_eq_imp_distinct_iff)
  then have "distinct us" and "distinct ts" using assms(1) by (simp_all add: distinct_map)
  moreover have "length us = length ts" using assms(3) by (metis length_map mset_eq_length)
  ultimately have "set us = set ts" using sub by (metis card_subset_eq distinct_card finite_set)
  with \<open>distinct us\<close> \<open>distinct ts\<close> show ?thesis by (simp add: set_eq_iff_mset_eq_distinct)
qed

lemma canonical_order_sound:
  assumes "canonical_target_order ts = Some out"
  shows "mset out = mset ts \<and> distinct (map pt_target_id out) \<and> deps_before [] out"
proof -
  let ?m = "targets_by_id ts"
  have d: "distinct (map pt_target_id ts)"
    using assms by (auto simp: canonical_target_order_def targets_by_id_length Let_def split: if_splits)
  then have "order_loop ?m (bt_keys ?m) [] [] = Some out"
    using assms by (simp add: canonical_target_order_def Let_def targets_by_id_length)
  moreover have "set (bt_keys ?m) \<subseteq> dom (map_of ?m)" by (simp add: bt_keys_def dom_map_of_conv_image_fst)
  moreover have "pt_target_id t = k" if "map_of ?m k = Some t" for k t
    using that targets_by_id_lookup [OF d] by simp
  ultimately have out: "mset (map pt_target_id out) = mset (bt_keys ?m)" "keyed ?m out" "deps_before [] out"
    using order_loop_sound [of ?m "bt_keys ?m" "[]" "[]" out] by auto
  have "mset (map pt_target_id out) = mset (map pt_target_id ts)" using out(1) targets_by_id_mset [OF d] by simp
  with out d show ?thesis by (metis keyed_same_targets mset_eq_imp_distinct_iff)
qed

lemma canonical_order_complete:
  assumes "distinct (map pt_target_id ts)" and "mset us = mset ts" and "deps_before [] us"
  shows "canonical_target_order ts \<noteq> None"
proof -
  let ?m = "targets_by_id ts"
  have "mset (map pt_target_id us) = mset (bt_keys ?m)"
    using assms(2) targets_by_id_mset [OF assms(1)] by (metis mset_map)
  moreover have "keyed ?m us"
    using mset_eq_setD [OF assms(2)] targets_by_id_lookup [OF assms(1)] by (simp add: keyed_def)
  ultimately have "order_loop ?m (bt_keys ?m) [] [] \<noteq> None"
    using assms(3) by (intro order_loop_complete) (simp_all add: targets_by_id_distinct_keys)
  then show ?thesis using assms(1) by (simp add: canonical_target_order_def Let_def targets_by_id_length)
qed

lemma canonical_order_cong: "mset ts = mset ts' \<Longrightarrow> canonical_target_order ts = canonical_target_order ts'"
proof -
  assume eq: "mset ts = mset ts'"
  then have l: "length ts = length ts'" and d: "distinct (map pt_target_id ts) = distinct (map pt_target_id ts')"
    by (metis mset_eq_length, metis mset_eq_imp_distinct_iff mset_map)
  show ?thesis
  proof (cases "distinct (map pt_target_id ts)")
    case True
    then show ?thesis using targets_by_id_cong [OF eq True] l by (simp add: canonical_target_order_def)
  next
    case False
    then show ?thesis using d by (simp add: canonical_target_order_def Let_def targets_by_id_length)
  qed
qed

text \<open>The index of a target in an order that respects dependencies is above the index of each dependency.\<close>

lemma deps_before_index:
  "deps_before seen ts \<Longrightarrow> i < length ts \<Longrightarrow> d \<in> set (pt_dependencies (ts ! i)) \<Longrightarrow>
   d \<in> set seen \<or> (\<exists>j < i. pt_target_id (ts ! j) = d)"
proof (induction ts arbitrary: seen i)
  case (Cons t ts)
  show ?case
  proof (cases i)
    case 0
    then show ?thesis using Cons.prems by auto
  next
    case (Suc l)
    with Cons.prems Cons.IH [of "pt_target_id t # seen" l]
    have "d \<in> set (pt_target_id t # seen) \<or> (\<exists>j < l. pt_target_id (ts ! j) = d)" by simp
    then show ?thesis
    proof
      assume "d \<in> set (pt_target_id t # seen)"
      then show ?thesis using Suc by (auto intro: exI [of _ 0])
    next
      assume "\<exists>j < l. pt_target_id (ts ! j) = d"
      then obtain j where "j < l" "pt_target_id (ts ! j) = d" by blast
      then show ?thesis using Suc by (intro disjI2 exI [of _ "Suc j"]) simp
    qed
  qed
qed simp

end
