(* ===== verification/Profile_Data.thy ===== *)
theory Profile_Data
  imports Profile_Model
begin

text \<open>
  The vectors of a profile and their order (\<open>src/execution_protocol/profile.rs\<close>): \<open>derive(Ord)\<close> compares
  the fields in their order and an enum by the place of its variant. Then the profile and what it serialises to.
\<close>

section \<open>Order\<close>

definition place_in :: "'a list \<Rightarrow> 'a \<Rightarrow> nat" where
  "place_in xs x = length (takeWhile (\<lambda>y. y \<noteq> x) xs)"

definition ecosystem_place :: "ecosystem_kind \<Rightarrow> nat" where
  "ecosystem_place = place_in [Eco_Rust, Eco_Node, Eco_Python, Eco_Go, Eco_Unknown]"

definition capability_place :: "capability_kind \<Rightarrow> nat" where
  "capability_place = place_in [CargoProject, PackageScripts, Cap_PythonProject, Cap_GoModule, GenericTextStructure]"

definition metadata_place :: "metadata_kind \<Rightarrow> nat" where
  "metadata_place = place_in [CargoManifest, CargoLock, PackageManifest, NpmLock, PnpmLock, YarnLock, PythonProject,
     PoetryLock, UvLock, GoModule, GoChecksum]"

definition status_place :: "metadata_status \<Rightarrow> nat" where
  "status_place = place_in [Parsed, Observed, Malformed, ContentUnavailable]"

definition disposition_place :: "path_disposition \<Rightarrow> nat" where
  "disposition_place = place_in [OrdinarySource, ReadOnlyGeneratedOutput, RegenerateThroughAuthorizedCommand]"

definition marker_place :: "marker_kind \<Rightarrow> nat" where
  "marker_place = place_in [AtGenerated, CodeGeneratedDoNotEdit, GeneratedFileDoNotEdit]"

definition class_place :: "validation_class \<Rightarrow> nat" where
  "class_place = place_in [TestSuite, Class_Build, Typecheck, Lint]"

definition command_place :: "command_kind \<Rightarrow> nat" where
  "command_place = place_in [CargoTest, CargoBuild, NpmTest, NpmBuild, NpmTypecheck, NpmLint, PythonPytest,
     PythonBuild, GoTestAll, GoBuildAll]"

definition uncertainty_place :: "uncertainty_kind \<Rightarrow> nat" where
  "uncertainty_place = place_in [NoKnownEcosystem, MalformedMetadata, MetadataContentUnavailable]"

fun rule_provenance_key :: "rule_provenance \<Rightarrow> nat \<times> string \<times> nat \<times> string" where
  "rule_provenance_key (FileMarker i m h) = (0, i, marker_place m, h)"
| "rule_provenance_key (GeneratorConfiguration i) = (1, i, 0, [])"

fun command_provenance_key :: "command_provenance \<Rightarrow> nat \<times> string" where
  "command_provenance_key (SignedExecutionPolicy i) = (0, i)"
| "command_provenance_key (ParsedProjectMetadata i) = (1, i)"
| "command_provenance_key (ParsedCiConfiguration i) = (2, i)"

fun option_key :: "string option \<Rightarrow> nat \<times> string" where
  "option_key None = (0, [])"
| "option_key (Some s) = (1, s)"

lemmas places = ecosystem_place_def capability_place_def metadata_place_def status_place_def disposition_place_def
  marker_place_def class_place_def command_place_def uncertainty_place_def place_in_def

lemma place_inject [simp]:
  "ecosystem_place a = ecosystem_place b \<longleftrightarrow> a = b" "capability_place c = capability_place d \<longleftrightarrow> c = d"
  "metadata_place e = metadata_place f \<longleftrightarrow> e = f" "status_place g = status_place h \<longleftrightarrow> g = h"
  "disposition_place i = disposition_place j \<longleftrightarrow> i = j" "marker_place k = marker_place l \<longleftrightarrow> k = l"
  "class_place m = class_place n \<longleftrightarrow> m = n" "command_place p = command_place q \<longleftrightarrow> p = q"
  "uncertainty_place u = uncertainty_place v \<longleftrightarrow> u = v"
  subgoal by (cases a; cases b; simp add: places)
  subgoal by (cases c; cases d; simp add: places)
  subgoal by (cases e; cases f; simp add: places)
  subgoal by (cases g; cases h; simp add: places)
  subgoal by (cases i; cases j; simp add: places)
  subgoal by (cases k; cases l; simp add: places)
  subgoal by (cases m; cases n; simp add: places)
  subgoal by (cases p; cases q; simp add: places)
  subgoal by (cases u; cases v; simp add: places)
  done

lemma key_inject [simp]:
  "rule_provenance_key a = rule_provenance_key b \<longleftrightarrow> a = b"
  "command_provenance_key c = command_provenance_key d \<longleftrightarrow> c = d" "option_key e = option_key f \<longleftrightarrow> e = f"
  subgoal by (cases a; cases b; simp)
  subgoal by (cases c; cases d; simp)
  subgoal by (cases e; cases f; simp)
  done

section \<open>The vectors\<close>

datatype ecosystem_capability = Ecosystem_Capability
  (ec_ecosystem: ecosystem_kind) (ec_capability: capability_kind) (ec_evidence_id: evidence_id)

datatype metadata_observation = Metadata_Observation
  (mt_path: profile_path) (mt_kind: metadata_kind) (mt_status: metadata_status) (mt_evidence_id: evidence_id)
  (mt_content_hash: content_hash)

datatype generated_rule = Generated_Rule
  (gr_path: profile_path) (gr_disposition: path_disposition) (gr_provenance: rule_provenance)

datatype command_candidate = Command_Candidate
  (vc_candidate_id: evidence_id) (vc_command: command_kind) (vc_class: validation_class)
  (vc_working_directory: profile_path) (vc_provenance: command_provenance) (vc_authority: command_authority)

datatype profile_uncertainty = Profile_Uncertainty
  (pu_kind: uncertainty_kind) (pu_path: "profile_path option") (pu_evidence_id: "evidence_id option")

instantiation ecosystem_capability :: linorder
begin

definition ecosystem_capability_key :: "ecosystem_capability \<Rightarrow> nat \<times> nat \<times> string" where
  "ecosystem_capability_key x = (ecosystem_place (ec_ecosystem x), capability_place (ec_capability x), ec_evidence_id x)"

definition less_eq_ecosystem_capability :: "ecosystem_capability \<Rightarrow> ecosystem_capability \<Rightarrow> bool" where
  "x \<le> y \<longleftrightarrow> ecosystem_capability_key x \<le> ecosystem_capability_key y"

definition less_ecosystem_capability :: "ecosystem_capability \<Rightarrow> ecosystem_capability \<Rightarrow> bool" where
  "x < y \<longleftrightarrow> ecosystem_capability_key x < ecosystem_capability_key y"

instance
proof -
  have "ecosystem_capability_key x = ecosystem_capability_key y \<longleftrightarrow> x = y" for x y
    by (cases x; cases y) (simp add: ecosystem_capability_key_def)
  then show "OFCLASS(ecosystem_capability, linorder_class)"
    by intro_classes (auto simp: less_eq_ecosystem_capability_def less_ecosystem_capability_def less_le_not_le)
qed

end

instantiation metadata_observation :: linorder
begin

definition metadata_observation_key :: "metadata_observation \<Rightarrow> string \<times> nat \<times> nat \<times> string \<times> string" where
  "metadata_observation_key x = (mt_path x, metadata_place (mt_kind x), status_place (mt_status x),
     mt_evidence_id x, mt_content_hash x)"

definition less_eq_metadata_observation :: "metadata_observation \<Rightarrow> metadata_observation \<Rightarrow> bool" where
  "x \<le> y \<longleftrightarrow> metadata_observation_key x \<le> metadata_observation_key y"

definition less_metadata_observation :: "metadata_observation \<Rightarrow> metadata_observation \<Rightarrow> bool" where
  "x < y \<longleftrightarrow> metadata_observation_key x < metadata_observation_key y"

instance
proof -
  have "metadata_observation_key x = metadata_observation_key y \<longleftrightarrow> x = y" for x y
    by (cases x; cases y) (simp add: metadata_observation_key_def)
  then show "OFCLASS(metadata_observation, linorder_class)"
    by intro_classes (auto simp: less_eq_metadata_observation_def less_metadata_observation_def less_le_not_le)
qed

end

instantiation generated_rule :: linorder
begin

definition generated_rule_key :: "generated_rule \<Rightarrow> string \<times> nat \<times> nat \<times> string \<times> nat \<times> string" where
  "generated_rule_key x = (gr_path x, disposition_place (gr_disposition x), rule_provenance_key (gr_provenance x))"

definition less_eq_generated_rule :: "generated_rule \<Rightarrow> generated_rule \<Rightarrow> bool" where
  "x \<le> y \<longleftrightarrow> generated_rule_key x \<le> generated_rule_key y"

definition less_generated_rule :: "generated_rule \<Rightarrow> generated_rule \<Rightarrow> bool" where
  "x < y \<longleftrightarrow> generated_rule_key x < generated_rule_key y"

instance
proof -
  have "generated_rule_key x = generated_rule_key y \<longleftrightarrow> x = y" for x y
    by (cases x; cases y) (simp add: generated_rule_key_def)
  then show "OFCLASS(generated_rule, linorder_class)"
    by intro_classes (auto simp: less_eq_generated_rule_def less_generated_rule_def less_le_not_le)
qed

end

instantiation command_candidate :: linorder
begin

definition command_candidate_key ::
  "command_candidate \<Rightarrow> string \<times> nat \<times> nat \<times> string \<times> (nat \<times> string)" where
  "command_candidate_key x = (vc_candidate_id x, command_place (vc_command x), class_place (vc_class x),
     vc_working_directory x, command_provenance_key (vc_provenance x))"

definition less_eq_command_candidate :: "command_candidate \<Rightarrow> command_candidate \<Rightarrow> bool" where
  "x \<le> y \<longleftrightarrow> command_candidate_key x \<le> command_candidate_key y"

definition less_command_candidate :: "command_candidate \<Rightarrow> command_candidate \<Rightarrow> bool" where
  "x < y \<longleftrightarrow> command_candidate_key x < command_candidate_key y"

instance
proof -
  have "command_candidate_key x = command_candidate_key y \<longleftrightarrow> x = y" for x y
    by (cases x; cases y; cases "vc_authority x"; cases "vc_authority y") (simp add: command_candidate_key_def)
  then show "OFCLASS(command_candidate, linorder_class)"
    by intro_classes (auto simp: less_eq_command_candidate_def less_command_candidate_def less_le_not_le)
qed

end

instantiation profile_uncertainty :: linorder
begin

definition profile_uncertainty_key :: "profile_uncertainty \<Rightarrow> nat \<times> (nat \<times> string) \<times> (nat \<times> string)" where
  "profile_uncertainty_key x = (uncertainty_place (pu_kind x), option_key (pu_path x), option_key (pu_evidence_id x))"

definition less_eq_profile_uncertainty :: "profile_uncertainty \<Rightarrow> profile_uncertainty \<Rightarrow> bool" where
  "x \<le> y \<longleftrightarrow> profile_uncertainty_key x \<le> profile_uncertainty_key y"

definition less_profile_uncertainty :: "profile_uncertainty \<Rightarrow> profile_uncertainty \<Rightarrow> bool" where
  "x < y \<longleftrightarrow> profile_uncertainty_key x < profile_uncertainty_key y"

instance
proof -
  have "profile_uncertainty_key x = profile_uncertainty_key y \<longleftrightarrow> x = y" for x y
    by (cases x; cases y) (simp add: profile_uncertainty_key_def)
  then show "OFCLASS(profile_uncertainty, linorder_class)"
    by intro_classes (auto simp: less_eq_profile_uncertainty_def less_profile_uncertainty_def less_le_not_le)
qed

end

section \<open>The profile\<close>

record file_size_policy =
  sp_profile_capture_limit_bytes :: u64
  sp_discovery_full_read_limit_bytes :: u64
  sp_discovery_range_limit_bytes :: u64

definition file_size_policy_default :: file_size_policy where
  "file_size_policy_default = \<lparr>sp_profile_capture_limit_bytes = of_nat MAX_CAPTURED_FILE_BYTES,
     sp_discovery_full_read_limit_bytes = 64 * 1024, sp_discovery_range_limit_bytes = 16 * 1024\<rparr>"

record repository_profile =
  rp_schema_version :: u16
  rp_profile_id :: repository_profile_id
  rp_repository_revision :: repository_revision_id
  rp_inventory_fingerprint :: content_hash
  rp_ecosystems :: "ecosystem_capability list"
  rp_source_roots :: "profile_path list"
  rp_test_roots :: "profile_path list"
  rp_metadata_files :: "metadata_observation list"
  rp_dependency_files :: "profile_path list"
  rp_generated_rules :: "generated_rule list"
  rp_validation_candidates :: "command_candidate list"
  rp_repository_size :: size_class
  rp_text_file_limits :: file_size_policy
  rp_uncertainties :: "profile_uncertainty list"

section \<open>Serialised values\<close>

fun ser_ecosystem :: "ecosystem_kind \<Rightarrow> ser" where
  "ser_ecosystem Eco_Rust = Ser_Str ''rust''"
| "ser_ecosystem Eco_Node = Ser_Str ''node''"
| "ser_ecosystem Eco_Python = Ser_Str ''python''"
| "ser_ecosystem Eco_Go = Ser_Str ''go''"
| "ser_ecosystem Eco_Unknown = Ser_Str ''unknown''"

fun ser_capability :: "capability_kind \<Rightarrow> ser" where
  "ser_capability CargoProject = Ser_Str ''cargo_project''"
| "ser_capability PackageScripts = Ser_Str ''package_scripts''"
| "ser_capability Cap_PythonProject = Ser_Str ''python_project''"
| "ser_capability Cap_GoModule = Ser_Str ''go_module''"
| "ser_capability GenericTextStructure = Ser_Str ''generic_text_structure''"

fun ser_metadata_kind :: "metadata_kind \<Rightarrow> ser" where
  "ser_metadata_kind CargoManifest = Ser_Str ''cargo_manifest''"
| "ser_metadata_kind CargoLock = Ser_Str ''cargo_lock''"
| "ser_metadata_kind PackageManifest = Ser_Str ''package_manifest''"
| "ser_metadata_kind NpmLock = Ser_Str ''npm_lock''"
| "ser_metadata_kind PnpmLock = Ser_Str ''pnpm_lock''"
| "ser_metadata_kind YarnLock = Ser_Str ''yarn_lock''"
| "ser_metadata_kind PythonProject = Ser_Str ''python_project''"
| "ser_metadata_kind PoetryLock = Ser_Str ''poetry_lock''"
| "ser_metadata_kind UvLock = Ser_Str ''uv_lock''"
| "ser_metadata_kind GoModule = Ser_Str ''go_module''"
| "ser_metadata_kind GoChecksum = Ser_Str ''go_checksum''"

fun ser_metadata_status :: "metadata_status \<Rightarrow> ser" where
  "ser_metadata_status Parsed = Ser_Str ''parsed''"
| "ser_metadata_status Observed = Ser_Str ''observed''"
| "ser_metadata_status Malformed = Ser_Str ''malformed''"
| "ser_metadata_status ContentUnavailable = Ser_Str ''content_unavailable''"

fun ser_disposition :: "path_disposition \<Rightarrow> ser" where
  "ser_disposition OrdinarySource = Ser_Str ''ordinary_source''"
| "ser_disposition ReadOnlyGeneratedOutput = Ser_Str ''read_only_generated_output''"
| "ser_disposition RegenerateThroughAuthorizedCommand = Ser_Str ''regenerate_through_authorized_command''"

fun ser_marker :: "marker_kind \<Rightarrow> ser" where
  "ser_marker AtGenerated = Ser_Str ''at_generated''"
| "ser_marker CodeGeneratedDoNotEdit = Ser_Str ''code_generated_do_not_edit''"
| "ser_marker GeneratedFileDoNotEdit = Ser_Str ''generated_file_do_not_edit''"

fun ser_rule_provenance :: "rule_provenance \<Rightarrow> ser" where
  "ser_rule_provenance (FileMarker i m h) = Ser_Struct [(''source'', Ser_Str ''file_marker''),
     (''evidence_id'', Ser_Str i), (''marker'', ser_marker m), (''content_hash'', Ser_Str h)]"
| "ser_rule_provenance (GeneratorConfiguration i) =
     Ser_Struct [(''source'', Ser_Str ''generator_configuration''), (''evidence_id'', Ser_Str i)]"

fun ser_validation_class :: "validation_class \<Rightarrow> ser" where
  "ser_validation_class TestSuite = Ser_Str ''test_suite''"
| "ser_validation_class Class_Build = Ser_Str ''build''"
| "ser_validation_class Typecheck = Ser_Str ''typecheck''"
| "ser_validation_class Lint = Ser_Str ''lint''"

fun ser_command_provenance :: "command_provenance \<Rightarrow> ser" where
  "ser_command_provenance (SignedExecutionPolicy i) =
     Ser_Struct [(''source'', Ser_Str ''signed_execution_policy''), (''evidence_id'', Ser_Str i)]"
| "ser_command_provenance (ParsedProjectMetadata i) =
     Ser_Struct [(''source'', Ser_Str ''parsed_project_metadata''), (''evidence_id'', Ser_Str i)]"
| "ser_command_provenance (ParsedCiConfiguration i) =
     Ser_Struct [(''source'', Ser_Str ''parsed_ci_configuration''), (''evidence_id'', Ser_Str i)]"

fun ser_size_class :: "size_class \<Rightarrow> ser" where
  "ser_size_class Size_Tiny = Ser_Str ''tiny''"
| "ser_size_class Size_Small = Ser_Str ''small''"
| "ser_size_class Size_Medium = Ser_Str ''medium''"
| "ser_size_class Size_Large = Ser_Str ''large''"

fun ser_uncertainty_kind :: "uncertainty_kind \<Rightarrow> ser" where
  "ser_uncertainty_kind NoKnownEcosystem = Ser_Str ''no_known_ecosystem''"
| "ser_uncertainty_kind MalformedMetadata = Ser_Str ''malformed_metadata''"
| "ser_uncertainty_kind MetadataContentUnavailable = Ser_Str ''metadata_content_unavailable''"

definition ser_ecosystem_capability :: "ecosystem_capability \<Rightarrow> ser" where
  "ser_ecosystem_capability x = Ser_Struct [(''ecosystem'', ser_ecosystem (ec_ecosystem x)),
     (''capability'', ser_capability (ec_capability x)), (''evidence_id'', Ser_Str (ec_evidence_id x))]"

definition ser_metadata_observation :: "metadata_observation \<Rightarrow> ser" where
  "ser_metadata_observation x = Ser_Struct [(''path'', Ser_Str (mt_path x)), (''kind'', ser_metadata_kind (mt_kind x)),
     (''status'', ser_metadata_status (mt_status x)), (''evidence_id'', Ser_Str (mt_evidence_id x)),
     (''content_hash'', Ser_Str (mt_content_hash x))]"

definition ser_generated_rule :: "generated_rule \<Rightarrow> ser" where
  "ser_generated_rule x = Ser_Struct [(''path'', Ser_Str (gr_path x)),
     (''disposition'', ser_disposition (gr_disposition x)), (''provenance'', ser_rule_provenance (gr_provenance x))]"

definition ser_command_candidate :: "command_candidate \<Rightarrow> ser" where
  "ser_command_candidate x = Ser_Struct [(''candidate_id'', Ser_Str (vc_candidate_id x)),
     (''command'', Ser_Str (identity_key (vc_command x))), (''class'', ser_validation_class (vc_class x)),
     (''working_directory'', Ser_Str (vc_working_directory x)),
     (''provenance'', ser_command_provenance (vc_provenance x)), (''authority'', Ser_Str ''candidate_only'')]"

definition ser_profile_uncertainty :: "profile_uncertainty \<Rightarrow> ser" where
  "ser_profile_uncertainty x = Ser_Struct [(''kind'', ser_uncertainty_kind (pu_kind x)),
     (''path'', ser_opt (pu_path x)), (''evidence_id'', ser_opt (pu_evidence_id x))]"

definition ser_file_size_policy :: "file_size_policy \<Rightarrow> ser" where
  "ser_file_size_policy x = Ser_Struct
     [(''profile_capture_limit_bytes'', ser_u (sp_profile_capture_limit_bytes x)),
      (''discovery_full_read_limit_bytes'', ser_u (sp_discovery_full_read_limit_bytes x)),
      (''discovery_range_limit_bytes'', ser_u (sp_discovery_range_limit_bytes x))]"

text \<open>\<open>ProfileIdentityMaterial\<close>: every field of the profile but its identity.\<close>

definition profile_material :: "repository_profile \<Rightarrow> ser" where
  "profile_material p = Ser_Struct
     [(''schema_version'', ser_u (rp_schema_version p)), (''repository_revision'', Ser_Str (rp_repository_revision p)),
      (''inventory_fingerprint'', Ser_Str (rp_inventory_fingerprint p)),
      (''ecosystems'', Ser_Tuple (map ser_ecosystem_capability (rp_ecosystems p))),
      (''source_roots'', ser_strs (rp_source_roots p)), (''test_roots'', ser_strs (rp_test_roots p)),
      (''metadata_files'', Ser_Tuple (map ser_metadata_observation (rp_metadata_files p))),
      (''dependency_files'', ser_strs (rp_dependency_files p)),
      (''generated_rules'', Ser_Tuple (map ser_generated_rule (rp_generated_rules p))),
      (''validation_candidates'', Ser_Tuple (map ser_command_candidate (rp_validation_candidates p))),
      (''repository_size'', ser_size_class (rp_repository_size p)),
      (''text_file_limits'', ser_file_size_policy (rp_text_file_limits p)),
      (''uncertainties'', Ser_Tuple (map ser_profile_uncertainty (rp_uncertainties p)))]"

definition derive_profile_id :: "externs \<Rightarrow> repository_profile \<Rightarrow> profile_error + repository_profile_id" where
  "derive_profile_id E p = bnd (ok_or Prof_IdentityEncoding (to_json E (profile_material p))) (\<lambda>canonical.
     Inr (epv1 E [''execution-protocol-v1:repository-profile'', canonical]))"

end
