(* ===== verification/Profile_Build.thy ===== *)
theory Profile_Build
  imports Profile_Data
begin

text \<open>
  How a profile is built from an inventory and how a recorded one is checked
  (\<open>src/execution_protocol/profile.rs\<close>). The parser of package manifests is \<open>serde_json\<close>: it is the
  argument \<open>scripts\<close>, the names of the scripts of a text that parses as a \<open>PackageManifest\<close>.
\<close>

type_synonym manifest_parser = "string \<Rightarrow> string list option"

section \<open>Text\<close>

definition continuation :: "char \<Rightarrow> bool" where
  "continuation c \<longleftrightarrow> 128 \<le> byte c \<and> byte c \<le> 191"

text \<open>\<open>std::str::from_utf8(s).is_ok()\<close>: the well-formed byte sequences of the Unicode standard.\<close>

fun utf8_valid :: "string \<Rightarrow> bool" where
  "utf8_valid [] = True"
| "utf8_valid [a] = (byte a \<le> 127)"
| "utf8_valid [a, b] =
     (if byte a \<le> 127 then utf8_valid [b] else 194 \<le> byte a \<and> byte a \<le> 223 \<and> continuation b)"
| "utf8_valid [a, b, c] =
     (if byte a \<le> 127 then utf8_valid [b, c]
      else if byte a \<le> 223 then 194 \<le> byte a \<and> continuation b \<and> utf8_valid [c]
      else byte a \<le> 239 \<and> continuation b \<and> continuation c \<and>
        (byte a = 224 \<longrightarrow> 160 \<le> byte b) \<and> (byte a = 237 \<longrightarrow> byte b \<le> 159))"
| "utf8_valid (a # b # c # d # s) =
     (if byte a \<le> 127 then utf8_valid (b # c # d # s)
      else if byte a \<le> 223 then 194 \<le> byte a \<and> continuation b \<and> utf8_valid (c # d # s)
      else if byte a \<le> 239 then continuation b \<and> continuation c \<and>
        (byte a = 224 \<longrightarrow> 160 \<le> byte b) \<and> (byte a = 237 \<longrightarrow> byte b \<le> 159) \<and> utf8_valid (d # s)
      else byte a \<le> 244 \<and> continuation b \<and> continuation c \<and> continuation d \<and>
        (byte a = 240 \<longrightarrow> 144 \<le> byte b) \<and> (byte a = 244 \<longrightarrow> byte b \<le> 143) \<and> utf8_valid s)"

text \<open>\<open>chars().take(n)\<close> of valid UTF-8: a character is a byte with the continuation bytes behind it.\<close>

fun take_chars :: "nat \<Rightarrow> string \<Rightarrow> string" where
  "take_chars n [] = []"
| "take_chars n (c # s) =
     (if continuation c then c # take_chars n s
      else case n of 0 \<Rightarrow> [] | Suc m \<Rightarrow> c # take_chars m s)"

definition LF :: char where "LF = CHR 0x0A"
definition CR :: char where "CR = CHR 0x0D"

text \<open>\<open>str::lines\<close>: a line ends at a line feed, with a carriage return before it dropped.\<close>

definition drop_cr :: "string \<Rightarrow> string" where
  "drop_cr s = (if ends_with [CR] s then butlast s else s)"

definition str_lines :: "string \<Rightarrow> string list" where
  "str_lines s = (let pieces = split_on LF s in
     map drop_cr (butlast pieces) @ (if last pieces = [] then [] else [last pieces]))"

definition text_of :: "string option \<Rightarrow> string option" where
  "text_of content = (case content of None \<Rightarrow> None | Some c \<Rightarrow> if utf8_valid c then Some c else None)"

section \<open>Metadata\<close>

definition profile_fingerprint :: "externs \<Rightarrow> inventory \<Rightarrow> content_hash" where
  "profile_fingerprint E iv = stable_sha256 E [''execution-protocol-v1:repository-inventory'',
     iv_repository_revision iv,
     join_with [CHR 0x1F] (map (\<lambda>f. fo_path f @ [CHR 0x00] @ decimal (unat (fo_byte_len f)) @ [CHR 0x00] @
       fo_content_hash f) (iv_files iv))]"

definition profile_evidence_id ::
  "externs \<Rightarrow> repository_revision_id \<Rightarrow> string \<Rightarrow> profile_path \<Rightarrow> content_hash \<Rightarrow> evidence_id" where
  "profile_evidence_id E revision kind path content_hash =
     epv1 E [''execution-protocol-v1:profile-evidence'', revision, kind, path, content_hash]"

definition metadata_kind :: "profile_path \<Rightarrow> metadata_kind option" where
  "metadata_kind path = map_of
     [(''Cargo.toml'', CargoManifest), (''Cargo.lock'', CargoLock), (''package.json'', PackageManifest),
      (''package-lock.json'', NpmLock), (''pnpm-lock.yaml'', PnpmLock), (''yarn.lock'', YarnLock),
      (''pyproject.toml'', PythonProject), (''poetry.lock'', PoetryLock), (''uv.lock'', UvLock),
      (''go.mod'', GoModule), (''go.sum'', GoChecksum)] (last (split_on SLASH path))"

fun metadata_capability :: "metadata_kind \<Rightarrow> (ecosystem_kind \<times> capability_kind) option" where
  "metadata_capability CargoManifest = Some (Eco_Rust, CargoProject)"
| "metadata_capability PackageManifest = Some (Eco_Node, PackageScripts)"
| "metadata_capability PythonProject = Some (Eco_Python, Cap_PythonProject)"
| "metadata_capability GoModule = Some (Eco_Go, Cap_GoModule)"
| "metadata_capability _ = None"

definition bool_status :: "bool \<Rightarrow> metadata_status" where
  "bool_status parsed = (if parsed then Parsed else Malformed)"

definition any_line :: "(string \<Rightarrow> bool) \<Rightarrow> string \<Rightarrow> bool" where
  "any_line P text \<longleftrightarrow> list_ex P (map trim (str_lines text))"

fun parsed_status :: "manifest_parser \<Rightarrow> metadata_kind \<Rightarrow> string \<Rightarrow> metadata_status" where
  "parsed_status scripts CargoManifest text =
     bool_status (any_line (\<lambda>l. l = ''[package]'' \<or> l = ''[workspace]'') text)"
| "parsed_status scripts PackageManifest text = bool_status (scripts text \<noteq> None)"
| "parsed_status scripts PythonProject text = bool_status (any_line (\<lambda>l. l = ''[project]'' \<or>
     l = ''[build-system]'' \<or> starts_with ''[tool.'' l) text)"
| "parsed_status scripts GoModule text =
     bool_status (any_line (\<lambda>l. starts_with ''module '' l \<and> length l > length ''module '') text)"
| "parsed_status scripts _ text = Observed"

definition metadata_status :: "manifest_parser \<Rightarrow> metadata_kind \<Rightarrow> string option \<Rightarrow> metadata_status" where
  "metadata_status scripts kind content = (case content of
       None \<Rightarrow> ContentUnavailable
     | Some c \<Rightarrow> if \<not> utf8_valid c then Malformed else parsed_status scripts kind c)"

definition command_candidate_id :: "externs \<Rightarrow> evidence_id \<Rightarrow> command_kind \<Rightarrow> profile_path \<Rightarrow> evidence_id" where
  "command_candidate_id E evidence_id command working_directory =
     epv1 E [''execution-protocol-v1:validation-command-candidate'', evidence_id, identity_key command,
       working_directory]"

fun metadata_commands :: "manifest_parser \<Rightarrow> metadata_kind \<Rightarrow> string option \<Rightarrow> (command_kind \<times> validation_class) list" where
  "metadata_commands scripts CargoManifest content = [(CargoTest, TestSuite), (CargoBuild, Class_Build)]"
| "metadata_commands scripts PackageManifest content =
     (let names = (case text_of content of None \<Rightarrow> [] | Some text \<Rightarrow> (case scripts text of None \<Rightarrow> [] | Some n \<Rightarrow> n))
      in map snd (filter (\<lambda>(name, c). name \<in> set names)
        [(''test'', NpmTest, TestSuite), (''build'', NpmBuild, Class_Build),
         (''typecheck'', NpmTypecheck, Typecheck), (''lint'', NpmLint, Lint)]))"
| "metadata_commands scripts PythonProject content =
     (let text = (case text_of content of None \<Rightarrow> [] | Some text \<Rightarrow> text) in
      (if any_line (\<lambda>l. l = ''[tool.pytest]'' \<or> starts_with ''[tool.pytest.'' l) text
       then [(PythonPytest, TestSuite)] else []) @
      (if any_line (\<lambda>l. l = ''[build-system]'') text then [(PythonBuild, Class_Build)] else []))"
| "metadata_commands scripts GoModule content = [(GoTestAll, TestSuite), (GoBuildAll, Class_Build)]"
| "metadata_commands scripts _ content = []"

definition command_candidates ::
  "externs \<Rightarrow> manifest_parser \<Rightarrow> metadata_kind \<Rightarrow> file_observation \<Rightarrow> evidence_id \<Rightarrow> command_candidate list" where
  "command_candidates E scripts kind file evidence_id =
     (let working_directory = path_parent (fo_path file) in
      map (\<lambda>(command, class). Command_Candidate (command_candidate_id E evidence_id command working_directory)
        command class working_directory (ParsedProjectMetadata evidence_id) CandidateOnly)
        (metadata_commands scripts kind (fo_captured_content file)))"

fun command_matches_metadata :: "command_kind \<Rightarrow> metadata_kind \<Rightarrow> bool" where
  "command_matches_metadata CargoTest kind = (kind = CargoManifest)"
| "command_matches_metadata CargoBuild kind = (kind = CargoManifest)"
| "command_matches_metadata NpmTest kind = (kind = PackageManifest)"
| "command_matches_metadata NpmBuild kind = (kind = PackageManifest)"
| "command_matches_metadata NpmTypecheck kind = (kind = PackageManifest)"
| "command_matches_metadata NpmLint kind = (kind = PackageManifest)"
| "command_matches_metadata PythonPytest kind = (kind = PythonProject)"
| "command_matches_metadata PythonBuild kind = (kind = PythonProject)"
| "command_matches_metadata GoTestAll kind = (kind = GoModule)"
| "command_matches_metadata GoBuildAll kind = (kind = GoModule)"

section \<open>Generated files and roots\<close>

definition generated_marker :: "string \<Rightarrow> marker_kind option" where
  "generated_marker content =
     (if \<not> utf8_valid content then None
      else let prefix = ascii_lower (take_chars 4096 content) in
        if contains_str ''@generated'' prefix then Some AtGenerated
        else if contains_str ''code generated'' prefix \<and> contains_str ''do not edit'' prefix
        then Some CodeGeneratedDoNotEdit
        else if (contains_str ''generated file'' prefix \<or> contains_str ''file was generated'' prefix \<or>
          contains_str ''generated by'' prefix) \<and> contains_str ''do not edit'' prefix
        then Some GeneratedFileDoNotEdit else None)"

definition is_source_for_ecosystem :: "profile_path \<Rightarrow> ecosystem_kind list \<Rightarrow> bool" where
  "is_source_for_ecosystem path ecosystems =
     (let extension = behind_last CHR ''.'' path in
      list_ex (\<lambda>e. case e of
          Eco_Rust \<Rightarrow> extension = Some ''rs''
        | Eco_Node \<Rightarrow> extension \<in> Some ` {''js'', ''jsx'', ''ts'', ''tsx'', ''mjs'', ''cjs''}
        | Eco_Python \<Rightarrow> extension = Some ''py''
        | Eco_Go \<Rightarrow> extension = Some ''go''
        | Eco_Unknown \<Rightarrow> False) ecosystems)"

definition is_test_file :: "string \<Rightarrow> bool" where
  "is_test_file name \<longleftrightarrow> starts_with ''test_'' name \<or> ends_with ''_test.go'' name \<or>
     contains_str ''.test.'' name \<or> contains_str ''.spec.'' name"

text \<open>The part of the components up to and with the first that satisfies \<open>P\<close>.\<close>

fun upto_first :: "('a \<Rightarrow> bool) \<Rightarrow> 'a list \<Rightarrow> 'a list option" where
  "upto_first P [] = None"
| "upto_first P (x # xs) = (if P x then Some [x] else map_option (Cons x) (upto_first P xs))"

datatype source_root = Test_Root profile_path | Source_Root profile_path

definition file_root :: "profile_path \<Rightarrow> source_root" where
  "file_root path =
     (let components = split_on SLASH path in
      case upto_first (\<lambda>c. c \<in> {''test'', ''tests'', ''spec'', ''__tests__''}) components of
        Some cs \<Rightarrow> Test_Root (join_with [SLASH] cs)
      | None \<Rightarrow> (case upto_first (\<lambda>c. c \<in> {''src'', ''lib'', ''app'', ''cmd'', ''internal'', ''pkg''}) components of
            Some cs \<Rightarrow> Source_Root (join_with [SLASH] cs)
          | None \<Rightarrow> if is_test_file (last components) then Test_Root root_path else Source_Root root_path))"

definition classify_roots :: "file_observation list \<Rightarrow> ecosystem_kind list \<Rightarrow> profile_path list \<times> profile_path list" where
  "classify_roots files ecosystems =
     (let roots = map (\<lambda>f. file_root (fo_path f)) (filter (\<lambda>f. is_source_for_ecosystem (fo_path f) ecosystems) files) in
      (bset_of (List.map_filter (\<lambda>r. case r of Source_Root p \<Rightarrow> Some p | Test_Root p \<Rightarrow> None) roots),
       bset_of (List.map_filter (\<lambda>r. case r of Test_Root p \<Rightarrow> Some p | Source_Root p \<Rightarrow> None) roots)))"

section \<open>Building\<close>

text \<open>
  Each vector of the loop over the files is the concatenation of what each file pushes; \<open>sort\<close> with
  \<open>dedup\<close> is \<open>bset_of\<close>.
\<close>

definition file_metadata ::
  "externs \<Rightarrow> manifest_parser \<Rightarrow> repository_revision_id \<Rightarrow> file_observation \<Rightarrow> metadata_observation option" where
  "file_metadata E scripts revision file = (case metadata_kind (fo_path file) of
       None \<Rightarrow> None
     | Some kind \<Rightarrow> Some (Metadata_Observation (fo_path file) kind
         (metadata_status scripts kind (fo_captured_content file))
         (profile_evidence_id E revision ''metadata'' (fo_path file) (fo_content_hash file)) (fo_content_hash file)))"

definition metadata_ecosystem :: "metadata_observation \<Rightarrow> ecosystem_capability option" where
  "metadata_ecosystem m = map_option (\<lambda>(e, c). Ecosystem_Capability e c (mt_evidence_id m))
     (metadata_capability (mt_kind m))"

definition metadata_uncertainty :: "metadata_observation \<Rightarrow> profile_uncertainty option" where
  "metadata_uncertainty m = (case mt_status m of
       Malformed \<Rightarrow> Some (Profile_Uncertainty MalformedMetadata (Some (mt_path m)) (Some (mt_evidence_id m)))
     | ContentUnavailable \<Rightarrow>
         Some (Profile_Uncertainty MetadataContentUnavailable (Some (mt_path m)) (Some (mt_evidence_id m)))
     | _ \<Rightarrow> None)"

definition file_commands ::
  "externs \<Rightarrow> manifest_parser \<Rightarrow> repository_revision_id \<Rightarrow> file_observation \<Rightarrow> command_candidate list" where
  "file_commands E scripts revision file = (case file_metadata E scripts revision file of
       None \<Rightarrow> []
     | Some m \<Rightarrow> if mt_status m = Parsed then command_candidates E scripts (mt_kind m) file (mt_evidence_id m) else [])"

definition file_rule :: "externs \<Rightarrow> repository_revision_id \<Rightarrow> file_observation \<Rightarrow> generated_rule option" where
  "file_rule E revision file = (case fo_captured_content file of
       None \<Rightarrow> None
     | Some content \<Rightarrow> (case generated_marker content of
           None \<Rightarrow> None
         | Some marker \<Rightarrow> Some (Generated_Rule (fo_path file) ReadOnlyGeneratedOutput (FileMarker
             (profile_evidence_id E revision ''generated-marker'' (fo_path file) (fo_content_hash file))
             marker (fo_content_hash file)))))"

definition generic_capability :: "externs \<Rightarrow> repository_revision_id \<Rightarrow> content_hash \<Rightarrow> ecosystem_capability" where
  "generic_capability E revision fingerprint = Ecosystem_Capability Eco_Unknown GenericTextStructure
     (epv1 E [''repository-profile:generic-structure'', revision, fingerprint])"

definition size_class_of :: "nat \<Rightarrow> size_class" where
  "size_class_of n = (if n \<le> 20 then Size_Tiny else if n \<le> 200 then Size_Small
     else if n \<le> 2000 then Size_Medium else Size_Large)"

definition build_repository_profile ::
  "externs \<Rightarrow> manifest_parser \<Rightarrow> inventory \<Rightarrow> profile_error + repository_profile" where
  "build_repository_profile E scripts iv =
     (let revision = iv_repository_revision iv; files = iv_files iv;
          fingerprint = profile_fingerprint E iv;
          metadata = List.map_filter (file_metadata E scripts revision) files;
          found = List.map_filter metadata_ecosystem metadata;
          ecosystems = bset_of (if found = [] then [generic_capability E revision fingerprint] else found);
          (source_roots, test_roots) = classify_roots files (map ec_ecosystem ecosystems);
          p = \<lparr>rp_schema_version = REPOSITORY_PROFILE_SCHEMA_VERSION, rp_profile_id = [],
            rp_repository_revision = revision, rp_inventory_fingerprint = fingerprint,
            rp_ecosystems = ecosystems, rp_source_roots = source_roots, rp_test_roots = test_roots,
            rp_metadata_files = bset_of metadata, rp_dependency_files = bset_of (map mt_path metadata),
            rp_generated_rules = bset_of (List.map_filter (file_rule E revision) files),
            rp_validation_candidates = bset_of (concat (map (file_commands E scripts revision) files)),
            rp_repository_size = size_class_of (length files), rp_text_file_limits = file_size_policy_default,
            rp_uncertainties = bset_of (List.map_filter metadata_uncertainty metadata @
              (if found = [] then [Profile_Uncertainty NoKnownEcosystem None None] else []))\<rparr>
      in bnd (derive_profile_id E p) (\<lambda>profile_id. Inr (p\<lparr>rp_profile_id := profile_id\<rparr>)))"

definition generated_disposition :: "repository_profile \<Rightarrow> profile_path \<Rightarrow> path_disposition" where
  "generated_disposition p path = (case List.find (\<lambda>r. gr_path r = path) (rp_generated_rules p) of
       None \<Rightarrow> OrdinarySource | Some r \<Rightarrow> gr_disposition r)"

section \<open>Checking\<close>

definition is_strictly_sorted :: "'a::ord list \<Rightarrow> bool" where
  "is_strictly_sorted xs \<longleftrightarrow> list_all (\<lambda>(a, b). a < b) (zip xs (tl xs))"

definition inconsistent :: "string \<Rightarrow> profile_error + 'a" where
  "inconsistent code = Inl (Prof_InconsistentProfile code)"

definition check_each :: "('a \<Rightarrow> 'e + unit) \<Rightarrow> 'a list \<Rightarrow> 'e + unit" where
  "check_each f xs = fold_res (\<lambda>_ x. f x) () xs"

definition canonical_fields :: "repository_profile \<Rightarrow> (string \<times> bool) list" where
  "canonical_fields p =
     [(''ecosystems'', is_strictly_sorted (rp_ecosystems p)), (''source_roots'', is_strictly_sorted (rp_source_roots p)),
      (''test_roots'', is_strictly_sorted (rp_test_roots p)),
      (''metadata_files'', is_strictly_sorted (rp_metadata_files p)),
      (''dependency_files'', is_strictly_sorted (rp_dependency_files p)),
      (''generated_rules'', is_strictly_sorted (rp_generated_rules p)),
      (''validation_candidates'', is_strictly_sorted (rp_validation_candidates p)),
      (''uncertainties'', is_strictly_sorted (rp_uncertainties p))]"

fun status_matches :: "metadata_kind \<Rightarrow> metadata_status \<Rightarrow> bool" where
  "status_matches kind status =
     (if kind \<in> {CargoManifest, PackageManifest, PythonProject, GoModule}
      then status \<in> {Parsed, Malformed, ContentUnavailable} else status \<in> {Observed, ContentUnavailable})"

definition check_metadata :: "externs \<Rightarrow> repository_profile \<Rightarrow> metadata_observation \<Rightarrow> profile_error + unit" where
  "check_metadata E p m =
     bnd (validate_profile_path (mt_path m)) (\<lambda>_.
     if is_root (mt_path m) \<or> metadata_kind (mt_path m) \<noteq> Some (mt_kind m)
     then inconsistent ''metadata_kind_path_mismatch''
     else if mt_evidence_id m \<noteq> profile_evidence_id E (rp_repository_revision p) ''metadata'' (mt_path m) (mt_content_hash m)
     then inconsistent ''metadata_evidence_identity_mismatch''
     else if \<not> status_matches (mt_kind m) (mt_status m) then inconsistent ''metadata_status_kind_mismatch''
     else Inr ())"

definition validate_ecosystems :: "externs \<Rightarrow> repository_profile \<Rightarrow> profile_error + unit" where
  "validate_ecosystems E p =
     (let found = List.map_filter metadata_ecosystem (rp_metadata_files p);
          expected = (if found = [] then [generic_capability E (rp_repository_revision p) (rp_inventory_fingerprint p)]
            else found)
      in if rp_ecosystems p \<noteq> bset_of expected then inconsistent ''ecosystem_metadata_mismatch'' else Inr ())"

definition check_generated_rule :: "externs \<Rightarrow> repository_profile \<Rightarrow> generated_rule \<Rightarrow> profile_error + unit" where
  "check_generated_rule E p r =
     bnd (validate_profile_path (gr_path r)) (\<lambda>_.
     if is_root (gr_path r) then inconsistent ''generated_rule_targets_root''
     else (case (gr_provenance r, gr_disposition r) of
         (FileMarker i marker content_hash, ReadOnlyGeneratedOutput) \<Rightarrow>
           if i = profile_evidence_id E (rp_repository_revision p) ''generated-marker'' (gr_path r) content_hash
           then Inr () else inconsistent ''generated_rule_provenance_mismatch''
       | (GeneratorConfiguration i, _) \<Rightarrow> inconsistent ''generator_configuration_provenance_not_implemented''
       | _ \<Rightarrow> inconsistent ''generated_rule_provenance_mismatch''))"

definition check_command_candidate :: "externs \<Rightarrow> repository_profile \<Rightarrow> command_candidate \<Rightarrow> profile_error + unit" where
  "check_command_candidate E p c =
     bnd (validate_profile_path (vc_working_directory c)) (\<lambda>_.
     if vc_authority c \<noteq> CandidateOnly \<or> vc_class c \<noteq> class_of (vc_command c)
     then inconsistent ''validation_candidate_authority_or_class_mismatch''
     else (case vc_provenance c of
         ParsedProjectMetadata i \<Rightarrow>
           (case List.find (\<lambda>m. mt_evidence_id m = i \<and> mt_status m = Parsed) (rp_metadata_files p) of
              None \<Rightarrow> inconsistent ''validation_candidate_metadata_missing''
            | Some m \<Rightarrow>
                if vc_working_directory c \<noteq> path_parent (mt_path m) \<or>
                   \<not> command_matches_metadata (vc_command c) (mt_kind m)
                then inconsistent ''validation_candidate_metadata_mismatch''
                else if vc_candidate_id c \<noteq> command_candidate_id E i (vc_command c) (vc_working_directory c)
                then inconsistent ''validation_candidate_identity_mismatch''
                else Inr ())
       | _ \<Rightarrow> inconsistent ''validation_candidate_provenance_mismatch''))"

definition validate_uncertainties :: "repository_profile \<Rightarrow> profile_error + unit" where
  "validate_uncertainties p =
     (let expected = List.map_filter metadata_uncertainty (rp_metadata_files p) @
        (if list_ex (\<lambda>c. ec_ecosystem c = Eco_Unknown) (rp_ecosystems p)
         then [Profile_Uncertainty NoKnownEcosystem None None] else [])
      in if rp_uncertainties p \<noteq> bset_of expected then inconsistent ''profile_uncertainty_mismatch'' else Inr ())"

definition profile_validate :: "externs \<Rightarrow> repository_profile \<Rightarrow> profile_error + unit" where
  "profile_validate E p =
     (if rp_schema_version p \<noteq> REPOSITORY_PROFILE_SCHEMA_VERSION
      then Inl (Prof_UnsupportedSchema (rp_schema_version p) REPOSITORY_PROFILE_SCHEMA_VERSION)
      else bnd (check_each (\<lambda>(name, canonical). require canonical (Prof_NonCanonicalField name)) (canonical_fields p)) (\<lambda>_.
      bnd (check_each validate_profile_path (rp_source_roots p @ rp_test_roots p @ rp_dependency_files p)) (\<lambda>_.
      bnd (check_each (check_metadata E p) (rp_metadata_files p)) (\<lambda>_.
      if rp_dependency_files p \<noteq> map mt_path (rp_metadata_files p)
      then inconsistent ''dependency_file_evidence_mismatch''
      else bnd (validate_ecosystems E p) (\<lambda>_.
      bnd (check_each (check_generated_rule E p) (rp_generated_rules p)) (\<lambda>_.
      bnd (check_each (check_command_candidate E p) (rp_validation_candidates p)) (\<lambda>_.
      bnd (validate_uncertainties p) (\<lambda>_.
      if rp_text_file_limits p \<noteq> file_size_policy_default then inconsistent ''file_size_policy_mismatch''
      else bnd (derive_profile_id E p) (\<lambda>expected_id.
        require (rp_profile_id p = expected_id) Prof_ProfileIdentityMismatch)))))))))"

definition has_executable_command_authority :: "repository_profile \<Rightarrow> bool" where
  "has_executable_command_authority p \<longleftrightarrow> list_ex (\<lambda>c. vc_authority c \<noteq> CandidateOnly) (rp_validation_candidates p)"

end
