(* ===== verification/Plan_Validation.thy ===== *)
theory Plan_Validation
  imports Plan_Order Profile_Build Discovery_State
begin

text \<open>
  Whether a plan candidate is accepted (\<open>src/execution_protocol/planning.rs\<close>): the violations of a change
  plan against the repository profile, the discovery evidence and the graph budget, those of a no-op, and the
  planning state. A \<open>BTreeSet\<close> of violations is a set.
\<close>

section \<open>Violations and results\<close>

datatype plan_violation =
    EmptyChangePlan
  | TooManyTargets
  | DuplicateTarget target_id
  | DuplicateChange change_id
  | OverlappingTargetPath profile_path
  | RepositoryScopedTarget target_id profile_path
  | ExistingTargetEvidenceMissing target_id
  | ExistingTargetHashMismatch target_id
  | ExistingTargetEvidenceIncomplete target_id
  | CreateTargetAlreadyExists target_id
  | MoveDestinationExists target_id
  | MoveSourceEqualsDestination target_id
  | GeneratedTargetForbidden target_id profile_path
  | InvalidRationale target_id
  | InvalidChangeEstimate target_id
  | AcceptanceCriteriaMissing target_id
  | UnknownCriterion target_id criterion_id
  | CriterionUncovered criterion_id
  | CriterionDoesNotGroundTarget target_id criterion_id
  | RequiredEvidenceMissing target_id
  | UnknownEvidence target_id evidence_id
  | EvidenceDoesNotGroundTarget target_id evidence_id
  | ValidationExpectationMissing target_id
  | UnknownValidationCandidate target_id validation_expectation_id
  | InvalidValidationExpectation target_id validation_expectation_id
  | ValidationCriterionUncovered target_id criterion_id
  | UnknownDependency target_id target_id
  | SelfDependency target_id
  | DependencyCycle
  | NoOpCriterionMissing criterion_id
  | NoOpSatisfactionObservationLimitExceeded
  | NoOpSatisfactionObservationDuplicate criterion_id
  | NoOpSatisfactionObservationInvalid evidence_id
  | NoOpSatisfactionRevisionMismatch criterion_id
  | NoOpEvidenceUnknown criterion_id evidence_id
  | NoOpEvidenceNotGrounded criterion_id evidence_id
  | NoOpSatisfactionProofUnavailable criterion_id proof_id
  | EvidenceGapReported evidence_gap_reason
  | ImplementationNodeLimitExceeded
  | ValidationNodeLimitExceeded
  | TotalNodeLimitExceeded
  | NodeBudgetInfeasible
  | MissionBudgetInfeasible

fun plan_violation_code :: "plan_violation \<Rightarrow> string" where
  "plan_violation_code EmptyChangePlan = ''plan_targets_empty''"
| "plan_violation_code TooManyTargets = ''plan_target_limit_exceeded''"
| "plan_violation_code (DuplicateTarget x) = ''plan_target_duplicate''"
| "plan_violation_code (DuplicateChange x) = ''plan_change_duplicate''"
| "plan_violation_code (OverlappingTargetPath x) = ''plan_target_path_overlap''"
| "plan_violation_code (RepositoryScopedTarget x y) = ''plan_target_repository_scoped''"
| "plan_violation_code (ExistingTargetEvidenceMissing x) = ''plan_existing_target_evidence_missing''"
| "plan_violation_code (ExistingTargetHashMismatch x) = ''plan_existing_target_hash_mismatch''"
| "plan_violation_code (ExistingTargetEvidenceIncomplete x) = ''plan_existing_target_evidence_incomplete''"
| "plan_violation_code (CreateTargetAlreadyExists x) = ''plan_create_target_exists''"
| "plan_violation_code (MoveDestinationExists x) = ''plan_move_destination_exists''"
| "plan_violation_code (MoveSourceEqualsDestination x) = ''plan_move_same_path''"
| "plan_violation_code (GeneratedTargetForbidden x y) = ''plan_generated_target_forbidden''"
| "plan_violation_code (InvalidRationale x) = ''plan_rationale_invalid''"
| "plan_violation_code (InvalidChangeEstimate x) = ''plan_change_estimate_invalid''"
| "plan_violation_code (AcceptanceCriteriaMissing x) = ''plan_target_criteria_missing''"
| "plan_violation_code (UnknownCriterion x y) = ''plan_target_criterion_unknown''"
| "plan_violation_code (CriterionUncovered x) = ''plan_criterion_uncovered''"
| "plan_violation_code (CriterionDoesNotGroundTarget x y) = ''plan_target_criterion_not_grounded''"
| "plan_violation_code (RequiredEvidenceMissing x) = ''plan_target_evidence_missing''"
| "plan_violation_code (UnknownEvidence x y) = ''plan_target_evidence_unknown''"
| "plan_violation_code (EvidenceDoesNotGroundTarget x y) = ''plan_target_evidence_not_grounded''"
| "plan_violation_code (ValidationExpectationMissing x) = ''plan_validation_missing''"
| "plan_violation_code (UnknownValidationCandidate x y) = ''plan_validation_candidate_unknown''"
| "plan_violation_code (InvalidValidationExpectation x y) = ''plan_validation_expectation_invalid''"
| "plan_violation_code (ValidationCriterionUncovered x y) = ''plan_validation_criterion_uncovered''"
| "plan_violation_code (UnknownDependency x y) = ''plan_dependency_unknown''"
| "plan_violation_code (SelfDependency x) = ''plan_dependency_self''"
| "plan_violation_code DependencyCycle = ''plan_dependency_cycle''"
| "plan_violation_code (NoOpCriterionMissing x) = ''plan_no_op_criterion_missing''"
| "plan_violation_code NoOpSatisfactionObservationLimitExceeded = ''plan_no_op_satisfaction_observation_limit_exceeded''"
| "plan_violation_code (NoOpSatisfactionObservationDuplicate x) = ''plan_no_op_satisfaction_observation_duplicate''"
| "plan_violation_code (NoOpSatisfactionObservationInvalid x) = ''plan_no_op_satisfaction_observation_invalid''"
| "plan_violation_code (NoOpSatisfactionRevisionMismatch x) = ''plan_no_op_satisfaction_revision_mismatch''"
| "plan_violation_code (NoOpEvidenceUnknown x y) = ''plan_no_op_evidence_unknown''"
| "plan_violation_code (NoOpEvidenceNotGrounded x y) = ''plan_no_op_evidence_not_grounded''"
| "plan_violation_code (NoOpSatisfactionProofUnavailable x y) = ''plan_no_op_satisfaction_proof_unavailable''"
| "plan_violation_code (EvidenceGapReported x) = ''plan_evidence_gap_reported''"
| "plan_violation_code ImplementationNodeLimitExceeded = ''plan_implementation_node_limit_exceeded''"
| "plan_violation_code ValidationNodeLimitExceeded = ''plan_validation_node_limit_exceeded''"
| "plan_violation_code TotalNodeLimitExceeded = ''plan_total_node_limit_exceeded''"
| "plan_violation_code NodeBudgetInfeasible = ''plan_node_budget_infeasible''"
| "plan_violation_code MissionBudgetInfeasible = ''plan_mission_budget_infeasible''"

datatype plan_result =
    Plan_Accepted accepted_plan
  | Plan_AcceptedNoOp accepted_no_op
  | Plan_Rejected "plan_violation set"

text \<open>An insertion under a condition.\<close>

definition when_set :: "bool \<Rightarrow> 'v \<Rightarrow> 'v set" where
  "when_set c v = (if c then {v} else {})"

text \<open>The elements \<open>BTreeSet::insert\<close> finds already there.\<close>

fun repeated :: "'a list \<Rightarrow> 'a list \<Rightarrow> 'a list" where
  "repeated seen [] = []"
| "repeated seen (x # xs) = (if x \<in> set seen then x # repeated seen xs else repeated (x # seen) xs)"

section \<open>Grounding in the evidence\<close>

definition evidence_is_known :: "discovery_state \<Rightarrow> evidence_id \<Rightarrow> bool" where
  "evidence_is_known d evidence_id \<longleftrightarrow>
     list_ex (\<lambda>x. se_evidence_id x = evidence_id) (bt_values (ds_completed_searches d)) \<or>
     list_ex (\<lambda>x. cp_evidence_id x = evidence_id) (bt_values (ds_candidates d)) \<or>
     map_of (ds_file_evidence d) evidence_id \<noteq> None \<or> map_of (ds_relationships d) evidence_id \<noteq> None \<or>
     (case ds_impact_map d of None \<Rightarrow> False | Some m \<Rightarrow> im_evidence_id m = evidence_id)"

definition impact_area_for_criterion :: "discovery_state \<Rightarrow> criterion_id \<Rightarrow> impact_area option" where
  "impact_area_for_criterion d criterion_id = (case ds_impact_map d of
       None \<Rightarrow> None
     | Some m \<Rightarrow> List.find (\<lambda>a. ia_criterion_id a = criterion_id) (im_areas m))"

definition area_holds :: "discovery_state \<Rightarrow> criterion_id \<Rightarrow> evidence_id \<Rightarrow> bool" where
  "area_holds d criterion_id evidence_id \<longleftrightarrow> (case impact_area_for_criterion d criterion_id of
       None \<Rightarrow> False | Some area \<Rightarrow> evidence_id \<in> set (ia_evidence_ids area))"

definition discovery_path_of :: "profile_path \<Rightarrow> discovery_path option" where
  "discovery_path_of path = (case discovery_path_new path of Inl e \<Rightarrow> None | Inr p \<Rightarrow> Some p)"

definition evidence_grounds_target ::
  "discovery_state \<Rightarrow> evidence_id \<Rightarrow> discovery_path option \<Rightarrow> criterion_id list \<Rightarrow> bool \<Rightarrow> bool" where
  "evidence_grounds_target d evidence_id target_path criteria is_creation \<longleftrightarrow>
     list_ex (\<lambda>c. area_holds d c evidence_id) criteria \<and>
     (is_creation \<or>
      (case target_path of None \<Rightarrow> False | Some path \<Rightarrow> non_relationship_evidence_touches_path d evidence_id path) \<or>
      (case map_of (ds_relationships d) evidence_id of None \<Rightarrow> False
       | Some r \<Rightarrow> (case target_path of None \<Rightarrow> False | Some path \<Rightarrow> re_from r = path \<or> re_to r = path)))"

fun is_creation :: "target_operation \<Rightarrow> bool" where
  "is_creation (CreateFile s) = True"
| "is_creation _ = False"

definition target_criterion_is_grounded :: "planned_target \<Rightarrow> criterion_id \<Rightarrow> discovery_state \<Rightarrow> bool" where
  "target_criterion_is_grounded t criterion_id d = (case impact_area_for_criterion d criterion_id of
       None \<Rightarrow> False
     | Some area \<Rightarrow> list_ex (\<lambda>e. e \<in> set (ia_evidence_ids area)) (pt_required_evidence t) \<and>
         (is_creation (pt_operation t) \<or>
          (case discovery_path_of (pt_path t) of None \<Rightarrow> False | Some path \<Rightarrow> path \<in> set (ia_paths area))))"

section \<open>One target\<close>

definition existing_files :: "discovery_state \<Rightarrow> profile_path \<Rightarrow> file_evidence list" where
  "existing_files d path = (case discovery_path_of path of
       None \<Rightarrow> []
     | Some p \<Rightarrow> filter (\<lambda>e. fe_path e = p \<and> fe_repository_revision e = ds_repository_revision d)
         (bt_values (ds_file_evidence d)))"

definition validate_existing_target ::
  "planned_target \<Rightarrow> string \<Rightarrow> file_evidence list \<Rightarrow> plan_violation set" where
  "validate_existing_target t expected existing =
     (let complete_files = filter (\<lambda>f. \<not> fe_truncated f) existing;
          hash_matches = filter (\<lambda>f. fe_content_hash f = expected) complete_files in
      if existing = [] then {ExistingTargetEvidenceMissing (pt_target_id t)}
      else if complete_files = [] then {ExistingTargetEvidenceIncomplete (pt_target_id t)}
      else if hash_matches = [] then {ExistingTargetHashMismatch (pt_target_id t)}
      else when_set (\<not> list_ex (\<lambda>f. fe_evidence_id f \<in> set (pt_required_evidence t)) hash_matches)
        (ExistingTargetEvidenceMissing (pt_target_id t)))"

definition scoped_path :: "repository_profile \<Rightarrow> profile_path \<Rightarrow> bool" where
  "scoped_path p path \<longleftrightarrow> is_root path \<or> path \<in> set (rp_source_roots p) \<or> path \<in> set (rp_test_roots p)"

definition glob_byte :: "char \<Rightarrow> bool" where
  "glob_byte c \<longleftrightarrow> c \<in> {CHR ''*'', CHR ''?'', CHR 0x5B, CHR 0x5D, CHR 0x7B, CHR 0x7D}"

definition validate_operation ::
  "repository_profile \<Rightarrow> discovery_state \<Rightarrow> planned_target \<Rightarrow> plan_violation set" where
  "validate_operation p d t =
     (let id = pt_target_id t; existing = existing_files d (pt_path t) in
      case pt_operation t of
        CreateFile s \<Rightarrow>
          when_set (validate_bounded_text ''creation_purpose'' (cs_purpose s) \<noteq> Inr ()) (InvalidRationale id) \<union>
          when_set (existing \<noteq> []) (CreateTargetAlreadyExists id) \<union>
          when_set (SLASH \<notin> set (pt_path t) \<and> CHR ''.'' \<notin> set (last (split_on SLASH (pt_path t))) \<and>
            cs_kind s \<noteq> Created_Metadata) (RepositoryScopedTarget id (pt_path t))
      | ModifyExisting h \<Rightarrow> validate_existing_target t h existing
      | DeleteFile h \<Rightarrow> validate_existing_target t h existing
      | MoveFile dest h \<Rightarrow>
          validate_existing_target t h existing \<union>
          when_set (dest = pt_path t) (MoveSourceEqualsDestination id) \<union>
          when_set (scoped_path p dest) (RepositoryScopedTarget id dest) \<union>
          when_set (case discovery_path_of dest of None \<Rightarrow> False
            | Some path \<Rightarrow> list_ex (\<lambda>e. fe_path e = path) (bt_values (ds_file_evidence d))) (MoveDestinationExists id))"

definition target_paths :: "planned_target \<Rightarrow> profile_path list" where
  "target_paths t = pt_path t # (case destination (pt_operation t) of None \<Rightarrow> [] | Some dest \<Rightarrow> [dest])"

definition validate_criteria :: "discovery_state \<Rightarrow> planned_target \<Rightarrow> plan_violation set" where
  "validate_criteria d t =
     when_set (pt_acceptance_criteria t = [] \<or> length (pt_acceptance_criteria t) > MAX_TARGET_CRITERIA)
       (AcceptanceCriteriaMissing (pt_target_id t)) \<union>
     (\<Union>c \<in> set (pt_acceptance_criteria t).
       if c \<notin> set (dg_criterion_ids (ds_goal d)) then {UnknownCriterion (pt_target_id t) c}
       else when_set (\<not> target_criterion_is_grounded t c d) (CriterionDoesNotGroundTarget (pt_target_id t) c))"

definition validate_required_evidence :: "discovery_state \<Rightarrow> planned_target \<Rightarrow> plan_violation set" where
  "validate_required_evidence d t =
     when_set (pt_required_evidence t = [] \<or> length (pt_required_evidence t) > MAX_TARGET_EVIDENCE)
       (RequiredEvidenceMissing (pt_target_id t)) \<union>
     (\<Union>e \<in> set (pt_required_evidence t).
       if \<not> evidence_is_known d e then {UnknownEvidence (pt_target_id t) e}
       else when_set (\<not> evidence_grounds_target d e (discovery_path_of (pt_path t)) (pt_acceptance_criteria t)
         (is_creation (pt_operation t))) (EvidenceDoesNotGroundTarget (pt_target_id t) e))"

definition validate_expectations ::
  "externs \<Rightarrow> repository_profile \<Rightarrow> planned_target \<Rightarrow> plan_violation set" where
  "validate_expectations E p t =
     when_set (pt_expected_validation t = [] \<or> length (pt_expected_validation t) > MAX_VALIDATION_EXPECTATIONS)
       (ValidationExpectationMissing (pt_target_id t)) \<union>
     (\<Union>v \<in> set (pt_expected_validation t).
       when_set (expectation_validate_identity E v \<noteq> Inr () \<or>
           \<not> set (ve_criterion_ids v) \<subseteq> set (pt_acceptance_criteria t))
         (InvalidValidationExpectation (pt_target_id t) (ve_expectation_id v)) \<union>
       when_set (\<not> list_ex (\<lambda>c. vc_candidate_id c = ve_command_candidate_id v) (rp_validation_candidates p))
         (UnknownValidationCandidate (pt_target_id t) (ve_expectation_id v))) \<union>
     (\<Union>c \<in> set (pt_acceptance_criteria t).
       when_set (c \<notin> set (concat (map ve_criterion_ids (pt_expected_validation t))))
         (ValidationCriterionUncovered (pt_target_id t) c))"

definition validate_dependencies :: "target_id set \<Rightarrow> planned_target \<Rightarrow> plan_violation set" where
  "validate_dependencies target_ids t =
     when_set (length (pt_dependencies t) > MAX_TARGET_DEPENDENCIES) TooManyTargets \<union>
     (\<Union>i \<in> set (pt_dependencies t).
       if i = pt_target_id t then {SelfDependency i}
       else when_set (i \<notin> target_ids) (UnknownDependency (pt_target_id t) i))"

definition validate_target ::
  "externs \<Rightarrow> target_id set \<Rightarrow> repository_profile \<Rightarrow> discovery_state \<Rightarrow> planned_target \<Rightarrow> plan_violation set" where
  "validate_target E target_ids p d t =
     when_set (scoped_path p (pt_path t) \<or> list_ex glob_byte (pt_path t))
       (RepositoryScopedTarget (pt_target_id t) (pt_path t)) \<union>
     when_set (\<not> trimmed (pt_rationale t) \<or> pt_rationale t = [] \<or> length (pt_rationale t) > MAX_TEXT_BYTES)
       (InvalidRationale (pt_target_id t)) \<union>
     when_set (ce_estimated_changed_lines (pt_estimated_change t) = 0) (InvalidChangeEstimate (pt_target_id t)) \<union>
     validate_criteria d t \<union> validate_required_evidence d t \<union> validate_expectations E p t \<union>
     validate_dependencies target_ids t \<union> validate_operation p d t \<union>
     (\<Union>path \<in> set (target_paths t). when_set (generated_disposition p path \<noteq> OrdinarySource)
       (GeneratedTargetForbidden (pt_target_id t) path))"

section \<open>The candidate\<close>

definition validate_change_targets ::
  "externs \<Rightarrow> planned_target list \<Rightarrow> repository_profile \<Rightarrow> discovery_state \<Rightarrow> plan_violation set" where
  "validate_change_targets E targets p d =
     (if targets = [] then {EmptyChangePlan}
      else when_set (length targets > MAX_PLAN_TARGETS) TooManyTargets \<union>
        (\<Union>t \<in> set targets. when_set (length (filter (\<lambda>u. pt_target_id u = pt_target_id t) targets) > 1)
          (DuplicateTarget (pt_target_id t))) \<union>
        (\<Union>t \<in> set targets. when_set (length (filter (\<lambda>u. pt_change_id u = pt_change_id t) targets) > 1)
          (DuplicateChange (pt_change_id t))) \<union>
        OverlappingTargetPath ` set (repeated [] (concat (map target_paths targets))) \<union>
        (\<Union>t \<in> set targets. validate_target E (pt_target_id ` set targets) p d t) \<union>
        (\<Union>c \<in> set (dg_criterion_ids (ds_goal d)).
          when_set (c \<notin> set (concat (map pt_acceptance_criteria targets))) (CriterionUncovered c)) \<union>
        when_set (canonical_target_order targets = None) DependencyCycle)"

definition expectation_ids :: "planned_target list \<Rightarrow> validation_expectation_id list" where
  "expectation_ids targets = bset_of (map ve_expectation_id (concat (map pt_expected_validation targets)))"

definition validate_graph_feasibility ::
  "planned_target list \<Rightarrow> plan_graph_budget \<Rightarrow> plan_capacity \<Rightarrow> plan_violation set" where
  "validate_graph_feasibility targets budget capacity =
     (if graph_budget_validate budget \<noteq> Inr () then {NodeBudgetInfeasible}
      else let implementation_count = clip_word (length targets) :: u32;
        validation_count = clip_word (length (expectation_ids targets)) :: u32;
        total_count = sat_add (sat_add implementation_count validation_count) 3;
        minimum_model_calls = sat_add implementation_count 2;
        minimum = ucast minimum_model_calls :: u64
      in when_set (implementation_count > pg_max_implementation_nodes budget) ImplementationNodeLimitExceeded \<union>
         when_set (validation_count > pg_max_validation_nodes budget) ValidationNodeLimitExceeded \<union>
         when_set (total_count > pg_max_total_nodes budget) TotalNodeLimitExceeded \<union>
         when_set (minimum_model_calls > pm_remaining_model_calls capacity \<or>
           minimum > pm_remaining_cost_micros capacity \<or> minimum > pm_remaining_duration_ms capacity)
           MissionBudgetInfeasible)"

definition validate_observation ::
  "externs \<Rightarrow> discovery_state \<Rightarrow> satisfaction_observation \<Rightarrow> plan_violation set" where
  "validate_observation E d x =
     when_set (so_criterion_id x \<notin> set (dg_criterion_ids (ds_goal d))) (NoOpCriterionMissing (so_criterion_id x)) \<union>
     when_set (observation_validate_identity E x \<noteq> Inr ()) (NoOpSatisfactionObservationInvalid (so_observation_id x)) \<union>
     when_set (so_repository_revision x \<noteq> ds_repository_revision d)
       (NoOpSatisfactionRevisionMismatch (so_criterion_id x)) \<union>
     {NoOpSatisfactionProofUnavailable (so_criterion_id x) (authority_proof_id (so_authority x))} \<union>
     (\<Union>e \<in> set (so_supporting_evidence_ids x).
       if \<not> evidence_is_known d e then {NoOpEvidenceUnknown (so_criterion_id x) e}
       else when_set (\<not> area_holds d (so_criterion_id x) e) (NoOpEvidenceNotGrounded (so_criterion_id x) e))"

definition validate_no_op ::
  "externs \<Rightarrow> satisfaction_observation list \<Rightarrow> discovery_state \<Rightarrow> plan_violation set" where
  "validate_no_op E observations d =
     when_set (length observations > MAX_CRITERION_SATISFACTION_OBSERVATIONS)
       NoOpSatisfactionObservationLimitExceeded \<union>
     NoOpSatisfactionObservationDuplicate ` set (repeated [] (map so_criterion_id observations)) \<union>
     (\<Union>x \<in> set observations. validate_observation E d x) \<union>
     (\<Union>c \<in> set (dg_criterion_ids (ds_goal d)).
       when_set (c \<notin> set (map so_criterion_id observations)) (NoOpCriterionMissing c))"

definition candidate_is_bound ::
  "externs \<Rightarrow> plan_candidate \<Rightarrow> repository_profile \<Rightarrow> discovery_state \<Rightarrow> bool" where
  "candidate_is_bound E c p d \<longleftrightarrow>
     candidate_validate_identity E c = Inr () \<and> cand_repository_revision c = ds_repository_revision d \<and>
     cand_repository_revision c = rp_repository_revision p \<and> ds_repository_profile_id d = rp_profile_id p \<and>
     cand_discovery_impact_map_id c = (case ds_impact_map d of
       None \<Rightarrow> ''missing:impact-map'' | Some m \<Rightarrow> im_evidence_id m) \<and>
     ds_convergence d = Some (ImpactMapAccepted (cand_discovery_impact_map_id c))"

definition validate_plan_candidate ::
  "externs \<Rightarrow> plan_candidate \<Rightarrow> repository_profile \<Rightarrow> discovery_state \<Rightarrow> plan_graph_budget \<Rightarrow> plan_capacity \<Rightarrow>
   plan_result" where
  "validate_plan_candidate E c p d budget capacity =
     (if \<not> candidate_is_bound E c p d then Plan_Rejected {EvidenceGapReported TargetEvidenceMissing}
      else case cand_decision c of
        Changes targets \<Rightarrow>
          let violations = validate_change_targets E targets p d \<union>
            validate_graph_feasibility targets budget capacity in
          if violations = {} then Plan_Accepted \<lparr>ap_schema_version = PLANNING_SCHEMA_VERSION,
            ap_plan_id = cand_plan_id c, ap_plan_revision_id = cand_plan_revision_id c,
            ap_repository_revision = cand_repository_revision c,
            ap_discovery_impact_map_id = cand_discovery_impact_map_id c,
            ap_targets = (case canonical_target_order targets of None \<Rightarrow> targets | Some ordered \<Rightarrow> ordered)\<rparr>
          else Plan_Rejected violations
      | NoOp observations \<Rightarrow>
          let violations = validate_no_op E observations d in
          if violations = {} then Plan_AcceptedNoOp \<lparr>an_schema_version = PLANNING_SCHEMA_VERSION,
            an_plan_id = cand_plan_id c, an_plan_revision_id = cand_plan_revision_id c,
            an_repository_revision = cand_repository_revision c,
            an_discovery_impact_map_id = cand_discovery_impact_map_id c,
            an_criterion_satisfaction = observations\<rparr>
          else Plan_Rejected violations
      | Decision_EvidenceGap criterion_ids reason \<Rightarrow> Plan_Rejected {EvidenceGapReported reason})"

end
