(* ===== verification/Plan_Materialize.thy ===== *)
theory Plan_Materialize
  imports Plan_Validation Protocol_Model
begin

text \<open>
  From an accepted plan to the nodes of the execution graph, and the planning state with its records
  (\<open>src/execution_protocol/planning.rs\<close>).
\<close>

section \<open>The nodes of a plan\<close>

record plan_graph =
  pgm_plan_id :: plan_id
  pgm_target_nodes :: "(target_id, node_id) btree_map"
  pgm_validation_nodes :: "(validation_expectation_id, node_id) btree_map"
  pgm_nodes :: "node_spec list"

definition target_node_id :: "externs \<Rightarrow> plan_id \<Rightarrow> target_id \<Rightarrow> node_id" where
  "target_node_id E plan_id target_id = epv1 E [''execution-protocol-v1:implementation-node'', plan_id, target_id]"

definition validation_node_id :: "externs \<Rightarrow> plan_id \<Rightarrow> validation_expectation_id \<Rightarrow> node_id" where
  "validation_node_id E plan_id expectation_id =
     epv1 E [''execution-protocol-v1:validation-node'', plan_id, expectation_id]"

definition review_node_id :: "externs \<Rightarrow> plan_id \<Rightarrow> node_id" where
  "review_node_id E plan_id = epv1 E [''execution-protocol-v1:review-node'', plan_id]"

definition completion_node_id :: "externs \<Rightarrow> plan_id \<Rightarrow> node_id" where
  "completion_node_id E plan_id = epv1 E [''execution-protocol-v1:completion-node'', plan_id]"

definition publication_node_id :: "externs \<Rightarrow> plan_id \<Rightarrow> node_id" where
  "publication_node_id E plan_id = epv1 E [''execution-protocol-v1:publication-node'', plan_id]"

definition plan_error :: "string \<Rightarrow> planning_error + 'a" where
  "plan_error code = Inl (Plan_InvalidCandidate code)"

definition target_spec :: "(target_id, node_id) btree_map \<Rightarrow> node_budget \<Rightarrow> planned_target \<Rightarrow> node_spec" where
  "target_spec target_nodes budget t = \<lparr>ns_id = the (map_of target_nodes (pt_target_id t)),
     ns_kind = K_Implementation, ns_required = True,
     ns_dependencies = List.map_filter (map_of target_nodes) (pt_dependencies t), ns_budget = budget\<rparr>"

definition required_spec :: "node_id \<Rightarrow> node_kind \<Rightarrow> node_id list \<Rightarrow> node_budget \<Rightarrow> node_spec" where
  "required_spec nid kind dependencies budget = \<lparr>ns_id = nid, ns_kind = kind, ns_required = True,
     ns_dependencies = dependencies, ns_budget = budget\<rparr>"

definition materialize_accepted_plan ::
  "externs \<Rightarrow> accepted_plan \<Rightarrow> plan_graph_budget \<Rightarrow> planning_error + plan_graph" where
  "materialize_accepted_plan E plan budget =
     bnd (graph_budget_validate budget) (\<lambda>_.
     if (clip_word (length (ap_targets plan)) :: u32) > pg_max_implementation_nodes budget
     then plan_error ''plan_implementation_node_limit_exceeded''
     else let pid = ap_plan_id plan;
       target_nodes = bt_of_list (map (\<lambda>t. (pt_target_id t, target_node_id E pid (pt_target_id t))) (ap_targets plan));
       implementation = map (target_spec target_nodes (pg_implementation budget)) (ap_targets plan);
       expectations = expectation_ids (ap_targets plan) in
     if expectations = [] then plan_error ''plan_validation_missing''
     else if (clip_word (length expectations) :: u32) > pg_max_validation_nodes budget
     then plan_error ''plan_validation_node_limit_exceeded''
     else if (clip_word (length (ap_targets plan) + length expectations + 3) :: u32) > pg_max_total_nodes budget
     then plan_error ''plan_total_node_limit_exceeded''
     else let validation_nodes = bt_of_list (map (\<lambda>i. (i, validation_node_id E pid i)) expectations);
       validation = map (\<lambda>i. required_spec (validation_node_id E pid i) K_Validation (map ns_id implementation)
         (pg_validation budget)) expectations;
       review = review_node_id E pid; completion = completion_node_id E pid in
     Inr \<lparr>pgm_plan_id = pid, pgm_target_nodes = target_nodes, pgm_validation_nodes = validation_nodes,
       pgm_nodes = implementation @ validation @
         [required_spec review K_Review (bt_values validation_nodes) (pg_review budget),
          required_spec completion K_CompletionEvaluation [review] (pg_completion_evaluation budget),
          required_spec (publication_node_id E pid) K_Publication [completion] (pg_publication budget)]\<rparr>)"

definition plan_accepted_proof_hash :: "externs \<Rightarrow> accepted_plan \<Rightarrow> string" where
  "plan_accepted_proof_hash E plan = stable_sha256 E [''execution-protocol-v1:plan-accepted-proof'',
     ap_plan_id plan, ap_plan_revision_id plan, ap_discovery_impact_map_id plan]"

definition no_op_satisfied_proof_hash :: "externs \<Rightarrow> accepted_no_op \<Rightarrow> string" where
  "no_op_satisfied_proof_hash E x = stable_sha256 E [''execution-protocol-v1:no-op-satisfied-proof'',
     an_plan_id x, an_plan_revision_id x, an_discovery_impact_map_id x,
     join_with [CHR 0x0A] (map so_observation_id (an_criterion_satisfaction x))]"

section \<open>The planning state\<close>

record plan_candidate_record =
  pcr_candidate :: plan_candidate
  pcr_mission_capacity :: plan_capacity
  pcr_validation :: plan_result

datatype planning_convergence =
    Planning_InsufficientEvidence "plan_violation set"
  | Planning_BudgetBlocked "plan_violation set"

record planning_state =
  pln_schema_version :: u16
  pln_node_id :: node_id
  pln_repository_revision :: repository_revision_id
  pln_repository_profile_id :: repository_profile_id
  pln_discovery_impact_map_id :: evidence_id
  pln_criterion_ids :: "criterion_id list"
  pln_candidate_records :: "plan_candidate_record list"
  pln_accepted_plan :: "accepted_plan option"
  pln_accepted_no_op :: "accepted_no_op option"
  pln_convergence :: "planning_convergence option"

definition accepted_impact_map :: "discovery_state \<Rightarrow> planning_error + impact_map_evidence" where
  "accepted_impact_map d = bnd (ok_or (Plan_InvalidContext ''planning_impact_map_missing'') (ds_impact_map d)) (\<lambda>m.
     if ds_convergence d = Some (ImpactMapAccepted (im_evidence_id m)) then Inr m
     else Inl (Plan_InvalidContext ''planning_impact_map_not_accepted''))"

definition planning_state_new ::
  "node_id \<Rightarrow> repository_profile \<Rightarrow> discovery_state \<Rightarrow> planning_error + planning_state" where
  "planning_state_new node_id p d = bnd (accepted_impact_map d) (\<lambda>m.
     Inr \<lparr>pln_schema_version = PLANNING_SCHEMA_VERSION, pln_node_id = node_id,
       pln_repository_revision = ds_repository_revision d, pln_repository_profile_id = rp_profile_id p,
       pln_discovery_impact_map_id = im_evidence_id m, pln_criterion_ids = dg_criterion_ids (ds_goal d),
       pln_candidate_records = [], pln_accepted_plan = None, pln_accepted_no_op = None, pln_convergence = None\<rparr>)"

definition next_revision_index :: "planning_state \<Rightarrow> u32" where
  "next_revision_index s = sat_add (clip_word (length (pln_candidate_records s))) 1"

definition latest_violations :: "planning_state \<Rightarrow> plan_violation set" where
  "latest_violations s = (case last_of (pln_candidate_records s) of
       None \<Rightarrow> {}
     | Some r \<Rightarrow> (case pcr_validation r of Plan_Rejected vs \<Rightarrow> vs | _ \<Rightarrow> {}))"

definition check_candidate_record ::
  "externs \<Rightarrow> planning_state \<Rightarrow> repository_profile \<Rightarrow> discovery_state \<Rightarrow> plan_graph_budget \<Rightarrow>
   nat \<times> plan_candidate_record \<Rightarrow> planning_error + unit" where
  "check_candidate_record E s p d budget entry = (case entry of (index, r) \<Rightarrow>
     bnd (candidate_validate_identity E (pcr_candidate r)) (\<lambda>_.
     if cand_revision_index (pcr_candidate r) \<noteq> sat_add (clip_word index) 1 \<or>
        cand_repository_revision (pcr_candidate r) \<noteq> pln_repository_revision s \<or>
        cand_discovery_impact_map_id (pcr_candidate r) \<noteq> pln_discovery_impact_map_id s \<or>
        validate_plan_candidate E (pcr_candidate r) p d budget (pcr_mission_capacity r) \<noteq> pcr_validation r
     then plan_error ''planning_candidate_record_mismatch'' else Inr ()))"

definition latest_plan :: "planning_state \<Rightarrow> accepted_plan option" where
  "latest_plan s = (case last_of (pln_candidate_records s) of
       None \<Rightarrow> None | Some r \<Rightarrow> (case pcr_validation r of Plan_Accepted plan \<Rightarrow> Some plan | _ \<Rightarrow> None))"

definition latest_no_op :: "planning_state \<Rightarrow> accepted_no_op option" where
  "latest_no_op s = (case last_of (pln_candidate_records s) of
       None \<Rightarrow> None | Some r \<Rightarrow> (case pcr_validation r of Plan_AcceptedNoOp x \<Rightarrow> Some x | _ \<Rightarrow> None))"

definition planning_state_validate ::
  "externs \<Rightarrow> planning_state \<Rightarrow> repository_profile \<Rightarrow> discovery_state \<Rightarrow> plan_graph_budget \<Rightarrow> planning_error + unit" where
  "planning_state_validate E s p d budget =
     bnd (graph_budget_validate budget) (\<lambda>_.
     bnd (planning_state_new (pln_node_id s) p d) (\<lambda>expected.
     if pln_schema_version s \<noteq> PLANNING_SCHEMA_VERSION \<or>
        pln_repository_revision s \<noteq> pln_repository_revision expected \<or>
        pln_repository_profile_id s \<noteq> pln_repository_profile_id expected \<or>
        pln_discovery_impact_map_id s \<noteq> pln_discovery_impact_map_id expected \<or>
        pln_criterion_ids s \<noteq> pln_criterion_ids expected \<or>
        (pln_accepted_plan s \<noteq> None \<and> pln_accepted_no_op s \<noteq> None) \<or>
        ((pln_accepted_plan s \<noteq> None \<or> pln_accepted_no_op s \<noteq> None) \<and> pln_convergence s \<noteq> None)
     then plan_error ''planning_state_binding_mismatch''
     else bnd (check_each (check_candidate_record E s p d budget) (enumerate 0 (pln_candidate_records s))) (\<lambda>_.
       if pln_accepted_plan s \<noteq> latest_plan s \<or> pln_accepted_no_op s \<noteq> latest_no_op s
       then plan_error ''planning_acceptance_projection_mismatch'' else Inr ())))"

end
