(* ===== verification/Execution_Graph.thy ===== *)
theory Execution_Graph
  imports Discovery_Reducer Plan_Materialize Budget_Ledger
begin

text \<open>
  The execution graph and its events (\<open>src/execution_protocol/reducer.rs\<close>): the acyclicity and topology
  checks, node start, wait, resume, success and failure, and the addition of plan and repair nodes. Of the
  mutation, validation, review and publication states the handlers read a few facts; \<open>graph_execution\<close> holds
  those facts, and each field says which.
\<close>

section \<open>State\<close>

text \<open>
  \<open>vv_next_gate_node\<close> is the node of \<open>next_gate()\<close>; \<open>vv_selections\<close> the repair node of each selection;
  \<open>vv_eligibility_proof\<close> the result of \<open>repair_eligibility_proof\<close> for the active selection;
  \<open>vv_pass_proof\<close> that of \<open>validation_pass_proof\<close>, \<open>None\<close> for an error; \<open>vv_convergence_failure\<close> the failure
  revision of the convergence and \<open>vv_current_failure\<close> node and revision of \<open>current_failure()\<close>.
\<close>

record validation_view =
  vv_next_gate_node :: "node_id option"
  vv_active_failure :: "failure_revision_id option"
  vv_selections :: "(failure_revision_id, node_spec) btree_map"
  vv_eligibility_proof :: "protocol_violation + proof_record"
  vv_pass_proof :: "node_id \<Rightarrow> proof_record option"
  vv_convergence_failure :: "failure_revision_id option"
  vv_current_failure :: "(node_id \<times> failure_revision_id) option"

text \<open>Review and publication: the result of their proof builders and the failure revision of their convergence.\<close>

record review_view =
  rw_review_proof :: "protocol_violation + proof_record"
  rw_completion_proof :: "protocol_violation + proof_record"
  rw_convergence_failure :: "failure_revision_id option"

record publication_view =
  pw_completion_proof :: "protocol_violation + proof_record"
  pw_convergence_failure :: "failure_revision_id option"

text \<open>
  \<open>gx_discovery_exit\<close> is the proof of the first logged advance from discovery to planning;
  \<open>gx_target_converged\<close> whether the current mutation target of a node has a convergence, and
  \<open>gx_mutation_failure\<close> the result of \<open>mutation_terminal_failure_revision\<close>, \<open>None\<close> for an error.
\<close>

record graph_execution = discovery_execution +
  gx_plan_graph_budget :: plan_graph_budget
  gx_planning :: "planning_state option"
  gx_discovery_exit :: "proof_id option"
  gx_target_converged :: "node_id \<Rightarrow> bool"
  gx_mutation_failure :: "node_id \<Rightarrow> failure_revision_id option"
  gx_validation :: "validation_view option"
  gx_review :: "review_view option"
  gx_publication :: "publication_view option"

datatype graph_event =
    NodesAdded proof_id "node_spec list"
  | ValidationRepairNodeAdded proof_id node_spec
  | NodeStarted node_id u32
  | NodeWaiting node_id effect_id
  | NodeResumed node_id effect_id
  | NodeSucceeded node_id proof_id
  | NodeFailed node_id failure_revision_id bool

section \<open>Acyclicity\<close>

type_synonym edge_counts = "(node_id, nat) btree_map \<times> (node_id, node_id list) btree_map"

definition count_edge ::
  "(node_id, execution_node) btree_map \<Rightarrow> execution_node \<Rightarrow> edge_counts \<Rightarrow> node_id \<Rightarrow> protocol_violation + edge_counts" where
  "count_edge nodes n counts d = (case counts of (indegree, dependents) \<Rightarrow>
     if d = en_id n then Inl (V_InvalidGraph ''self_dependency'' (Some (en_id n)))
     else if map_of nodes d = None then Inl (V_InvalidGraph ''unknown_dependency'' (Some (en_id n)))
     else Inr (bt_adjust (en_id n) Suc indegree,
       bt_insert d ((case map_of dependents d of None \<Rightarrow> [] | Some xs \<Rightarrow> xs) @ [en_id n]) dependents))"

definition count_edges :: "(node_id, execution_node) btree_map \<Rightarrow> protocol_violation + edge_counts" where
  "count_edges nodes = fold_res (\<lambda>counts n. fold_res (count_edge nodes n) counts (en_dependencies n))
     (map (\<lambda>k. (k, 0)) (bt_keys nodes), []) (bt_values nodes)"

text \<open>One pass over the dependents of a visited node.\<close>

fun relax :: "node_id list \<Rightarrow> (node_id, nat) btree_map \<Rightarrow> node_id list \<Rightarrow> (node_id, nat) btree_map \<times> node_id list" where
  "relax [] indegree ready = (indegree, ready)"
| "relax (d # ds) indegree ready = (case map_of indegree d of
       None \<Rightarrow> relax ds indegree ready
     | Some degree \<Rightarrow> relax ds (bt_insert d (degree - 1) indegree) (if degree - 1 = 0 then ready @ [d] else ready))"

text \<open>The loop over the ready queue. It returns for the counts of a well-formed graph (\<open>kahn_returns\<close>).\<close>

partial_function (option) kahn ::
  "(node_id, node_id list) btree_map \<Rightarrow> (node_id, nat) btree_map \<Rightarrow> node_id list \<Rightarrow> nat \<Rightarrow> nat option" where
  "kahn dependents indegree ready visited =
     (if ready = [] then Some visited
      else let r = relax (case map_of dependents (hd ready) of None \<Rightarrow> [] | Some ds \<Rightarrow> ds) indegree (tl ready)
        in kahn dependents (fst r) (snd r) (Suc visited))"

definition ready_nodes :: "(node_id, nat) btree_map \<Rightarrow> node_id list" where
  "ready_nodes indegree = map fst (filter (\<lambda>(k, degree). degree = 0) indegree)"

definition validate_graph_acyclic :: "'a execution_state_scheme \<Rightarrow> protocol_violation + unit" where
  "validate_graph_acyclic s =
     bnd (count_edges (es_nodes s)) (\<lambda>(indegree, dependents).
       if kahn dependents indegree (ready_nodes indegree) 0 = Some (length (es_nodes s)) then Inr ()
       else Inl (V_InvalidGraph ''dependency_cycle'' None))"

section \<open>Paths and topology\<close>

lemma unvisited_shrinks:
  assumes "map_of nodes c = Some n" and "c \<notin> set visited"
  shows "card (fst ` set nodes - insert c (set visited)) < card (fst ` set nodes - set visited)"
proof (rule psubset_card_mono)
  show "fst ` set nodes - insert c (set visited) \<subset> fst ` set nodes - set visited"
    using assms map_of_SomeD [OF assms(1)] by force
qed simp

text \<open>\<open>pending\<close> is a stack; its top is the head of the list.\<close>

function path_loop ::
  "(node_id, execution_node) btree_map \<Rightarrow> node_id \<Rightarrow> node_id list \<Rightarrow> node_id list \<Rightarrow> bool" where
  "path_loop nodes ancestor [] visited = False"
| "path_loop nodes ancestor (c # pending) visited =
     (if c = ancestor then True
      else if c \<in> set visited then path_loop nodes ancestor pending visited
      else case map_of nodes c of
          None \<Rightarrow> path_loop nodes ancestor pending (c # visited)
        | Some n \<Rightarrow> path_loop nodes ancestor (rev (en_dependencies n) @ pending) (c # visited))"
  by pat_completeness auto

termination
proof (relation "measures [\<lambda>(nodes, a, p, v). card (fst ` set nodes - set v), \<lambda>(nodes, a, p, v). length p]",
    goal_cases)
  case (3 nodes ancestor c pending visited)
  then have "fst ` set nodes - set (c # visited) = fst ` set nodes - set visited"
    by (auto simp: map_of_eq_None_iff)
  then show ?case by simp
next
  case (4 nodes ancestor c pending visited n)
  then show ?case using unvisited_shrinks [of nodes c n visited] by simp
qed simp_all

definition has_dependency_path :: "'a execution_state_scheme \<Rightarrow> node_id \<Rightarrow> node_id \<Rightarrow> bool" where
  "has_dependency_path s node_id ancestor_id =
     path_loop (es_nodes s) ancestor_id
       (case map_of (es_nodes s) node_id of None \<Rightarrow> [] | Some n \<Rightarrow> rev (en_dependencies n)) []"

definition is_planned_node :: "node_kind \<Rightarrow> bool" where
  "is_planned_node kind \<longleftrightarrow>
     kind \<in> {K_Implementation, K_Validation, K_Review, K_CompletionEvaluation, K_Publication}"

fun protocol_node_order :: "node_kind \<Rightarrow> nat" where
  "protocol_node_order K_Discovery = 0"
| "protocol_node_order K_Planning = 1"
| "protocol_node_order K_Implementation = 2"
| "protocol_node_order K_Validation = 3"
| "protocol_node_order K_ValidationRepair = 4"
| "protocol_node_order K_Review = 5"
| "protocol_node_order K_CompletionEvaluation = 6"
| "protocol_node_order K_Publication = 7"

abbreviation core :: "graph_execution \<Rightarrow> execution_state" where
  "core s \<equiv> execution_state.truncate s"

definition invalid_graph :: "string \<Rightarrow> node_id option \<Rightarrow> protocol_violation + 'a" where
  "invalid_graph code node_id = Inl (V_InvalidGraph code node_id)"

text \<open>\<open>validate_plan_topology\<close>: an index of \<open>stable_indexes\<close> is the position in the stable order, which
  \<open>validate_graph\<close> has compared with the node map; the reducer panics on a missing one, the model reads the
  length of the order.\<close>

definition stable_index :: "graph_execution \<Rightarrow> node_id \<Rightarrow> nat" where
  "stable_index s node_id = length (takeWhile (\<lambda>x. x \<noteq> node_id) (es_node_order s))"

definition check_monotonic :: "graph_execution \<Rightarrow> execution_node \<Rightarrow> node_id \<Rightarrow> protocol_violation + unit" where
  "check_monotonic s n dependency_id = (case map_of (es_nodes s) dependency_id of
       None \<Rightarrow> invalid_graph ''unknown_dependency'' (Some (en_id n))
     | Some dependency \<Rightarrow>
         let dependency_rank = protocol_node_order (en_kind dependency); node_rank = protocol_node_order (en_kind n) in
         if dependency_rank > node_rank \<or>
            (dependency_rank = node_rank \<and> stable_index s dependency_id \<ge> stable_index s (en_id n))
         then invalid_graph ''dependency_is_not_stage_monotonic'' (Some (en_id n)) else Inr ())"

definition check_node_topology :: "graph_execution \<Rightarrow> execution_node \<Rightarrow> protocol_violation + unit" where
  "check_node_topology s n =
     (if \<not> distinct (en_dependencies n) then invalid_graph ''duplicate_dependency'' (Some (en_id n))
      else check_each (check_monotonic s n) (en_dependencies n))"

text \<open>Every required node of \<open>kind\<close> depends on every required node of \<open>earlier\<close>.\<close>

definition check_reaches ::
  "graph_execution \<Rightarrow> node_kind \<Rightarrow> node_kind \<Rightarrow> string \<Rightarrow> protocol_violation + unit" where
  "check_reaches s kind earlier code = check_each (\<lambda>n.
     if list_ex (\<lambda>m. \<not> has_dependency_path s (en_id n) (en_id m)) (required_nodes (core s) earlier)
     then invalid_graph code (Some (en_id n)) else Inr ()) (required_nodes (core s) kind)"

definition validate_plan_topology :: "graph_execution \<Rightarrow> protocol_violation + unit" where
  "validate_plan_topology s =
     bnd (check_each (\<lambda>kind. if required_nodes (core s) kind = []
            then invalid_graph ''required_plan_stage_missing'' None else Inr ())
          [K_Implementation, K_Validation, K_Review, K_CompletionEvaluation, K_Publication]) (\<lambda>_.
     bnd (check_each (check_node_topology s) (bt_values (es_nodes s))) (\<lambda>_.
     bnd (check_reaches s K_CompletionEvaluation K_Review ''completion_does_not_depend_on_required_review'') (\<lambda>_.
     check_reaches s K_Publication K_CompletionEvaluation ''publication_does_not_depend_on_completion'')))"

section \<open>Readiness\<close>

definition dependencies_satisfied :: "(node_id, execution_node) btree_map \<Rightarrow> execution_node \<Rightarrow> bool" where
  "dependencies_satisfied nodes n \<longleftrightarrow> list_all (\<lambda>d. case map_of nodes d of None \<Rightarrow> False
     | Some dependency \<Rightarrow> satisfies_dependency (en_state dependency)) (en_dependencies n)"

definition check_dependency ::
  "(node_id, execution_node) btree_map \<Rightarrow> node_id \<Rightarrow> node_id \<Rightarrow> protocol_violation + unit" where
  "check_dependency nodes node_id dependency_id = (case map_of nodes dependency_id of
       None \<Rightarrow> invalid_graph ''unknown_dependency'' (Some node_id)
     | Some dependency \<Rightarrow>
         require (satisfies_dependency (en_state dependency)) (V_UnsatisfiedDependency node_id dependency_id))"

definition ensure_dependencies_satisfied :: "graph_execution \<Rightarrow> node_id \<Rightarrow> protocol_violation + unit" where
  "ensure_dependencies_satisfied s node_id = (case map_of (es_nodes s) node_id of
       None \<Rightarrow> Inl (V_UnknownNode node_id)
     | Some n \<Rightarrow> check_each (check_dependency (es_nodes s) node_id) (en_dependencies n))"

fun is_failed_recoverable :: "node_state \<Rightarrow> bool" where
  "is_failed_recoverable (FailedRecoverable r) = True"
| "is_failed_recoverable _ = False"

definition becomes_ready :: "graph_execution \<Rightarrow> execution_node \<Rightarrow> bool" where
  "becomes_ready s n \<longleftrightarrow> kind_stage (en_kind n) = state_stage (core s) \<and>
     (en_state n = Pending \<or> (en_kind n = K_Validation \<and> is_failed_recoverable (en_state n))) \<and>
     dependencies_satisfied (es_nodes s) n"

definition set_state :: "node_state \<Rightarrow> node_id \<Rightarrow> graph_execution \<Rightarrow> graph_execution" where
  "set_state st node_id s = s\<lparr>es_nodes := bt_adjust node_id (\<lambda>n. n\<lparr>en_state := st\<rparr>) (es_nodes s)\<rparr>"

definition refresh_ready_nodes :: "graph_execution \<Rightarrow> graph_execution" where
  "refresh_ready_nodes s = foldl (\<lambda>t n. set_state Ready (en_id n) t) s
     (filter (becomes_ready s) (ordered_nodes (core s)))"

section \<open>Start, wait, resume\<close>

definition start_binding :: "graph_execution \<Rightarrow> execution_node \<Rightarrow> protocol_violation + unit" where
  "start_binding s n =
     (if en_kind n = K_Discovery \<and> dx_profile_id s \<noteq> None
      then (case dx_discovery s of
          None \<Rightarrow> Inl (V_DiscoveryContract ''discovery_start_without_goal'')
        | Some d \<Rightarrow> require (ds_node_id d = en_id n \<and> dx_profile_id s = Some (ds_repository_profile_id d))
            (V_DiscoveryContract ''discovery_start_profile_binding_mismatch''))
      else if en_kind n = K_Planning \<and> dx_profile_id s \<noteq> None
      then require (case gx_planning s of None \<Rightarrow> False | Some p \<Rightarrow> pln_node_id p = en_id n)
        (V_PlanningContract ''planning_start_without_authoritative_state'')
      else if en_kind n = K_Validation
      then require (case gx_validation s of None \<Rightarrow> True | Some v \<Rightarrow> vv_next_gate_node v = Some (en_id n))
        (V_ValidationContract ''validation_node_is_not_canonical_next_gate'')
      else if en_kind n = K_ValidationRepair
      then require (case gx_validation s of None \<Rightarrow> True
          | Some v \<Rightarrow> (case vv_active_failure v of None \<Rightarrow> False
            | Some f \<Rightarrow> (case map_of (vv_selections v) f of None \<Rightarrow> False | Some repair \<Rightarrow> ns_id repair = en_id n)))
        (V_ValidationContract ''repair_node_is_not_authoritative_selection'')
      else Inr ())"

definition start_node :: "graph_execution \<Rightarrow> node_id \<Rightarrow> u32 \<Rightarrow> protocol_violation + graph_execution" where
  "start_node s node_id attempt = (case active_node (core s) of
       Some active \<Rightarrow> Inl (V_ActiveOwnerConflict (en_id active) node_id)
     | None \<Rightarrow> (case map_of (es_nodes s) node_id of
           None \<Rightarrow> Inl (V_UnknownNode node_id)
         | Some n \<Rightarrow>
             bnd (start_binding s n) (\<lambda>_.
             if kind_stage (en_kind n) \<noteq> state_stage (core s) then Inl (V_WrongPosition node_id (state_stage (core s)))
             else if en_state n \<noteq> Ready \<or> attempt \<noteq> sat_add (en_attempts_started n) 1
             then Inl (V_InvalidNodeState node_id ''node_started'')
             else bnd (ensure_dependencies_satisfied s node_id) (\<lambda>_.
               Inr (s\<lparr>es_nodes := bt_insert node_id (n\<lparr>en_attempts_started := attempt, en_state := Active attempt\<rparr>)
                 (es_nodes s)\<rparr>)))))"

definition node_kind_is :: "graph_execution \<Rightarrow> node_id \<Rightarrow> node_kind set \<Rightarrow> bool" where
  "node_kind_is s node_id kinds \<longleftrightarrow> (case map_of (es_nodes s) node_id of None \<Rightarrow> False | Some n \<Rightarrow> en_kind n \<in> kinds)"

definition effect_available :: "graph_execution \<Rightarrow> node_id \<Rightarrow> string \<Rightarrow> protocol_violation + unit" where
  "effect_available s node_id code =
     (if (gx_review s \<noteq> None \<or> gx_publication s \<noteq> None) \<and>
         node_kind_is s node_id {K_Review, K_CompletionEvaluation, K_Publication}
      then Inl (V_ReviewContract code)
      else if gx_validation s \<noteq> None \<and> node_kind_is s node_id {K_ValidationRepair}
      then Inl (V_ValidationContract ''repair_execution_effect_unavailable'')
      else Inr ())"

definition wait_node :: "graph_execution \<Rightarrow> node_id \<Rightarrow> effect_id \<Rightarrow> protocol_violation + graph_execution" where
  "wait_node s node_id effect_id =
     bnd (effect_available s node_id ''phase7_graph_wait_unavailable'') (\<lambda>_.
     if has_open_model_call_for_node (core s) node_id
     then Inl (V_InvalidNodeState node_id ''node_waiting_with_open_model_call'')
     else (case map_of (es_nodes s) node_id of
         None \<Rightarrow> Inl (V_UnknownNode node_id)
       | Some n \<Rightarrow> (case en_state n of
             Active attempt \<Rightarrow> Inr (set_state (Waiting attempt effect_id) node_id s)
           | _ \<Rightarrow> Inl (V_InvalidNodeState node_id ''node_waiting''))))"

definition resume_node :: "graph_execution \<Rightarrow> node_id \<Rightarrow> effect_id \<Rightarrow> protocol_violation + graph_execution" where
  "resume_node s node_id effect_id =
     bnd (effect_available s node_id ''phase7_graph_resume_unavailable'') (\<lambda>_.
     case map_of (es_nodes s) node_id of
       None \<Rightarrow> Inl (V_UnknownNode node_id)
     | Some n \<Rightarrow> (case en_state n of
           Waiting attempt active_effect_id \<Rightarrow>
             if active_effect_id \<noteq> effect_id then Inl (V_InvalidNodeState node_id ''effect_identity_mismatch'')
             else Inr (set_state (Active attempt) node_id s)
         | _ \<Rightarrow> Inl (V_InvalidNodeState node_id ''node_resumed'')))"

section \<open>Success and failure\<close>

fun proof_satisfies_node :: "node_kind \<Rightarrow> proof_kind \<Rightarrow> bool" where
  "proof_satisfies_node K_Discovery proof = (proof = P_DiscoveryImpactMap)"
| "proof_satisfies_node K_Planning proof = (proof = P_PlanAccepted \<or> proof = P_NoOpSatisfied)"
| "proof_satisfies_node K_Implementation proof = (proof = P_MutationVerified \<or> proof = P_AlreadySatisfied)"
| "proof_satisfies_node K_Validation proof = (proof = P_ValidationPassed)"
| "proof_satisfies_node K_ValidationRepair proof = (proof = P_RepairVerified)"
| "proof_satisfies_node K_Review proof = (proof = P_ReviewCompleted)"
| "proof_satisfies_node K_CompletionEvaluation proof = (proof = P_CompletionEvaluated)"
| "proof_satisfies_node K_Publication proof = (proof = P_PublicationCompleted)"

definition from_planning :: "planning_error + 'a \<Rightarrow> protocol_violation + 'a" where
  "from_planning r = map_err (\<lambda>e. V_PlanningContract (planning_error_code e)) r"

definition materialized_planning_nodes ::
  "externs \<Rightarrow> graph_execution \<Rightarrow> accepted_plan \<Rightarrow> protocol_violation + node_spec list" where
  "materialized_planning_nodes E s plan =
     bnd (from_planning (materialize_accepted_plan E plan (gx_plan_graph_budget s))) (\<lambda>g. Inr (pgm_nodes g))"

text \<open>\<open>planning_acceptance_proof\<close> of the planning state it is called with.\<close>

definition planning_acceptance_proof ::
  "externs \<Rightarrow> graph_execution \<Rightarrow> planning_state \<Rightarrow> accepted_plan \<Rightarrow> proof_record" where
  "planning_acceptance_proof E s planning plan =
     \<lparr>pf_id = epv1 E [''execution-protocol-v1:plan-accepted-proof-id'', dx_execution_id s,
        decimal (unat (dx_execution_attempt s)), ap_plan_revision_id plan],
      pf_kind = P_PlanAccepted, pf_repository_revision = dx_repository_revision s,
      pf_node_ids = [pln_node_id planning],
      pf_related_proof_ids = (case gx_discovery_exit s of None \<Rightarrow> [] | Some p \<Rightarrow> [p]),
      pf_related_evidence_ids = bset_of (pln_discovery_impact_map_id planning #
        concat (map pt_required_evidence (ap_targets plan))),
      pf_detail_hash = plan_accepted_proof_hash E plan\<rparr>"

fun logs_nodes :: "proof_id \<Rightarrow> node_spec list \<Rightarrow> logged_event \<Rightarrow> bool" where
  "logs_nodes proof nodes (Log_NodesAdded p ns) = (p = proof \<and> ns = nodes)"
| "logs_nodes proof nodes _ = False"

definition discovery_success :: "graph_execution \<Rightarrow> protocol_violation + unit" where
  "discovery_success s = (case dx_discovery s of
       None \<Rightarrow> Inl (V_DiscoveryContract ''discovery_state_missing'')
     | Some d \<Rightarrow> require (es_discovery_action s = None \<and>
         (case (ds_convergence d, ds_impact_map d) of
            (Some (ImpactMapAccepted i), Some m) \<Rightarrow> i = im_evidence_id m | _ \<Rightarrow> False))
         (V_DiscoveryContract ''discovery_success_without_accepted_impact_map''))"

definition planning_success ::
  "externs \<Rightarrow> graph_execution \<Rightarrow> planning_state \<Rightarrow> proof_id \<Rightarrow> protocol_violation + unit" where
  "planning_success E s planning proof_id =
     (let graph_exists = (case pln_accepted_plan planning of
            None \<Rightarrow> False
          | Some plan \<Rightarrow> (case materialized_planning_nodes E s plan of
              Inl e \<Rightarrow> False
            | Inr nodes \<Rightarrow> list_ex (logs_nodes proof_id nodes) (es_event_log s)));
          no_op = pln_accepted_no_op planning \<noteq> None \<and>
            \<not> list_ex (\<lambda>n. is_planned_node (en_kind n)) (bt_values (es_nodes s))
      in require (es_planning_action s = None \<and> pln_convergence planning = None \<and> (graph_exists \<or> no_op))
        (V_PlanningContract ''planning_success_without_accepted_projection''))"

text \<open>The node proof must be the one the owning component builds.\<close>

definition exact_proof :: "proof_record \<Rightarrow> proof_record \<Rightarrow> proof_id \<Rightarrow> string \<Rightarrow> protocol_violation + unit" where
  "exact_proof expected proof proof_id code =
     require (proof_id = pf_id expected \<and> proof = expected) (V_InvalidProof proof_id code)"

definition success_binding ::
  "externs \<Rightarrow> graph_execution \<Rightarrow> execution_node \<Rightarrow> node_id \<Rightarrow> proof_record \<Rightarrow> proof_id \<Rightarrow> protocol_violation + unit" where
  "success_binding E s n node_id proof proof_id = (case en_kind n of
       K_Discovery \<Rightarrow> if dx_profile_id s \<noteq> None then discovery_success s else Inr ()
     | K_Planning \<Rightarrow> (case gx_planning s of None \<Rightarrow> Inr () | Some planning \<Rightarrow> planning_success E s planning proof_id)
     | K_Validation \<Rightarrow> (case gx_validation s of None \<Rightarrow> Inr ()
         | Some v \<Rightarrow> (case vv_pass_proof v node_id of
               None \<Rightarrow> Inl (V_InvalidProof proof_id ''validation_node_success_proof_not_current'')
             | Some expected \<Rightarrow> exact_proof expected proof proof_id ''validation_node_success_proof_not_current''))
     | K_Review \<Rightarrow> (case gx_review s of None \<Rightarrow> Inr ()
         | Some r \<Rightarrow> bnd (rw_review_proof r) (\<lambda>expected.
             exact_proof expected proof proof_id ''review_node_success_proof_not_current''))
     | K_CompletionEvaluation \<Rightarrow> (case gx_review s of None \<Rightarrow> Inr ()
         | Some r \<Rightarrow> bnd (rw_completion_proof r) (\<lambda>expected.
             exact_proof expected proof proof_id ''completion_node_success_proof_not_current''))
     | K_Publication \<Rightarrow> (case gx_publication s of None \<Rightarrow> Inr ()
         | Some p \<Rightarrow> bnd (pw_completion_proof p) (\<lambda>expected.
             exact_proof expected proof proof_id ''publication_node_success_proof_not_current''))
     | _ \<Rightarrow> Inr ())"

definition succeed_node ::
  "externs \<Rightarrow> graph_execution \<Rightarrow> node_id \<Rightarrow> proof_id \<Rightarrow> protocol_violation + graph_execution" where
  "succeed_node E s node_id proof_id =
     (if has_open_model_call_for_node (core s) node_id
      then Inl (V_InvalidNodeState node_id ''node_succeeded_with_open_model_call'')
      else case map_of (es_proofs s) proof_id of
          None \<Rightarrow> Inl (V_UnknownProof proof_id)
        | Some proof \<Rightarrow> (case map_of (es_nodes s) node_id of
              None \<Rightarrow> Inl (V_UnknownNode node_id)
            | Some n \<Rightarrow>
                bnd (success_binding E s n node_id proof proof_id) (\<lambda>_.
                if \<not> is_active (en_state n) \<or> node_id \<notin> set (pf_node_ids proof)
                then Inl (V_InvalidNodeState node_id ''node_succeeded'')
                else if \<not> proof_satisfies_node (en_kind n) (pf_kind proof)
                then Inl (V_InvalidProof proof_id ''proof_kind_does_not_satisfy_node'')
                else Inr (refresh_ready_nodes (set_state (Succeeded proof_id) node_id s)))))"

definition discovery_blocked :: "graph_execution \<Rightarrow> bool" where
  "discovery_blocked s \<longleftrightarrow> (case dx_discovery s of None \<Rightarrow> False | Some d \<Rightarrow> (case ds_convergence d of
       Some (Conv_InsufficientEvidence r) \<Rightarrow> True | Some (Conv_BudgetBlocked r) \<Rightarrow> True | _ \<Rightarrow> False))"

text \<open>The convergence a failure of each kind of node must name.\<close>

definition failure_binding ::
  "graph_execution \<Rightarrow> execution_node \<Rightarrow> node_id \<Rightarrow> failure_revision_id \<Rightarrow> bool \<Rightarrow> protocol_violation + unit" where
  "failure_binding s n node_id failure terminal = (case en_kind n of
       K_Discovery \<Rightarrow> require (dx_profile_id s = None \<or>
           terminal \<and> es_discovery_action s = None \<and> discovery_blocked s)
         (V_DiscoveryContract ''discovery_failure_without_blocking_convergence'')
     | K_Planning \<Rightarrow> require (case gx_planning s of None \<Rightarrow> True
           | Some p \<Rightarrow> terminal \<and> es_planning_action s = None \<and> pln_convergence p \<noteq> None)
         (V_PlanningContract ''planning_failure_without_blocking_convergence'')
     | K_Implementation \<Rightarrow> require (terminal \<and> gx_mutation_failure s node_id = Some failure)
         (V_MutationContract ''implementation_failure_without_exact_mutation_convergence'')
     | K_ValidationRepair \<Rightarrow> require (gx_validation s = None \<or> terminal \<and> gx_mutation_failure s node_id = Some failure)
         (V_ValidationContract ''repair_failure_without_exact_mutation_convergence'')
     | K_Validation \<Rightarrow> require (case gx_validation s of None \<Rightarrow> True
           | Some v \<Rightarrow> if terminal then vv_convergence_failure v = Some failure
               else vv_current_failure v = Some (node_id, failure))
         (V_ValidationContract ''validation_failure_without_exact_convergence'')
     | K_Publication \<Rightarrow> require (case gx_publication s of None \<Rightarrow> True
           | Some p \<Rightarrow> terminal \<and> pw_convergence_failure p = Some failure)
         (V_PublicationContract ''publication_failure_without_exact_convergence'')
     | _ \<Rightarrow> require (case gx_review s of None \<Rightarrow> True
           | Some r \<Rightarrow> terminal \<and> rw_convergence_failure r = Some failure)
         (V_ReviewContract ''review_failure_without_exact_convergence''))"

definition fail_node ::
  "graph_execution \<Rightarrow> node_id \<Rightarrow> failure_revision_id \<Rightarrow> bool \<Rightarrow> protocol_violation + graph_execution" where
  "fail_node s node_id failure terminal =
     (if has_open_model_call_for_node (core s) node_id
      then Inl (V_InvalidNodeState node_id ''node_failed_with_open_model_call'')
      else case map_of (es_nodes s) node_id of
          None \<Rightarrow> Inl (V_UnknownNode node_id)
        | Some n \<Rightarrow>
            bnd (failure_binding s n node_id failure terminal) (\<lambda>_.
            if \<not> is_active (en_state n) then Inl (V_InvalidNodeState node_id ''node_failed'')
            else Inr (set_state (if terminal then FailedTerminal failure else FailedRecoverable failure) node_id s)))"

section \<open>New nodes\<close>

definition validate_node_budget :: "node_spec \<Rightarrow> protocol_violation + unit" where
  "validate_node_budget n =
     (if requires_model (ns_kind n) \<and> (nb_max_model_calls (ns_budget n) = 0 \<or>
         nb_max_input_tokens_per_call (ns_budget n) = 0 \<or> nb_max_output_tokens_per_call (ns_budget n) = 0)
      then invalid_graph ''model_node_has_no_viable_budget'' (Some (ns_id n)) else Inr ())"

definition plan_projection ::
  "externs \<Rightarrow> graph_execution \<Rightarrow> proof_id \<Rightarrow> node_spec list \<Rightarrow> protocol_violation + unit" where
  "plan_projection E s plan_proof_id nodes = (case gx_planning s of
       None \<Rightarrow> Inr ()
     | Some planning \<Rightarrow> (case pln_accepted_plan planning of
           None \<Rightarrow> Inl (V_PlanningContract ''plan_graph_without_accepted_plan'')
         | Some plan \<Rightarrow>
             let expected = planning_acceptance_proof E s planning plan;
                 mismatch = Inl (V_PlanningContract ''plan_graph_not_accepted_plan_projection'') in
             if plan_proof_id \<noteq> pf_id expected \<or> map_of (es_proofs s) plan_proof_id \<noteq> Some expected then mismatch
             else bnd (materialized_planning_nodes E s plan) (\<lambda>expected_nodes.
               if nodes \<noteq> expected_nodes then mismatch else Inr ())))"

fun logs_any_nodes :: "logged_event \<Rightarrow> bool" where
  "logs_any_nodes (Log_NodesAdded p ns) = True"
| "logs_any_nodes _ = False"

definition check_new_node :: "graph_execution \<Rightarrow> node_id list \<Rightarrow> node_spec \<Rightarrow> protocol_violation + unit" where
  "check_new_node s incoming n =
     (if map_of (es_nodes s) (ns_id n) \<noteq> None then Inl (V_DuplicateNode (ns_id n))
      else if ns_kind n \<in> {K_Discovery, K_Planning, K_ValidationRepair}
      then invalid_graph ''plan_contains_illegal_node_kind'' (Some (ns_id n))
      else bnd (validate_node_budget n) (\<lambda>_.
        check_each (\<lambda>d.
          if map_of (es_nodes s) d = None \<and> d \<notin> set incoming
          then invalid_graph ''unknown_dependency'' (Some (ns_id n))
          else if d = ns_id n then invalid_graph ''self_dependency'' (Some (ns_id n)) else Inr ()) (ns_dependencies n)))"

definition push_node :: "node_spec \<Rightarrow> graph_execution \<Rightarrow> graph_execution" where
  "push_node n s = s\<lparr>es_node_order := es_node_order s @ [ns_id n],
     es_nodes := bt_insert (ns_id n) (node_of_spec n) (es_nodes s)\<rparr>"

definition add_plan_nodes ::
  "externs \<Rightarrow> graph_execution \<Rightarrow> proof_id \<Rightarrow> node_spec list \<Rightarrow> protocol_violation + graph_execution" where
  "add_plan_nodes E s plan_proof_id nodes =
     (if state_stage (core s) \<noteq> St_Planning
      then Inl (V_IllegalTransition (state_stage (core s)) St_Implementation)
      else if proof_kind_of (core s) plan_proof_id \<noteq> Some P_PlanAccepted
      then Inl (V_MissingTransitionProof P_PlanAccepted)
      else bnd (plan_projection E s plan_proof_id nodes) (\<lambda>_.
        if list_ex logs_any_nodes (es_event_log s) then invalid_graph ''plan_graph_already_materialized'' None
        else if nodes = [] then invalid_graph ''accepted_mutation_plan_has_no_nodes'' None
        else if \<not> distinct (map ns_id nodes) then invalid_graph ''duplicate_incoming_node_id'' None
        else bnd (check_each (check_new_node s (map ns_id nodes)) nodes) (\<lambda>_.
          let t = foldl (\<lambda>t n. push_node n t) s nodes in
          bnd (validate_graph_acyclic t) (\<lambda>_. bnd (validate_plan_topology t) (\<lambda>_. Inr t)))))"

definition repair_selection ::
  "graph_execution \<Rightarrow> proof_id \<Rightarrow> node_spec \<Rightarrow> protocol_violation + unit" where
  "repair_selection s eligibility_proof_id n = (case gx_validation s of
       None \<Rightarrow> Inr ()
     | Some v \<Rightarrow> (case vv_active_failure v of
           None \<Rightarrow> Inl (V_ValidationContract ''repair_node_without_active_failure'')
         | Some failure_id \<Rightarrow> (case map_of (vv_selections v) failure_id of
               None \<Rightarrow> Inl (V_ValidationContract ''repair_node_without_authoritative_selection'')
             | Some repair_node \<Rightarrow> bnd (vv_eligibility_proof v) (\<lambda>expected.
                 require (n = repair_node \<and> eligibility_proof_id = pf_id expected \<and>
                   map_of (es_proofs s) eligibility_proof_id = Some expected)
                 (V_ValidationContract ''repair_node_not_authoritative_selection'')))))"

definition proof_relates :: "graph_execution \<Rightarrow> proof_id \<Rightarrow> proof_id \<Rightarrow> bool" where
  "proof_relates s proof_id related \<longleftrightarrow> (case map_of (es_proofs s) proof_id of
       None \<Rightarrow> False | Some p \<Rightarrow> related \<in> set (pf_related_proof_ids p))"

fun logs_repair_for :: "graph_execution \<Rightarrow> proof_id \<Rightarrow> logged_event \<Rightarrow> bool" where
  "logs_repair_for s failure_proof (Log_ValidationRepairNodeAdded p n) = proof_relates s p failure_proof"
| "logs_repair_for s failure_proof _ = False"

definition check_repair_node ::
  "graph_execution \<Rightarrow> proof_id \<Rightarrow> proof_id \<Rightarrow> node_spec \<Rightarrow> protocol_violation + unit" where
  "check_repair_node s eligibility_proof_id current_failure_id n =
     (if \<not> proof_relates s eligibility_proof_id current_failure_id
      then Inl (V_InvalidProof eligibility_proof_id ''repair_eligibility_not_bound_to_current_failure'')
      else if ns_kind n \<noteq> K_ValidationRepair then invalid_graph ''repair_node_kind_mismatch'' (Some (ns_id n))
      else if \<not> ns_required n \<or> ns_dependencies n \<noteq> []
      then invalid_graph ''repair_node_must_be_required_and_independent'' (Some (ns_id n))
      else if list_ex (logs_repair_for s current_failure_id) (es_event_log s)
      then invalid_graph ''repair_node_already_selected_for_failure'' (Some (ns_id n))
      else if map_of (es_nodes s) (ns_id n) \<noteq> None then Inl (V_DuplicateNode (ns_id n))
      else bnd (validate_node_budget n) (\<lambda>_.
        check_each (\<lambda>d. if map_of (es_nodes s) d = None
          then invalid_graph ''unknown_dependency'' (Some (ns_id n)) else Inr ()) (ns_dependencies n)))"

definition add_validation_repair_node ::
  "graph_execution \<Rightarrow> proof_id \<Rightarrow> node_spec \<Rightarrow> protocol_violation + graph_execution" where
  "add_validation_repair_node s eligibility_proof_id n =
     (if state_stage (core s) \<noteq> St_Repair then Inl (V_WrongPosition (ns_id n) (state_stage (core s)))
      else if proof_kind_of (core s) eligibility_proof_id \<noteq> Some P_RepairEligibility
      then Inl (V_MissingTransitionProof P_RepairEligibility)
      else bnd (repair_selection s eligibility_proof_id n) (\<lambda>_.
        case es_latest_transition_proof s of
          None \<Rightarrow> Inl (V_InvalidProof eligibility_proof_id ''current_validation_failure_proof_missing'')
        | Some current_failure_id \<Rightarrow>
            bnd (check_repair_node s eligibility_proof_id current_failure_id n) (\<lambda>_.
              Inr (refresh_ready_nodes (push_node n s)))))"

section \<open>The handler\<close>

text \<open>
  \<open>apply_graph_event\<close> up to the two calls that recompute the step of the position; they stay in its stage,
  which is all the handlers read of it.
\<close>

fun continuing_node :: "graph_event \<Rightarrow> node_id option" where
  "continuing_node (NodeWaiting n e) = Some n"
| "continuing_node (NodeResumed n e) = Some n"
| "continuing_node (NodeSucceeded n p) = Some n"
| "continuing_node _ = None"

fun dispatch_graph_event ::
  "externs \<Rightarrow> graph_execution \<Rightarrow> graph_event \<Rightarrow> protocol_violation + graph_execution" where
  "dispatch_graph_event E s (NodesAdded proof nodes) = add_plan_nodes E s proof nodes"
| "dispatch_graph_event E s (ValidationRepairNodeAdded proof n) = add_validation_repair_node s proof n"
| "dispatch_graph_event E s (NodeStarted n attempt) = start_node s n attempt"
| "dispatch_graph_event E s (NodeWaiting n effect) = wait_node s n effect"
| "dispatch_graph_event E s (NodeResumed n effect) = resume_node s n effect"
| "dispatch_graph_event E s (NodeSucceeded n proof) = succeed_node E s n proof"
| "dispatch_graph_event E s (NodeFailed n failure terminal) = fail_node s n failure terminal"

definition apply_graph_event ::
  "externs \<Rightarrow> graph_execution \<Rightarrow> graph_event \<Rightarrow> protocol_violation + graph_execution" where
  "apply_graph_event E s event =
     (if (case continuing_node event of None \<Rightarrow> False
         | Some n \<Rightarrow> node_kind_is s n {K_Implementation} \<and> gx_target_converged s n)
      then Inl (V_MutationContract ''implementation_progress_after_mutation_convergence'')
      else dispatch_graph_event E s event)"

section \<open>Validation of the graph\<close>

definition check_readiness :: "graph_execution \<Rightarrow> bool \<Rightarrow> bool \<Rightarrow> execution_node \<Rightarrow> protocol_violation + unit" where
  "check_readiness s terminal rerun_pending n =
     (let ready_eligible = (kind_stage (en_kind n) = state_stage (core s) \<and> dependencies_satisfied (es_nodes s) n) in
      case en_state n of
        Pending \<Rightarrow> require (\<not> ready_eligible) (V_InvalidNodeState (en_id n) ''eligible_node_is_not_ready'')
      | Ready \<Rightarrow> require (ready_eligible \<or> terminal) (V_InvalidNodeState (en_id n) ''ready_node_is_not_eligible'')
      | FailedRecoverable r \<Rightarrow> require (\<not> (ready_eligible \<and> en_kind n = K_Validation \<and> rerun_pending))
          (V_InvalidNodeState (en_id n) ''scheduled_validation_rerun_is_not_ready'')
      | _ \<Rightarrow> Inr ())"

definition check_success_proof :: "graph_execution \<Rightarrow> execution_node \<Rightarrow> proof_id \<Rightarrow> protocol_violation + unit" where
  "check_success_proof s n proof_id = (case map_of (es_proofs s) proof_id of
       None \<Rightarrow> Inl (V_UnknownProof proof_id)
     | Some proof \<Rightarrow> require (en_id n \<in> set (pf_node_ids proof) \<and> proof_satisfies_node (en_kind n) (pf_kind proof))
         (V_InvalidProof proof_id ''node_success_proof_mismatch''))"

definition check_graph_node :: "graph_execution \<Rightarrow> bool \<Rightarrow> bool \<Rightarrow> execution_node \<Rightarrow> protocol_violation + unit" where
  "check_graph_node s terminal rerun_pending n =
     bnd (if requires_model (en_kind n) \<and> (nb_max_model_calls (en_budget n) = 0 \<or>
            nb_max_input_tokens_per_call (en_budget n) = 0 \<or> nb_max_output_tokens_per_call (en_budget n) = 0)
          then invalid_graph ''model_node_has_no_viable_budget'' (Some (en_id n)) else Inr ()) (\<lambda>_.
     bnd (check_readiness s terminal rerun_pending n) (\<lambda>_.
     bnd (check_each (\<lambda>d. if map_of (es_nodes s) d = None
            then invalid_graph ''unknown_dependency'' (Some (en_id n)) else Inr ()) (en_dependencies n)) (\<lambda>_.
     bnd (if en_state n = Ready \<or> owns_execution (en_state n) then ensure_dependencies_satisfied s (en_id n) else Inr ()) (\<lambda>_.
     case en_state n of
       Succeeded p \<Rightarrow> check_success_proof s n p
     | Skipped p \<Rightarrow> check_success_proof s n p
     | _ \<Rightarrow> Inr ()))))"

definition check_planned_graph :: "externs \<Rightarrow> graph_execution \<Rightarrow> protocol_violation + unit" where
  "check_planned_graph E s =
     bnd (validate_plan_topology s) (\<lambda>_.
     case gx_planning s of
       None \<Rightarrow> Inr ()
     | Some planning \<Rightarrow> (case pln_accepted_plan planning of
           None \<Rightarrow> Inl (V_PlanningContract ''materialized_graph_has_no_accepted_plan'')
         | Some plan \<Rightarrow> bnd (materialized_planning_nodes E s plan) (\<lambda>nodes.
             require (find_map (\<lambda>e. case e of Log_NodesAdded p ns \<Rightarrow> Some (p, ns) | _ \<Rightarrow> None) (es_event_log s) =
                 Some (pf_id (planning_acceptance_proof E s planning plan), nodes))
               (V_PlanningContract ''materialized_graph_projection_mismatch''))))"

definition owners :: "graph_execution \<Rightarrow> execution_node list" where
  "owners s = filter (\<lambda>n. owns_execution (en_state n)) (bt_values (es_nodes s))"

text \<open>\<open>terminal\<close> tells whether the aggregate has a result, \<open>rerun_pending\<close> whether a validation rerun is
  pending and the latest transition proof has scheduled it.\<close>

definition validate_graph :: "externs \<Rightarrow> graph_execution \<Rightarrow> bool \<Rightarrow> bool \<Rightarrow> protocol_violation + unit" where
  "validate_graph E s terminal rerun_pending =
     (if \<not> list_all (\<lambda>(k, n). k = en_id n) (es_nodes s)
      then invalid_graph ''node_map_key_identity_mismatch'' None
      else if \<not> distinct (es_node_order s) \<or> set (es_node_order s) \<noteq> set (bt_keys (es_nodes s))
      then invalid_graph ''stable_order_node_map_mismatch'' None
      else bnd (validate_graph_acyclic s) (\<lambda>_.
        let planned = list_ex (\<lambda>n. is_planned_node (en_kind n)) (bt_values (es_nodes s)) in
        if length (filter logs_any_nodes (es_event_log s)) \<noteq> (if planned then 1 else 0)
        then invalid_graph ''plan_graph_materialization_event_mismatch'' None
        else bnd (if planned then check_planned_graph E s else Inr ()) (\<lambda>_.
        if length (owners s) > 1
        then Inl (V_Invariant ''multiple_active_owners'' (join_with '','' (map en_id (owners s))))
        else bnd (case owners s of
            owner # rest \<Rightarrow> if kind_stage (en_kind owner) \<noteq> state_stage (core s)
              then Inl (V_WrongPosition (en_id owner) (state_stage (core s))) else Inr ()
          | [] \<Rightarrow> Inr ()) (\<lambda>_.
        check_each (check_graph_node s terminal rerun_pending) (bt_values (es_nodes s))))))"

end
