(* ===== verification/Discovery_Facts.thy ===== *)
theory Discovery_Facts
  imports Discovery_Reducer
begin

text \<open>
  Facts about discovery: what a normal path is, what validation establishes of the evidence, and when the
  evidence grounds, covers and accepts.
\<close>

section \<open>Paths\<close>

lemma path_components_Inr_iff:
  "path_components cs = Inr ps \<longleftrightarrow> ''..'' \<notin> set cs \<and> ps = filter (\<lambda>c. c \<noteq> [] \<and> c \<noteq> ''.'') cs"
  by (induction cs arbitrary: ps) (auto simp: bnd_Inr_iff)

definition plain_component :: "string \<Rightarrow> bool" where
  "plain_component c \<longleftrightarrow> c \<noteq> [] \<and> c \<noteq> ''.'' \<and> c \<noteq> ''..''"

definition clean_byte :: "char \<Rightarrow> bool" where
  "clean_byte b \<longleftrightarrow> b \<noteq> BACKSLASH \<and> \<not> ascii_control b"

lemma slash_facts [simp]: "\<not> ascii_control SLASH" "SLASH \<noteq> BACKSLASH" "BACKSLASH \<noteq> SLASH"
  "byte SLASH = 47" "byte BACKSLASH = 92" "\<not> ascii_control BACKSLASH"
  by (simp_all add: SLASH_def BACKSLASH_def ascii_control_def byte_def)

lemma zero_is_control: "byte b = 0 \<Longrightarrow> ascii_control b"
  by (simp add: ascii_control_def)

lemma discovery_path_components:
  assumes "discovery_path_new v = Inr p"
  obtains cs where "p = join_with [SLASH] cs" and "cs \<noteq> []" and "split_on SLASH p = cs"
    and "\<forall>c \<in> set cs. plain_component c" and "\<forall>b \<in> set p. clean_byte b"
proof -
  let ?portable = "replace_char BACKSLASH SLASH v"
  let ?cs = "filter (\<lambda>c. c \<noteq> [] \<and> c \<noteq> ''.'') (split_on SLASH ?portable)"
  have v: "\<forall>b \<in> set v. \<not> ascii_control b" and p: "p = join_with [SLASH] ?cs" and ne: "?cs \<noteq> []"
    and up: "''..'' \<notin> set (split_on SLASH ?portable)"
    using assms
    by (auto simp: discovery_path_new_def normalize_repository_path_def Let_def bnd_Inr_iff
        path_components_Inr_iff list_ex_iff split: if_splits)
  have portable: "\<forall>b \<in> set ?portable. clean_byte b"
    using v by (auto simp: replace_char_def clean_byte_def)
  have "split_on SLASH (join_with [SLASH] ?cs) = ?cs"
    using ne by (intro split_join) (auto dest: split_on_pieces)
  moreover have "\<forall>c \<in> set ?cs. plain_component c" using up by (auto simp: plain_component_def)
  moreover have "\<forall>b \<in> set p. clean_byte b"
  proof
    fix b assume "b \<in> set p"
    then have "b = SLASH \<or> (\<exists>c \<in> set ?cs. b \<in> set c)" using set_join [of "[SLASH]" ?cs] p by auto
    then show "clean_byte b"
    proof
      assume "\<exists>c \<in> set ?cs. b \<in> set c"
      then show ?thesis using split_on_piece_subset portable by fastforce
    qed (simp add: clean_byte_def)
  qed
  ultimately show ?thesis using that p ne by simp
qed

lemma split_slash_start: "starts_with [SLASH] p \<Longrightarrow> [] \<in> set (split_on SLASH p)"
  by (cases p) (auto simp: starts_with_def)

lemma discovery_path_again:
  assumes "discovery_path_new v = Inr p"
  shows "discovery_path_new p = (if has_drive p then Inl Disc_InvalidPath else Inr p)"
proof -
  obtain cs where p: "p = join_with [SLASH] cs" "cs \<noteq> []" "split_on SLASH p = cs"
      "\<forall>c \<in> set cs. plain_component c" "\<forall>b \<in> set p. clean_byte b"
    using discovery_path_components [OF assms] by blast
  have start: "\<not> starts_with [SLASH] p"
    using split_slash_start [of p] p(3,4) by (force simp: plain_component_def)
  have "[] \<notin> set cs" using p(4) by (auto simp: plain_component_def)
  with p(3) have "p \<noteq> []" by fastforce
  have bslash: "\<not> starts_with [BACKSLASH] p" using p(5) by (cases p) (auto simp: starts_with_def clean_byte_def)
  have bytes: "\<not> list_ex (\<lambda>b. byte b = 0 \<or> ascii_control b) p"
    using p(5) zero_is_control by (auto simp: list_ex_iff clean_byte_def)
  have same: "replace_char BACKSLASH SLASH p = p"
    using p(5) by (auto simp: replace_char_def clean_byte_def intro: map_idI)
  have comps: "path_components cs = Inr cs"
    using p(4) by (auto simp: path_components_Inr_iff plain_component_def intro!: filter_True [symmetric])
  show ?thesis
    using start bslash bytes \<open>p \<noteq> []\<close> p(2,3) comps
    by (simp add: discovery_path_new_def normalize_repository_path_def same Let_def flip: p(1))
qed

section \<open>Validated evidence\<close>

lemma disc_ok_iff: "from_discovery r = Inr x \<longleftrightarrow> r = Inr x"
  by (simp add: from_discovery_def map_err_Inr_iff)

definition candidates_ok :: "discovery_state \<Rightarrow> bool" where
  "candidates_ok s \<longleftrightarrow> (\<forall>(path, c) \<in> set (ds_candidates s). cp_path c = path \<and>
     cp_criterion_ids c \<noteq> [] \<and> set (cp_criterion_ids c) \<subseteq> set (dg_criterion_ids (ds_goal s))) \<and>
     length (ds_candidates s) \<le> MAX_DISCOVERY_CANDIDATES"

definition files_ok :: "discovery_state \<Rightarrow> bool" where
  "files_ok s \<longleftrightarrow> (\<forall>(i, e) \<in> set (ds_file_evidence s). fe_evidence_id e = i \<and>
     fe_repository_revision e = ds_repository_revision s)"

definition relationships_ok :: "discovery_state \<Rightarrow> bool" where
  "relationships_ok s \<longleftrightarrow> (\<forall>(i, e) \<in> set (ds_relationships s). re_evidence_id e = i \<and>
     re_repository_revision e = ds_repository_revision s)"

lemma check_candidate_ok:
  "check_candidate E s seen (path, c) = Inr seen' \<Longrightarrow> cp_path c = path \<and> cp_criterion_ids c \<noteq> [] \<and>
    set (cp_criterion_ids c) \<subseteq> set (dg_criterion_ids (ds_goal s))"
  by (auto simp: check_candidate_def Let_def bnd_Inr_iff list_all_iff split: if_splits)

lemma check_file_ok:
  "check_file E s seen (i, e) = Inr seen' \<Longrightarrow> fe_evidence_id e = i \<and>
    fe_repository_revision e = ds_repository_revision s"
  by (auto simp: check_file_def Let_def bnd_Inr_iff split: if_splits)

lemma check_relationship_ok:
  "check_relationship E s ids seen (i, e) = Inr seen' \<Longrightarrow> re_evidence_id e = i \<and>
    re_repository_revision e = ds_repository_revision s"
  by (auto simp: check_relationship_def Let_def bnd_Inr_iff split: if_splits)

lemma validate_parts:
  "discovery_state_validate E s = Inr () \<longleftrightarrow>
    ds_schema_version s = DISCOVERY_SCHEMA_VERSION \<and> goal_validate E (ds_goal s) = Inr () \<and>
    enforce_state_limits s = Inr () \<and>
    (\<exists>a b c d e. fold_res (check_search E s) [] (ds_completed_searches s) = Inr a \<and>
      fold_res (check_candidate E s) a (ds_candidates s) = Inr b \<and>
      fold_res (check_file E s) b (ds_file_evidence s) = Inr c \<and>
      fold_res (check_relationship E s c) c (ds_relationships s) = Inr d \<and>
      fold_res (\<lambda>_. check_question E s) () (ds_unresolved_questions s) = Inr () \<and>
      (case ds_impact_map s of None \<Rightarrow> Inr d | Some m \<Rightarrow> check_impact_map E s d m) = Inr e) \<and>
    (ds_convergence s = None \<or> ds_convergence s = Some (evaluate_discovery_convergence s)) \<and>
    validate_revision s = Inr ()"
  unfolding discovery_state_validate_def if_Inl_iff bnd_Inr_iff by auto

lemma validate_candidates_ok: "discovery_state_validate E s = Inr () \<Longrightarrow> candidates_ok s"
  unfolding validate_parts candidates_ok_def
  by (auto simp: enforce_state_limits_def enforce_limit_def bnd_Inr_iff split: if_splits
      dest!: fold_res_each [where f = "check_candidate E s"] check_candidate_ok)

lemma validate_files_ok: "discovery_state_validate E s = Inr () \<Longrightarrow> files_ok s"
  unfolding validate_parts files_ok_def
  by (auto dest!: fold_res_each [where f = "check_file E s"] check_file_ok)

lemma validate_relationships_ok: "discovery_state_validate E s = Inr () \<Longrightarrow> relationships_ok s"
  unfolding validate_parts relationships_ok_def
  by (elim conjE exE) (auto dest!: fold_res_each [where f = "check_relationship E s _"] check_relationship_ok)

lemma sorted_adjacent:
  "list_all (\<lambda>(a, b). (f a :: 'a::order) < f b) (zip xs (tl xs)) \<Longrightarrow> sorted_wrt (<) (map f xs)"
proof (induction xs)
  case (Cons x xs)
  then show ?case by (cases xs) auto
qed simp

lemma validate_areas_ordered:
  assumes "discovery_state_validate E s = Inr ()" and "ds_impact_map s = Some m"
  shows "sorted_wrt (<) (map ia_criterion_id (im_areas m))"
  using assms by (intro sorted_adjacent) (auto simp: validate_parts check_impact_map_def Let_def bnd_Inr_iff split: if_splits)

lemma bset_of_sorted:
  "sorted_wrt (<) xs \<Longrightarrow> set xs = set ys \<Longrightarrow> xs = bset_of (ys :: 'a::linorder list)"
  by (metis bset_of_same distinct_bset_of set_bset_of sorted_bset_of sorted_distinct_set_unique)

section \<open>Grounding\<close>

lemma bt_values_iff: "v \<in> set (bt_values m) \<longleftrightarrow> (\<exists>k. (k, v) \<in> set m)"
  by (force simp: bt_values_def)

lemma grounded_iff:
  "p \<in> set (grounded_candidate_paths s) \<longleftrightarrow>
    (\<exists>e \<in> set (bt_values (ds_file_evidence s)). fe_path e = p \<and>
      fe_repository_revision e = ds_repository_revision s) \<and> p \<in> fst ` set (ds_candidates s)"
  by (auto simp: grounded_candidate_paths_def map_of_eq_None_iff image_iff)

lemma rank_order_set [simp]: "set (rank_order cs) = set cs"
  by (simp add: rank_order_def)

lemma rank_order_length [simp]: "length (rank_order cs) = length cs"
  by (simp add: rank_order_def)

lemma all_ranked_all:
  "length (ds_candidates s) \<le> MAX_DISCOVERY_CANDIDATES \<Longrightarrow>
    set (all_ranked_candidate_paths s) = cp_path ` set (bt_values (ds_candidates s))"
  by (simp add: all_ranked_candidate_paths_def bt_values_def MAX_DISCOVERY_CANDIDATES_def MAX_ACTION_PATHS_def)

lemma ranked_empty_iff:
  assumes "length (ds_candidates s) \<le> MAX_DISCOVERY_CANDIDATES"
  shows "ranked_candidate_paths s = [] \<longleftrightarrow>
    (\<forall>c \<in> set (bt_values (ds_candidates s)). cp_path c \<in> set (grounded_candidate_paths s))"
  using all_ranked_all [OF assms]
  by (auto simp: ranked_candidate_paths_def MAX_GROUNDING_PATHS_PER_ACTION_def filter_empty_conv)

lemma grounded_criteria_all:
  "\<forall>c \<in> set (bt_values (ds_candidates s)). cp_path c \<in> set (grounded_candidate_paths s) \<Longrightarrow>
    set (grounded_criterion_ids s) = (\<Union>c \<in> set (bt_values (ds_candidates s)). set (cp_criterion_ids c))"
  by (auto simp: grounded_criterion_ids_def)


section \<open>Criterion paths\<close>

lemma map_of_const: "map_of (map (\<lambda>x. (x, c)) xs) k = (if k \<in> set xs then Some c else None)"
  by (induction xs) auto

text \<open>The two loops of \<open>criterion_paths\<close> as one over the pairs they meet.\<close>

definition path_pairs :: "candidate_evidence list \<Rightarrow> (discovery_path \<times> criterion_id) list" where
  "path_pairs cs = concat (map (\<lambda>c. map (\<lambda>k. (cp_path c, k)) (cp_criterion_ids c)) cs)"

abbreviation add_pair ::
  "(criterion_id, discovery_path list) btree_map \<Rightarrow> discovery_path \<times> criterion_id \<Rightarrow>
   (criterion_id, discovery_path list) btree_map" where
  "add_pair m pk \<equiv> add_criterion_path (fst pk) m (snd pk)"

lemma criterion_paths_pairs:
  "foldl (\<lambda>m c. foldl (add_criterion_path (cp_path c)) m (cp_criterion_ids c)) m cs = foldl add_pair m (path_pairs cs)"
proof (induction cs arbitrary: m)
  case (Cons c cs)
  have "foldl (add_criterion_path p) m ks = foldl add_pair m (map (\<lambda>k. (p, k)) ks)" for p m ks
    by (induction ks arbitrary: m) simp_all
  with Cons show ?case by (simp add: path_pairs_def)
qed (simp add: path_pairs_def)

lemma add_pair_set:
  "map_option set (map_of (add_pair m pk) k) =
    map_option (\<lambda>ps. set ps \<union> (if snd pk = k then {fst pk} else {})) (map_of m k)"
  by (cases "snd pk = k"; cases "map_of m k") (simp_all add: add_criterion_path_def map_of_adjust)

lemma add_pairs_set:
  "map_option set (map_of (foldl add_pair m pks) k) =
    map_option (\<lambda>ps. set ps \<union> {p. (p, k) \<in> set pks}) (map_of m k)"
proof (induction pks rule: rev_induct)
  case Nil
  then show ?case by (simp add: option.map_comp comp_def)
next
  case (snoc pk pks)
  obtain p k' where pk: "pk = (p, k')" by (cases pk)
  have "map_option set (map_of (foldl add_pair m (pks @ [pk])) k) =
      map_option (\<lambda>X. X \<union> (if k' = k then {p} else {})) (map_option set (map_of (foldl add_pair m pks) k))"
    using add_pair_set [where m = "foldl add_pair m pks" and pk = pk and k = k] by (simp add: pk option.map_comp comp_def)
  also have "\<dots> = map_option (\<lambda>ps. set ps \<union> {p. (p, k) \<in> set (pks @ [pk])}) (map_of m k)"
    unfolding snoc by (cases "map_of m k") (auto simp: pk)
  finally show ?case .
qed

lemma add_pairs_sorted:
  assumes "\<And>k ps. map_of m k = Some ps \<Longrightarrow> sorted ps \<and> distinct ps"
  shows "map_of (foldl add_pair m pks) k = Some ps \<Longrightarrow> sorted ps \<and> distinct ps"
proof (induction pks arbitrary: ps rule: rev_induct)
  case Nil
  then have "map_of m k = Some ps" by simp
  then show ?case by (rule assms)
next
  case (snoc pk pks)
  obtain qs where "map_of (foldl add_pair m pks) k = Some qs" and "ps = qs \<or> ps = bset_of (fst pk # qs)"
    using snoc.prems by (cases "snd pk = k") (auto simp: add_criterion_path_def map_of_adjust)
  with snoc.IH show ?case by auto
qed

lemma add_pairs_keys: "bt_wf m \<Longrightarrow> bt_wf (foldl add_pair m pks) \<and> map fst (foldl add_pair m pks) = map fst m"
proof (induction pks rule: rev_induct)
  case (snoc pk pks)
  have "bt_wf (bt_adjust k f m') \<and> map fst (bt_adjust k f m') = map fst m'" if "bt_wf m'" for k f and m' :: "(criterion_id, discovery_path list) btree_map"
  proof (cases "map_of m' k")
    case (Some v)
    then have "k \<in> fst ` set m'" by (force dest: map_of_SomeD)
    moreover have "bt_wf (bt_insert k (f v) m')" using that by (rule bt_wf_insert)
    ultimately have "map fst (bt_insert k (f v) m') = map fst m'"
      using that by (intro strict_sorted_equal) (auto simp: bt_wf_def keys_bt_insert)
    with Some \<open>bt_wf (bt_insert k (f v) m')\<close> show ?thesis by (simp add: bt_adjust_def)
  qed (simp add: bt_adjust_def that)
  with snoc show ?case by (simp add: add_criterion_path_def)
qed simp

lemma criterion_paths_keys:
  assumes "sorted_wrt (<) (dg_criterion_ids (ds_goal s))"
  shows "bt_wf (criterion_paths s)" and "map fst (criterion_paths s) = dg_criterion_ids (ds_goal s)"
proof -
  let ?m = "bt_of_list (map (\<lambda>criterion. (criterion, [])) (dg_criterion_ids (ds_goal s)))
    :: (criterion_id, discovery_path list) btree_map"
  have "bt_wf ?m" by (rule bt_wf_of_list)
  moreover have "map fst ?m = dg_criterion_ids (ds_goal s)"
    using assms bt_wf_of_list [of "map (\<lambda>criterion. (criterion, [])) (dg_criterion_ids (ds_goal s))"]
    by (intro strict_sorted_equal) (auto simp: bt_wf_def bt_of_list_keys image_image)
  ultimately show "bt_wf (criterion_paths s)" and "map fst (criterion_paths s) = dg_criterion_ids (ds_goal s)"
    using add_pairs_keys [of ?m] by (simp_all add: criterion_paths_def criterion_paths_pairs)
qed

lemma criterion_paths_lookup:
  assumes "k \<in> set (dg_criterion_ids (ds_goal s))"
  obtains ps where "map_of (criterion_paths s) k = Some ps" and "sorted ps" and "distinct ps"
    and "set ps = cp_path ` {c \<in> set (bt_values (ds_candidates s)).
      cp_path c \<in> set (grounded_candidate_paths s) \<and> k \<in> set (cp_criterion_ids c)}"
proof -
  let ?g = "dg_criterion_ids (ds_goal s)"
  let ?m = "bt_of_list (map (\<lambda>criterion. (criterion, [])) ?g) :: (criterion_id, discovery_path list) btree_map"
  let ?cs = "filter (\<lambda>c. cp_path c \<in> set (grounded_candidate_paths s)) (bt_values (ds_candidates s))"
  have m: "map_of ?m k' = (if k' \<in> set ?g then Some [] else None)" for k'
    using map_of_const [of "[] :: discovery_path list" "rev ?g"] by (simp add: map_of_of_list rev_map)
  have cp: "criterion_paths s = foldl add_pair ?m (path_pairs ?cs)"
    by (simp add: criterion_paths_def criterion_paths_pairs)
  have "map_option set (map_of (criterion_paths s) k) = Some {p. (p, k) \<in> set (path_pairs ?cs)}"
    using add_pairs_set [of ?m "path_pairs ?cs" k] assms by (simp add: cp m)
  then obtain ps where ps: "map_of (criterion_paths s) k = Some ps" "set ps = {p. (p, k) \<in> set (path_pairs ?cs)}"
    by auto
  have "sorted ps \<and> distinct ps"
  proof (rule add_pairs_sorted)
    show "map_of (foldl add_pair ?m (path_pairs ?cs)) k = Some ps" using ps(1) by (simp add: cp)
    show "sorted qs \<and> distinct qs" if "map_of ?m k' = Some qs" for k' qs
      using that by (simp add: m split: if_splits)
  qed
  moreover have "{p. (p, k) \<in> set (path_pairs ?cs)} = cp_path ` {c \<in> set (bt_values (ds_candidates s)).
      cp_path c \<in> set (grounded_candidate_paths s) \<and> k \<in> set (cp_criterion_ids c)}"
    by (auto simp: path_pairs_def)
  ultimately show ?thesis using that ps by simp
qed


section \<open>Convergence\<close>

lemma accepted_impact_iff:
  "accepted_impact s = Some m \<longleftrightarrow> ds_impact_map s = Some m \<and> impact_map_is_complete s m"
  by (auto simp: accepted_impact_def split: option.splits)

lemma evaluate_accepted_iff:
  "evaluate_discovery_convergence s = ImpactMapAccepted i \<longleftrightarrow>
    (\<exists>m. accepted_impact s = Some m \<and> im_evidence_id m = i)"
  by (auto simp: evaluate_discovery_convergence_def split: option.splits)

lemma evaluate_sufficientD:
  "evaluate_discovery_convergence s = EvidenceSufficient ps es \<Longrightarrow>
    accepted_impact s = None \<and> ds_candidates s \<noteq> [] \<and> grounded_candidate_paths s \<noteq> [] \<and>
    ds_unresolved_questions s = [] \<and> (\<forall>paths \<in> set (bt_values (criterion_paths s)). paths \<noteq> []) \<and>
    ps = criterion_paths s \<and> es = impact_map_evidence_ids s"
  by (auto simp: evaluate_discovery_convergence_def list_ex_iff split: option.splits if_splits)

lemma select_action_iff:
  "select_next_discovery_step s n = Next_Action a \<longleftrightarrow> accepted_impact s = None \<and> n \<noteq> 0 \<and>
    (a = Act_DiscoverCandidates \<and> substate s = Sub_NeedCandidates \<and> \<not> all_goal_searches_completed s \<or>
     a = Act_GroundCandidateEvidence \<and> substate s = Sub_NeedGroundedReads \<or>
     a = Act_ResolveNamedRelationship \<and> substate s = Sub_NeedRelations \<or>
     a = Act_RecordImpactMap \<and> substate s = Sub_ReadyToSynthesize)"
  by (cases a) (auto simp: select_next_discovery_step_def split: discovery_substate.splits)

lemma select_converge_iff:
  "select_next_discovery_step s n = Next_Converge c \<longleftrightarrow> c = evaluate_discovery_convergence s \<and>
    (accepted_impact s \<noteq> None \<or> n = 0 \<or> substate s = Sub_NeedCandidates \<and> all_goal_searches_completed s)"
  by (auto simp: select_next_discovery_step_def split: discovery_substate.splits)

lemma least_of_member: "xs \<noteq> [] \<Longrightarrow> \<exists>x \<in> set xs. least_of xs = Some x"
proof -
  assume "xs \<noteq> []"
  then have "bset_of xs \<noteq> []" by (metis set_bset_of set_empty)
  then obtain x ys where "bset_of xs = x # ys" by (cases "bset_of xs") auto
  then show ?thesis by (metis least_of_def list.set_intros(1) list.simps(5) set_bset_of)
qed

text \<open>Of a criterion with a grounded candidate, the evidence that is selected reads one of its paths.\<close>

lemma criterion_selection_reads:
  assumes "c \<in> set (bt_values (ds_candidates s))" and "k \<in> set (cp_criterion_ids c)"
    and "cp_path c \<in> set (grounded_candidate_paths s)"
  obtains x e where "x \<in> set (bt_values (ds_candidates s))" and "k \<in> set (cp_criterion_ids x)"
    and "cp_path x \<in> set (grounded_candidate_paths s)" and "e \<in> set (bt_values (ds_file_evidence s))"
    and "fe_path e = cp_path x" and "fe_evidence_id e \<in> set (criterion_selection s k)"
proof -
  let ?cs = "rank_order (filter (\<lambda>c. k \<in> set (cp_criterion_ids c) \<and>
    cp_path c \<in> set (grounded_candidate_paths s)) (bt_values (ds_candidates s)))"
  let ?P = "\<lambda>c. list_ex (\<lambda>e. fe_path e = cp_path c) (bt_values (ds_file_evidence s))"
  have "c \<in> set ?cs" using assms by simp
  moreover have "?P c" using assms(3) unfolding grounded_iff list_ex_iff by blast
  ultimately have "List.find ?P ?cs \<noteq> None" unfolding find_None_iff by blast
  then obtain x where x: "List.find ?P ?cs = Some x" by blast
  then have mem: "x \<in> set ?cs" and P: "?P x" using find_SomeD by fast+
  let ?ids = "map fe_evidence_id (filter (\<lambda>e. fe_path e = cp_path x) (bt_values (ds_file_evidence s)))"
  have "?ids \<noteq> []" using P by (auto simp: list_ex_iff filter_empty_conv)
  then obtain i where i: "i \<in> set ?ids" "least_of ?ids = Some i" using least_of_member by blast
  then obtain e where e: "e \<in> set (bt_values (ds_file_evidence s))" "fe_path e = cp_path x" "fe_evidence_id e = i"
    by auto
  have "i \<in> set (criterion_selection s k)"
    using x i(2) by (simp add: criterion_selection_def candidate_selection_def)
  then show ?thesis using that [of x e] mem e by simp
qed

lemma criterion_selection_used:
  "k \<in> set (dg_criterion_ids (ds_goal s)) \<Longrightarrow> set (criterion_selection s k) \<subseteq> set (impact_map_evidence_ids s)"
  by (auto simp: impact_map_evidence_ids_def)

end
