(* ===== verification/Discovery_Synthesis.thy ===== *)
theory Discovery_Synthesis
  imports Discovery_Facts
begin

text \<open>
  How discovery ends: recording a convergence or an impact map changes no evidence, sufficient evidence
  always yields a complete impact map, and the convergence the worker selects is the one the reducer takes.
\<close>

section \<open>Concluding changes no evidence\<close>

definition conclude :: "discovery_state \<Rightarrow> impact_map_evidence option \<Rightarrow> discovery_convergence option \<Rightarrow>
   discovery_state" where
  "conclude s m c = s\<lparr>ds_impact_map := m, ds_convergence := c\<rparr>"

lemma conclude_fields [simp]:
  "ds_impact_map (conclude s m c) = m" "ds_convergence (conclude s m c) = c"
  "ds_schema_version (conclude s m c) = ds_schema_version s" "ds_node_id (conclude s m c) = ds_node_id s"
  "ds_repository_revision (conclude s m c) = ds_repository_revision s"
  "ds_repository_profile_id (conclude s m c) = ds_repository_profile_id s" "ds_goal (conclude s m c) = ds_goal s"
  "ds_completed_searches (conclude s m c) = ds_completed_searches s"
  "ds_candidates (conclude s m c) = ds_candidates s" "ds_file_evidence (conclude s m c) = ds_file_evidence s"
  "ds_relationships (conclude s m c) = ds_relationships s"
  "ds_unresolved_questions (conclude s m c) = ds_unresolved_questions s"
  by (simp_all add: conclude_def)

lemma conclude_grounded [simp]: "grounded_candidate_paths (conclude s m c) = grounded_candidate_paths s"
  by (simp add: grounded_candidate_paths_def)

lemma conclude_checks [simp]:
  "check_search E (conclude s m c) = check_search E s"
  "check_candidate E (conclude s m c) = check_candidate E s"
  "check_file E (conclude s m c) = check_file E s"
  "check_relationship E (conclude s m c) = check_relationship E s"
  "check_question E (conclude s m c) = check_question E s"
  "enforce_state_limits (conclude s m c) = enforce_state_limits s"
  by (simp_all add: fun_eq_iff check_search_def check_candidate_def source_criteria_def check_file_def
      check_relationship_def non_relationship_evidence_touches_path_def check_question_def
      enforce_state_limits_def Let_def cong: if_cong)

lemma conclude_area [simp]:
  "impact_area_is_semantically_grounded (conclude s m c) = impact_area_is_semantically_grounded s"
  by (simp add: fun_eq_iff impact_area_is_semantically_grounded_def path_supports_area_def [abs_def]
      evidence_supports_area_def [abs_def])

lemma conclude_complete [simp]: "impact_map_is_complete (conclude s m c) = impact_map_is_complete s"
  by (simp add: fun_eq_iff impact_map_is_complete_def)

lemma conclude_impact_check [simp]: "check_impact_map E (conclude s m c) = check_impact_map E s"
  by (simp add: fun_eq_iff check_impact_map_def Let_def)

lemma conclude_evaluate:
  "evaluate_discovery_convergence (conclude s (ds_impact_map s) c) = evaluate_discovery_convergence s"
  by (simp add: evaluate_discovery_convergence_def accepted_impact_def criterion_paths_def
      impact_map_evidence_ids_def criterion_selection_def [abs_def] candidate_selection_def [abs_def]
      cong: if_cong option.case_cong)

section \<open>The identities of the evidence\<close>

definition evidence_ids :: "discovery_state \<Rightarrow> evidence_id set" where
  "evidence_ids s = se_evidence_id ` set (bt_values (ds_completed_searches s)) \<union>
     cp_evidence_id ` set (bt_values (ds_candidates s)) \<union> fe_evidence_id ` set (bt_values (ds_file_evidence s)) \<union>
     re_evidence_id ` set (bt_values (ds_relationships s))"

lemma claims_collect:
  assumes "\<And>seen k v seen'. f seen (k, v) = Inr seen' \<Longrightarrow> set seen' = insert (g v) (set seen)"
  shows "fold_res f seen m = Inr seen' \<Longrightarrow> set seen' = set seen \<union> g ` set (bt_values m)"
proof (induction m arbitrary: seen)
  case (Cons kv m)
  obtain k v where kv: "kv = (k, v)" by (cases kv)
  with Cons.prems obtain s1 where s1: "f seen (k, v) = Inr s1" "fold_res f s1 m = Inr seen'"
    by (auto simp: bnd_Inr_iff)
  from Cons.IH [OF s1(2)] assms [OF s1(1)] show ?case by (auto simp: kv bt_values_def)
qed (simp add: bt_values_def)

lemma claim_set: "claim_evidence_id seen i = Inr seen' \<Longrightarrow> set seen' = insert i (set seen)"
  by (auto simp: claim_evidence_id_def split: if_splits)

lemma search_claims: "check_search E s seen (k, v) = Inr seen' \<Longrightarrow> set seen' = insert (se_evidence_id v) (set seen)"
  unfolding check_search_def Let_def prod.case if_Inl_iff bnd_Inr_iff by (auto dest: claim_set)

lemma candidate_claims:
  "check_candidate E s seen (k, v) = Inr seen' \<Longrightarrow> set seen' = insert (cp_evidence_id v) (set seen)"
  unfolding check_candidate_def Let_def prod.case if_Inl_iff bnd_Inr_iff by (auto dest: claim_set)

lemma file_claims: "check_file E s seen (k, v) = Inr seen' \<Longrightarrow> set seen' = insert (fe_evidence_id v) (set seen)"
  unfolding check_file_def Let_def prod.case if_Inl_iff bnd_Inr_iff by (auto dest: claim_set)

lemma relationship_claims:
  "check_relationship E s ids seen (k, v) = Inr seen' \<Longrightarrow> set seen' = insert (re_evidence_id v) (set seen)"
  unfolding check_relationship_def Let_def prod.case if_Inl_iff bnd_Inr_iff by (auto dest: claim_set)

text \<open>Validation without the impact map: the evidence part, and the identities it has claimed at the end.\<close>

definition evidence_valid :: "externs \<Rightarrow> discovery_state \<Rightarrow> evidence_id list \<Rightarrow> bool" where
  "evidence_valid E s d \<longleftrightarrow>
    ds_schema_version s = DISCOVERY_SCHEMA_VERSION \<and> goal_validate E (ds_goal s) = Inr () \<and>
    enforce_state_limits s = Inr () \<and>
    (\<exists>a b c. fold_res (check_search E s) [] (ds_completed_searches s) = Inr a \<and>
      fold_res (check_candidate E s) a (ds_candidates s) = Inr b \<and>
      fold_res (check_file E s) b (ds_file_evidence s) = Inr c \<and>
      fold_res (check_relationship E s c) c (ds_relationships s) = Inr d) \<and>
      fold_res (\<lambda>_. check_question E s) () (ds_unresolved_questions s) = Inr ()"

lemma validate_evidence_iff:
  "discovery_state_validate E s = Inr () \<longleftrightarrow>
    (\<exists>d e. evidence_valid E s d \<and>
      (case ds_impact_map s of None \<Rightarrow> Inr d | Some m \<Rightarrow> check_impact_map E s d m) = Inr e) \<and>
    (ds_convergence s = None \<or> ds_convergence s = Some (evaluate_discovery_convergence s)) \<and>
    validate_revision s = Inr ()"
  unfolding validate_parts evidence_valid_def by blast

lemma evidence_valid_ids: "evidence_valid E s d \<Longrightarrow> set d = evidence_ids s"
proof -
  assume "evidence_valid E s d"
  then obtain a b c where folds: "fold_res (check_search E s) [] (ds_completed_searches s) = Inr a"
      "fold_res (check_candidate E s) a (ds_candidates s) = Inr b"
      "fold_res (check_file E s) b (ds_file_evidence s) = Inr c"
      "fold_res (check_relationship E s c) c (ds_relationships s) = Inr d"
    by (auto simp: evidence_valid_def)
  show ?thesis
    unfolding evidence_ids_def
    using claims_collect [OF search_claims folds(1)] claims_collect [OF candidate_claims folds(2)]
      claims_collect [OF file_claims folds(3)] claims_collect [OF relationship_claims folds(4)]
    by simp
qed

lemma evidence_valid_conclude [simp]: "evidence_valid E (conclude s m c) d = evidence_valid E s d"
  by (simp add: evidence_valid_def)

lemma revision_conclude:
  "validate_revision s = Inr () \<Longrightarrow> (\<forall>x. m = Some x \<longrightarrow> im_repository_revision x = ds_repository_revision s) \<Longrightarrow>
    validate_revision (conclude s m c) = Inr ()"
  by (auto simp: validate_revision_def Let_def require_Inr_iff split: option.splits)

text \<open>Recording the convergence that is evaluated keeps the state valid.\<close>

lemma validate_convergence:
  assumes "discovery_state_validate E s = Inr ()"
  shows "discovery_state_validate E (s\<lparr>ds_convergence := Some (evaluate_discovery_convergence s)\<rparr>) = Inr ()"
proof -
  let ?c = "Some (evaluate_discovery_convergence s)"
  have s: "s\<lparr>ds_convergence := ?c\<rparr> = conclude s (ds_impact_map s) ?c" by (simp add: conclude_def)
  have "validate_revision (conclude s (ds_impact_map s) ?c) = Inr ()"
    using assms by (intro revision_conclude)
      (auto simp: validate_evidence_iff validate_revision_def Let_def require_Inr_iff)
  then show ?thesis
    using assms unfolding s validate_evidence_iff by (simp add: conclude_evaluate cong: option.case_cong)
qed

section \<open>The deterministic impact map\<close>

text \<open>The maps of a state are \<open>BTreeMap\<close>s and the criteria of the goal a \<open>BTreeSet\<close>.\<close>

definition discovery_wf :: "discovery_state \<Rightarrow> bool" where
  "discovery_wf s \<longleftrightarrow> bt_wf (ds_completed_searches s) \<and> bt_wf (ds_candidates s) \<and>
     bt_wf (ds_file_evidence s) \<and> bt_wf (ds_relationships s) \<and> bt_wf (ds_unresolved_questions s) \<and>
     sorted_wrt (<) (dg_criterion_ids (ds_goal s))"

definition area_of ::
  "discovery_state \<Rightarrow> evidence_id list \<Rightarrow> criterion_id \<times> discovery_path list \<Rightarrow> impact_area" where
  "area_of d ids entry = \<lparr>ia_criterion_id = fst entry, ia_paths = snd entry,
     ia_evidence_ids = area_evidence d ids (snd entry), ia_confidence = Confidence_Medium\<rparr>"

lemma file_lookup:
  "discovery_wf d \<Longrightarrow> files_ok d \<Longrightarrow> e \<in> set (bt_values (ds_file_evidence d)) \<Longrightarrow>
    map_of (ds_file_evidence d) (fe_evidence_id e) = Some e"
  by (fastforce simp: discovery_wf_def files_ok_def bt_values_iff simp flip: bt_wf_map_of_iff)

lemma relationship_lookup:
  "discovery_wf d \<Longrightarrow> relationships_ok d \<Longrightarrow> e \<in> set (bt_values (ds_relationships d)) \<Longrightarrow>
    map_of (ds_relationships d) (re_evidence_id e) = Some e"
  by (fastforce simp: discovery_wf_def relationships_ok_def bt_values_iff simp flip: bt_wf_map_of_iff)

lemma candidate_lookup:
  "discovery_wf d \<Longrightarrow> candidates_ok d \<Longrightarrow> c \<in> set (bt_values (ds_candidates d)) \<Longrightarrow>
    map_of (ds_candidates d) (cp_path c) = Some c"
  by (fastforce simp: discovery_wf_def candidates_ok_def bt_values_iff simp flip: bt_wf_map_of_iff)

lemma area_evidence_supports:
  assumes "discovery_wf d" and "files_ok d" and "relationships_ok d" and "ia_paths a = paths"
    and "i \<in> set (area_evidence d ids paths)"
  shows "evidence_supports_area d a i"
proof -
  from assms(5) consider e where "e \<in> set (bt_values (ds_file_evidence d))" "fe_path e \<in> set paths" "fe_evidence_id e = i"
    | e where "e \<in> set (bt_values (ds_relationships d))" "re_from e \<in> set paths \<or> re_to e \<in> set paths"
        "re_evidence_id e = i"
    by (auto simp: area_evidence_def)
  then show ?thesis
  proof cases
    case 1
    with file_lookup [OF assms(1,2) 1(1)] show ?thesis by (simp add: evidence_supports_area_def assms(4))
  next
    case 2
    with relationship_lookup [OF assms(1,3) 2(1)] show ?thesis by (simp add: evidence_supports_area_def assms(4))
  qed
qed

lemma sufficient_entry:
  assumes wf: "discovery_wf d" and ok: "candidates_ok d"
    and suff: "evaluate_discovery_convergence d = EvidenceSufficient ps es" and entry: "(k, paths) \<in> set ps"
  shows "paths \<noteq> [] \<and> area_evidence d es paths \<noteq> [] \<and> k \<in> set (dg_criterion_ids (ds_goal d)) \<and>
    set paths = cp_path ` {c \<in> set (bt_values (ds_candidates d)).
      cp_path c \<in> set (grounded_candidate_paths d) \<and> k \<in> set (cp_criterion_ids c)}"
proof -
  from evaluate_sufficientD [OF suff] have ps: "ps = criterion_paths d" and es: "es = impact_map_evidence_ids d"
    and ne: "\<forall>paths \<in> set (bt_values ps). paths \<noteq> []" by auto
  have sorted: "sorted_wrt (<) (dg_criterion_ids (ds_goal d))" using wf by (simp add: discovery_wf_def)
  have "k \<in> set (map fst ps)" using entry by force
  then have k: "k \<in> set (dg_criterion_ids (ds_goal d))" by (simp only: ps criterion_paths_keys(2) [OF sorted])
  have "map_of ps k = Some paths"
    using bt_wf_map_of_iff [OF criterion_paths_keys(1) [OF sorted]] entry by (simp add: ps)
  moreover obtain qs where qs: "map_of (criterion_paths d) k = Some qs" "set qs = cp_path `
      {c \<in> set (bt_values (ds_candidates d)). cp_path c \<in> set (grounded_candidate_paths d) \<and>
        k \<in> set (cp_criterion_ids c)}"
    using k by (rule criterion_paths_lookup)
  ultimately have set: "set paths = cp_path ` {c \<in> set (bt_values (ds_candidates d)).
      cp_path c \<in> set (grounded_candidate_paths d) \<and> k \<in> set (cp_criterion_ids c)}"
    by (simp add: ps)
  have "paths \<in> set (bt_values ps)" using entry by (auto simp: bt_values_iff)
  with ne have ne: "paths \<noteq> []" by blast
  then obtain p where "p \<in> set paths" using list.set_sel(1) by blast
  then obtain c where c: "c \<in> set (bt_values (ds_candidates d))" "k \<in> set (cp_criterion_ids c)"
      "cp_path c \<in> set (grounded_candidate_paths d)"
    using set by blast
  obtain x e where x: "x \<in> set (bt_values (ds_candidates d))" "k \<in> set (cp_criterion_ids x)"
      "cp_path x \<in> set (grounded_candidate_paths d)" "e \<in> set (bt_values (ds_file_evidence d))"
      "fe_path e = cp_path x" "fe_evidence_id e \<in> set (criterion_selection d k)"
    using criterion_selection_reads [OF c(1,2,3)] by blast
  have "fe_evidence_id e \<in> set es" using criterion_selection_used [OF k] x(6) es by blast
  moreover have "fe_path e \<in> set paths" using set x(1,2,3,5) by simp
  ultimately have "fe_evidence_id e \<in> set (area_evidence d es paths)" using x(4) by (auto simp: area_evidence_def)
  with ne k set show ?thesis by auto
qed

lemma sufficient_area_grounded:
  assumes wf: "discovery_wf d" and ok: "candidates_ok d" "files_ok d" "relationships_ok d"
    and suff: "evaluate_discovery_convergence d = EvidenceSufficient ps es" and entry: "entry \<in> set ps"
  shows "impact_area_is_semantically_grounded d (area_of d es entry)"
proof -
  obtain k paths where e: "entry = (k, paths)" by (cases entry)
  note facts = sufficient_entry [OF wf ok(1) suff entry [unfolded e]]
  have "path_supports_area d (area_of d es entry) p" if "p \<in> set paths" for p
  proof -
    have "p \<in> cp_path ` {c \<in> set (bt_values (ds_candidates d)).
        cp_path c \<in> set (grounded_candidate_paths d) \<and> k \<in> set (cp_criterion_ids c)}"
      using facts that by (simp only:)
    then obtain c where "c \<in> set (bt_values (ds_candidates d))" "cp_path c = p"
        "p \<in> set (grounded_candidate_paths d)" "k \<in> set (cp_criterion_ids c)"
      by blast
    moreover from this have "map_of (ds_candidates d) p = Some c" using candidate_lookup [OF wf ok(1)] by blast
    ultimately show ?thesis unfolding path_supports_area_def area_of_def e by simp
  qed
  moreover have "evidence_supports_area d (area_of d es entry) i"
    if "i \<in> set (area_evidence d es paths)" for i
    using area_evidence_supports [OF wf ok(2,3) _ that, of "area_of d es entry"] by (simp add: area_of_def e)
  ultimately show ?thesis
    using facts by (simp add: impact_area_is_semantically_grounded_def area_of_def e list_all_iff)
qed


text \<open>The areas are in criterion order, one for each criterion of the goal.\<close>

lemma derived_total: "json_total E \<Longrightarrow> \<exists>i. derived_evidence_id E kind v = Inr i"
proof -
  assume "json_total E"
  then obtain y where "to_json E v = Some y" unfolding json_total_def by blast
  then show ?thesis by (simp add: derived_evidence_id_def discovery_json_def)
qed

lemma impact_map_new_total: "json_total E \<Longrightarrow> \<exists>m. impact_map_new E node revision areas questions = Inr m"
proof -
  let ?m = "\<lparr>im_schema_version = DISCOVERY_SCHEMA_VERSION, im_evidence_id = ''pending:impact-map-evidence'',
    im_producer_node_id = node, im_repository_revision = revision, im_areas = areas,
    im_unresolved_question_ids = questions\<rparr>"
  assume "json_total E"
  then obtain i where "impact_map_expected_id E ?m = Inr i"
    unfolding impact_map_expected_id_def using derived_total by blast
  then show ?thesis by (simp add: impact_map_new_def Let_def)
qed

lemma deterministic_map:
  assumes json: "json_total E" and wf: "discovery_wf d" and valid: "discovery_state_validate E d = Inr ()"
    and suff: "ds_convergence d = Some (EvidenceSufficient ps es)" and d: "dx_discovery s = Some d"
  obtains m where "deterministic_discovery_impact_map E s = Inr m"
    and "impact_map_new E (ds_node_id d) (ds_repository_revision d) (map (area_of d es) ps) [] = Inr m"
proof -
  have ev: "evaluate_discovery_convergence d = EvidenceSufficient ps es"
    using valid suff by (simp add: validate_parts)
  have "\<forall>entry \<in> set ps. deterministic_area d es entry = Inr (area_of d es entry)"
    using sufficient_entry [OF wf validate_candidates_ok [OF valid] ev]
    by (auto simp: deterministic_area_def area_of_def)
  then have areas: "map_res (deterministic_area d es) ps = Inr (map (area_of d es) ps)" by (rule map_res_total)
  obtain m where m: "impact_map_new E (ds_node_id d) (ds_repository_revision d) (map (area_of d es) ps) [] = Inr m"
    using impact_map_new_total [OF json] by blast
  then have "deterministic_discovery_impact_map E s = Inr m"
    by (simp add: deterministic_discovery_impact_map_def the_discovery_def d suff areas disc_ok_iff)
  then show ?thesis using that m by blast
qed

lemma impact_map_new_fields:
  "impact_map_new E node revision areas questions = Inr m \<Longrightarrow> im_schema_version m = DISCOVERY_SCHEMA_VERSION \<and>
    im_producer_node_id m = node \<and> im_repository_revision m = revision \<and> im_areas m = areas \<and>
    im_unresolved_question_ids m = questions \<and> impact_map_expected_id E m = Inr (im_evidence_id m)"
  by (auto simp: impact_map_new_def Let_def bnd_Inr_iff impact_map_expected_id_def)

lemma goal_has_criteria: "goal_validate E g = Inr () \<Longrightarrow> dg_criterion_ids g \<noteq> []"
  by (auto simp: goal_validate_def goal_new_def bnd_Inr_iff split: if_splits)

lemma deterministic_map_checks:
  assumes wf: "discovery_wf d" and valid: "discovery_state_validate E d = Inr ()"
    and ev: "evaluate_discovery_convergence d = EvidenceSufficient ps es"
    and m: "impact_map_new E (ds_node_id d) (ds_repository_revision d) (map (area_of d es) ps) [] = Inr m"
  shows "impact_map_is_complete d m"
    and "im_evidence_id m \<notin> set seen \<Longrightarrow> check_impact_map E d seen m = Inr (im_evidence_id m # seen)"
proof -
  note ok = validate_candidates_ok [OF valid] validate_files_ok [OF valid] validate_relationships_ok [OF valid]
  note f = impact_map_new_fields [OF m]
  have ps: "ps = criterion_paths d" using evaluate_sufficientD [OF ev] by simp
  have sorted: "sorted_wrt (<) (dg_criterion_ids (ds_goal d))" using wf by (simp add: discovery_wf_def)
  have ids: "map ia_criterion_id (im_areas m) = dg_criterion_ids (ds_goal d)"
    using f criterion_paths_keys(2) [OF sorted] by (simp add: comp_def area_of_def ps)
  have grounded: "list_all (impact_area_is_semantically_grounded d) (im_areas m)"
    using sufficient_area_grounded [OF wf ok ev] f by (auto simp: list_all_iff)
  have "ia_criterion_id ` set (im_areas m) = set (dg_criterion_ids (ds_goal d))"
    by (metis ids list.set_map)
  with grounded show "impact_map_is_complete d m"
    using f by (simp add: impact_map_is_complete_def list_all_iff)
  have lens: "length (im_areas m) = length (dg_criterion_ids (ds_goal d))" by (metis ids length_map)
  have "dg_criterion_ids (ds_goal d) \<noteq> []"
    using goal_has_criteria valid by (auto simp: validate_parts)
  with lens have ne: "im_areas m \<noteq> []" by auto
  have "list_all (\<lambda>(a, b). ia_criterion_id a < ia_criterion_id b) (zip (im_areas m) (tl (im_areas m)))"
    using sorted by (intro adjacent_sorted) (simp only: ids)
  moreover have "length (bset_of (map ia_criterion_id (im_areas m))) = length (im_areas m)"
    using lens sorted by (simp only: ids bset_of_same)
  ultimately show "check_impact_map E d seen m = Inr (im_evidence_id m # seen)" if "im_evidence_id m \<notin> set seen"
    using f grounded lens ne that by (simp add: check_impact_map_def Let_def claim_evidence_id_def)
qed

lemma validate_with_map:
  assumes valid: "discovery_state_validate E d = Inr ()"
    and m: "\<And>seen. im_evidence_id m \<notin> set seen \<Longrightarrow> check_impact_map E d seen m = Inr (im_evidence_id m # seen)"
    and "im_repository_revision m = ds_repository_revision d" and fresh: "im_evidence_id m \<notin> evidence_ids d"
  shows "discovery_state_validate E (conclude d (Some m) None) = Inr ()"
proof -
  obtain seen where seen: "evidence_valid E d seen" and rev: "validate_revision d = Inr ()"
    using valid by (auto simp: validate_evidence_iff)
  with evidence_valid_ids [OF seen] fresh m have "check_impact_map E d seen m = Inr (im_evidence_id m # seen)" by blast
  moreover have "validate_revision (conclude d (Some m) None) = Inr ()"
    using rev assms(3) by (intro revision_conclude) auto
  ultimately show ?thesis using seen by (auto simp: validate_evidence_iff)
qed


section \<open>What the selected step finds\<close>

definition candidate_criteria :: "discovery_state \<Rightarrow> criterion_id list" where
  "candidate_criteria d = bset_of (concat (map cp_criterion_ids (bt_values (ds_candidates d))))"

lemma candidate_criteria_set:
  "set (candidate_criteria d) = (\<Union>c \<in> set (bt_values (ds_candidates d)). set (cp_criterion_ids c))"
  by (simp add: candidate_criteria_def)

lemma candidate_criteria_goal:
  "discovery_wf d \<Longrightarrow> candidate_criteria d = dg_criterion_ids (ds_goal d) \<longleftrightarrow>
    set (candidate_criteria d) = set (dg_criterion_ids (ds_goal d))"
  by (metis bset_of_same candidate_criteria_def discovery_wf_def distinct_bset_of set_bset_of sorted_bset_of
      sorted_distinct_set_unique)

lemma substate_cases:
  assumes "candidates_ok d"
  shows "substate d = Sub_NeedCandidates \<longleftrightarrow> ds_candidates d = [] \<or>
      (\<forall>c \<in> set (bt_values (ds_candidates d)). cp_path c \<in> set (grounded_candidate_paths d)) \<and>
      candidate_criteria d \<noteq> dg_criterion_ids (ds_goal d)"
    and "substate d = Sub_ReadyToSynthesize \<longleftrightarrow> ds_candidates d \<noteq> [] \<and>
      (\<forall>c \<in> set (bt_values (ds_candidates d)). cp_path c \<in> set (grounded_candidate_paths d)) \<and>
      candidate_criteria d = dg_criterion_ids (ds_goal d) \<and> ds_unresolved_questions d = []"
proof -
  have "length (ds_candidates d) \<le> MAX_DISCOVERY_CANDIDATES" using assms by (simp add: candidates_ok_def)
  note ranked = ranked_empty_iff [OF this]
  show "substate d = Sub_NeedCandidates \<longleftrightarrow> ds_candidates d = [] \<or>
      (\<forall>c \<in> set (bt_values (ds_candidates d)). cp_path c \<in> set (grounded_candidate_paths d)) \<and>
      candidate_criteria d \<noteq> dg_criterion_ids (ds_goal d)"
    unfolding substate_def candidate_criteria_def [symmetric] Let_def ranked [symmetric] by simp
  show "substate d = Sub_ReadyToSynthesize \<longleftrightarrow> ds_candidates d \<noteq> [] \<and>
      (\<forall>c \<in> set (bt_values (ds_candidates d)). cp_path c \<in> set (grounded_candidate_paths d)) \<and>
      candidate_criteria d = dg_criterion_ids (ds_goal d) \<and> ds_unresolved_questions d = []"
    unfolding substate_def candidate_criteria_def [symmetric] Let_def ranked [symmetric] by auto
qed

text \<open>Out of searches with a criterion uncovered, discovery has no evidence for it or an open question.\<close>

lemma need_candidates_convergence:
  assumes wf: "discovery_wf d" and ok: "candidates_ok d" and "accepted_impact d = None"
    and sub: "substate d = Sub_NeedCandidates"
  shows "is_insufficient_evidence (evaluate_discovery_convergence d) \<or>
    evaluate_discovery_convergence d = Conv_BudgetBlocked RelationshipEvidenceMissing"
proof (cases "ds_candidates d = []")
  case True
  then show ?thesis using assms(3) by (simp add: evaluate_discovery_convergence_def)
next
  case False
  then have all: "\<forall>c \<in> set (bt_values (ds_candidates d)). cp_path c \<in> set (grounded_candidate_paths d)"
    and ne: "candidate_criteria d \<noteq> dg_criterion_ids (ds_goal d)"
    using sub substate_cases(1) [OF ok] by auto
  have grounded: "grounded_candidate_paths d \<noteq> []"
    using all False by (cases "ds_candidates d") (auto simp: bt_values_def)
  have "set (candidate_criteria d) \<subseteq> set (dg_criterion_ids (ds_goal d))"
    using ok by (fastforce simp: candidate_criteria_set candidates_ok_def bt_values_iff)
  then obtain k where k: "k \<in> set (dg_criterion_ids (ds_goal d))" "k \<notin> set (candidate_criteria d)"
    using ne candidate_criteria_goal [OF wf] by blast
  obtain qs where qs: "map_of (criterion_paths d) k = Some qs" "set qs = cp_path `
      {c \<in> set (bt_values (ds_candidates d)). cp_path c \<in> set (grounded_candidate_paths d) \<and>
        k \<in> set (cp_criterion_ids c)}"
    using k(1) by (rule criterion_paths_lookup)
  have "set qs = {}" unfolding qs(2) using k(2) by (auto simp: candidate_criteria_set)
  then have "qs = []" by simp
  with qs(1) have "[] \<in> set (bt_values (criterion_paths d))" by (auto simp: bt_values_iff dest: map_of_SomeD)
  then have "list_ex (\<lambda>paths. paths = []) (bt_values (criterion_paths d))" by (auto simp: list_ex_iff)
  then show ?thesis
    using False grounded assms(3) by (simp add: evaluate_discovery_convergence_def)
qed

lemma not_insufficient_blocked [simp]: "\<not> is_insufficient_evidence (Conv_BudgetBlocked r)"
  "\<not> is_impact_map_accepted (Conv_BudgetBlocked r)"
  by simp_all

lemma accepted_evaluates: "is_impact_map_accepted (evaluate_discovery_convergence d) \<longleftrightarrow> accepted_impact d \<noteq> None"
  by (auto simp: evaluate_discovery_convergence_def split: option.splits)

lemma record_selected_convergence:
  assumes "require_active_discovery_node s = Inr ()" and "es_discovery_action s = None"
    and d: "dx_discovery s = Some d" and "ds_convergence d = None" and wf: "discovery_wf d"
    and valid: "discovery_state_validate E d = Inr ()"
    and "discovery_budget_remaining s (ds_node_id d) = Inr r"
    and sel: "select_next_discovery_step d (admissible_model_calls r) = Next_Converge c"
  shows "record_discovery_convergence E s c =
    (if admissible_model_calls r \<noteq> 0 \<and> c = Conv_BudgetBlocked RelationshipEvidenceMissing
     then Inl (V_DiscoveryContract ''discovery_convergence_before_exact_exhaustion'')
     else Inr (s\<lparr>dx_discovery := Some (d\<lparr>ds_convergence := Some c\<rparr>)\<rparr>))"
proof -
  let ?early = "\<not> is_impact_map_accepted c \<and> admissible_model_calls r \<noteq> 0 \<and>
    \<not> (is_insufficient_evidence c \<and> all_goal_searches_completed d)"
  from sel have c: "c = evaluate_discovery_convergence d"
    and why: "accepted_impact d \<noteq> None \<or> admissible_model_calls r = 0 \<or>
      substate d = Sub_NeedCandidates \<and> all_goal_searches_completed d"
    by (auto simp: select_converge_iff)
  have early: "?early \<longleftrightarrow> admissible_model_calls r \<noteq> 0 \<and> c = Conv_BudgetBlocked RelationshipEvidenceMissing"
  proof (cases "accepted_impact d = None \<and> admissible_model_calls r \<noteq> 0")
    case True
    then show ?thesis
      using why need_candidates_convergence [OF wf validate_candidates_ok [OF valid]] accepted_evaluates [of d] c
      by auto
  next
    case False
    then show ?thesis using accepted_evaluates [of d] c by auto
  qed
  have "commit_discovery E s (d\<lparr>ds_convergence := Some c\<rparr>) = Inr (s\<lparr>dx_discovery := Some (d\<lparr>ds_convergence := Some c\<rparr>)\<rparr>)"
    using validate_convergence [OF valid] by (simp add: commit_discovery_def from_discovery_def c)
  then show ?thesis
    using assms(1,2,4,7) early
    by (simp add: record_discovery_convergence_def the_discovery_def d Let_def contract_def c)
qed

end
