(* ===== verification/Discovery_Growth.thy ===== *)
theory Discovery_Growth
  imports Discovery_Synthesis
begin

text \<open>
  Discovery never loses evidence: every handler keeps the searches, files and relationships it had, and a
  candidate keeps its path and rank and only gains reasons, sources and criteria.
\<close>

section \<open>What is kept\<close>

definition candidate_grows :: "candidate_evidence \<Rightarrow> candidate_evidence \<Rightarrow> bool" where
  "candidate_grows c c' \<longleftrightarrow> cp_path c' = cp_path c \<and> cp_rank c' = cp_rank c \<and>
     set (cp_reasons c) \<subseteq> set (cp_reasons c') \<and> set (cp_source_search_ids c) \<subseteq> set (cp_source_search_ids c') \<and>
     set (cp_criterion_ids c) \<subseteq> set (cp_criterion_ids c')"

definition evidence_kept :: "discovery_state \<Rightarrow> discovery_state \<Rightarrow> bool" where
  "evidence_kept d d' \<longleftrightarrow>
     ds_node_id d' = ds_node_id d \<and> ds_repository_revision d' = ds_repository_revision d \<and>
     ds_repository_profile_id d' = ds_repository_profile_id d \<and> ds_goal d' = ds_goal d \<and>
     map_of (ds_completed_searches d) \<subseteq>\<^sub>m map_of (ds_completed_searches d') \<and>
     map_of (ds_file_evidence d) \<subseteq>\<^sub>m map_of (ds_file_evidence d') \<and>
     map_of (ds_relationships d) \<subseteq>\<^sub>m map_of (ds_relationships d') \<and>
     (\<forall>p c. map_of (ds_candidates d) p = Some c \<longrightarrow>
       (\<exists>c'. map_of (ds_candidates d') p = Some c' \<and> candidate_grows c c'))"

lemma candidate_grows_refl [simp]: "candidate_grows c c"
  by (simp add: candidate_grows_def)

lemma candidate_grows_trans: "candidate_grows a b \<Longrightarrow> candidate_grows b c \<Longrightarrow> candidate_grows a c"
  by (auto simp: candidate_grows_def)

lemma evidence_kept_refl: "evidence_kept d d"
  by (auto simp: evidence_kept_def)

lemma evidence_kept_trans: "evidence_kept a b \<Longrightarrow> evidence_kept b c \<Longrightarrow> evidence_kept a c"
  unfolding evidence_kept_def by (auto intro: map_le_trans dest: candidate_grows_trans) (meson candidate_grows_trans)

section \<open>Insertions\<close>

lemma insert_all_lookup:
  assumes "\<forall>x \<in> set xs. map_of m (key x) = None"
  shows "map_of m \<subseteq>\<^sub>m map_of (foldl (\<lambda>m x. bt_insert (key x) x m) m xs)"
proof -
  have "map_of m k = Some v \<Longrightarrow> map_of (foldl (\<lambda>m x. bt_insert (key x) x m) m' xs) k = map_of m' k" for m' k v
    using assms by (induction xs arbitrary: m') (auto simp: map_simps)
  then show ?thesis by (auto simp: map_le_def)
qed

lemma insert_all_wf: "bt_wf m \<Longrightarrow> bt_wf (foldl (\<lambda>m x. bt_insert (key x) x m) m xs)"
  by (induction xs arbitrary: m) (auto simp: map_simps)

lemma remove_wf: "bt_wf m \<Longrightarrow> bt_wf (bt_remove k m)"
  unfolding bt_wf_def bt_remove_def by (induction m) auto

section \<open>The candidate projection\<close>

lemma add_search_grows:
  "candidate_canonicalize_id E (add_search search_id search c) = Inr c' \<Longrightarrow> candidate_grows c c'"
  by (auto simp: candidate_canonicalize_id_def bnd_Inr_iff add_search_def candidate_grows_def)

lemma project_path_grows:
  assumes "project_path E d search_id search acc path = Inr acc'" and ok: "candidates_ok d"
    and "\<forall>c \<in> set (snd (snd acc)). \<forall>c0. map_of (ds_candidates d) (cp_path c) = Some c0 \<longrightarrow> candidate_grows c0 c"
  shows "\<forall>c \<in> set (snd (snd acc')). \<forall>c0. map_of (ds_candidates d) (cp_path c) = Some c0 \<longrightarrow> candidate_grows c0 c"
proof -
  obtain r n cs where acc: "acc = (r, n, cs)" by (cases acc)
  show ?thesis
  proof (cases "map_of (ds_candidates d) path")
    case None
    then show ?thesis
      using assms(1,3)
      by (auto simp: acc project_path_def Let_def bnd_Inr_iff disc_ok_iff candidate_canonicalize_id_def
          new_candidate_def add_search_def split: if_splits)
  next
    case (Some c0)
    then have path: "cp_path c0 = path" using ok by (auto simp: candidates_ok_def dest: map_of_SomeD)
    obtain c' where c': "candidate_canonicalize_id E (add_search search_id search c0) = Inr c'"
      and "acc' = (r, n, if map_of (ds_candidates d) path \<noteq> Some c' then cs @ [c'] else cs)"
      using assms(1) Some by (auto simp: acc project_path_def Let_def bnd_Inr_iff disc_ok_iff)
    then have acc': "set (snd (snd acc')) \<subseteq> insert c' (set cs)" by auto
    have "candidate_grows c0 c'" by (rule add_search_grows [OF c'])
    moreover from this have "cp_path c' = path" using path by (simp add: candidate_grows_def)
    ultimately show ?thesis using assms(3) acc' Some by (auto simp: acc)
  qed
qed

lemma projection_grows:
  assumes "canonical_candidate_projection E d search_id = Inr cs" and ok: "candidates_ok d"
    and "c \<in> set cs" and "map_of (ds_candidates d) (cp_path c) = Some c0"
  shows "candidate_grows c0 c"
proof -
  let ?P = "\<lambda>acc. \<forall>c \<in> set (snd (snd acc)). \<forall>c0. map_of (ds_candidates d) (cp_path c) = Some c0 \<longrightarrow> candidate_grows c0 c"
  obtain search r n where "fold_res (project_path E d search_id search)
      (sat_add (max_rank d) 1, MAX_DISCOVERY_CANDIDATES - length (ds_candidates d), [])
      (se_matched_paths search) = Inr (r, n, cs)"
    using assms(1) by (auto simp: canonical_candidate_projection_def bnd_Inr_iff split: option.splits)
  then have "?P (r, n, cs)"
    by (rule fold_res_invariant [where P = ?P, rotated]) (simp, erule (1) project_path_grows [OF _ ok])
  then show ?thesis using assms(3,4) by simp
qed

lemma insert_candidates_grow:
  assumes "\<And>c c0. c \<in> set cs \<Longrightarrow> map_of m (cp_path c) = Some c0 \<Longrightarrow> candidate_grows c0 c"
    and "map_of m p = Some c0"
  shows "\<exists>c'. map_of (foldl (\<lambda>m c. bt_insert (cp_path c) c m) m cs) p = Some c' \<and> candidate_grows c0 c'"
  using assms(1)
proof (induction cs rule: rev_induct)
  case Nil
  then show ?case using assms(2) by simp
next
  case (snoc c cs)
  show ?case
  proof (cases "cp_path c = p")
    case True
    with snoc.prems [of c c0] assms(2) show ?thesis by (simp add: map_simps)
  next
    case False
    with snoc.IH snoc.prems show ?thesis by (simp add: map_simps)
  qed
qed

section \<open>The handlers\<close>

definition discovery_good :: "externs \<Rightarrow> discovery_execution \<Rightarrow> bool" where
  "discovery_good E s \<longleftrightarrow> (\<exists>d. dx_discovery s = Some d \<and> discovery_wf d \<and> discovery_state_validate E d = Inr ())"

definition discovery_grows :: "discovery_execution \<Rightarrow> discovery_execution \<Rightarrow> bool" where
  "discovery_grows s t \<longleftrightarrow> (\<forall>d. dx_discovery s = Some d \<longrightarrow> (\<exists>d'. dx_discovery t = Some d' \<and> evidence_kept d d'))"

lemma commit_step:
  assumes "commit_discovery E s d' = Inr t" and "discovery_wf d'" and "evidence_kept d d'" and "dx_discovery s0 = Some d"
  shows "discovery_good E t \<and> discovery_grows s0 t"
  using assms by (auto simp: commit_discovery_def bnd_Inr_iff disc_ok_iff discovery_good_def discovery_grows_def)

lemma clear_action_discovery [simp]: "dx_discovery (clear_action s) = dx_discovery s"
  by (simp add: clear_action_def)

lemma unchanged_step: "dx_discovery t = dx_discovery s \<Longrightarrow> discovery_good E s \<Longrightarrow> discovery_good E t \<and> discovery_grows s t"
  by (auto simp: discovery_good_def discovery_grows_def intro: evidence_kept_refl)

lemma refresh_discovery [simp]: "dx_discovery (refresh_discovery_position s) = dx_discovery s"
  by (simp add: refresh_discovery_position_def split: option.splits)

lemmas handler_simps = bnd_Inr_iff if_Inl_iff the_discovery_def ok_or_Inr_iff disc_ok_iff Let_def
  prod.case_eq_if

lemma search_step:
  assumes "discovery_good E s" and "record_discovery_search E s a e = Inr t"
  shows "discovery_good E t \<and> discovery_grows s t"
proof -
  from assms obtain d where d: "dx_discovery s = Some d" "discovery_wf d" by (auto simp: discovery_good_def)
  let ?id = "sr_search_id (se_request e)"
  let ?d = "d\<lparr>ds_completed_searches := bt_insert ?id e (ds_completed_searches d)\<rparr>"
  from assms(2) d(1) have fresh: "map_of (ds_completed_searches d) ?id = None"
    and c: "commit_discovery E (clear_action s) ?d = Inr t"
    unfolding record_discovery_search_def bnd_Inr_iff [of "require_consumed_discovery_action s a"]
    by (elim exE conjE, split discovery_constraints.split_asm; simp add: handler_simps)+
  have "discovery_wf ?d" using d(2) by (simp add: discovery_wf_def map_simps)
  moreover have "evidence_kept d ?d"
    using fresh by (auto simp: evidence_kept_def map_simps map_le_def)
  ultimately show ?thesis using commit_step [OF c _ _ d(1)] by blast
qed

lemma candidates_step:
  assumes "discovery_good E s" and "record_discovery_candidates E s i cs = Inr t"
  shows "discovery_good E t \<and> discovery_grows s t"
proof -
  from assms obtain d where d: "dx_discovery s = Some d" "discovery_wf d" "discovery_state_validate E d = Inr ()"
    by (auto simp: discovery_good_def)
  from assms(2) d(1) have proj: "canonical_candidate_projection E d i = Inr cs"
    and c: "commit_discovery E s (insert_candidates d cs) = Inr t"
    by (auto simp: record_discovery_candidates_def handler_simps split: if_splits)
  have "discovery_wf (insert_candidates d cs)"
    using d(2) insert_all_wf [of "ds_candidates d" cp_path cs] by (simp add: discovery_wf_def insert_candidates_def)
  moreover have "evidence_kept d (insert_candidates d cs)"
    using insert_candidates_grow [OF projection_grows [OF proj validate_candidates_ok [OF d(3)]]]
    by (simp add: evidence_kept_def insert_candidates_def)
  ultimately show ?thesis using commit_step [OF c _ _ d(1)] by blast
qed

lemma files_step:
  assumes "discovery_good E s" and "record_discovery_files E s a es qs = Inr t"
  shows "discovery_good E t \<and> discovery_grows s t"
proof -
  from assms obtain d where d: "dx_discovery s = Some d" "discovery_wf d" by (auto simp: discovery_good_def)
  from assms(2) d(1) have fresh: "\<forall>e \<in> set es. map_of (ds_file_evidence d) (fe_evidence_id e) = None"
    and c: "commit_discovery E (clear_action s) (insert_files d es qs) = Inr t"
    by (auto simp: record_discovery_files_def handler_simps list_ex_iff split: if_splits)
  have "discovery_wf (insert_files d es qs)"
    using d(2) insert_all_wf [of "ds_file_evidence d" fe_evidence_id es]
      insert_all_wf [of "ds_unresolved_questions d" uq_id qs]
    by (simp add: discovery_wf_def insert_files_def)
  moreover have "evidence_kept d (insert_files d es qs)"
    using insert_all_lookup [OF fresh] by (auto simp: evidence_kept_def insert_files_def)
  ultimately show ?thesis using commit_step [OF c _ _ d(1)] by blast
qed

lemma relationships_step:
  assumes "discovery_good E s" and "record_discovery_relationships E s a es = Inr t"
  shows "discovery_good E t \<and> discovery_grows s t"
proof -
  from assms obtain d where d: "dx_discovery s = Some d" "discovery_wf d" by (auto simp: discovery_good_def)
  from assms(2) d(1) obtain q where fresh: "\<forall>e \<in> set es. map_of (ds_relationships d) (re_evidence_id e) = None"
    and c: "commit_discovery E (clear_action s) (insert_relationships d es q) = Inr t"
    unfolding record_discovery_relationships_def bnd_Inr_iff [of "require_consumed_discovery_action s a"]
    by (elim exE conjE, split discovery_constraints.split_asm; simp add: handler_simps list_ex_iff) blast
  have "discovery_wf (insert_relationships d es q)"
    using d(2) insert_all_wf [of "ds_relationships d" re_evidence_id es]
    by (simp add: discovery_wf_def insert_relationships_def remove_wf)
  moreover have "evidence_kept d (insert_relationships d es q)"
    using insert_all_lookup [OF fresh] by (auto simp: evidence_kept_def insert_relationships_def)
  ultimately show ?thesis using commit_step [OF c _ _ d(1)] by blast
qed

lemma conclude_step:
  assumes "discovery_good E s" and "dx_discovery s = Some d" and "commit_discovery E s' (conclude d m c) = Inr t"
  shows "discovery_good E t \<and> discovery_grows s t"
proof (rule commit_step [OF assms(3) _ _ assms(2)])
  show "discovery_wf (conclude d m c)" using assms(1,2) by (simp add: discovery_good_def discovery_wf_def)
  show "evidence_kept d (conclude d m c)" by (auto simp: evidence_kept_def)
qed

lemma impact_map_step:
  assumes "discovery_good E s" and "record_discovery_impact_map E s a m = Inr t"
  shows "discovery_good E t \<and> discovery_grows s t"
proof -
  from assms(1) obtain d where d: "dx_discovery s = Some d" by (auto simp: discovery_good_def)
  from assms(2) d have "commit_discovery E (if a \<noteq> None then clear_action s else s) (conclude d (Some m) None) = Inr t"
    by (auto simp: record_discovery_impact_map_def handler_simps conclude_def)
  then show ?thesis by (rule conclude_step [OF assms(1) d])
qed

lemma convergence_step:
  assumes "discovery_good E s" and "record_discovery_convergence E s c = Inr t"
  shows "discovery_good E t \<and> discovery_grows s t"
proof -
  from assms(1) obtain d where d: "dx_discovery s = Some d" by (auto simp: discovery_good_def)
  from assms(2) d have "commit_discovery E s (conclude d (ds_impact_map d) (Some c)) = Inr t"
    by (auto simp: record_discovery_convergence_def handler_simps conclude_def split: if_splits)
  then show ?thesis by (rule conclude_step [OF assms(1) d])
qed

lemma prepare_step:
  assumes "prepare_discovery_action E s p = Inr t"
  shows "t = set_action p s" and "authoritative_prepared_discovery_action E s = Inr p"
  using assms unfolding prepare_discovery_action_def bnd_Inr_iff if_Inl_iff by auto

lemma handler_step:
  "discovery_good E s \<Longrightarrow> discovery_handler E s ev = Inr t \<Longrightarrow> discovery_good E t \<and> discovery_grows s t"
proof (cases ev)
  case (GoalRecorded g)
  assume "discovery_good E s" and "discovery_handler E s ev = Inr t"
  then show ?thesis
    by (auto simp: GoalRecorded record_discovery_goal_def handler_simps discovery_good_def split: if_splits)
next
  case (ActionPrepared p)
  assume "discovery_good E s" and "discovery_handler E s ev = Inr t"
  then show ?thesis
    by (intro unchanged_step) (auto simp: ActionPrepared set_action_def dest: prepare_step(1))
next
  case (ActionReleased a)
  assume "discovery_good E s" and "discovery_handler E s ev = Inr t"
  then show ?thesis
    by (intro unchanged_step)
      (auto simp: ActionReleased release_discovery_action_def handler_simps split: option.splits if_splits)
next
  case (ActionRejected a)
  assume "discovery_good E s" and "discovery_handler E s ev = Inr t"
  then show ?thesis
    by (intro unchanged_step) (auto simp: ActionRejected reject_discovery_action_def handler_simps)
qed (auto dest: search_step candidates_step files_step relationships_step impact_map_step convergence_step)

interpretation discovery_growth: growing_state "apply_discovery_event E" "discovery_good E" discovery_grows
proof unfold_locales
  fix s t u
  show "discovery_grows s s" by (auto simp: discovery_grows_def intro: evidence_kept_refl)
  show "discovery_grows s t \<Longrightarrow> discovery_grows t u \<Longrightarrow> discovery_grows s u"
    by (fastforce simp: discovery_grows_def intro: evidence_kept_trans)
next
  fix s ev t
  assume good: "discovery_good E s" and "apply_discovery_event E s ev = Inr t"
  then obtain t' where "discovery_handler E s ev = Inr t'" and t: "t = refresh_discovery_position t'"
    by (auto simp: apply_discovery_event_def bnd_Inr_iff)
  with handler_step [OF good] have "discovery_good E t'" and "discovery_grows s t'" by auto
  then show "discovery_good E t" and "discovery_grows s t"
    by (simp_all add: t discovery_good_def discovery_grows_def)
qed

end
