(* ===== verification/Aggregate.thy ===== *)
theory Aggregate
  imports Execution_Graph Discovery_Growth
begin

text \<open>
  The dispatch of the aggregate (\<open>ExecutionState::apply_payload\<close>, \<open>src/execution_protocol/reducer.rs\<close>) for the
  three families of events whose handlers are modelled: discovery, graph and budget. A handler runs on the part
  of the state it reads and writes; the dispatch puts its result back beside the rest.
\<close>

datatype domain_event =
    DE_Discovery discovery_event
  | DE_Graph graph_event
  | DE_Budget budget_event

fun apply_payload :: "externs \<Rightarrow> graph_execution \<Rightarrow> domain_event \<Rightarrow> protocol_violation + graph_execution" where
  "apply_payload E s (DE_Discovery event) =
     bnd (apply_discovery_event E (discovery_execution.truncate s) event) (\<lambda>d.
       Inr (discovery_execution.extend d (discovery_execution.more s)))"
| "apply_payload E s (DE_Graph event) = apply_graph_event E s event"
| "apply_payload E s (DE_Budget event) =
     bnd (apply_budget_event E (execution_state.truncate s) event) (\<lambda>b.
       Inr (execution_state.extend b (execution_state.more s)))"

section \<open>What a handler leaves alone\<close>

lemma extend_discovery:
  "dx_discovery (discovery_execution.extend d m) = dx_discovery d"
  "dx_discovery (discovery_execution.truncate s) = dx_discovery s"
  "discovery_execution.truncate (discovery_execution.extend d m) = d"
  by (simp_all add: discovery_execution.defs)

lemma extend_core:
  "execution_state.truncate (execution_state.extend b m) = b" "execution_state.more (execution_state.extend b m) = m"
  by (simp_all add: execution_state.defs)

lemma extend_budget: "dx_discovery (execution_state.extend b (execution_state.more s)) = dx_discovery (s :: graph_execution)"
  by (cases s) (simp add: execution_state.defs)

text \<open>The discovery state, the current action and the view the budget has of it.\<close>

definition discovery_part ::
  "graph_execution \<Rightarrow> discovery_state option \<times> prepared_action option \<times> prepared_discovery_action option" where
  "discovery_part s = (dx_discovery s, es_discovery_action s, dx_prepared s)"

lemma set_state_discovery [simp]: "discovery_part (set_state st i s) = discovery_part s"
  by (simp add: set_state_def discovery_part_def)

lemma push_node_discovery [simp]: "discovery_part (push_node n s) = discovery_part s"
  by (simp add: push_node_def discovery_part_def)

lemma foldl_discovery:
  assumes "\<And>n s. discovery_part (f s n) = discovery_part (s :: graph_execution)"
  shows "discovery_part (foldl f s ns) = discovery_part s"
  using assms by (induction ns arbitrary: s) simp_all

lemma refresh_ready_discovery [simp]: "discovery_part (refresh_ready_nodes s) = discovery_part s"
  by (simp add: refresh_ready_nodes_def foldl_discovery)

lemma start_node_discovery: "start_node s i a = Inr t \<Longrightarrow> discovery_part t = discovery_part s"
  by (auto simp: discovery_part_def start_node_def bnd_Inr_iff split: option.splits if_splits)

lemma wait_node_discovery: "wait_node s i e = Inr t \<Longrightarrow> discovery_part t = discovery_part s"
  by (auto simp: wait_node_def bnd_Inr_iff split: option.splits if_splits node_state.splits)

lemma resume_node_discovery: "resume_node s i e = Inr t \<Longrightarrow> discovery_part t = discovery_part s"
  by (auto simp: resume_node_def bnd_Inr_iff split: option.splits if_splits node_state.splits)

lemma succeed_node_discovery: "succeed_node E s i p = Inr t \<Longrightarrow> discovery_part t = discovery_part s"
  by (auto simp: succeed_node_def bnd_Inr_iff split: option.splits if_splits)

lemma fail_node_discovery: "fail_node s i f b = Inr t \<Longrightarrow> discovery_part t = discovery_part s"
  unfolding fail_node_def bnd_Inr_iff if_Inl_iff by (auto simp: bnd_Inr_iff split: option.splits if_splits)

lemma add_plan_nodes_discovery: "add_plan_nodes E s p ns = Inr t \<Longrightarrow> discovery_part t = discovery_part s"
  unfolding add_plan_nodes_def Let_def by (auto simp: bnd_Inr_iff if_Inl_iff foldl_discovery invalid_graph_def split: if_splits)

lemma add_repair_node_discovery: "add_validation_repair_node s p n = Inr t \<Longrightarrow> discovery_part t = discovery_part s"
  by (auto simp: add_validation_repair_node_def bnd_Inr_iff split: option.splits if_splits)

lemma graph_event_discovery: "apply_graph_event E s ev = Inr t \<Longrightarrow> discovery_part t = discovery_part s"
  by (cases ev) (auto simp: apply_graph_event_def if_Inl_iff
      dest: start_node_discovery wait_node_discovery resume_node_discovery succeed_node_discovery
        fail_node_discovery add_plan_nodes_discovery add_repair_node_discovery)

text \<open>
  \<open>es_discovery_action\<close> and \<open>dx_prepared\<close> are two fields for the one \<open>current_discovery_action\<close> of the code; no
  event takes them apart.
\<close>

definition action_synced :: "'a discovery_execution_scheme \<Rightarrow> bool" where
  "action_synced s \<longleftrightarrow> es_discovery_action s = map_option budget_view (dx_prepared s)"

lemma commit_synced: "commit_discovery E s d = Inr t \<Longrightarrow> action_synced s \<Longrightarrow> action_synced t"
  by (auto simp: commit_discovery_def bnd_Inr_iff action_synced_def)

lemma action_synced_simps [simp]:
  "action_synced (clear_action s)" "action_synced (set_action p s)"
  "action_synced (discovery_execution.truncate g) \<longleftrightarrow> action_synced g"
  "action_synced (discovery_execution.extend d m) \<longleftrightarrow> action_synced d"
  "action_synced (refresh_discovery_position s) \<longleftrightarrow> action_synced s"
  by (simp_all add: clear_action_def set_action_def action_synced_def refresh_discovery_position_def
      discovery_execution.defs split: option.split)

lemma handler_synced: "discovery_handler E s ev = Inr t \<Longrightarrow> action_synced s \<Longrightarrow> action_synced t"
proof (cases ev)
  case (ActionPrepared p)
  assume "discovery_handler E s ev = Inr t"
  then show ?thesis by (auto simp: ActionPrepared dest: prepare_step(1))
next
  case (SearchCompleted a e)
  assume "discovery_handler E s ev = Inr t"
  then show ?thesis
    unfolding SearchCompleted discovery_handler.simps record_discovery_search_def
      bnd_Inr_iff [of "require_consumed_discovery_action s a"]
    by (elim exE conjE, split discovery_constraints.split_asm; simp add: handler_simps)
      (auto dest: commit_synced)
next
  case (RelationshipEvidenceRecorded a e)
  assume "discovery_handler E s ev = Inr t"
  then show ?thesis
    unfolding RelationshipEvidenceRecorded discovery_handler.simps record_discovery_relationships_def
      bnd_Inr_iff [of "require_consumed_discovery_action s a"]
    by (elim exE conjE, split discovery_constraints.split_asm; simp add: handler_simps)
      (auto dest: commit_synced)
qed (auto simp: record_discovery_goal_def release_discovery_action_def reject_discovery_action_def
    record_discovery_candidates_def record_discovery_files_def record_discovery_impact_map_def
    record_discovery_convergence_def handler_simps dest: commit_synced split: if_splits option.splits)

lemma budget_event_action:
  "apply_budget_event E s e = Inr t \<Longrightarrow> es_discovery_action t = es_discovery_action s"
  by (cases e) (auto simp: admit_model_call_def reserve_model_call_def start_provider_dispatch_def
      reconcile_model_call_def settle_call_def count_mutation_attempt_def set_call_def set_mission_usage_def
      set_node_def bnd_Inr_iff Let_def split: if_splits reconciliation.splits option.splits)

section \<open>Runs\<close>

text \<open>A run of budget events is the run of the budget's own state.\<close>

lemma budget_payloads:
  "fold_res (apply_payload E) s (map DE_Budget events) =
    bnd (fold_res (apply_budget_event E) (execution_state.truncate s) events) (\<lambda>b.
      Inr (execution_state.extend b (execution_state.more s)))"
proof (induction events arbitrary: s)
  case Nil
  then show ?case by (cases s) (simp add: execution_state.defs)
next
  case (Cons e es)
  show ?case
  proof (cases "apply_budget_event E (execution_state.truncate s) e")
    case (Inr b)
    then show ?thesis by (simp add: Cons.IH extend_core)
  qed simp
qed

definition aggregate_good :: "externs \<Rightarrow> graph_execution \<Rightarrow> bool" where
  "aggregate_good E s \<longleftrightarrow> discovery_good E (discovery_execution.truncate s)"

definition aggregate_grows :: "graph_execution \<Rightarrow> graph_execution \<Rightarrow> bool" where
  "aggregate_grows s t \<longleftrightarrow> discovery_grows (discovery_execution.truncate s) (discovery_execution.truncate t)"

lemma same_discovery_step:
  assumes "dx_discovery t = dx_discovery s" and "aggregate_good E s"
  shows "aggregate_good E t \<and> aggregate_grows s t"
  using unchanged_step [of "discovery_execution.truncate t" "discovery_execution.truncate s" E] assms
  by (simp add: aggregate_good_def aggregate_grows_def extend_discovery)

lemma payload_step:
  assumes good: "aggregate_good E s" and run: "apply_payload E s ev = Inr t"
  shows "aggregate_good E t \<and> aggregate_grows s t"
proof (cases ev)
  case (DE_Discovery event)
  with run obtain d where d: "apply_discovery_event E (discovery_execution.truncate s) event = Inr d"
    and t: "t = discovery_execution.extend d (discovery_execution.more s)" by (auto simp: bnd_Inr_iff)
  show ?thesis
    using discovery_growth.step_good [OF _ d] discovery_growth.step_grows [OF _ d] good
    by (simp add: aggregate_good_def aggregate_grows_def t extend_discovery)
next
  case (DE_Graph event)
  with run good show ?thesis by (intro same_discovery_step) (auto simp: discovery_part_def dest: graph_event_discovery)
next
  case (DE_Budget event)
  with run good show ?thesis by (intro same_discovery_step) (auto simp: bnd_Inr_iff extend_budget)
qed

interpretation aggregate_growth: growing_state "apply_payload E" "aggregate_good E" aggregate_grows
proof unfold_locales
  fix s t u
  show "aggregate_grows s s" by (simp add: aggregate_grows_def discovery_growth.grows_refl)
  show "aggregate_grows s t \<Longrightarrow> aggregate_grows t u \<Longrightarrow> aggregate_grows s u"
    unfolding aggregate_grows_def by (rule discovery_growth.grows_trans)
next
  fix s ev t
  assume "aggregate_good E s" and "apply_payload E s ev = Inr t"
  then show "aggregate_good E t" and "aggregate_grows s t" using payload_step by blast+
qed

lemma payload_synced:
  assumes "action_synced s" and "apply_payload E s ev = Inr t"
  shows "action_synced t"
proof (cases ev)
  case (DE_Discovery event)
  with assms show ?thesis by (auto simp: bnd_Inr_iff apply_discovery_event_def dest: handler_synced)
next
  case (DE_Graph event)
  with assms show ?thesis by (auto simp: action_synced_def discovery_part_def dest: graph_event_discovery)
next
  case (DE_Budget event)
  with assms obtain b where b: "apply_budget_event E (execution_state.truncate s) event = Inr b"
    and t: "t = execution_state.extend b (execution_state.more s)" by (auto simp: bnd_Inr_iff)
  have "es_discovery_action b = es_discovery_action s"
    using budget_event_action [OF b] by (simp add: execution_state.defs)
  then show ?thesis using assms(1) unfolding t by (cases s) (simp add: action_synced_def execution_state.defs)
qed

interpretation action_sync: growing_state "apply_payload E" action_synced "\<lambda>s t. True"
  by unfold_locales (auto intro: payload_synced)

end
