(* ===== verification/Discovery_Preparation.thy ===== *)
theory Discovery_Preparation
  imports Discovery_Growth
begin

text \<open>
  The action the reducer computes is the one it accepts: what \<open>build_discovery_context\<close> and
  \<open>ActionEnvelope::new\<close> return passes the validations of \<open>prepare_discovery_action\<close>.
\<close>

lemma envelope_new_fields:
  assumes "action_envelope_new E a n r manifest con ceiling allowance owner res = Inr e"
  shows "ae_schema_version e = DISCOVERY_SCHEMA_VERSION" "ae_action_id e = a" "ae_node_id e = n"
    "ae_repository_revision e = r" "ae_constraints e = con" "ae_input_token_ceiling e = ceiling"
    "ae_output_token_allowance e = allowance" "ae_budget_owner e = owner" "ae_reservation_id e = res"
    "owner = n" "\<exists>tools choice. authorize_tools E con = Inr (ae_action_class e, tools, choice)"
  using assms
  by (auto simp: action_envelope_new_def invalid_context_def invalid_action_def bnd_Inr_iff if_Inl_iff split: if_splits)

lemma envelope_new_validates:
  "action_envelope_new E a n r manifest con ceiling allowance owner res = Inr e \<Longrightarrow>
   envelope_validate_against_context E e manifest = Inr ()"
  using envelope_new_fields [of E a n r manifest con ceiling allowance owner res e]
  by (simp add: envelope_validate_against_context_def require_def)

lemma authorized_class: "authorize_tools E con = Inr (c, tools, choice) \<Longrightarrow> c = constraints_class con"
  by (cases con) (auto simp: authorize_tools_def bnd_Inr_iff Let_def invalid_action_def split: if_splits)

lemma build_context_validates:
  assumes "build_discovery_context E d a con ceiling = Inr m"
  shows "context_manifest_validate E m = Inr ()"
  using assms unfolding build_discovery_context_def from_contract_def
  by (auto simp: bnd_Inr_iff map_err_Inr_iff Let_def split: if_splits)

lemma context_new_fields:
  assumes "context_manifest_new E a n purpose r es mandatory optional ceiling estimated compaction h = Inr m"
  shows "cm_action_id m = a" "cm_node_id m = n" "cm_purpose m = purpose" "cm_repository_revision m = r"
    "cm_evidence_ids m = es" "cm_mandatory_sections m = mandatory" "cm_input_token_ceiling m = ceiling"
    "cm_estimated_input_tokens m = estimated"
  using assms by (auto simp: context_manifest_new_def invalid_context_def bnd_Inr_iff split: if_splits)

lemma build_context_fields:
  assumes "build_discovery_context E d a con ceiling = Inr m"
  shows "cm_action_id m = a" "cm_node_id m = ds_node_id d" "cm_purpose m = purpose_of (constraints_class con)"
    "cm_repository_revision m = ds_repository_revision d" "cm_input_token_ceiling m = ceiling"
  using assms unfolding build_discovery_context_def from_contract_def
  by (auto simp: bnd_Inr_iff map_err_Inr_iff Let_def split: if_splits dest: context_new_fields)

lemma case_active_Inr: "(case st of Active attempt \<Rightarrow> Inr attempt | _ \<Rightarrow> Inl v) = Inr a \<longleftrightarrow> st = Active a"
  by (cases st) auto

lemma case_action_Inr:
  "(case step of Next_Action action_class \<Rightarrow> Inr action_class | Next_Converge c \<Rightarrow> Inl v) = Inr a \<longleftrightarrow>
    step = Next_Action a"
  by (cases step) auto

lemma authoritative_fields:
  assumes run: "authoritative_prepared_discovery_action E s = Inr p" and d: "dx_discovery s = Some d"
  shows "require_active_discovery_node s = Inr ()" "dx_prepared s = None" "admission_binds s d p"
    "context_manifest_validate E (pd_context p) = Inr ()"
    "envelope_validate_against_context E (pd_envelope p) (pd_context p) = Inr ()"
    "\<exists>remaining. discovery_budget_remaining s (ds_node_id d) = Inr remaining \<and>
      select_next_discovery_step d (admissible_model_calls remaining) = Next_Action (ae_action_class (pd_envelope p))"
proof -
  obtain n :: execution_node and attempt remaining action_class con a manifest envelope where
      guard: "require_active_discovery_node s = Inr ()" "dx_prepared s = None"
    and rem: "discovery_budget_remaining s (ds_node_id d) = Inr remaining"
    and sel: "select_next_discovery_step d (admissible_model_calls remaining) = Next_Action action_class"
    and con: "authoritative_constraints E d action_class = Inr con"
    and ctx: "build_discovery_context E d a con (nb_max_input_tokens_per_call (en_budget n)) = Inr manifest"
    and env: "action_envelope_new E a (ds_node_id d) (dx_repository_revision s) manifest con
      (nb_max_input_tokens_per_call (en_budget n)) (nb_max_output_tokens_per_call (en_budget n)) (ds_node_id d)
      (epv1 E [''execution-protocol-v1:discovery-reservation'', a, ds_node_id d, decimal (action_ordinal_of s d)]) =
        Inr envelope"
    and p: "pd_context p = manifest" "pd_envelope p = envelope"
      "pd_admission p = \<lparr>ad_call_id = epv1 E [''execution-protocol-v1:discovery-reservation'', a, ds_node_id d,
          decimal (action_ordinal_of s d)], ad_node_id = ds_node_id d, ad_action_id = a,
         ad_payload_hash = ae_payload_identity envelope, ad_input_tokens = cm_estimated_input_tokens manifest,
         ad_output_tokens = ae_output_token_allowance envelope, ad_reserved_cost_micros = dr_cost_micros remaining,
         ad_duration_allowance_ms = dr_duration_ms remaining\<rparr>"
    using run d unfolding authoritative_prepared_discovery_action_def the_discovery_def
    by (auto simp: bnd_Inr_iff ok_or_Inr_iff disc_ok_iff from_context_def map_err_Inr_iff Let_def
        if_Inl_iff case_active_Inr case_action_Inr)
  note fields = envelope_new_fields [OF env]
  have "constraints_class con = action_class"
    using con by (cases action_class)
      (auto simp: authoritative_constraints_def bnd_Inr_iff ok_or_Inr_iff disc_ok_iff split: list.splits prod.splits)
  moreover have "ae_action_class envelope = constraints_class con" using fields(11) authorized_class by blast
  ultimately show "\<exists>remaining. discovery_budget_remaining s (ds_node_id d) = Inr remaining \<and>
      select_next_discovery_step d (admissible_model_calls remaining) = Next_Action (ae_action_class (pd_envelope p))"
    using rem sel p by simp
  show "require_active_discovery_node s = Inr ()" "dx_prepared s = None" by (fact guard)+
  show "context_manifest_validate E (pd_context p) = Inr ()" using build_context_validates [OF ctx] p by simp
  show "envelope_validate_against_context E (pd_envelope p) (pd_context p) = Inr ()"
    using envelope_new_validates [OF env] p by simp
  show "admission_binds s d p" using fields p by (simp add: admission_binds_def Let_def)
qed

lemma prepare_authoritative:
  assumes run: "authoritative_prepared_discovery_action E s = Inr p" and d: "dx_discovery s = Some d"
    and open_state: "ds_convergence d = None"
    and inputs: "validate_discovery_action_constraints d (pd_envelope p) = Inr ()"
  shows "prepare_discovery_action E s p = Inr (set_action p s)"
  using authoritative_fields [OF run d] run d open_state inputs
  by (auto simp: prepare_discovery_action_def the_discovery_def ok_or_def from_discovery_def)

end
