(* ===== verification/Discovery_Samples.thy ===== *)
theory Discovery_Samples
  imports Discovery_Growth
begin

text \<open>
  Concrete discovery states. The digest of \<open>XD\<close> depends on the length of what it digests, and the JSON of a
  value on its size, so that different evidence has different identities.
\<close>

section \<open>Crates\<close>

fun ser_len :: "ser \<Rightarrow> nat" where
  "ser_len Ser_Null = 1"
| "ser_len (Ser_Bool b) = 1"
| "ser_len (Ser_Int i) = 1"
| "ser_len (Ser_Str s) = Suc (length s)"
| "ser_len (Ser_Tuple xs) = Suc (sum_list (map ser_len xs))"
| "ser_len (Ser_Struct fs) = Suc (sum_list (map (\<lambda>f. ser_len (snd f)) fs))"

declare ser_len.simps [simp del]

definition digit :: "nat \<Rightarrow> char" where "digit n = char_of (48 + n mod 10)"

definition XD :: externs where
  "XD = \<lparr>sha256_hex = (\<lambda>s. replicate 61 CHR ''a'' @ [digit (length s div 100), digit (length s div 10), digit (length s)]),
     to_json = (\<lambda>v. Some (replicate (ser_len v) CHR ''x'')), parse_url = (\<lambda>s. None), str_lowercase = ascii_lower\<rparr>"

lemma frame_length: "length (frame ps) = sum_list (map (\<lambda>p. 8 + length p) ps)"
  by (induction ps) simp_all

lemma digit_eq: "digit m = digit n \<longleftrightarrow> m mod 10 = n mod 10"
proof -
  have "of_char (digit m) = 48 + m mod 10" for m
    by (simp add: digit_def)
  then show ?thesis by (metis add_left_cancel digit_def)
qed

lemma three_digits: "n mod 1000 = 100 * (n div 100 mod 10) + 10 * (n div 10 mod 10) + n mod (10 :: nat)"
proof -
  have "n mod (10 * (10 * 10)) = 10 * (n div 10 mod (10 * 10)) + n mod 10" by (rule mod_mult2_eq)
  also have "n div 10 mod (10 * 10) = 10 * (n div 10 div 10 mod 10) + n div 10 mod 10" by (rule mod_mult2_eq)
  also have "n div 10 div 10 = n div 100" by (simp add: div_mult2_eq [of n 10 10, symmetric])
  finally show ?thesis by simp
qed

lemma XD_digest_eq:
  "stable_sha256 XD ps = stable_sha256 XD qs \<Longrightarrow> length (frame ps) mod 1000 = length (frame qs) mod 1000"
  by (simp add: stable_sha256_def XD_def digit_eq three_digits)

lemma XD_json: "to_json XD v = Some (replicate (ser_len v) CHR ''x'')" "json_total XD"
  by (simp_all add: XD_def json_total_def)

lemma digit_hex: "lower_hex (digit n)" "ascii_hexdigit (digit n)" "33 \<le> byte (digit n)" "byte (digit n) \<le> 126"
proof -
  have "byte (digit n) = 48 + n mod 10"
    by (simp add: digit_def byte_def)
  moreover have "n mod 10 \<le> 9" by presburger
  ultimately show "lower_hex (digit n)" "ascii_hexdigit (digit n)" "33 \<le> byte (digit n)" "byte (digit n) \<le> 126"
    by (simp_all add: lower_hex_def ascii_hexdigit_def ascii_digit_def)
qed

lemma letter_hex: "ascii_hexdigit CHR ''a''" "lower_hex CHR ''a''"
  by (simp_all add: ascii_hexdigit_def lower_hex_def byte_def)

lemma XD_hex: "disc_validate_hash f (stable_sha256 XD ps) = Inr ()" "length (stable_sha256 XD ps) = 64"
  "digest_is_hex XD"
  using letter_hex
  by (simp_all add: disc_validate_hash_def stable_sha256_def XD_def digit_hex digest_is_hex_def is_sha256_def
      list_all_iff)

section \<open>Evidence\<close>

definition D_GOAL_HASH :: string where "D_GOAL_HASH = replicate 64 CHR ''a''"

definition sample_request :: "criterion_id \<Rightarrow> search_request" where
  "sample_request c = projr (search_request_new XD ''r'' ''p'' [c] ''t'' scope_repository [] LiteralCaseSensitive [])"

definition sample_search :: "criterion_id \<Rightarrow> discovery_path list \<Rightarrow> search_evidence" where
  "sample_search c paths = projr (search_evidence_new XD DISCOVERY_NODE (sample_request c) paths False)"

definition sample_goal :: "criterion_id list \<Rightarrow> discovery_goal" where
  "sample_goal cs = \<lparr>dg_goal_hash = D_GOAL_HASH, dg_criterion_ids = cs, dg_normalized_search_terms = [''t'']\<rparr>"

definition sample_candidate :: "criterion_id \<Rightarrow> candidate_evidence" where
  "sample_candidate c = projr (candidate_canonicalize_id XD (add_search (sr_search_id (sample_request c))
     (sample_search c [''m'']) (new_candidate (discovery_state_new DISCOVERY_NODE ''r'' ''p'' (sample_goal [c])) ''m'' 1)))"

definition sample_file :: file_evidence where
  "sample_file = projr (file_evidence_new XD DISCOVERY_NODE ''r'' ''m'' \<lparr>lr_start = 1, lr_end_inclusive = 9\<rparr>
     D_GOAL_HASH D_GOAL_HASH Utf8 False)"

definition sample_question :: "criterion_id \<Rightarrow> unresolved_question" where
  "sample_question c = projr (question_new XD Rel_Tests ''m'' [c])"

lemmas sample_limits = MAX_SEARCH_ROOTS_def MAX_DISCOVERY_CRITERIA_def MAX_SEARCH_EXTENSIONS_def
  MAX_CONTEXT_EVIDENCE_def MAX_SEARCH_QUERY_BYTES_def MAX_SEARCH_MATCHES_def MAX_DISCOVERY_SEARCH_TERMS_def

lemma query_t: "normalize_search_query E ''t'' LiteralCaseSensitive = Inr ''t''"
  by (simp add: normalize_search_query_def is_case_insensitive_def byte_def ascii_control_def white1_def
      MAX_SEARCH_QUERY_BYTES_def)

abbreviation request_id :: "criterion_id \<Rightarrow> search_id" where
  "request_id c \<equiv> epv1 XD [''execution-protocol-v1:search'',
     replicate (ser_len (search_identity ''r'' ''p'' [c] ''t'' scope_repository [] LiteralCaseSensitive [])) CHR ''x'']"

lemma request_record:
  "search_request_new XD ''r'' ''p'' [c] ''t'' scope_repository [] LiteralCaseSensitive [] =
    Inr \<lparr>sr_schema_version = DISCOVERY_SCHEMA_VERSION, sr_search_id = request_id c,
      sr_repository_revision = ''r'', sr_repository_profile_id = ''p'', sr_criterion_ids = [c],
      sr_normalized_query = ''t'', sr_scope = scope_repository, sr_extensions = [],
      sr_mode = LiteralCaseSensitive, sr_context_evidence_ids = []\<rparr>"
  by (simp add: search_request_new_def scope_validate_def scope_repository_def query_t map_res_def bset_of_def
      discovery_json_def XD_json Let_def sample_limits)

lemma request_fields [simp]:
  "sr_repository_revision (sample_request c) = ''r''" "sr_repository_profile_id (sample_request c) = ''p''"
  "sr_criterion_ids (sample_request c) = [c]" "sr_normalized_query (sample_request c) = ''t''"
  "sr_scope (sample_request c) = scope_repository" "sr_extensions (sample_request c) = []"
  "sr_mode (sample_request c) = LiteralCaseSensitive" "sr_context_evidence_ids (sample_request c) = []"
  "sr_schema_version (sample_request c) = DISCOVERY_SCHEMA_VERSION" "sr_search_id (sample_request c) = request_id c"
  by (simp_all add: sample_request_def request_record)

lemma request_new:
  "search_request_new XD ''r'' ''p'' [c] ''t'' scope_repository [] LiteralCaseSensitive [] = Inr (sample_request c)"
  by (simp add: sample_request_def request_record)

lemma request_valid: "search_request_validate XD (sample_request c) = Inr ()"
  by (simp add: search_request_validate_def request_new)

lemma request_permits: "permits_path (sample_request c) path"
  by (simp add: permits_path_def scope_repository_def)

lemma search_new:
  "length paths \<le> MAX_SEARCH_MATCHES \<Longrightarrow>
    search_evidence_new XD DISCOVERY_NODE (sample_request c) paths False = Inr (sample_search c paths)"
  by (simp add: sample_search_def search_evidence_new_def request_valid request_permits list_all_iff
      search_result_set_hash_def derived_evidence_id_def discovery_json_def XD_json)


section \<open>Each piece passes its check\<close>

definition at_sample :: "discovery_state \<Rightarrow> bool" where
  "at_sample s \<longleftrightarrow> ds_node_id s = DISCOVERY_NODE \<and> ds_repository_revision s = ''r'' \<and>
     ds_repository_profile_id s = ''p''"

lemma derived_XD: "derived_evidence_id XD kind v =
    Inr (epv1 XD [''execution-protocol-v1:discovery-evidence'', kind, replicate (ser_len v) CHR ''x''])"
  by (simp add: derived_evidence_id_def discovery_json_def XD_json)

lemma search_record:
  assumes "length paths \<le> MAX_SEARCH_MATCHES"
  shows "se_schema_version (sample_search c paths) = DISCOVERY_SCHEMA_VERSION"
    and "se_request (sample_search c paths) = sample_request c"
    and "se_producer_node_id (sample_search c paths) = DISCOVERY_NODE"
    and "se_matched_paths (sample_search c paths) = paths"
    and "search_result_set_hash XD paths = Inr (se_result_set_hash (sample_search c paths))"
    and "search_expected_id XD (sample_search c paths) = Inr (se_evidence_id (sample_search c paths))"
    and "disc_validate_hash f (se_result_set_hash (sample_search c paths)) = Inr ()"
  using assms
  by (simp_all add: sample_search_def search_evidence_new_def request_valid request_permits list_all_iff
      search_result_set_hash_def derived_XD discovery_json_def XD_json search_expected_id_def XD_hex)

lemma search_checks:
  assumes "at_sample s" and "c \<in> set (dg_criterion_ids (ds_goal s))" and "length paths \<le> MAX_SEARCH_MATCHES"
    and "se_evidence_id (sample_search c paths) \<notin> set seen"
  shows "check_search XD s seen (request_id c, sample_search c paths) =
    Inr (se_evidence_id (sample_search c paths) # seen)"
  using assms search_record(5) [OF assms(3), of c]
  by (simp add: check_search_def Let_def search_record(1-4,6,7) [OF assms(3)] at_sample_def request_valid request_permits
      list_all_iff claim_evidence_id_def)

lemma candidate_record:
  "cp_schema_version (sample_candidate c) = DISCOVERY_SCHEMA_VERSION" "cp_path (sample_candidate c) = ''m''"
  "cp_producer_node_id (sample_candidate c) = DISCOVERY_NODE" "cp_repository_revision (sample_candidate c) = ''r''"
  "cp_rank (sample_candidate c) = 1" "cp_reasons (sample_candidate c) = [SearchMatch]"
  "cp_criterion_ids (sample_candidate c) = [c]" "cp_source_search_ids (sample_candidate c) = [request_id c]"
  "candidate_expected_id XD (sample_candidate c) = Inr (cp_evidence_id (sample_candidate c))"
  by (simp_all add: sample_candidate_def candidate_canonicalize_id_def candidate_expected_id_def derived_XD
      add_search_def new_candidate_def discovery_state_new_def bset_of_def search_record MAX_SEARCH_MATCHES_def)

lemma candidate_checks:
  assumes "at_sample s" and "c \<in> set (dg_criterion_ids (ds_goal s))"
    and "map_of (ds_completed_searches s) (request_id c) = Some e" and "sr_criterion_ids (se_request e) = [c]"
    and "cp_evidence_id (sample_candidate c) \<notin> set seen"
  shows "check_candidate XD s seen (''m'', sample_candidate c) = Inr (cp_evidence_id (sample_candidate c) # seen)"
  using assms
  by (simp add: check_candidate_def Let_def candidate_record at_sample_def source_criteria_def bset_of_def
      claim_evidence_id_def)

lemma goal_hash_ok: "disc_validate_hash f D_GOAL_HASH = Inr ()"
  by (simp add: disc_validate_hash_def D_GOAL_HASH_def letter_hex list_all_iff)

lemma file_record:
  "fe_schema_version sample_file = DISCOVERY_SCHEMA_VERSION" "fe_path sample_file = ''m''"
  "fe_producer_node_id sample_file = DISCOVERY_NODE" "fe_repository_revision sample_file = ''r''"
  "lr_start (fe_line_range sample_file) = 1" "lr_end_inclusive (fe_line_range sample_file) = 9"
  "fe_content_hash sample_file = D_GOAL_HASH" "fe_artifact_reference_hash sample_file = D_GOAL_HASH"
  "file_expected_id XD sample_file = Inr (fe_evidence_id sample_file)" "fe_encoding sample_file = Utf8"
  by (simp_all add: sample_file_def file_evidence_new_def line_range_new_def goal_hash_ok Let_def
      file_expected_id_def derived_XD)

lemma file_checks:
  assumes "at_sample s" and "fe_evidence_id sample_file \<notin> set seen"
  shows "check_file XD s seen (fe_evidence_id sample_file, sample_file) = Inr (fe_evidence_id sample_file # seen)"
  using assms
  by (simp add: check_file_def Let_def file_record at_sample_def line_range_new_def goal_hash_ok
      claim_evidence_id_def)

lemma epv1_bytes: "b \<in> set (epv1 XD ps) \<Longrightarrow> 33 \<le> byte b \<and> byte b \<le> 126"
  by (auto simp: epv1_def stable_sha256_def XD_def digit_hex) (simp_all add: byte_def)

lemma printable_edge:
  assumes "\<forall>b \<in> set x. 33 \<le> byte b \<and> byte b \<le> 126"
  shows "white_len x = 0 \<and> white_tail_len x = 0"
proof (cases x)
  case (Cons a y)
  with assms show ?thesis
    by (cases y; cases "tl y") (auto simp: white1_def white2_def white3_def)
qed simp

lemma question_id_ok: "question_id_new (epv1 XD ps) = Inr (epv1 XD ps)"
proof -
  have b: "\<forall>b \<in> set (epv1 XD ps). 33 \<le> byte b \<and> byte b \<le> 126" using epv1_bytes by blast
  have "trimmed (epv1 XD ps)"
    unfolding trimmed_def using printable_edge [OF b] printable_edge [of "rev (epv1 XD ps)"] b by simp
  moreover have "\<not> list_ex ascii_control (epv1 XD ps)" using b by (fastforce simp: list_ex_iff ascii_control_def)
  moreover have "length (epv1 XD ps) = 69" by (simp add: epv1_def XD_hex)
  ultimately show ?thesis by (simp add: question_id_new_def)
qed

lemma question_record:
  "uq_id (sample_question c) = epv1 XD [''execution-protocol-v1:discovery-question'', replicate (ser_len
     (Ser_Tuple [ser_u DISCOVERY_SCHEMA_VERSION, ser_relationship_kind Rel_Tests, Ser_Str ''m'', ser_strs [c]])) CHR ''x'']"
  "uq_kind (sample_question c) = Rel_Tests" "uq_subject_path (sample_question c) = ''m''"
  "uq_criterion_ids (sample_question c) = [c]"
  "question_expected_id XD (sample_question c) = Inr (uq_id (sample_question c))"
proof -
  let ?id = "epv1 XD [''execution-protocol-v1:discovery-question'', replicate (ser_len
     (Ser_Tuple [ser_u DISCOVERY_SCHEMA_VERSION, ser_relationship_kind Rel_Tests, Ser_Str ''m'', ser_strs [c]])) CHR ''x'']"
  have "question_id_new ?id = Inr ?id" by (rule question_id_ok)
  then have new: "question_new XD Rel_Tests ''m'' [c] = Inr \<lparr>uq_id = ?id, uq_kind = Rel_Tests,
      uq_subject_path = ''m'', uq_criterion_ids = [c]\<rparr>"
    by (simp add: question_new_def discovery_json_def XD_json)
  then show "uq_id (sample_question c) = ?id" "uq_kind (sample_question c) = Rel_Tests"
    "uq_subject_path (sample_question c) = ''m''" "uq_criterion_ids (sample_question c) = [c]"
    by (simp_all add: sample_question_def)
  with new show "question_expected_id XD (sample_question c) = Inr (uq_id (sample_question c))"
    by (simp add: question_expected_id_def)
qed

lemma question_checks:
  assumes "map_of (ds_candidates s) ''m'' = Some (sample_candidate c)"
  shows "check_question XD s (uq_id (sample_question c), sample_question c) = Inr ()"
  using assms by (simp add: check_question_def Let_def question_record(2-5) candidate_record)


section \<open>Two states\<close>

lemmas ser_sizes = ser_len.simps ser_search_request_def ser_strs_def ser_scope_def ser_u_def search_identity_def
  scope_repository_def ser_line_range_def DISCOVERY_NODE_def epv1_def XD_hex ser_mode.simps ser_reason.simps
  ser_encoding.simps D_GOAL_HASH_def

lemma ids_differ: "length (frame ps) mod 1000 \<noteq> length (frame qs) mod 1000 \<Longrightarrow> epv1 XD ps \<noteq> epv1 XD qs"
  using XD_digest_eq [of ps qs] by (simp only: epv1_inject) blast

abbreviation evidence_of_size :: "string \<Rightarrow> nat \<Rightarrow> evidence_id" where
  "evidence_of_size kind n \<equiv> epv1 XD [''execution-protocol-v1:discovery-evidence'', kind, replicate n CHR ''x'']"

lemma result_hash_length:
  assumes "length paths \<le> MAX_SEARCH_MATCHES"
  shows "length (se_result_set_hash (sample_search c paths)) = 64"
proof -
  have "se_result_set_hash (sample_search c paths) = stable_sha256 XD [''execution-protocol-v1:search-result-set'',
      replicate (ser_len (ser_strs paths)) CHR ''x'']"
    using search_record(5) [OF assms, of c] by (simp add: search_result_set_hash_def discovery_json_def XD_json)
  then show ?thesis by (simp only: XD_hex)
qed

lemma search_evidence_id:
  assumes "length paths \<le> MAX_SEARCH_MATCHES"
  shows "se_evidence_id (sample_search c paths) =
    evidence_of_size ''search'' (ser_len (ser_search_request (sample_request c)) + ser_len (ser_strs paths) + 90)"
proof -
  let ?x = "sample_search c paths"
  let ?v = "Ser_Tuple [ser_u (se_schema_version ?x), Ser_Str (se_producer_node_id ?x), ser_search_request (se_request ?x),
      ser_strs (se_matched_paths ?x), Ser_Str (se_result_set_hash ?x), Ser_Bool (se_truncated ?x)]"
  have len: "ser_len ?v = ser_len (ser_search_request (sample_request c)) + ser_len (ser_strs paths) + 90"
    using assms by (simp add: ser_len.simps ser_u_def DISCOVERY_NODE_def search_record result_hash_length)
  have "derived_evidence_id XD ''search'' ?v = Inr (se_evidence_id ?x)"
    using search_record(6) [OF assms, of c] by (simp only: search_expected_id_def)
  then show ?thesis by (simp only: derived_XD len sum.inject)
qed

lemma candidate_evidence_id:
  "cp_evidence_id (sample_candidate ''c'') = evidence_of_size ''candidate'' 117"
proof -
  let ?x = "sample_candidate ''c''"
  let ?v = "Ser_Tuple [ser_u (cp_schema_version ?x), Ser_Str (cp_producer_node_id ?x), Ser_Str (cp_repository_revision ?x),
      Ser_Str (cp_path ?x), ser_u (cp_rank ?x), Ser_Tuple (map ser_reason (cp_reasons ?x)),
      ser_strs (cp_source_search_ids ?x), ser_strs (cp_criterion_ids ?x)]"
  have len: "ser_len ?v = 117"
    by (simp only: candidate_record) (simp add: ser_sizes)
  have "derived_evidence_id XD ''candidate'' ?v = Inr (cp_evidence_id ?x)"
    using candidate_record(9) [of "''c''"] by (simp only: candidate_expected_id_def)
  then show ?thesis by (simp only: derived_XD len sum.inject)
qed

lemma file_evidence_id: "fe_evidence_id sample_file = evidence_of_size ''file'' 167"
proof -
  let ?x = "sample_file"
  let ?v = "Ser_Tuple [ser_u (fe_schema_version ?x), Ser_Str (fe_producer_node_id ?x), Ser_Str (fe_repository_revision ?x),
      Ser_Str (fe_path ?x), ser_line_range (fe_line_range ?x), Ser_Str (fe_content_hash ?x),
      Ser_Str (fe_artifact_reference_hash ?x), ser_encoding (fe_encoding ?x), Ser_Bool (fe_truncated ?x)]"
  have len: "ser_len ?v = 167"
    by (simp only: file_record) (simp add: ser_sizes)
  have "derived_evidence_id XD ''file'' ?v = Inr (fe_evidence_id ?x)"
    using file_record(9) by (simp only: file_expected_id_def)
  then show ?thesis by (simp only: derived_XD len sum.inject)
qed


lemma sample_search_ids:
  "se_evidence_id (sample_search ''c'' [''m'']) = evidence_of_size ''search'' 202"
  "se_evidence_id (sample_search ''cc'' []) = evidence_of_size ''search'' 201"
proof -
  have "ser_len (ser_search_request (sample_request ''c'')) = 109" and "ser_len (ser_search_request (sample_request ''cc'')) = 110"
    and "ser_len (ser_strs [''m'']) = 3" and "ser_len (ser_strs []) = 1"
    by (simp_all add: ser_sizes)
  note sizes = this
  have "length [''m''] \<le> MAX_SEARCH_MATCHES" and "length [] \<le> MAX_SEARCH_MATCHES" by (simp_all add: MAX_SEARCH_MATCHES_def)
  note limits = this
  show "se_evidence_id (sample_search ''c'' [''m'']) = evidence_of_size ''search'' 202"
    using search_evidence_id [OF limits(1), of "''c''"] by (simp only: sizes) simp
  show "se_evidence_id (sample_search ''cc'' []) = evidence_of_size ''search'' 201"
    using search_evidence_id [OF limits(2), of "''cc''"] by (simp only: sizes) simp
qed

lemma sample_ids_differ:
  "evidence_of_size ''search'' 202 \<noteq> evidence_of_size ''search'' 201"
  "evidence_of_size ''candidate'' 117 \<noteq> evidence_of_size ''search'' 202"
  "evidence_of_size ''candidate'' 117 \<noteq> evidence_of_size ''search'' 201"
  "evidence_of_size ''file'' 167 \<noteq> evidence_of_size ''search'' 202"
  "evidence_of_size ''file'' 167 \<noteq> evidence_of_size ''search'' 201"
  "evidence_of_size ''file'' 167 \<noteq> evidence_of_size ''candidate'' 117"
  by (rule ids_differ; simp add: frame_length)+

text \<open>
  One criterion, searched for, with the candidate it found read; and the same with a second criterion whose
  search found nothing and a question about the candidate that is open.
\<close>

definition sample_covered :: "impact_map_evidence option \<Rightarrow> discovery_convergence option \<Rightarrow> discovery_state" where
  "sample_covered m c = \<lparr>ds_schema_version = DISCOVERY_SCHEMA_VERSION, ds_node_id = DISCOVERY_NODE,
     ds_repository_revision = ''r'', ds_repository_profile_id = ''p'', ds_goal = sample_goal [''c''],
     ds_completed_searches = [(request_id ''c'', sample_search ''c'' [''m''])],
     ds_candidates = [(''m'', sample_candidate ''c'')],
     ds_file_evidence = [(fe_evidence_id sample_file, sample_file)], ds_relationships = [],
     ds_unresolved_questions = [], ds_impact_map = m, ds_convergence = c\<rparr>"

definition sample_open :: "discovery_state" where
  "sample_open = (sample_covered None None)\<lparr>ds_goal := sample_goal [''c'', ''cc''],
     ds_completed_searches := bt_insert (request_id ''cc'') (sample_search ''cc'' [])
       [(request_id ''c'', sample_search ''c'' [''m''])],
     ds_unresolved_questions := [(uq_id (sample_question ''c''), sample_question ''c'')]\<rparr>"

lemma query_t_insensitive: "normalize_search_query XD ''t'' LiteralCaseInsensitive = Inr ''t''"
  by (simp add: normalize_search_query_def is_case_insensitive_def byte_def ascii_control_def white1_def XD_def
      ascii_lower_def MAX_SEARCH_QUERY_BYTES_def)

lemma sample_goal_valid: "cs \<noteq> [] \<Longrightarrow> length cs \<le> 64 \<Longrightarrow> goal_validate XD (sample_goal cs) = Inr ()"
  by (simp add: goal_validate_def goal_new_def sample_goal_def goal_hash_ok query_t_insensitive map_res_def bset_of_def
      sample_limits Let_def)

lemma sample_covered_fields [simp]:
  "ds_goal (sample_covered m c) = sample_goal [''c'']" "at_sample (sample_covered m c)"
  "ds_impact_map (sample_covered m c) = m" "ds_convergence (sample_covered m c) = c"
  "ds_candidates (sample_covered m c) = [(''m'', sample_candidate ''c'')]"
  "ds_file_evidence (sample_covered m c) = [(fe_evidence_id sample_file, sample_file)]"
  "ds_relationships (sample_covered m c) = []" "ds_unresolved_questions (sample_covered m c) = []"
  "ds_completed_searches (sample_covered m c) = [(request_id ''c'', sample_search ''c'' [''m''])]"
  "ds_schema_version (sample_covered m c) = DISCOVERY_SCHEMA_VERSION"
  "ds_repository_revision (sample_covered m c) = ''r''" "ds_node_id (sample_covered m c) = DISCOVERY_NODE"
  by (simp_all add: sample_covered_def at_sample_def)

lemma sample_goal_fields [simp]: "dg_criterion_ids (sample_goal cs) = cs"
  "dg_normalized_search_terms (sample_goal cs) = [''t'']"
  by (simp_all add: sample_goal_def)

lemmas sample_sizes = MAX_COMPLETED_SEARCHES_def MAX_DISCOVERY_CANDIDATES_def MAX_FILE_EVIDENCE_def
  MAX_RELATIONSHIP_EVIDENCE_def MAX_UNRESOLVED_QUESTIONS_def MAX_SEARCH_MATCHES_def

lemma sample_search_check:
  assumes "at_sample s" and "set (dg_criterion_ids (ds_goal s)) = {''c'', ''cc''} \<or> dg_criterion_ids (ds_goal s) = [''c'']"
  shows "evidence_of_size ''search'' 202 \<notin> set seen \<Longrightarrow>
      check_search XD s seen (request_id ''c'', sample_search ''c'' [''m'']) = Inr (evidence_of_size ''search'' 202 # seen)"
    and "''cc'' \<in> set (dg_criterion_ids (ds_goal s)) \<Longrightarrow> evidence_of_size ''search'' 201 \<notin> set seen \<Longrightarrow>
      check_search XD s seen (request_id ''cc'', sample_search ''cc'' []) = Inr (evidence_of_size ''search'' 201 # seen)"
proof -
  have "''c'' \<in> set (dg_criterion_ids (ds_goal s))" using assms(2) by auto
  then show "check_search XD s seen (request_id ''c'', sample_search ''c'' [''m'']) =
      Inr (evidence_of_size ''search'' 202 # seen)" if "evidence_of_size ''search'' 202 \<notin> set seen"
    using search_checks [OF assms(1), of "''c''" "[''m'']" seen] that by (simp add: sample_search_ids sample_sizes)
  show "check_search XD s seen (request_id ''cc'', sample_search ''cc'' []) =
      Inr (evidence_of_size ''search'' 201 # seen)"
    if "''cc'' \<in> set (dg_criterion_ids (ds_goal s))" and "evidence_of_size ''search'' 201 \<notin> set seen"
    using search_checks [OF assms(1), of "''cc''" "[]" seen] that by (simp add: sample_search_ids sample_sizes)
qed

lemma sample_candidate_check:
  assumes "at_sample s" and "''c'' \<in> set (dg_criterion_ids (ds_goal s))"
    and "map_of (ds_completed_searches s) (request_id ''c'') = Some (sample_search ''c'' [''m''])"
    and "evidence_of_size ''candidate'' 117 \<notin> set seen"
  shows "check_candidate XD s seen (''m'', sample_candidate ''c'') = Inr (evidence_of_size ''candidate'' 117 # seen)"
  using candidate_checks [OF assms(1,2,3)] assms(4)
  by (simp add: candidate_evidence_id search_record MAX_SEARCH_MATCHES_def)

lemma sample_file_check:
  assumes "at_sample s" and "evidence_of_size ''file'' 167 \<notin> set seen"
  shows "check_file XD s seen (fe_evidence_id sample_file, sample_file) = Inr (evidence_of_size ''file'' 167 # seen)"
  using file_checks [OF assms(1)] assms(2) by (simp add: file_evidence_id)

lemma sample_covered_valid:
  "evidence_valid XD (sample_covered m c)
    [evidence_of_size ''file'' 167, evidence_of_size ''candidate'' 117, evidence_of_size ''search'' 202]"
proof -
  let ?s = "sample_covered m c" and ?found = "evidence_of_size ''search'' 202" and ?ranked = "evidence_of_size ''candidate'' 117"
  have at: "at_sample ?s" and goal: "dg_criterion_ids (ds_goal ?s) = [''c'']" by simp_all
  have "check_search XD ?s [] (request_id ''c'', sample_search ''c'' [''m'']) = Inr [?found]"
    using sample_search_check(1) [OF at, of "[]"] goal by simp
  moreover have "check_candidate XD ?s [?found] (''m'', sample_candidate ''c'') = Inr [?ranked, ?found]"
    by (rule sample_candidate_check [OF at]) (use sample_ids_differ in \<open>simp_all del: epv1_inject\<close>)
  moreover have "check_file XD ?s [?ranked, ?found] (fe_evidence_id sample_file, sample_file) =
      Inr [evidence_of_size ''file'' 167, ?ranked, ?found]"
    by (rule sample_file_check [OF at]) (use sample_ids_differ in \<open>simp del: epv1_inject\<close>)
  ultimately show ?thesis
    unfolding evidence_valid_def
    by (simp add: sample_goal_valid enforce_state_limits_def enforce_limit_def sample_sizes)
qed

lemma sample_open_fields [simp]:
  "ds_goal sample_open = sample_goal [''c'', ''cc'']" "at_sample sample_open"
  "ds_impact_map sample_open = None" "ds_convergence sample_open = None"
  "ds_candidates sample_open = [(''m'', sample_candidate ''c'')]"
  "ds_file_evidence sample_open = [(fe_evidence_id sample_file, sample_file)]"
  "ds_relationships sample_open = []"
  "ds_unresolved_questions sample_open = [(uq_id (sample_question ''c''), sample_question ''c'')]"
  "ds_completed_searches sample_open = bt_insert (request_id ''cc'') (sample_search ''cc'' [])
     [(request_id ''c'', sample_search ''c'' [''m''])]"
  "ds_schema_version sample_open = DISCOVERY_SCHEMA_VERSION"
  "ds_repository_revision sample_open = ''r''" "ds_node_id sample_open = DISCOVERY_NODE"
  by (simp_all add: sample_open_def sample_covered_def at_sample_def)

lemma request_ids_differ: "request_id ''c'' \<noteq> request_id ''cc''"
  by (rule ids_differ) (simp add: frame_length ser_sizes)

lemma sample_open_valid: "\<exists>ids. evidence_valid XD sample_open ids"
proof -
  have lookup: "map_of (ds_completed_searches sample_open) (request_id ''c'') = Some (sample_search ''c'' [''m''])"
    using request_ids_differ by (simp add: map_simps)
  have "ds_completed_searches sample_open \<in>
      {[(request_id ''c'', sample_search ''c'' [''m'']), (request_id ''cc'', sample_search ''cc'' [])],
       [(request_id ''cc'', sample_search ''cc'' []), (request_id ''c'', sample_search ''c'' [''m''])]}"
    using request_ids_differ by (simp only: sample_open_fields bt_insert.simps) simp
  then have searches: "\<exists>a. fold_res (check_search XD sample_open) [] (ds_completed_searches sample_open) = Inr a \<and>
      set a = {evidence_of_size ''search'' 202, evidence_of_size ''search'' 201}"
    and size: "length (ds_completed_searches sample_open) = 2"
    using sample_ids_differ(1) sample_ids_differ(1) [symmetric]
    by (auto simp: sample_search_check simp del: sample_open_fields(9) epv1_inject)
  obtain a where a: "fold_res (check_search XD sample_open) [] (ds_completed_searches sample_open) = Inr a"
      "set a = {evidence_of_size ''search'' 202, evidence_of_size ''search'' 201}"
    using searches by blast
  let ?ranked = "evidence_of_size ''candidate'' 117"
  have at: "at_sample sample_open" by simp
  have candidate: "check_candidate XD sample_open a (''m'', sample_candidate ''c'') = Inr (?ranked # a)"
    by (rule sample_candidate_check [OF at _ lookup]) (use sample_ids_differ a(2) in \<open>simp_all del: epv1_inject\<close>)
  have read: "check_file XD sample_open (?ranked # a) (fe_evidence_id sample_file, sample_file) =
      Inr (evidence_of_size ''file'' 167 # ?ranked # a)"
    by (rule sample_file_check [OF at]) (use sample_ids_differ a(2) in \<open>simp del: epv1_inject\<close>)
  have question: "check_question XD sample_open (uq_id (sample_question ''c''), sample_question ''c'') = Inr ()"
    by (rule question_checks) simp
  have limits: "enforce_state_limits sample_open = Inr ()"
    unfolding enforce_state_limits_def enforce_limit_def size by (simp add: sample_sizes)
  show ?thesis
    unfolding evidence_valid_def a(1)
    using candidate read question limits by (simp add: sample_goal_valid)
qed

end
