(* ===== verification/Aggregate_Samples.thy ===== *)
theory Aggregate_Samples
  imports Aggregate Discovery_Preparation Discovery_Samples Budget_Samples
begin

text \<open>
  A run of the aggregate: discovery prepares a search, its model call is admitted, reserved, dispatched and paid
  for, and the result is recorded.
\<close>

section \<open>The start\<close>

definition first_request :: search_request where
  "first_request = projr (search_request_new XD ''r'' ''p'' [''c''] ''t'' scope_repository [] LiteralCaseInsensitive [])"

lemma first_request_new:
  "search_request_new XD ''r'' ''p'' [''c''] ''t'' scope_repository [] LiteralCaseInsensitive [] = Inr first_request"
  "sr_repository_revision first_request = ''r''" "sr_repository_profile_id first_request = ''p''"
  "sr_criterion_ids first_request = [''c'']" "sr_normalized_query first_request = ''t''"
  "sr_scope first_request = scope_repository" "sr_extensions first_request = []"
  "sr_mode first_request = LiteralCaseInsensitive" "sr_context_evidence_ids first_request = []"
  "sr_schema_version first_request = DISCOVERY_SCHEMA_VERSION" "length (sr_search_id first_request) = 69"
  by (simp_all add: first_request_def search_request_new_def scope_validate_def scope_repository_def query_t_insensitive
      map_res_def bset_of_def discovery_json_def XD_json Let_def sample_limits epv1_def XD_hex)

lemma first_request_valid: "search_request_validate XD first_request = Inr ()"
  by (simp add: search_request_validate_def first_request_new require_def)

definition empty_discovery :: discovery_state where
  "empty_discovery = discovery_state_new DISCOVERY_NODE ''r'' ''p'' (sample_goal [''c''])"

lemma empty_discovery_fields [simp]:
  "ds_schema_version empty_discovery = DISCOVERY_SCHEMA_VERSION" "ds_node_id empty_discovery = DISCOVERY_NODE"
  "ds_repository_revision empty_discovery = ''r''" "ds_repository_profile_id empty_discovery = ''p''"
  "ds_goal empty_discovery = sample_goal [''c'']" "ds_completed_searches empty_discovery = []"
  "ds_candidates empty_discovery = []" "ds_file_evidence empty_discovery = []"
  "ds_relationships empty_discovery = []" "ds_unresolved_questions empty_discovery = []"
  "ds_impact_map empty_discovery = None" "ds_convergence empty_discovery = None"
  by (simp_all add: empty_discovery_def discovery_state_new_def)

lemma empty_discovery_valid: "discovery_state_validate XD empty_discovery = Inr ()" "discovery_wf empty_discovery"
  by (simp_all add: discovery_state_validate_def sample_goal_valid enforce_state_limits_def enforce_limit_def
      validate_revision_def bt_values_def require_def discovery_wf_def bt_wf_def Let_def)

definition funded_node :: execution_node where
  "funded_node = (node_of_spec \<lparr>ns_id = DISCOVERY_NODE, ns_kind = K_Discovery, ns_required = True,
     ns_dependencies = [], ns_budget = sample_node_budget\<lparr>nb_max_input_tokens_per_call := 4096\<rparr>\<rparr>)
     \<lparr>en_state := Active 1, en_attempts_started := 1\<rparr>"

definition aggregate_core :: execution_state where
  "aggregate_core = budget_start\<lparr>es_position := Pos_Discovery NeedCandidates,
     es_nodes := [(DISCOVERY_NODE, funded_node)], es_node_order := [DISCOVERY_NODE], es_has_profile := True\<rparr>"

definition at_search :: discovery_execution where
  "at_search = execution_state.extend aggregate_core
     (discovery_execution.fields ''x'' 1 ''r'' (Some ''p'') None (Some empty_discovery) None)"

definition aggregate_start :: graph_execution where
  "aggregate_start = discovery_execution.extend at_search (graph_execution.fields
     \<lparr>pg_max_implementation_nodes = 1, pg_max_validation_nodes = 1, pg_max_total_nodes = 5,
       pg_implementation = sample_node_budget, pg_validation = budget_deterministic, pg_review = sample_node_budget,
       pg_completion_evaluation = sample_node_budget, pg_publication = budget_deterministic\<rparr>
     None None (\<lambda>_. False) (\<lambda>_. None) None None None)"

lemma aggregate_start_parts:
  "discovery_execution.truncate aggregate_start = at_search" "dx_discovery aggregate_start = Some empty_discovery"
  "execution_state.truncate at_search = aggregate_core"
  by (simp_all add: aggregate_start_def at_search_def execution_state.defs discovery_execution.defs graph_execution.defs)

lemma at_search_fields [simp]:
  "dx_discovery at_search = Some empty_discovery" "dx_prepared at_search = None" "es_discovery_action at_search = None"
  "dx_execution_id at_search = ''x''" "dx_execution_attempt at_search = 1" "dx_repository_revision at_search = ''r''"
  "es_position at_search = Pos_Discovery NeedCandidates" "es_nodes at_search = [(DISCOVERY_NODE, funded_node)]"
  "es_budgets at_search = \<lparr>bl_mission_usage = usage_default, bl_model_calls = []\<rparr>"
  "es_mission_budget at_search = \<lparr>mb_max_model_calls = 5, mb_max_cost_micros = 2000, mb_max_duration_ms = 9000\<rparr>"
  by (simp_all add: at_search_def aggregate_core_def execution_state.defs discovery_execution.defs sample_data)

lemma funded_node_fields [simp]:
  "en_id funded_node = DISCOVERY_NODE" "en_kind funded_node = K_Discovery" "en_state funded_node = Active 1"
  "en_usage funded_node = usage_default"
  "en_budget funded_node = sample_node_budget\<lparr>nb_max_input_tokens_per_call := 4096\<rparr>"
  by (simp_all add: funded_node_def node_of_spec_def)

lemma at_search_active: "require_active_discovery_node at_search = Inr ()"
  by (simp add: require_active_discovery_node_def aggregate_start_parts active_node_def ordered_nodes_def
      aggregate_core_def map_filter_simps)

lemma at_search_budget: "discovery_budget_remaining at_search DISCOVERY_NODE =
    Inr \<lparr>dr_model_calls = 3, dr_cost_micros = 1000, dr_duration_ms = 5000\<rparr>"
  by (simp add: discovery_budget_remaining_def sample_node_budget_def usage_default_def sat_sub_def sat_add_def)

section \<open>The prepared search\<close>

lemma at_search_step: "select_next_discovery_step empty_discovery 3 = Next_Action Act_DiscoverCandidates"
  by (simp add: select_next_discovery_step_def accepted_impact_def substate_def all_goal_searches_completed_def
      bt_values_def)

lemma at_search_constraints:
  "authoritative_constraints XD empty_discovery Act_DiscoverCandidates = Inr (Con_Search first_request)"
  by (simp add: authoritative_constraints_def selected_search_def search_completed_def bt_values_def first_request_new(1)
      ok_or_def from_discovery_def)

abbreviation first_sections :: "context_section list" where
  "first_sections \<equiv> [Sec_ProtocolInstructions (stable_sha256 XD [''execution-protocol-v1:discovery-context-schema'', ''1'']),
     Sec_Goal D_GOAL_HASH, Sec_AcceptanceCriterion ''c'', Sec_RepositoryProfile ''p'']"

lemma first_sections: "mandatory_sections XD empty_discovery [''c''] None [] = first_sections"
  by (simp add: mandatory_sections_def sample_goal_def)

lemma first_tokens: "estimate_context_tokens XD empty_discovery first_sections = Inr 486"
  by (simp add: estimate_context_tokens_def estimate_context_section_tokens_def discovery_json_def XD_json
      ser_tagged_section_def ser_sizes XD_hex D_GOAL_HASH_def section_materialization_tokens_def Let_def clip_word_def
      sat_add_def)

lemma first_context:
  "\<exists>m. build_discovery_context XD empty_discovery a (Con_Search first_request) 4096 = Inr m \<and>
    cm_estimated_input_tokens m = 486 \<and> cm_mandatory_sections m = first_sections \<and> cm_evidence_ids m = []"
proof -
  have hash: "disc_validate_hash ''materialized_context_hash'' (stable_sha256 XD ps) = Inr ()" for ps by (rule XD_hex)
  show ?thesis
    by (simp add: build_discovery_context_def from_contract_def empty_discovery_valid mandatory_evidence_for_action_def
        mandatory_question_for_action_def relevant_criteria_for_action_def first_request_new first_sections
        MAX_CONTEXT_SECTIONS_def first_tokens optional_candidates_def discovery_json_def XD_json Let_def
        context_manifest_new_def context_manifest_validate_def hash map_filter_simps bset_of_def require_def)
qed

lemma first_action:
  "\<exists>p. authoritative_prepared_discovery_action XD at_search = Inr p \<and>
    ae_constraints (pd_envelope p) = Con_Search first_request \<and>
    ad_action_id (pd_admission p) = ae_action_id (pd_envelope p) \<and> ad_node_id (pd_admission p) = DISCOVERY_NODE \<and>
    (\<exists>ps. ad_payload_hash (pd_admission p) = stable_sha256 XD ps) \<and>
    ae_payload_identity (pd_envelope p) = ad_payload_hash (pd_admission p) \<and>
    ad_input_tokens (pd_admission p) = 486 \<and> ad_output_tokens (pd_admission p) = 100 \<and>
    ad_reserved_cost_micros (pd_admission p) = 1000 \<and> ad_duration_allowance_ms (pd_admission p) = 5000"
proof -
  obtain a where a: "discovery_action_identity XD at_search empty_discovery 1 1 (Con_Search first_request) = Inr a"
    by (simp add: discovery_action_identity_def XD_json ok_or_def)
  obtain m where m: "build_discovery_context XD empty_discovery a (Con_Search first_request) 4096 = Inr m"
    "cm_estimated_input_tokens m = 486" "cm_mandatory_sections m = first_sections" "cm_evidence_ids m = []"
    using first_context by blast
  note made = build_context_fields [OF m(1)] build_context_validates [OF m(1)]
  obtain e ps where e: "action_envelope_new XD a DISCOVERY_NODE ''r'' m (Con_Search first_request) 4096 100 DISCOVERY_NODE
      (epv1 XD [''execution-protocol-v1:discovery-reservation'', a, DISCOVERY_NODE, decimal 1]) = Inr e"
    and hash: "ae_payload_identity e = stable_sha256 XD ps"
    using made m(2-4)
    by (simp add: action_envelope_new_def authorize_tools_def first_request_valid constraints_bound_def first_request_new
        context_criteria_def first_sections map_filter_simps bset_of_def discovery_json_def XD_json
        Let_def)
  have "action_ordinal_of at_search empty_discovery = 1" by (simp add: action_ordinal_of_def bt_values_def)
  then show ?thesis
    using envelope_new_fields(2,5,7) [OF e] e hash m a
    by (auto simp: authoritative_prepared_discovery_action_def the_discovery_def ok_or_def at_search_active at_search_budget
        admissible_model_calls_def remaining_is_exhausted_def at_search_step at_search_constraints from_context_def
        from_discovery_def Let_def sample_node_budget_def)
qed

definition first_prepared :: prepared_discovery_action where
  "first_prepared = projr (authoritative_prepared_discovery_action XD at_search)"

lemma first_prepared:
  "authoritative_prepared_discovery_action XD at_search = Inr first_prepared"
  "ae_constraints (pd_envelope first_prepared) = Con_Search first_request"
  "ad_action_id (pd_admission first_prepared) = ae_action_id (pd_envelope first_prepared)"
  "ad_node_id (pd_admission first_prepared) = DISCOVERY_NODE"
  "\<exists>ps. ad_payload_hash (pd_admission first_prepared) = stable_sha256 XD ps"
  "ae_payload_identity (pd_envelope first_prepared) = ad_payload_hash (pd_admission first_prepared)"
  "ad_input_tokens (pd_admission first_prepared) = 486" "ad_output_tokens (pd_admission first_prepared) = 100"
  "ad_reserved_cost_micros (pd_admission first_prepared) = 1000"
  "ad_duration_allowance_ms (pd_admission first_prepared) = 5000"
  using first_action by (auto simp: first_prepared_def)

lemma first_prepare: "prepare_discovery_action XD at_search first_prepared = Inr (set_action first_prepared at_search)"
  by (rule prepare_authoritative [OF first_prepared(1) at_search_fields(1)])
    (simp_all add: validate_discovery_action_constraints_def first_prepared(2) first_request_new classify_search_def)

section \<open>The paid call\<close>

abbreviation first_call :: model_call_id where
  "first_call \<equiv> ad_call_id (pd_admission first_prepared)"

definition first_payment :: "budget_event list" where
  "first_payment = [ModelCallAdmitted (pd_admission first_prepared), ModelCallReserved first_call,
     ProviderDispatchStarted first_call (ad_payload_hash (pd_admission first_prepared)),
     ModelCallReconciled first_call (Consumed 300 800)]"

lemma first_hash_not_blank: "\<not> blank (ad_payload_hash (pd_admission first_prepared))"
proof -
  have "replicate 61 CHR ''a'' = CHR ''a'' # replicate 60 CHR ''a''"
    using replicate_Suc [of 60 "CHR ''a''"] by simp
  then show ?thesis using first_prepared(5) by (auto simp: stable_sha256_def XD_def not_blank_Cons byte_def)
qed

lemma aggregate_core_record: "aggregate_core = \<lparr>es_position = Pos_Discovery NeedCandidates,
   es_latest_transition_proof = None,
   es_mission_budget = \<lparr>mb_max_model_calls = 5, mb_max_cost_micros = 2000, mb_max_duration_ms = 9000\<rparr>,
   es_nodes = [(DISCOVERY_NODE, funded_node)], es_node_order = [DISCOVERY_NODE], es_proofs = [],
   es_has_profile = True, es_discovery_action = None, es_has_planning = False, es_planning_action = None,
   es_has_implementation = False, es_has_validation = False, es_review = None, es_has_publication = False,
   es_budgets = \<lparr>bl_mission_usage = usage_default, bl_model_calls = []\<rparr>, es_event_log = []\<rparr>"
  by (simp add: aggregate_core_def budget_start_def sample_bootstrap_def bootstrap_with_mode_def Let_def)

definition paid_usage :: budget_usage where
  "paid_usage = usage_default\<lparr>bu_model_calls_consumed := 1, bu_cost_micros_consumed := 300,
     bu_duration_ms_consumed := 800\<rparr>"

lemma first_payment_runs:
  "fold_res (apply_budget_event XD) (aggregate_core\<lparr>es_discovery_action := Some (budget_view first_prepared)\<rparr>)
      first_payment =
    Inr (aggregate_core\<lparr>es_discovery_action := Some (budget_view first_prepared),
      es_nodes := [(DISCOVERY_NODE, funded_node\<lparr>en_usage := paid_usage\<rparr>)],
      es_budgets := \<lparr>bl_mission_usage = paid_usage, bl_model_calls = [(first_call,
        \<lparr>cr_admission = pd_admission first_prepared, cr_state = ReconciledConsumed 300 800\<rparr>)]\<rparr>\<rparr>)"
  using first_hash_not_blank
  by (simp add: aggregate_core_record first_payment_def sample_operations first_prepared(4,6-10) budget_view_def
      payload_mismatch_def sample_node_budget_def usage_default_def paid_usage_def bt_values_def bt_adjust_def Let_def)

section \<open>The run\<close>

definition first_evidence :: search_evidence where
  "first_evidence = projr (search_evidence_new XD DISCOVERY_NODE first_request [''m''] False)"

definition first_run :: "domain_event list" where
  "first_run = DE_Discovery (ActionPrepared first_prepared) # map DE_Budget first_payment @
     [DE_Discovery (SearchCompleted (ae_action_id (pd_envelope first_prepared)) first_evidence)]"

definition searched :: discovery_state where
  "searched = empty_discovery\<lparr>ds_completed_searches := [(sr_search_id first_request, first_evidence)]\<rparr>"

lemma first_evidence_fields:
  "se_request first_evidence = first_request" "se_schema_version first_evidence = DISCOVERY_SCHEMA_VERSION"
  "se_producer_node_id first_evidence = DISCOVERY_NODE" "se_matched_paths first_evidence = [''m'']"
  "search_expected_id XD first_evidence = Inr (se_evidence_id first_evidence)"
  "search_result_set_hash XD [''m''] = Inr (se_result_set_hash first_evidence)"
  "disc_validate_hash ''search.result_set_hash'' (se_result_set_hash first_evidence) = Inr ()"
  by (simp_all add: first_evidence_def search_evidence_new_def first_request_valid MAX_SEARCH_MATCHES_def permits_path_def
      first_request_new scope_repository_def search_result_set_hash_def derived_evidence_id_def discovery_json_def XD_json
      search_expected_id_def XD_hex)

lemma searched_valid: "discovery_state_validate XD searched = Inr ()"
  by (simp add: searched_def discovery_state_validate_def sample_goal_valid enforce_state_limits_def enforce_limit_def
      sample_sizes check_search_def first_evidence_fields first_request_new first_request_valid permits_path_def
      scope_repository_def claim_evidence_id_def validate_revision_def bt_values_def require_def Let_def)

definition at_paid :: discovery_execution where
  "at_paid = execution_state.extend (aggregate_core\<lparr>es_discovery_action := Some (budget_view first_prepared),
      es_nodes := [(DISCOVERY_NODE, funded_node\<lparr>en_usage := paid_usage\<rparr>)],
      es_budgets := \<lparr>bl_mission_usage = paid_usage, bl_model_calls = [(first_call,
        \<lparr>cr_admission = pd_admission first_prepared, cr_state = ReconciledConsumed 300 800\<rparr>)]\<rparr>\<rparr>)
     (discovery_execution.fields ''x'' 1 ''r'' (Some ''p'') None (Some empty_discovery) (Some first_prepared))"

lemma at_paid_fields [simp]:
  "dx_discovery at_paid = Some empty_discovery" "dx_prepared at_paid = Some first_prepared"
  "map_of (bl_model_calls (es_budgets at_paid)) first_call =
    Some \<lparr>cr_admission = pd_admission first_prepared, cr_state = ReconciledConsumed 300 800\<rparr>"
  by (simp_all add: at_paid_def execution_state.defs discovery_execution.defs)

lemma at_paid_active: "require_active_discovery_node at_paid = Inr ()"
  by (simp add: require_active_discovery_node_def at_paid_def active_node_def ordered_nodes_def execution_state.defs
      discovery_execution.defs aggregate_core_record map_filter_simps)

lemma first_result:
  "record_discovery_search XD at_paid (ae_action_id (pd_envelope first_prepared)) first_evidence =
    Inr ((clear_action at_paid)\<lparr>dx_discovery := Some searched\<rparr>)"
  using searched_valid
  by (simp add: record_discovery_search_def require_consumed_discovery_action_def require_current_discovery_action_def
      at_paid_active first_prepared(2) ok_or_def first_evidence_fields(1) the_discovery_def commit_discovery_def
      from_discovery_def searched_def Let_def)

lemma first_run_succeeds: "\<exists>t. fold_res (apply_payload XD) aggregate_start first_run = Inr t \<and> dx_discovery t = Some searched"
proof -
  let ?m = "discovery_execution.more aggregate_start"
  let ?prepared = "discovery_execution.extend (set_action first_prepared at_search) ?m"
  have "refresh_discovery_position (set_action first_prepared at_search) = set_action first_prepared at_search"
    by (simp add: refresh_discovery_position_def set_action_def substate_def at_search_def aggregate_core_record
        execution_state.defs discovery_execution.defs)
  then have prepare: "apply_payload XD aggregate_start (DE_Discovery (ActionPrepared first_prepared)) = Inr ?prepared"
    by (simp add: aggregate_start_parts(1) apply_discovery_event_def first_prepare)
  have view: "execution_state.truncate ?prepared =
      aggregate_core\<lparr>es_discovery_action := Some (budget_view first_prepared)\<rparr>"
    by (simp add: set_action_def at_search_def aggregate_core_record execution_state.defs discovery_execution.defs)
  obtain paid where pay: "fold_res (apply_payload XD) ?prepared (map DE_Budget first_payment) = Inr paid"
    and at_paid: "discovery_execution.truncate paid = at_paid"
    by (simp add: budget_payloads view first_payment_runs)
      (simp add: at_paid_def set_action_def at_search_def aggregate_core_record execution_state.defs
        discovery_execution.defs)
  obtain t where "apply_payload XD paid
      (DE_Discovery (SearchCompleted (ae_action_id (pd_envelope first_prepared)) first_evidence)) = Inr t"
    and "dx_discovery t = Some searched"
    by (simp add: at_paid apply_discovery_event_def first_result extend_discovery)
  then show ?thesis using prepare pay by (simp add: first_run_def fold_res_append)
qed

end
