(* ===== verification/Discovery_Properties.thy ===== *)
theory Discovery_Properties
  imports Aggregate_Samples
begin

text \<open>
  What discovery guarantees: a path stays inside the repository, a map is synthesised only from what was read
  and always from sufficient evidence, an accepted map rests on read files, the convergence that is selected
  is recorded, and no event loses evidence.
\<close>

section \<open>Sample executions\<close>

definition at_discovery :: "discovery_state \<Rightarrow> discovery_execution" where
  "at_discovery d = execution_state.extend (budget_start\<lparr>es_position := Pos_Discovery NeedCandidates\<rparr>)
     (discovery_execution.fields ''x'' 1 ''r'' (Some ''p'') None (Some d) None)"

lemma at_discovery_fields [simp]: "dx_discovery (at_discovery d) = Some d" "dx_prepared (at_discovery d) = None"
  "es_discovery_action (at_discovery d) = None" "position_stage (es_position (at_discovery d)) = St_Discovery"
  "execution_state.truncate (at_discovery d) = budget_start\<lparr>es_position := Pos_Discovery NeedCandidates\<rparr>"
  by (simp_all add: at_discovery_def execution_state.defs discovery_execution.defs sample_data)

lemma at_discovery_active: "require_active_discovery_node (at_discovery d) = Inr ()"
  by (simp add: require_active_discovery_node_def active_node_def ordered_nodes_def sample_data DISCOVERY_NODE_def
      map_filter_simps)

lemma at_discovery_budget:
  "discovery_budget_remaining (at_discovery d) DISCOVERY_NODE =
    Inr \<lparr>dr_model_calls = 3, dr_cost_micros = 1000, dr_duration_ms = 5000\<rparr>"
  by (simp add: discovery_budget_remaining_def at_discovery_def execution_state.defs discovery_execution.defs
      sample_data DISCOVERY_NODE_def sat_sub_def sat_add_def)

lemma sample_covered_wf: "discovery_wf (sample_covered m c)"
  by (simp add: discovery_wf_def bt_wf_def)

lemma sample_covered_reads: "grounded_candidate_paths (sample_covered m c) = [''m'']"
  by (simp add: grounded_candidate_paths_def bt_values_def file_record bset_of_def)

lemma sample_covered_evaluates:
  "evaluate_discovery_convergence (sample_covered None c) =
    EvidenceSufficient [(''c'', [''m''])] [fe_evidence_id sample_file]"
proof -
  have "impact_map_evidence_ids (sample_covered None c) = [fe_evidence_id sample_file]"
    by (simp add: impact_map_evidence_ids_def criterion_selection_def candidate_selection_def Let_def rank_order_def
        bt_values_def sample_covered_reads candidate_record file_record least_of_def bset_of_def)
  moreover have "criterion_paths (sample_covered None c) = [(''c'', [''m''])]"
    by (simp add: criterion_paths_def add_criterion_path_def bt_of_list_def bt_adjust_def bt_values_def
        sample_covered_reads candidate_record bset_of_def)
  ultimately show ?thesis
    by (simp add: evaluate_discovery_convergence_def accepted_impact_def sample_covered_reads bt_values_def)
qed

lemma sample_covered_validates:
  assumes "c = None \<or> c = Some (EvidenceSufficient [(''c'', [''m''])] [fe_evidence_id sample_file])"
  shows "discovery_state_validate XD (sample_covered None c) = Inr ()"
proof -
  have "validate_revision (sample_covered None c) = Inr ()"
    by (simp add: validate_revision_def Let_def bt_values_def search_record candidate_record file_record
        MAX_SEARCH_MATCHES_def)
  then show ?thesis
    using sample_covered_valid assms unfolding validate_evidence_iff by (auto simp: sample_covered_evaluates)
qed

definition SAMPLE_SUFFICIENT :: discovery_convergence where
  "SAMPLE_SUFFICIENT = EvidenceSufficient [(''c'', [''m''])] [fe_evidence_id sample_file]"

abbreviation sample_ready :: discovery_state where
  "sample_ready \<equiv> sample_covered None (Some SAMPLE_SUFFICIENT)"

lemma sample_ready_valid: "discovery_state_validate XD sample_ready = Inr ()"
  by (rule sample_covered_validates) (simp add: SAMPLE_SUFFICIENT_def)

definition sample_map :: impact_map_evidence where
  "sample_map = projr (deterministic_discovery_impact_map XD (at_discovery sample_ready))"

lemma sample_map_new:
  "deterministic_discovery_impact_map XD (at_discovery sample_ready) = Inr sample_map"
  "impact_map_new XD DISCOVERY_NODE ''r''
     [\<lparr>ia_criterion_id = ''c'', ia_paths = [''m''], ia_evidence_ids = [fe_evidence_id sample_file],
       ia_confidence = Confidence_Medium\<rparr>] [] = Inr sample_map"
proof -
  let ?area = "\<lparr>ia_criterion_id = ''c'', ia_paths = [''m''], ia_evidence_ids = [fe_evidence_id sample_file],
       ia_confidence = Confidence_Medium\<rparr>"
  have suff: "ds_convergence sample_ready = Some (EvidenceSufficient [(''c'', [''m''])] [fe_evidence_id sample_file])"
    by (simp add: SAMPLE_SUFFICIENT_def)
  have "area_of sample_ready [fe_evidence_id sample_file] (''c'', [''m'']) = ?area"
    by (simp add: area_of_def area_evidence_def bt_values_def file_record bset_of_def)
  then obtain m where "deterministic_discovery_impact_map XD (at_discovery sample_ready) = Inr m"
      "impact_map_new XD DISCOVERY_NODE ''r'' [?area] [] = Inr m"
    using deterministic_map [OF XD_json(2) sample_covered_wf sample_ready_valid suff, of "at_discovery sample_ready"]
    by auto
  then show "deterministic_discovery_impact_map XD (at_discovery sample_ready) = Inr sample_map"
      "impact_map_new XD DISCOVERY_NODE ''r'' [?area] [] = Inr sample_map"
    by (simp_all add: sample_map_def)
qed

lemma sample_map_id: "im_evidence_id sample_map = evidence_of_size ''impact-map'' 112"
proof -
  note f = impact_map_new_fields [OF sample_map_new(2)]
  let ?v = "Ser_Tuple [ser_u (im_schema_version sample_map), Ser_Str (im_producer_node_id sample_map),
      Ser_Str (im_repository_revision sample_map), Ser_Tuple (map ser_area (im_areas sample_map)),
      ser_strs (im_unresolved_question_ids sample_map)]"
  have len: "ser_len ?v = 112"
    using f by (simp add: ser_sizes ser_area_def file_evidence_id)
  have "derived_evidence_id XD ''impact-map'' ?v = Inr (im_evidence_id sample_map)"
    unfolding impact_map_expected_id_def [symmetric] using f by (elim conjE)
  then show ?thesis by (simp only: derived_XD len sum.inject)
qed

lemma sample_map_fresh: "im_evidence_id sample_map \<notin> evidence_ids (sample_covered m c)"
proof -
  have "evidence_of_size ''impact-map'' 112 \<noteq> evidence_of_size ''file'' 167"
    "evidence_of_size ''impact-map'' 112 \<noteq> evidence_of_size ''candidate'' 117"
    "evidence_of_size ''impact-map'' 112 \<noteq> evidence_of_size ''search'' 202"
    by (rule ids_differ; simp add: frame_length)+
  then show ?thesis
    unfolding evidence_valid_ids [OF sample_covered_valid, symmetric] sample_map_id by (simp del: epv1_inject)
qed

section \<open>Samples of the state\<close>

definition sample_accepted :: discovery_state where
  "sample_accepted = sample_covered (Some sample_map) (Some (ImpactMapAccepted (im_evidence_id sample_map)))"

lemma sample_map_valid:
  "discovery_state_validate XD (sample_covered (Some sample_map) None) = Inr ()"
  "evaluate_discovery_convergence (sample_covered (Some sample_map) None) = ImpactMapAccepted (im_evidence_id sample_map)"
proof -
  have ev: "evaluate_discovery_convergence sample_ready = EvidenceSufficient [(''c'', [''m''])] [fe_evidence_id sample_file]"
    using sample_ready_valid by (simp add: validate_parts SAMPLE_SUFFICIENT_def)
  have "impact_map_new XD (ds_node_id sample_ready) (ds_repository_revision sample_ready)
      (map (area_of sample_ready [fe_evidence_id sample_file]) [(''c'', [''m''])]) [] = Inr sample_map"
    using sample_map_new(2) by (simp add: area_of_def area_evidence_def bt_values_def file_record bset_of_def)
  note checks = deterministic_map_checks [OF sample_covered_wf sample_ready_valid ev this]
  have with_map: "conclude sample_ready (Some sample_map) None = sample_covered (Some sample_map) None"
    by (simp add: conclude_def sample_covered_def)
  have "im_repository_revision sample_map = ds_repository_revision sample_ready"
    using impact_map_new_fields [OF sample_map_new(2)] by simp
  then show "discovery_state_validate XD (sample_covered (Some sample_map) None) = Inr ()"
    using validate_with_map [OF sample_ready_valid checks(2) _ sample_map_fresh] by (simp add: with_map)
  have "impact_map_is_complete (conclude sample_ready (Some sample_map) None) sample_map" using checks(1) by simp
  then show "evaluate_discovery_convergence (sample_covered (Some sample_map) None) =
      ImpactMapAccepted (im_evidence_id sample_map)"
    unfolding with_map by (simp add: evaluate_accepted_iff accepted_impact_iff)
qed

lemma sample_accepted_valid: "discovery_state_validate XD sample_accepted = Inr ()"
  using validate_convergence [OF sample_map_valid(1)] sample_map_valid(2)
  by (simp add: sample_accepted_def sample_covered_def)

lemma at_discovery_update: "at_discovery d\<lparr>dx_discovery := Some d'\<rparr> = at_discovery d'"
  by (simp add: at_discovery_def execution_state.defs discovery_execution.defs)

lemma sample_map_recorded:
  "record_discovery_impact_map XD (at_discovery sample_ready) None sample_map =
    Inr (at_discovery (sample_covered (Some sample_map) None))"
proof -
  have "accepted_impact sample_ready = None" by (simp add: accepted_impact_def)
  moreover have "sample_ready\<lparr>ds_impact_map := Some sample_map, ds_convergence := None\<rparr> =
      sample_covered (Some sample_map) None"
    by (simp add: sample_covered_def)
  ultimately show ?thesis
    using sample_map_new(1) at_discovery_active sample_map_valid(1)
    by (simp add: record_discovery_impact_map_def impact_map_source_guard_def the_discovery_def ok_or_def
        commit_discovery_def from_discovery_def require_def SAMPLE_SUFFICIENT_def at_discovery_update)
qed

text \<open>
  The state with every search done, an open question and a criterion nothing was found for.
\<close>

lemma sample_open_searches:
  "set (ds_completed_searches sample_open) =
    {(request_id ''c'', sample_search ''c'' [''m'']), (request_id ''cc'', sample_search ''cc'' [])}"
  using request_ids_differ by (simp add: insert_commute)

lemma sample_open_wf: "discovery_wf sample_open"
proof -
  have "bt_wf [(request_id ''c'', sample_search ''c'' [''m''])]" by (simp add: bt_wf_def)
  then have "bt_wf (ds_completed_searches sample_open)" unfolding sample_open_fields by (rule bt_wf_insert)
  then show ?thesis by (simp add: discovery_wf_def bt_wf_def less_char_def del: sample_open_fields(9))
qed

lemma sample_open_state:
  "grounded_candidate_paths sample_open = [''m'']" "substate sample_open = Sub_NeedCandidates"
  "all_goal_searches_completed sample_open"
  "evaluate_discovery_convergence sample_open = Conv_BudgetBlocked RelationshipEvidenceMissing"
  "discovery_state_validate XD sample_open = Inr ()"
proof -
  show reads: "grounded_candidate_paths sample_open = [''m'']"
    by (simp add: grounded_candidate_paths_def bt_values_def file_record bset_of_def)
  show "substate sample_open = Sub_NeedCandidates"
    by (simp add: substate_def Let_def ranked_candidate_paths_def all_ranked_candidate_paths_def reads rank_order_def
        bt_values_def candidate_record bset_of_def MAX_ACTION_PATHS_def)
  have searches: "set (bt_values (ds_completed_searches sample_open)) = {sample_search ''c'' [''m''], sample_search ''cc'' []}"
    unfolding bt_values_def set_map sample_open_searches by simp
  have "length [''m''] \<le> MAX_SEARCH_MATCHES" "length [] \<le> MAX_SEARCH_MATCHES" by (simp_all add: MAX_SEARCH_MATCHES_def)
  note records = this [THEN search_record(2)]
  show "all_goal_searches_completed sample_open"
    unfolding all_goal_searches_completed_def list_ex_iff searches by (simp add: records)
  show evaluates: "evaluate_discovery_convergence sample_open = Conv_BudgetBlocked RelationshipEvidenceMissing"
    by (simp add: evaluate_discovery_convergence_def accepted_impact_def reads)
  have "validate_revision sample_open = Inr ()"
    unfolding validate_revision_def Let_def list_all_iff searches
    by (simp add: records bt_values_def candidate_record file_record)
  then show "discovery_state_validate XD sample_open = Inr ()"
    using sample_open_valid unfolding validate_evidence_iff by (auto simp del: sample_open_fields(9))
qed

section \<open>Paths\<close>

text \<open>C30: a discovery path that is accepted names something inside the repository: its components are neither
  empty nor \<open>.\<close> nor \<open>..\<close>, it has no backslash and no control byte, and it is a normal form, which
  normalisation keeps, unless a drive letter has come to its front.\<close>

theorem discovery_path_stays_inside:
  assumes "discovery_path_new v = Inr p"
  shows "split_on SLASH p \<noteq> [] \<and> join_with [SLASH] (split_on SLASH p) = p \<and>
    (\<forall>c \<in> set (split_on SLASH p). c \<noteq> [] \<and> c \<noteq> ''.'' \<and> c \<noteq> ''..'') \<and>
    (\<forall>b \<in> set p. b \<noteq> BACKSLASH \<and> \<not> ascii_control b) \<and>
    discovery_path_new p = (if has_drive p then Inl Disc_InvalidPath else Inr p)"
proof -
  obtain cs where "p = join_with [SLASH] cs" "cs \<noteq> []" "split_on SLASH p = cs"
      "\<forall>c \<in> set cs. plain_component c" "\<forall>b \<in> set p. clean_byte b"
    using discovery_path_components [OF assms] by blast
  then show ?thesis
    using discovery_path_again [OF assms] by (simp add: plain_component_def clean_byte_def)
qed

lemma drive_path: "discovery_path_new ''./C:/x'' = Inr ''C:/x'' \<and> has_drive ''C:/x''"
  by (simp add: discovery_path_new_def normalize_repository_path_def starts_with_def SLASH_def BACKSLASH_def
      replace_char_def has_drive_def byte_def ascii_control_def Let_def)

lemma discovery_path_stays_inside_witness:
  "discovery_path_new ''./C:/x'' = Inr ''C:/x'' \<and> discovery_path_new ''C:/x'' = Inl Disc_InvalidPath"
  using discovery_path_stays_inside [OF drive_path [THEN conjunct1]] drive_path by simp

section \<open>Synthesis\<close>

text \<open>C27: discovery selects the synthesis of the impact map exactly when calls remain, no map is accepted, every
  candidate has been read at the revision of the state, the candidates cover every criterion of the goal and
  no question is open.\<close>

theorem synthesis_exactly_when_grounded:
  assumes valid: "discovery_state_validate E d = Inr ()" and wf: "discovery_wf d"
  shows "select_next_discovery_step d n = Next_Action Act_RecordImpactMap \<longleftrightarrow>
    n \<noteq> 0 \<and> accepted_impact d = None \<and> ds_candidates d \<noteq> [] \<and> ds_unresolved_questions d = [] \<and>
    (\<forall>c \<in> set (bt_values (ds_candidates d)). \<exists>e \<in> set (bt_values (ds_file_evidence d)).
      fe_path e = cp_path c \<and> fe_repository_revision e = ds_repository_revision d) \<and>
    set (grounded_criterion_ids d) = set (dg_criterion_ids (ds_goal d))"
proof -
  note ok = validate_candidates_ok [OF valid]
  have read: "(\<forall>c \<in> set (bt_values (ds_candidates d)). cp_path c \<in> set (grounded_candidate_paths d)) \<longleftrightarrow>
    (\<forall>c \<in> set (bt_values (ds_candidates d)). \<exists>e \<in> set (bt_values (ds_file_evidence d)).
      fe_path e = cp_path c \<and> fe_repository_revision e = ds_repository_revision d)"
  proof (rule ball_cong [OF refl])
    fix c assume "c \<in> set (bt_values (ds_candidates d))"
    then obtain k where k: "(k, c) \<in> set (ds_candidates d)" by (auto simp: bt_values_iff)
    moreover from this have "cp_path c = k" using ok unfolding candidates_ok_def by blast
    ultimately have "cp_path c \<in> fst ` set (ds_candidates d)" by force
    then show "cp_path c \<in> set (grounded_candidate_paths d) \<longleftrightarrow> (\<exists>e \<in> set (bt_values (ds_file_evidence d)).
        fe_path e = cp_path c \<and> fe_repository_revision e = ds_repository_revision d)"
      by (simp add: grounded_iff)
  qed
  have "set (grounded_criterion_ids d) = set (candidate_criteria d)"
    if "\<forall>c \<in> set (bt_values (ds_candidates d)). cp_path c \<in> set (grounded_candidate_paths d)"
    using grounded_criteria_all [OF that] by (simp only: candidate_criteria_set)
  then show ?thesis
    unfolding select_action_iff substate_cases(2) [OF ok] candidate_criteria_goal [OF wf] read [symmetric]
    by auto
qed

lemma synthesis_exactly_when_grounded_witness:
  "select_next_discovery_step (sample_covered None None) 3 = Next_Action Act_RecordImpactMap"
proof -
  have "discovery_state_validate XD (sample_covered None None) = Inr ()" by (rule sample_covered_validates) simp
  then show ?thesis
    by (subst synthesis_exactly_when_grounded)
      (simp_all add: sample_covered_wf accepted_impact_def bt_values_def file_record candidate_record
        grounded_criterion_ids_def sample_covered_reads bset_of_def)
qed

text \<open>C25: an accepted convergence of a valid state names its impact map, whose areas are the criteria of the goal
  in order and each once, with paths that were read at the revision of the state and are candidates for the
  criterion, and with evidence that is on record for those paths.\<close>

theorem accepted_map_is_grounded:
  assumes "discovery_state_validate E d = Inr ()" and "ds_convergence d = Some (ImpactMapAccepted i)"
  shows "\<exists>m. ds_impact_map d = Some m \<and> im_evidence_id m = i \<and> im_unresolved_question_ids m = [] \<and>
    map ia_criterion_id (im_areas m) = bset_of (dg_criterion_ids (ds_goal d)) \<and>
    (\<forall>a \<in> set (im_areas m). ia_paths a \<noteq> [] \<and> ia_evidence_ids a \<noteq> [] \<and>
      (\<forall>p \<in> set (ia_paths a).
        (\<exists>e \<in> set (bt_values (ds_file_evidence d)). fe_path e = p \<and> fe_repository_revision e = ds_repository_revision d) \<and>
        (\<exists>c. map_of (ds_candidates d) p = Some c \<and> ia_criterion_id a \<in> set (cp_criterion_ids c))) \<and>
      (\<forall>x \<in> set (ia_evidence_ids a). evidence_supports_area d a x))"
proof -
  have "evaluate_discovery_convergence d = ImpactMapAccepted i" using assms by (simp add: validate_parts)
  then obtain m where m: "ds_impact_map d = Some m" "im_evidence_id m = i" and complete: "impact_map_is_complete d m"
    by (auto simp: evaluate_accepted_iff accepted_impact_iff)
  have area: "ia_criterion_id a \<in> set (dg_criterion_ids (ds_goal d)) \<and> ia_paths a \<noteq> [] \<and> ia_evidence_ids a \<noteq> [] \<and>
      (\<forall>p \<in> set (ia_paths a). path_supports_area d a p) \<and>
      (\<forall>x \<in> set (ia_evidence_ids a). evidence_supports_area d a x)" if "a \<in> set (im_areas m)" for a
    using complete that by (simp add: impact_map_is_complete_def impact_area_is_semantically_grounded_def list_all_iff)
  have path: "(\<exists>e \<in> set (bt_values (ds_file_evidence d)). fe_path e = p \<and> fe_repository_revision e = ds_repository_revision d) \<and>
      (\<exists>c. map_of (ds_candidates d) p = Some c \<and> ia_criterion_id a \<in> set (cp_criterion_ids c))"
    if "path_supports_area d a p" for a p
    using that by (auto simp: path_supports_area_def grounded_iff split: option.splits)
  have "ia_criterion_id ` set (im_areas m) = set (dg_criterion_ids (ds_goal d))"
    using complete area by (auto simp: impact_map_is_complete_def list_all_iff)
  then have "map ia_criterion_id (im_areas m) = bset_of (dg_criterion_ids (ds_goal d))"
    by (intro bset_of_sorted [OF validate_areas_ordered [OF assms(1) m(1)]]) simp
  moreover have "im_unresolved_question_ids m = []" using complete by (simp add: impact_map_is_complete_def)
  ultimately show ?thesis using m area path by blast
qed

text \<open>C26: from sufficient evidence an impact map is always synthesised, it is complete for the goal, and unless
  its identity is that of other evidence, recording it succeeds and makes the discovery accepted.\<close>

theorem sufficient_evidence_is_synthesised:
  assumes json: "json_total E" and active: "require_active_discovery_node s = Inr ()" and d: "dx_discovery s = Some d"
    and wf: "discovery_wf d" and valid: "discovery_state_validate E d = Inr ()"
    and suff: "ds_convergence d = Some (EvidenceSufficient ps es)"
  shows "\<exists>m. deterministic_discovery_impact_map E s = Inr m \<and> impact_map_is_complete d m \<and>
    (im_evidence_id m \<notin> evidence_ids d \<longrightarrow>
      (let d' = d\<lparr>ds_impact_map := Some m, ds_convergence := None\<rparr> in
       record_discovery_impact_map E s None m = Inr (s\<lparr>dx_discovery := Some d'\<rparr>) \<and>
       (\<forall>n. select_next_discovery_step d' n = Next_Converge (ImpactMapAccepted (im_evidence_id m)))))"
proof -
  obtain m where m: "deterministic_discovery_impact_map E s = Inr m"
    and new: "impact_map_new E (ds_node_id d) (ds_repository_revision d) (map (area_of d es) ps) [] = Inr m"
    by (rule deterministic_map [OF json wf valid suff d])
  have ev: "evaluate_discovery_convergence d = EvidenceSufficient ps es"
    using valid suff by (simp add: validate_parts)
  note checks = deterministic_map_checks [OF wf valid ev new]
  have none: "accepted_impact d = None" using evaluate_sufficientD [OF ev] by simp
  have accepted: "accepted_impact (conclude d (Some m) None) = Some m"
    using checks(1) by (simp add: accepted_impact_iff)
  have "record_discovery_impact_map E s None m = Inr (s\<lparr>dx_discovery := Some (conclude d (Some m) None)\<rparr>)"
    if "im_evidence_id m \<notin> evidence_ids d"
    using validate_with_map [OF valid checks(2) _ that] impact_map_new_fields [OF new] active d m suff none
    by (simp add: record_discovery_impact_map_def impact_map_source_guard_def the_discovery_def ok_or_def
        commit_discovery_def from_discovery_def require_def conclude_def)
  moreover have "select_next_discovery_step (conclude d (Some m) None) n = Next_Converge (ImpactMapAccepted (im_evidence_id m))" for n
    using accepted evaluate_accepted_iff [of "conclude d (Some m) None" "im_evidence_id m"]
    by (simp add: select_converge_iff)
  ultimately show ?thesis using m checks(1) by (auto simp: conclude_def Let_def)
qed

text \<open>C29: when discovery is to converge and no convergence is recorded, recording the selected one succeeds, with
  one exception: with calls left and a relationship question open it is refused.\<close>

theorem selected_convergence_recorded:
  assumes active: "require_active_discovery_node s = Inr ()" and idle: "es_discovery_action s = None"
    and d: "dx_discovery s = Some d" and new: "ds_convergence d = None" and wf: "discovery_wf d"
    and valid: "discovery_state_validate E d = Inr ()"
    and r: "discovery_budget_remaining s (ds_node_id d) = Inr r"
    and sel: "select_next_discovery_step d (admissible_model_calls r) = Next_Converge c"
  shows "record_discovery_convergence E s c =
    (if admissible_model_calls r \<noteq> 0 \<and> c = Conv_BudgetBlocked RelationshipEvidenceMissing
     then Inl (V_DiscoveryContract ''discovery_convergence_before_exact_exhaustion'')
     else Inr (s\<lparr>dx_discovery := Some (d\<lparr>ds_convergence := Some c\<rparr>)\<rparr>))"
  by (rule record_selected_convergence [OF active idle d new wf valid r sel])

section \<open>Runs\<close>

text \<open>C28: along every run of discovery, graph and budget events, in any order and with the preparation of
  actions among them, the discovery state stays valid, the goal and the revision stay what they were, and no
  search, file or relationship is lost or replaced; a candidate keeps its path and rank and only gains reasons,
  sources and criteria.\<close>

theorem discovery_evidence_is_kept:
  assumes "dx_discovery s = Some d" and "discovery_wf d" and "discovery_state_validate E d = Inr ()"
    and "fold_res (apply_payload E) s events = Inr t"
  shows "\<exists>d'. dx_discovery t = Some d' \<and> discovery_wf d' \<and> discovery_state_validate E d' = Inr () \<and>
    evidence_kept d d'"
proof -
  have good: "aggregate_good E s" using assms(1-3) by (simp add: aggregate_good_def discovery_good_def extend_discovery)
  then have "aggregate_good E t" and "aggregate_grows s t"
    using aggregate_growth.run_good aggregate_growth.run_grows assms(4) by blast+
  then show ?thesis
    using assms(1) by (auto simp: aggregate_good_def aggregate_grows_def discovery_good_def discovery_grows_def extend_discovery)
qed

lemma accepted_map_is_grounded_witness:
  "\<exists>m. ds_impact_map sample_accepted = Some m \<and> im_evidence_id m = im_evidence_id sample_map \<and>
    map ia_criterion_id (im_areas m) = [''c'']"
  using accepted_map_is_grounded [OF sample_accepted_valid, of "im_evidence_id sample_map"]
  by (auto simp: sample_accepted_def bset_of_def)

lemma sufficient_evidence_is_synthesised_witness:
  "\<exists>m t. deterministic_discovery_impact_map XD (at_discovery sample_ready) = Inr m \<and>
    record_discovery_impact_map XD (at_discovery sample_ready) None m = Inr t"
proof -
  have suff: "ds_convergence sample_ready = Some (EvidenceSufficient [(''c'', [''m''])] [fe_evidence_id sample_file])"
    by (simp add: SAMPLE_SUFFICIENT_def)
  show ?thesis
    using sufficient_evidence_is_synthesised [OF XD_json(2) at_discovery_active at_discovery_fields(1)
        sample_covered_wf sample_ready_valid suff] sample_map_fresh
    by (auto simp: sample_map_new(1) Let_def)
qed

lemma selected_convergence_recorded_witness:
  "record_discovery_convergence XD (at_discovery sample_open) (Conv_BudgetBlocked RelationshipEvidenceMissing) =
    Inl (V_DiscoveryContract ''discovery_convergence_before_exact_exhaustion'')"
  using selected_convergence_recorded [OF at_discovery_active at_discovery_fields(3,1) _ sample_open_wf
      sample_open_state(5), of "\<lparr>dr_model_calls = 3, dr_cost_micros = 1000, dr_duration_ms = 5000\<rparr>"
      "Conv_BudgetBlocked RelationshipEvidenceMissing"] sample_open_state(2-4)
  by (simp add: at_discovery_budget admissible_model_calls_def remaining_is_exhausted_def select_converge_iff)

lemma discovery_evidence_is_kept_witness:
  "(\<exists>t. fold_res (apply_payload XD) aggregate_start first_run = Inr t \<and>
    (\<exists>d'. dx_discovery t = Some d' \<and> discovery_state_validate XD d' = Inr () \<and> ds_completed_searches d' \<noteq> [])) \<and>
  (\<exists>t. fold_res (apply_payload XD) (discovery_execution.extend (at_discovery sample_ready)
      (discovery_execution.more aggregate_start)) [DE_Discovery (ImpactMapRecorded None sample_map)] = Inr t \<and>
    (\<exists>d'. dx_discovery t = Some d' \<and> evidence_kept sample_ready d'))"
proof (rule conjI)
  obtain t where t: "fold_res (apply_payload XD) aggregate_start first_run = Inr t" "dx_discovery t = Some searched"
    using first_run_succeeds by blast
  then show "\<exists>t. fold_res (apply_payload XD) aggregate_start first_run = Inr t \<and>
    (\<exists>d'. dx_discovery t = Some d' \<and> discovery_state_validate XD d' = Inr () \<and> ds_completed_searches d' \<noteq> [])"
    using discovery_evidence_is_kept [OF aggregate_start_parts(2) empty_discovery_valid(2,1) t(1)]
    by (auto simp: searched_def)
next
  let ?s = "discovery_execution.extend (at_discovery sample_ready) (discovery_execution.more aggregate_start)"
  have s: "dx_discovery ?s = Some sample_ready" by (simp add: extend_discovery)
  obtain t where t: "fold_res (apply_payload XD) ?s [DE_Discovery (ImpactMapRecorded None sample_map)] = Inr t"
    using sample_map_recorded by (simp add: extend_discovery apply_discovery_event_def)
  show "\<exists>t. fold_res (apply_payload XD) ?s [DE_Discovery (ImpactMapRecorded None sample_map)] = Inr t \<and>
    (\<exists>d'. dx_discovery t = Some d' \<and> evidence_kept sample_ready d')"
    using discovery_evidence_is_kept [OF s sample_covered_wf sample_ready_valid t] t by blast
qed

end
