(* ===== verification/Profile_Facts.thy ===== *)
theory Profile_Facts
  imports Profile_Build Discovery_Facts
begin

text \<open>
  Facts about profiles: what a path that passes is, that the directories of a file pass too, that an inventory
  is in path order, and what a built profile holds.
\<close>

section \<open>Paths\<close>

lemma double_slash: "contains_str [SLASH, SLASH] v \<Longrightarrow> [] \<in> set (tl (split_on SLASH v))"
proof (induction v)
  case (Cons c s)
  show ?case
  proof (cases "starts_with [SLASH, SLASH] (c # s)")
    case True
    then obtain t where "c = SLASH" and "s = SLASH # t" by (cases s) (auto simp: starts_with_def)
    then show ?thesis by simp
  next
    case False
    with Cons show ?thesis by (auto dest: list.set_sel(2) split: if_splits list.splits)
  qed
qed simp

lemma split_snoc: "split_on c (u @ [c]) = split_on c u @ [[]]"
  by (induction u) (auto split: list.splits)

lemma final_slash: "ends_with [SLASH] v \<Longrightarrow> [] \<in> set (split_on SLASH v)"
proof -
  assume "ends_with [SLASH] v"
  then obtain u where "v = u @ [SLASH]"
    by (cases v rule: rev_cases) (auto simp: ends_with_def starts_with_def)
  then show ?thesis by (simp add: split_snoc)
qed

lemma check_components_iff: "check_path_components cs = Inr () \<longleftrightarrow> (\<forall>c \<in> set cs. plain_component c)"
  by (induction cs) (auto simp: plain_component_def)

lemma profile_path_iff:
  "validate_profile_path v = Inr () \<longleftrightarrow> v = ''.'' \<or>
    \<not> (length v > 1 \<and> v ! 1 = CHR '':'') \<and> \<not> has_control v \<and> BACKSLASH \<notin> set v \<and>
    (\<forall>c \<in> set (split_on SLASH v). plain_component c)"
proof (cases "v = ''.''")
  case True
  then show ?thesis
    by (simp add: validate_profile_path_def starts_with_def ends_with_def SLASH_def BACKSLASH_def has_control_def
        ascii_control_def byte_def)
next
  case False
  have empty: "[] \<notin> set (split_on SLASH v)" if "\<forall>c \<in> set (split_on SLASH v). plain_component c"
    using that by (auto simp: plain_component_def)
  have "v \<noteq> [] \<and> \<not> starts_with [SLASH] v \<and> \<not> ends_with [SLASH] v \<and> \<not> contains_str [SLASH, SLASH] v"
    if "\<forall>c \<in> set (split_on SLASH v). plain_component c"
    using empty [OF that] split_slash_start final_slash double_slash [of v] list.set_sel(2) [of "split_on SLASH v"]
    by fastforce
  moreover have "\<not> starts_with [BACKSLASH] v" if "BACKSLASH \<notin> set v"
    using that by (cases v) (auto simp: starts_with_def)
  ultimately show ?thesis
    using False by (auto simp: validate_profile_path_def check_components_iff)
qed

lemma c1_append: "c1_control xs \<Longrightarrow> c1_control (xs @ ys)"
  by (induction xs rule: c1_control.induct) auto

lemma control_append: "has_control xs \<Longrightarrow> has_control (xs @ ys)"
  by (auto simp: has_control_def c1_append)

definition file_ok :: "file_observation \<Rightarrow> bool" where
  "file_ok f \<longleftrightarrow> validate_profile_path (fo_path f) = Inr () \<and> fo_path f \<noteq> ''.''"

lemma join_take:
  "n < length cs \<Longrightarrow> n > 0 \<Longrightarrow> join_with sep cs = join_with sep (take n cs) @ sep @ join_with sep (drop n cs)"
proof (induction cs arbitrary: n)
  case (Cons c cs)
  then obtain m where n: "n = Suc m" using gr0_implies_Suc by blast
  show ?case
  proof (cases "m = 0")
    case True
    with Cons n show ?thesis by (cases cs) simp_all
  next
    case False
    with Cons n have "join_with sep cs = join_with sep (take m cs) @ sep @ join_with sep (drop m cs)" by simp
    with Cons n False show ?thesis by (cases cs; cases "take m cs") simp_all
  qed
qed simp

lemma join_split: "join_with [c] (split_on c s) = s"
proof (induction s)
  case (Cons x s)
  then show ?case by (cases "split_on c s"; cases "tl (split_on c s)") (auto split: list.splits)
qed simp

text \<open>A directory of a file is a path.\<close>

lemma directory_path:
  assumes "validate_profile_path v = Inr ()" and "v \<noteq> ''.''" and "0 < n" and "n \<le> length (split_on SLASH v)"
  shows "validate_profile_path (join_with [SLASH] (take n (split_on SLASH v))) = Inr ()"
proof -
  let ?cs = "split_on SLASH v" and ?p = "join_with [SLASH] (take n (split_on SLASH v))"
  have v: "\<not> (length v > 1 \<and> v ! 1 = CHR '':'')" "\<not> has_control v" "BACKSLASH \<notin> set v"
      "\<forall>c \<in> set ?cs. plain_component c"
    using assms(1,2) by (simp_all add: profile_path_iff)
  obtain rest where rest: "v = ?p @ rest"
  proof (cases "n = length ?cs")
    case True
    then show ?thesis using that [of "[]"] by (simp add: join_split)
  next
    case False
    then have "n < length ?cs" using assms(4) by simp
    from join_take [OF this assms(3), of "[SLASH]"] show ?thesis using that join_split by metis
  qed
  have "split_on SLASH ?p = take n ?cs"
    using assms(3) by (intro split_join) (auto dest: in_set_takeD split_on_pieces)
  then have "\<forall>c \<in> set (split_on SLASH ?p). plain_component c" using v(4) by (auto dest: in_set_takeD)
  moreover have "\<not> has_control ?p" using v(2) rest control_append by metis
  moreover have "BACKSLASH \<notin> set ?p" using v(3) rest by (metis UnCI set_append)
  moreover have "\<not> (length ?p > 1 \<and> ?p ! 1 = CHR '':'')"
  proof
    assume a: "length ?p > 1 \<and> ?p ! 1 = CHR '':''"
    then have "v ! 1 = CHR '':''" using rest nth_append [of ?p rest 1] by simp
    moreover have "length v > 1" using a rest by (metis length_append trans_less_add1)
    ultimately show False using v(1) by blast
  qed
  ultimately show ?thesis by (simp add: profile_path_iff)
qed

lemma parent_path: "file_ok f \<Longrightarrow> validate_profile_path (path_parent (fo_path f)) = Inr ()"
proof -
  assume ok: "file_ok f"
  let ?cs = "split_on SLASH (fo_path f)"
  show ?thesis
  proof (cases "SLASH \<in> set (fo_path f)")
    case True
    then obtain u w where "fo_path f = u @ SLASH # w" "SLASH \<notin> set u" using split_list_first by metis
    then have "length ?cs > 1" by (simp add: split_on_append)
    then have "validate_profile_path (join_with [SLASH] (take (length ?cs - 1) ?cs)) = Inr ()"
      using ok by (intro directory_path) (simp_all add: file_ok_def)
    then show ?thesis using True by (simp add: path_parent_def butlast_conv_take)
  qed (simp add: path_parent_def root_path_def profile_path_iff)
qed

lemma upto_first_take: "upto_first P xs = Some ys \<Longrightarrow> \<exists>n. 0 < n \<and> n \<le> length xs \<and> ys = take n xs"
proof (induction xs arbitrary: ys)
  case (Cons x xs)
  show ?case
  proof (cases "P x")
    case True
    with Cons.prems show ?thesis by (intro exI [of _ 1]) simp
  next
    case False
    with Cons.prems obtain zs where "upto_first P xs = Some zs" "ys = x # zs" by auto
    with Cons.IH obtain n where "n \<le> length xs" "zs = take n xs" by blast
    with \<open>ys = x # zs\<close> show ?thesis by (intro exI [of _ "Suc n"]) simp
  qed
qed simp

lemma root_is_path: "validate_profile_path root_path = Inr ()"
  by (simp add: root_path_def profile_path_iff)

lemma file_root_path:
  assumes "file_ok f"
  shows "file_root (fo_path f) = Source_Root r \<or> file_root (fo_path f) = Test_Root r \<Longrightarrow> validate_profile_path r = Inr ()"
proof -
  have dir: "validate_profile_path (join_with [SLASH] cs) = Inr ()"
    if "upto_first P (split_on SLASH (fo_path f)) = Some cs" for P cs
    using upto_first_take [OF that] directory_path assms by (auto simp: file_ok_def)
  show "file_root (fo_path f) = Source_Root r \<or> file_root (fo_path f) = Test_Root r \<Longrightarrow> validate_profile_path r = Inr ()"
    using dir by (auto simp: file_root_def Let_def root_is_path split: option.splits if_splits)
qed

section \<open>The inventory\<close>

definition inventory_ok :: "inventory \<Rightarrow> bool" where
  "inventory_ok iv \<longleftrightarrow> sorted_wrt (<) (map fo_path (iv_files iv)) \<and> (\<forall>f \<in> set (iv_files iv). file_ok f)"

definition same_file :: "file_observation \<Rightarrow> file_observation \<Rightarrow> bool" where
  "same_file f g \<longleftrightarrow> fo_path f = fo_path g \<and> fo_content_hash f = fo_content_hash g \<and> fo_byte_len f = fo_byte_len g"

text \<open>What the map of canonical observations keeps of those seen so far.\<close>

definition covers_observations :: "file_observation list \<Rightarrow> (profile_path, file_observation) btree_map \<Rightarrow> bool" where
  "covers_observations seen m \<longleftrightarrow> bt_wf m \<and> (\<forall>(k, f) \<in> set m. fo_path f = k \<and> f \<in> set seen) \<and>
     (\<forall>x \<in> set seen. \<exists>f. map_of m (fo_path x) = Some f \<and> same_file x f \<and>
       (fo_captured_content x \<noteq> None \<longrightarrow> fo_captured_content f \<noteq> None))"

lemma canonical_step:
  assumes cov: "covers_observations seen m" and step: "canonical_observation m x = Inr m'"
  shows "covers_observations (seen @ [x]) m'"
proof -
  have wf: "bt_wf m" using cov by (simp add: covers_observations_def)
  have entries: "map_of m k = Some f \<Longrightarrow> fo_path f = k \<and> f \<in> set seen" for k f
    using cov by (auto simp: covers_observations_def dest: map_of_SomeD)
  have kept: "\<exists>f. map_of m (fo_path y) = Some f \<and> same_file y f \<and>
      (fo_captured_content y \<noteq> None \<longrightarrow> fo_captured_content f \<noteq> None)" if "y \<in> set seen" for y
    using cov that by (auto simp: covers_observations_def)
  consider "m' = m" "\<exists>f. map_of m (fo_path x) = Some f \<and> same_file x f \<and>
        (fo_captured_content x \<noteq> None \<longrightarrow> fo_captured_content f \<noteq> None)"
    | "m' = bt_insert (fo_path x) x m" "\<forall>f. map_of m (fo_path x) = Some f \<longrightarrow> same_file x f \<and>
        fo_captured_content x \<noteq> None"
  proof (cases "map_of m (fo_path x)")
    case None
    then show ?thesis using step that(2) by (simp add: canonical_observation_def)
  next
    case (Some f)
    then have "same_file x f" and "m' = (if fo_captured_content f = None \<and> fo_captured_content x \<noteq> None
        then bt_insert (fo_path x) x m else m)"
      using step entries [OF Some] by (auto simp: canonical_observation_def same_file_def split: if_splits)
    then show ?thesis using that Some by (auto split: if_splits)
  qed
  then show ?thesis
  proof cases
    case 1
    then show ?thesis using cov by (auto simp: covers_observations_def)
  next
    case 2
    have "fo_path f = k \<and> f \<in> set (seen @ [x])" if "(k, f) \<in> set m'" for k f
    proof -
      have "map_of m' k = Some f" using that bt_wf_map_of_iff [OF bt_wf_insert [OF wf]] by (simp add: 2(1))
      then show ?thesis using entries [of k f] by (cases "k = fo_path x") (simp_all add: 2(1) map_of_bt_insert)
    qed
    moreover have "\<exists>f. map_of m' (fo_path y) = Some f \<and> same_file y f \<and>
        (fo_captured_content y \<noteq> None \<longrightarrow> fo_captured_content f \<noteq> None)" if y: "y \<in> set (seen @ [x])" for y
    proof (cases "fo_path y = fo_path x")
      case True
      have now: "map_of m' (fo_path y) = Some x" by (simp add: True 2(1) map_of_bt_insert)
      show ?thesis
      proof (cases "y = x")
        case True
        with now show ?thesis by (simp add: same_file_def)
      next
        case False
        with y have "y \<in> set seen" by simp
        from kept [OF this] obtain f where "map_of m (fo_path x) = Some f" and y: "same_file y f" by (auto simp: True)
        with 2(2) have "same_file x f" and "fo_captured_content x \<noteq> None" by blast+
        with y have "same_file y x" by (simp add: same_file_def)
        with now \<open>fo_captured_content x \<noteq> None\<close> show ?thesis by blast
      qed
    next
      case False
      with y have "y \<in> set seen" by auto
      moreover have "map_of m' (fo_path y) = map_of m (fo_path y)" using False by (simp add: 2(1) map_of_bt_insert)
      ultimately show ?thesis using kept [of y] by (simp only:)
    qed
    ultimately show ?thesis
      unfolding covers_observations_def using bt_wf_insert [OF wf] 2(1) by blast
  qed
qed

lemma canonical_fold:
  "fold_res canonical_observation m xs = Inr m' \<Longrightarrow> covers_observations seen m \<Longrightarrow> covers_observations (seen @ xs) m'"
proof (induction xs arbitrary: m seen)
  case (Cons x xs)
  then obtain n where n: "canonical_observation m x = Inr n" "fold_res canonical_observation n xs = Inr m'"
    by (auto simp: bnd_Inr_iff)
  from Cons.IH [OF n(2) canonical_step [OF Cons.prems(2) n(1)]] show ?case by simp
qed simp

lemma inventory_new_covers:
  assumes "inventory_new revision observations = Inr iv"
  shows "\<exists>m. covers_observations observations m \<and> iv_files iv = bt_values m \<and> iv_repository_revision iv = revision"
proof -
  obtain m where "fold_res canonical_observation [] observations = Inr m" and iv: "iv_files iv = bt_values m"
      "iv_repository_revision iv = revision"
    using assms by (auto simp: inventory_new_def bnd_Inr_iff Let_def split: if_splits)
  moreover have "covers_observations [] []" by (simp add: covers_observations_def)
  ultimately have "covers_observations ([] @ observations) m" by (intro canonical_fold)
  with iv show ?thesis by auto
qed

lemma covered_files:
  assumes "covers_observations seen m"
  shows "map fo_path (bt_values m) = map fst m" and "set (bt_values m) \<subseteq> set seen"
  using assms by (auto simp: covers_observations_def bt_values_def)

lemma inventory_new_ok:
  assumes "inventory_new revision observations = Inr iv" and "\<forall>f \<in> set observations. file_ok f"
  shows "inventory_ok iv"
proof -
  obtain m where m: "covers_observations observations m" "iv_files iv = bt_values m"
    using inventory_new_covers [OF assms(1)] by blast
  then have "sorted_wrt (<) (map fst m)" by (simp add: covers_observations_def bt_wf_def)
  then show ?thesis using covered_files [OF m(1)] m(2) assms(2) by (auto simp: inventory_ok_def)
qed

lemma observed_file_ok:
  "file_from_bytes E path content = Inr f \<Longrightarrow> file_ok f" "file_opaque path n h = Inr f \<Longrightarrow> file_ok f"
  by (auto simp: file_from_bytes_def file_opaque_def observation_path_def profile_path_new_def bnd_Inr_iff file_ok_def
      is_root_def split: if_splits)

section \<open>Building\<close>

lemma map_filter_set: "set (List.map_filter f xs) = {y. \<exists>x \<in> set xs. f x = Some y}"
  by (force simp: map_filter_def)

lemma sorted_map_filter:
  assumes "sorted_wrt (<) (map k xs)" and "\<And>x y. f x = Some y \<Longrightarrow> l y = k x"
  shows "sorted_wrt (<) (map l (List.map_filter f xs))"
  using assms(1)
proof (induction xs)
  case (Cons x xs)
  have "k x < l y" if "y \<in> set (List.map_filter f xs)" for y
    using that Cons.prems assms(2) by (auto simp: map_filter_set)
  then show ?case using Cons assms(2) by (auto simp: map_filter_simps split: option.splits)
qed (simp add: map_filter_simps)

lemma strictly_sorted_bset: "is_strictly_sorted (bset_of xs)"
proof -
  have "sorted_wrt (<) (bset_of xs)" by (simp add: strict_sorted_iff)
  then show ?thesis unfolding is_strictly_sorted_def using adjacent_sorted [of id] by simp
qed

lemma less_metadata: "mt_path a < mt_path b \<Longrightarrow> a < b"
  by (simp add: less_metadata_observation_def metadata_observation_key_def)

lemma less_rule: "gr_path a < gr_path b \<Longrightarrow> a < b"
  by (simp add: less_generated_rule_def generated_rule_key_def)

lemma bset_by_path:
  assumes "\<And>a b. l a < l b \<Longrightarrow> (a :: 'a::linorder) < b" and "sorted_wrt (<) (map l xs)"
  shows "bset_of xs = xs" and "bset_of (map l xs) = map l (xs :: 'a list)"
proof -
  have "sorted_wrt (\<lambda>a b. l a < l b) xs" using assms(2) by (simp only: sorted_wrt_map)
  then have "sorted_wrt (<) xs" by (rule sorted_wrt_mono_rel [rotated]) (rule assms(1))
  then show "bset_of xs = xs" by (rule bset_of_same)
  show "bset_of (map l xs) = map l xs" using assms(2) by (rule bset_of_same)
qed

lemma file_metadata_path: "file_metadata E scripts r f = Some m \<Longrightarrow> mt_path m = fo_path f"
  by (auto simp: file_metadata_def split: option.splits)

lemma file_rule_path: "file_rule E r f = Some x \<Longrightarrow> gr_path x = fo_path f"
  by (auto simp: file_rule_def split: option.splits)

text \<open>What the built profile holds, with the vectors in file order already sorted.\<close>

lemma build_holds:
  assumes ok: "inventory_ok iv" and built: "build_repository_profile E scripts iv = Inr p"
  defines "metadata \<equiv> List.map_filter (file_metadata E scripts (iv_repository_revision iv)) (iv_files iv)"
  shows "rp_metadata_files p = metadata" and "rp_dependency_files p = map mt_path metadata"
    and "rp_generated_rules p = List.map_filter (file_rule E (iv_repository_revision iv)) (iv_files iv)"
    and "sorted_wrt (<) (map mt_path metadata)"
    and "sorted_wrt (<) (map gr_path (rp_generated_rules p))"
proof -
  have files: "sorted_wrt (<) (map fo_path (iv_files iv))" using ok by (simp add: inventory_ok_def)
  show sorted: "sorted_wrt (<) (map mt_path metadata)"
    unfolding metadata_def by (rule sorted_map_filter [OF files]) (rule file_metadata_path)
  have rules: "sorted_wrt (<) (map gr_path (List.map_filter (file_rule E (iv_repository_revision iv)) (iv_files iv)))"
    by (rule sorted_map_filter [OF files]) (rule file_rule_path)
  note m = bset_by_path [where l = mt_path, OF less_metadata sorted]
  show "rp_metadata_files p = metadata" "rp_dependency_files p = map mt_path metadata"
    using built m by (auto simp: build_repository_profile_def Let_def bnd_Inr_iff metadata_def split: prod.splits)
  show "rp_generated_rules p = List.map_filter (file_rule E (iv_repository_revision iv)) (iv_files iv)"
    using built bset_by_path(1) [where l = gr_path, OF less_rule rules]
    by (auto simp: build_repository_profile_def Let_def bnd_Inr_iff split: prod.splits)
  with rules show "sorted_wrt (<) (map gr_path (rp_generated_rules p))" by simp
qed

lemma find_key:
  assumes "sorted_wrt (<) (map (k :: 'a \<Rightarrow> 'b::linorder) xs)" and "x \<in> set xs"
  shows "List.find (\<lambda>y. k y = k x) xs = Some (x :: 'a)"
  using assms
proof (induction xs)
  case (Cons y xs)
  then show ?case by (cases "y = x") force+
qed simp

end
