(* ===== verification/Profile_Properties.thy ===== *)
theory Profile_Properties
  imports Profile_Facts
begin

text \<open>
  What the repository profile guarantees: a profile built from observed files passes its own check, and it
  marks exactly the files that say they are generated.
\<close>

section \<open>Each vector passes its check\<close>

lemma check_each_iff: "check_each f xs = Inr () \<longleftrightarrow> (\<forall>x \<in> set xs. f x = Inr ())"
  unfolding check_each_def by (induction xs) (auto simp: bnd_Inr_iff)

text \<open>The lock files are the kinds without a capability.\<close>

definition unreadable_lock :: "file_observation \<Rightarrow> bool" where
  "unreadable_lock f \<longleftrightarrow> (\<exists>kind content. metadata_kind (fo_path f) = Some kind \<and> metadata_capability kind = None \<and>
     fo_captured_content f = Some content \<and> \<not> utf8_valid content)"

lemma status_matches_iff:
  "status_matches kind (metadata_status scripts kind content) \<longleftrightarrow>
    \<not> (metadata_capability kind = None \<and> (\<exists>c. content = Some c \<and> \<not> utf8_valid c))"
  by (cases kind) (auto simp: metadata_status_def bool_status_def split: option.splits)

lemma commands_match:
  "(c, k) \<in> set (metadata_commands scripts kind content) \<Longrightarrow> k = class_of c \<and> command_matches_metadata c kind"
  by (cases kind) (auto simp: Let_def split: if_splits)


text \<open>The fields of a built profile that do not depend on the order of its vectors.\<close>

lemma build_rest:
  assumes "build_repository_profile E scripts iv = Inr p"
  defines "metadata \<equiv> List.map_filter (file_metadata E scripts (iv_repository_revision iv)) (iv_files iv)"
  defines "found \<equiv> List.map_filter metadata_ecosystem metadata"
  shows "rp_schema_version p = REPOSITORY_PROFILE_SCHEMA_VERSION" and "rp_text_file_limits p = file_size_policy_default"
    and "rp_repository_revision p = iv_repository_revision iv" and "derive_profile_id E p = Inr (rp_profile_id p)"
    and "rp_ecosystems p = bset_of (if found = []
      then [generic_capability E (iv_repository_revision iv) (rp_inventory_fingerprint p)] else found)"
    and "rp_uncertainties p = bset_of (List.map_filter metadata_uncertainty metadata @
      (if found = [] then [Profile_Uncertainty NoKnownEcosystem None None] else []))"
    and "rp_validation_candidates p = bset_of (concat (map (file_commands E scripts (iv_repository_revision iv)) (iv_files iv)))"
    and "(rp_source_roots p, rp_test_roots p) = classify_roots (iv_files iv) (map ec_ecosystem (rp_ecosystems p))"
    and "is_strictly_sorted (rp_generated_rules p)" and "is_strictly_sorted (rp_metadata_files p)"
    and "is_strictly_sorted (rp_dependency_files p)"
  using assms(1)
  by (auto simp: build_repository_profile_def Let_def bnd_Inr_iff metadata_def found_def derive_profile_id_def
      profile_material_def strictly_sorted_bset split: prod.splits)


lemma ecosystems_known:
  assumes "found = List.map_filter metadata_ecosystem metadata"
  shows "list_ex (\<lambda>c. ec_ecosystem c = Eco_Unknown)
    (bset_of (if found = [] then [generic_capability E r h] else found)) \<longleftrightarrow> found = []"
proof (cases "found = []")
  case False
  have "metadata_capability k = Some (e, c) \<Longrightarrow> e \<noteq> Eco_Unknown" for k e c by (cases k) auto
  then have "\<forall>c \<in> set found. ec_ecosystem c \<noteq> Eco_Unknown"
    by (auto simp: assms map_filter_set metadata_ecosystem_def)
  with False show ?thesis by (auto simp: list_ex_iff)
qed (simp add: generic_capability_def list_ex_iff)

lemma root_choice: "(case r of Source_Root p \<Rightarrow> Some p | Test_Root p \<Rightarrow> None) = Some q \<longleftrightarrow> r = Source_Root q"
  "(case r of Test_Root p \<Rightarrow> Some p | Source_Root p \<Rightarrow> None) = Some q \<longleftrightarrow> r = Test_Root q"
  by (cases r; simp)+

lemma roots_are_paths:
  assumes "\<forall>f \<in> set files. file_ok f" and "r \<in> set (fst (classify_roots files es)) \<union> set (snd (classify_roots files es))"
  shows "validate_profile_path r = Inr ()"
proof -
  obtain f where "f \<in> set files" and "file_root (fo_path f) = Source_Root r \<or> file_root (fo_path f) = Test_Root r"
    using assms(2) by (auto simp: classify_roots_def Let_def map_filter_set root_choice)
  then show ?thesis using assms(1) file_root_path by blast
qed

lemma metadata_checked:
  assumes "file_ok f" and "file_metadata E scripts (rp_repository_revision p) f = Some m"
  shows "check_metadata E p m = Inr () \<longleftrightarrow> \<not> unreadable_lock f"
proof -
  obtain kind where kind: "metadata_kind (fo_path f) = Some kind"
    using assms(2) by (auto simp: file_metadata_def split: option.split_asm)
  then have "check_metadata E p m = Inr () \<longleftrightarrow> status_matches kind (metadata_status scripts kind (fo_captured_content f))"
    using assms by (auto simp: file_metadata_def check_metadata_def file_ok_def is_root_def inconsistent_def
        simp del: status_matches.simps)
  then show ?thesis using kind by (simp only: status_matches_iff unreadable_lock_def) auto
qed

lemma rule_checked:
  assumes "file_ok f" and "file_rule E (rp_repository_revision p) f = Some r"
  shows "check_generated_rule E p r = Inr ()"
  using assms
  by (auto simp: file_rule_def check_generated_rule_def file_ok_def is_root_def split: option.splits)

lemma candidate_checked:
  assumes ok: "file_ok f" and c: "c \<in> set (file_commands E scripts (rp_repository_revision p) f)"
    and unique: "\<And>m. file_metadata E scripts (rp_repository_revision p) f = Some m \<Longrightarrow> mt_status m = Parsed \<Longrightarrow>
      List.find (\<lambda>x. mt_evidence_id x = mt_evidence_id m \<and> mt_status x = Parsed) (rp_metadata_files p) = Some m"
  shows "check_command_candidate E p c = Inr ()"
proof -
  obtain m where m: "file_metadata E scripts (rp_repository_revision p) f = Some m" "mt_status m = Parsed"
    and c: "c \<in> set (command_candidates E scripts (mt_kind m) f (mt_evidence_id m))"
    using c by (cases "file_metadata E scripts (rp_repository_revision p) f")
      (auto simp: file_commands_def split: if_splits)
  from c obtain k where "k \<in> set (metadata_commands scripts (mt_kind m) (fo_captured_content f))"
    and c: "c = Command_Candidate (command_candidate_id E (mt_evidence_id m) (fst k) (path_parent (fo_path f)))
      (fst k) (snd k) (path_parent (fo_path f)) (ParsedProjectMetadata (mt_evidence_id m)) CandidateOnly"
    by (auto simp: command_candidates_def Let_def)
  then have "snd k = class_of (fst k) \<and> command_matches_metadata (fst k) (mt_kind m)"
    using commands_match [of "fst k" "snd k"] by simp
  moreover have "mt_path m = fo_path f" by (rule file_metadata_path [OF m(1)])
  ultimately show ?thesis
    using unique [OF m] parent_path [OF ok] by (simp add: c check_command_candidate_def)
qed

lemma find_unique:
  assumes "inj_on k (set xs)" and "x \<in> set xs" and "P x"
  shows "List.find (\<lambda>y. k y = k x \<and> P y) xs = Some x"
  using assms
proof (induction xs)
  case (Cons y xs)
  then show ?case by (cases "y = x") (auto dest: inj_onD)
qed simp

definition distinct_evidence :: "externs \<Rightarrow> inventory \<Rightarrow> bool" where
  "distinct_evidence E iv \<longleftrightarrow> inj_on (\<lambda>f. profile_evidence_id E (iv_repository_revision iv) ''metadata''
     (fo_path f) (fo_content_hash f)) (set (iv_files iv))"

lemma metadata_found:
  assumes ids: "distinct_evidence E iv" and "f \<in> set (iv_files iv)"
    and m: "file_metadata E scripts (iv_repository_revision iv) f = Some m" "mt_status m = Parsed"
  defines "metadata \<equiv> List.map_filter (file_metadata E scripts (iv_repository_revision iv)) (iv_files iv)"
  shows "List.find (\<lambda>x. mt_evidence_id x = mt_evidence_id m \<and> mt_status x = Parsed) metadata = Some m"
proof (rule find_unique)
  have id: "mt_evidence_id x = profile_evidence_id E (iv_repository_revision iv) ''metadata'' (fo_path g) (fo_content_hash g)"
    if "file_metadata E scripts (iv_repository_revision iv) g = Some x" for g x
    using that by (auto simp: file_metadata_def split: option.splits)
  show "inj_on mt_evidence_id (set metadata)"
  proof (rule inj_onI)
    fix x y assume "x \<in> set metadata" and "y \<in> set metadata" and same: "mt_evidence_id x = mt_evidence_id y"
    then obtain g h where g: "g \<in> set (iv_files iv)" "file_metadata E scripts (iv_repository_revision iv) g = Some x"
      and h: "h \<in> set (iv_files iv)" "file_metadata E scripts (iv_repository_revision iv) h = Some y"
      by (auto simp: metadata_def map_filter_set)
    have "g = h"
      using ids g(1) h(1) same id [OF g(2)] id [OF h(2)] unfolding distinct_evidence_def by (metis (mono_tags, lifting) inj_onD)
    with g h show "x = y" by simp
  qed
  show "m \<in> set metadata" using assms(2) m by (auto simp: metadata_def map_filter_set)
qed (rule m(2))


section \<open>A built profile and its check\<close>

lemma built_ecosystems:
  assumes ok: "inventory_ok iv" and built: "build_repository_profile E scripts iv = Inr p"
  shows "validate_ecosystems E p = Inr ()" and "validate_uncertainties p = Inr ()"
proof -
  note b = build_holds [OF ok built] and r = build_rest [OF built]
  let ?metadata = "List.map_filter (file_metadata E scripts (iv_repository_revision iv)) (iv_files iv)"
  let ?found = "List.map_filter metadata_ecosystem ?metadata"
  show "validate_ecosystems E p = Inr ()"
    using b(1) r(3,5) by (simp add: validate_ecosystems_def Let_def)
  have known: "list_ex (\<lambda>c. ec_ecosystem c = Eco_Unknown) (rp_ecosystems p) \<longleftrightarrow> ?found = []"
    unfolding r(5) by (rule ecosystems_known) (rule refl)
  show "validate_uncertainties p = Inr ()"
    unfolding validate_uncertainties_def Let_def known b(1) r(6) by simp
qed

lemma built_canonical:
  assumes "build_repository_profile E scripts iv = Inr p"
  shows "check_each (\<lambda>(name, canonical). require canonical (Prof_NonCanonicalField name)) (canonical_fields p) = Inr ()"
proof -
  note r = build_rest [OF assms]
  have "is_strictly_sorted (rp_source_roots p) \<and> is_strictly_sorted (rp_test_roots p)"
    using r(8) by (auto simp: classify_roots_def Let_def strictly_sorted_bset)
  then show ?thesis
    using r(5,6,7,9,10,11) by (simp add: check_each_iff canonical_fields_def strictly_sorted_bset)
qed

lemma built_paths:
  assumes ok: "inventory_ok iv" and built: "build_repository_profile E scripts iv = Inr p"
  shows "check_each validate_profile_path (rp_source_roots p @ rp_test_roots p @ rp_dependency_files p) = Inr ()"
proof -
  have files: "\<forall>f \<in> set (iv_files iv). file_ok f" using ok by (simp add: inventory_ok_def)
  have "validate_profile_path r = Inr ()" if "r \<in> set (rp_source_roots p) \<union> set (rp_test_roots p)" for r
    using that roots_are_paths [OF files, of r "map ec_ecosystem (rp_ecosystems p)"] build_rest(8) [OF built]
    by (metis fst_conv snd_conv)
  moreover have "validate_profile_path r = Inr ()" if dep: "r \<in> set (rp_dependency_files p)" for r
  proof -
    obtain f m where "f \<in> set (iv_files iv)" "file_metadata E scripts (iv_repository_revision iv) f = Some m" "r = mt_path m"
      using dep unfolding build_holds(2) [OF ok built] by (auto simp: map_filter_set)
    then show ?thesis using files file_metadata_path by (auto simp: file_ok_def)
  qed
  ultimately show ?thesis by (auto simp: check_each_iff)
qed

lemma built_metadata:
  assumes ok: "inventory_ok iv" and built: "build_repository_profile E scripts iv = Inr p"
  shows "check_each (check_metadata E p) (rp_metadata_files p) = Inr () \<longleftrightarrow>
    (\<forall>f \<in> set (iv_files iv). \<not> unreadable_lock f)"
proof -
  have files: "\<forall>f \<in> set (iv_files iv). file_ok f" using ok by (simp add: inventory_ok_def)
  have rev: "rp_repository_revision p = iv_repository_revision iv" by (rule build_rest(3) [OF built])
  have checked: "check_metadata E p m = Inr () \<longleftrightarrow> \<not> unreadable_lock f"
    if "f \<in> set (iv_files iv)" "file_metadata E scripts (iv_repository_revision iv) f = Some m" for f m
    using metadata_checked [of f E scripts p m] files that rev by simp
  have "\<exists>m. file_metadata E scripts (iv_repository_revision iv) f = Some m" if "unreadable_lock f" for f
    using that by (auto simp: unreadable_lock_def file_metadata_def)
  then show ?thesis
    unfolding check_each_iff build_holds(1) [OF ok built] map_filter_set using checked by blast
qed

lemma built_rules:
  assumes ok: "inventory_ok iv" and built: "build_repository_profile E scripts iv = Inr p"
  shows "check_each (check_generated_rule E p) (rp_generated_rules p) = Inr ()"
proof -
  have "check_generated_rule E p r = Inr ()" if "r \<in> set (rp_generated_rules p)" for r
    using that rule_checked build_rest(3) [OF built] ok
    by (auto simp: build_holds(3) [OF ok built] map_filter_set inventory_ok_def)
  then show ?thesis by (simp add: check_each_iff)
qed

lemma built_candidates:
  assumes ok: "inventory_ok iv" and built: "build_repository_profile E scripts iv = Inr p"
    and ids: "distinct_evidence E iv"
  shows "check_each (check_command_candidate E p) (rp_validation_candidates p) = Inr ()"
proof -
  have rev: "rp_repository_revision p = iv_repository_revision iv" by (rule build_rest(3) [OF built])
  have "check_command_candidate E p c = Inr ()" if cand: "c \<in> set (rp_validation_candidates p)" for c
  proof -
    obtain f where f: "f \<in> set (iv_files iv)" "c \<in> set (file_commands E scripts (rp_repository_revision p) f)"
      using cand by (auto simp: build_rest(7) [OF built] rev)
    have "file_ok f" using ok f(1) by (simp add: inventory_ok_def)
    then show ?thesis
      by (rule candidate_checked [OF _ f(2)])
        (simp add: rev build_holds(1) [OF ok built] metadata_found [OF ids f(1)])
  qed
  then show ?thesis by (simp add: check_each_iff)
qed

text \<open>C31: a profile built from observed files passes its own validation, and confers no authority to run a
  command, exactly when no captured lock file is malformed UTF-8: such a file is recorded as malformed, a
  status that validation does not admit for a lock file.\<close>

theorem built_profile_validates:
  assumes observed: "\<forall>f \<in> set observations. (\<exists>path content. file_from_bytes E path content = Inr f) \<or>
      (\<exists>path n h. file_opaque path n h = Inr f)"
    and iv: "inventory_new revision observations = Inr iv"
    and built: "build_repository_profile E scripts iv = Inr p"
    and ids: "distinct_evidence E iv"
  shows "profile_validate E p = Inr () \<and> \<not> has_executable_command_authority p \<longleftrightarrow>
    (\<forall>f \<in> set (iv_files iv). \<not> unreadable_lock f)"
proof -
  have ok: "inventory_ok iv" using inventory_new_ok [OF iv] observed observed_file_ok by metis
  note r = build_rest [OF built]
  have "\<not> has_executable_command_authority p"
    by (simp add: has_executable_command_authority_def list_ex_iff) (metis command_authority.exhaust)
  moreover have "rp_dependency_files p = map mt_path (rp_metadata_files p)"
    by (simp only: build_holds(1,2) [OF ok built])
  ultimately show ?thesis
    unfolding built_metadata [OF ok built, symmetric] profile_validate_def
    using built_canonical [OF built] built_paths [OF ok built] built_ecosystems [OF ok built]
      built_rules [OF ok built] built_candidates [OF ok built ids] r(1,2,4)
    by (simp add: bnd_Inr_iff)
qed


definition XP :: externs where
  "XP = \<lparr>sha256_hex = id, to_json = (\<lambda>v. Some []), parse_url = (\<lambda>s. None), str_lowercase = ascii_lower\<rparr>"

definition broken_lock :: file_observation where
  "broken_lock = \<lparr>fo_path = ''Cargo.lock'', fo_byte_len = 1, fo_content_hash = [CHR 0xFF],
     fo_captured_content = Some [CHR 0xFF]\<rparr>"

definition broken_inventory :: inventory where
  "broken_inventory = \<lparr>iv_repository_revision = ''r'', iv_files = [broken_lock], iv_total_bytes = 1,
     iv_captured_bytes = 1\<rparr>"

lemma sample_paths: "validate_profile_path ''Cargo.lock'' = Inr ()" "validate_profile_path ''x.rs'' = Inr ()"
  by (simp_all add: profile_path_iff SLASH_def BACKSLASH_def has_control_def ascii_control_def plain_component_def
      byte_def)

lemma broken_lock_observed: "file_from_bytes XP ''Cargo.lock'' [CHR 0xFF] = Inr broken_lock"
  by (simp add: file_from_bytes_def observation_path_def profile_path_new_def sample_paths is_root_def
      broken_lock_def XP_def MAX_CAPTURED_FILE_BYTES_def)

lemma broken_inventory_new: "inventory_new ''r'' [broken_lock] = Inr broken_inventory"
  by (simp add: inventory_new_def canonical_observation_def broken_lock_def broken_inventory_def Let_def bt_values_def
      map_filter_simps MAX_INVENTORY_FILES_def MAX_CAPTURED_TOTAL_BYTES_def sat_add_def)

lemma broken_lock_unreadable: "unreadable_lock broken_lock"
  by (simp add: unreadable_lock_def broken_lock_def metadata_kind_def SLASH_def byte_def)

lemma built_profile_validates_witness:
  "\<exists>p. build_repository_profile XP (\<lambda>text. None) broken_inventory = Inr p \<and> profile_validate XP p \<noteq> Inr ()"
proof -
  have "\<exists>p. build_repository_profile XP (\<lambda>text. None) broken_inventory = Inr p"
    by (simp add: build_repository_profile_def Let_def derive_profile_id_def XP_def split: prod.splits)
  then obtain p where p: "build_repository_profile XP (\<lambda>text. None) broken_inventory = Inr p" by blast
  have no_authority: "\<not> has_executable_command_authority p"
    by (simp add: has_executable_command_authority_def list_ex_iff) (metis command_authority.exhaust)
  have "distinct_evidence XP broken_inventory" by (simp add: distinct_evidence_def broken_inventory_def)
  then have "\<not> (profile_validate XP p = Inr () \<and> \<not> has_executable_command_authority p)"
    using built_profile_validates [OF _ broken_inventory_new p] broken_lock_observed broken_lock_unreadable
    by (auto simp: broken_inventory_def)
  with p no_authority show ?thesis by blast
qed

section \<open>Generated files\<close>

lemma file_rule_disposition: "file_rule E r f = Some x \<Longrightarrow> gr_disposition x = ReadOnlyGeneratedOutput"
  by (auto simp: file_rule_def split: option.splits)

text \<open>C32: a built profile marks a path as generated, and not to be edited, exactly when the inventory holds a
  captured file there whose text says so; the inventory holds each observed path once, in order, with its
  content wherever it was captured.\<close>

theorem generated_files_are_marked:
  assumes observed: "\<forall>f \<in> set observations. (\<exists>path content. file_from_bytes E path content = Inr f) \<or>
      (\<exists>path n h. file_opaque path n h = Inr f)"
    and iv: "inventory_new revision observations = Inr iv"
    and built: "build_repository_profile E scripts iv = Inr p"
  shows "generated_disposition p path =
      (if \<exists>f \<in> set (iv_files iv). fo_path f = path \<and>
         (\<exists>content. fo_captured_content f = Some content \<and> generated_marker content \<noteq> None)
       then ReadOnlyGeneratedOutput else OrdinarySource) \<and>
    sorted_wrt (<) (map fo_path (iv_files iv)) \<and> set (iv_files iv) \<subseteq> set observations \<and>
    (\<forall>x \<in> set observations. \<exists>f \<in> set (iv_files iv). same_file x f \<and>
      (fo_captured_content x \<noteq> None \<longrightarrow> fo_captured_content f \<noteq> None))"
proof -
  have ok: "inventory_ok iv" using inventory_new_ok [OF iv] observed observed_file_ok by metis
  note rules = build_holds(3,5) [OF ok built]
  let ?marked = "\<lambda>f. \<exists>content. fo_captured_content f = Some content \<and> generated_marker content \<noteq> None"
  have rule: "(\<exists>r. file_rule E (iv_repository_revision iv) f = Some r) \<longleftrightarrow> ?marked f" for f
    by (auto simp: file_rule_def split: option.splits)
  have disp: "gr_disposition r = ReadOnlyGeneratedOutput" if "r \<in> set (rp_generated_rules p)" for r
    using that file_rule_disposition by (auto simp: rules(1) map_filter_set)
  have marked: "generated_disposition p path = (if \<exists>f \<in> set (iv_files iv). fo_path f = path \<and> ?marked f
      then ReadOnlyGeneratedOutput else OrdinarySource)"
  proof (cases "\<exists>r \<in> set (rp_generated_rules p). gr_path r = path")
    case True
    then obtain r where r: "r \<in> set (rp_generated_rules p)" "gr_path r = path" by blast
    then obtain f where f: "f \<in> set (iv_files iv)" "file_rule E (iv_repository_revision iv) f = Some r"
      by (auto simp: rules(1) map_filter_set)
    then have "fo_path f = path" using file_rule_path r(2) by simp
    moreover have "List.find (\<lambda>r. gr_path r = path) (rp_generated_rules p) = Some r"
      using find_key [OF rules(2) r(1)] r(2) by simp
    ultimately show ?thesis using f rule [of f] disp [OF r(1)] by (auto simp: generated_disposition_def)
  next
    case False
    then have "List.find (\<lambda>r. gr_path r = path) (rp_generated_rules p) = None" by (auto simp: find_None_iff)
    moreover have "\<not> (\<exists>f \<in> set (iv_files iv). fo_path f = path \<and> ?marked f)"
      using False rule file_rule_path unfolding rules(1) map_filter_set by blast
    ultimately show ?thesis by (simp add: generated_disposition_def)
  qed
  obtain m where m: "covers_observations observations m" "iv_files iv = bt_values m"
    using inventory_new_covers [OF iv] by blast
  have seen: "\<forall>x \<in> set observations. \<exists>f \<in> set (iv_files iv). same_file x f \<and>
      (fo_captured_content x \<noteq> None \<longrightarrow> fo_captured_content f \<noteq> None)"
  proof
    fix x assume "x \<in> set observations"
    then obtain f where "map_of m (fo_path x) = Some f" and f: "same_file x f \<and>
        (fo_captured_content x \<noteq> None \<longrightarrow> fo_captured_content f \<noteq> None)"
      using m(1) unfolding covers_observations_def by blast
    then have "f \<in> set (iv_files iv)" unfolding m(2) by (auto simp: bt_values_iff dest: map_of_SomeD)
    with f show "\<exists>f \<in> set (iv_files iv). same_file x f \<and>
        (fo_captured_content x \<noteq> None \<longrightarrow> fo_captured_content f \<noteq> None)" by blast
  qed
  have "sorted_wrt (<) (map fo_path (iv_files iv))" and "set (iv_files iv) \<subseteq> set observations"
    using ok covered_files(2) [OF m(1)] by (simp_all add: inventory_ok_def m(2))
  with marked seen show ?thesis by (intro conjI)
qed


definition marked_file :: file_observation where
  "marked_file = \<lparr>fo_path = ''x.rs'', fo_byte_len = 10, fo_content_hash = ''@generated'',
     fo_captured_content = Some ''@generated''\<rparr>"

lemma take_chars_all: "length s \<le> n \<Longrightarrow> take_chars n s = s"
  by (induction s arbitrary: n) (auto split: nat.splits)

lemma marked_file_observed:
  "file_from_bytes XP ''x.rs'' ''@generated'' = Inr marked_file" "generated_marker ''@generated'' = Some AtGenerated"
proof -
  show "file_from_bytes XP ''x.rs'' ''@generated'' = Inr marked_file"
    by (simp add: file_from_bytes_def observation_path_def profile_path_new_def sample_paths is_root_def
        marked_file_def XP_def MAX_CAPTURED_FILE_BYTES_def)
  have "utf8_valid ''@generated''" by (simp add: byte_def)
  moreover have "ascii_lower (take_chars 4096 ''@generated'') = ''@generated''"
    by (simp add: take_chars_all ascii_lower_def byte_def)
  ultimately show "generated_marker ''@generated'' = Some AtGenerated"
    by (simp add: generated_marker_def starts_with_def)
qed

lemma generated_files_are_marked_witness:
  "\<exists>iv p. inventory_new ''r'' [marked_file] = Inr iv \<and> build_repository_profile XP (\<lambda>text. None) iv = Inr p \<and>
    generated_disposition p ''x.rs'' = ReadOnlyGeneratedOutput"
proof -
  let ?iv = "\<lparr>iv_repository_revision = ''r'', iv_files = [marked_file], iv_total_bytes = 10, iv_captured_bytes = 10\<rparr>"
  have iv: "inventory_new ''r'' [marked_file] = Inr ?iv"
    by (simp add: inventory_new_def canonical_observation_def marked_file_def Let_def bt_values_def
        MAX_INVENTORY_FILES_def MAX_CAPTURED_TOTAL_BYTES_def sat_add_def map_filter_simps)
  have "\<exists>p. build_repository_profile XP (\<lambda>text. None) ?iv = Inr p"
    by (simp add: build_repository_profile_def Let_def derive_profile_id_def XP_def split: prod.splits)
  then obtain p where p: "build_repository_profile XP (\<lambda>text. None) ?iv = Inr p" by blast
  have "generated_disposition p ''x.rs'' = ReadOnlyGeneratedOutput"
    using generated_files_are_marked [OF _ iv p, of "''x.rs''"] marked_file_observed by (auto simp: marked_file_def)
  with iv p show ?thesis by blast
qed

end
