(* ===== verification/Plan_Facts.thy ===== *)
theory Plan_Facts
  imports Plan_Materialize
begin

text \<open>
  Lemmas on plans: the canonical form of a decision is a fixed point, what the absence of every violation says
  of the targets of a plan, and the shape of the materialised graph.
\<close>

section \<open>The canonical form\<close>

text \<open>A target that already carries the identities the worker derives.\<close>

definition settled :: "externs \<Rightarrow> planned_target \<Rightarrow> bool" where
  "settled E t \<longleftrightarrow> derive_target_id E t = Inr (pt_target_id t) \<and> derive_change_id E t = Inr (pt_change_id t) \<and>
     sorted_wrt (<) (pt_dependencies t)"

lemma derive_target_id_update [simp]:
  "derive_target_id E (t\<lparr>pt_dependencies := a\<rparr>) = derive_target_id E t"
  "derive_target_id E (t\<lparr>pt_target_id := b\<rparr>) = derive_target_id E t"
  "derive_target_id E (t\<lparr>pt_change_id := c\<rparr>) = derive_target_id E t"
  by (simp_all add: derive_target_id_def)

lemma derive_change_id_update [simp]: "derive_change_id E (t\<lparr>pt_change_id := c\<rparr>) = derive_change_id E t"
  by (simp add: derive_change_id_def)

lemma strict_sorted_bset_of: "sorted_wrt (<) (bset_of xs)"
  by (simp add: strict_sorted_iff)

lemma canonical_target_settled:
  assumes "canonical_target E ids t = Inr u" and "map_of ids (pt_target_id t) = Some s"
    and "derive_target_id E t = Inr s"
  shows "settled E u"
  using assms by (auto simp: canonical_target_def settled_def Let_def bnd_Inr_iff strict_sorted_bset_of)

lemma list_all2_zip_map_of:
  assumes "list_all2 (\<lambda>t x. \<exists>s. f t = Inr s \<and> x = (g t, s)) ts ids" and "distinct (map g ts)" and "t \<in> set ts"
  shows "\<exists>s. map_of ids (g t) = Some s \<and> f t = Inr s"
  using assms
proof (induction rule: list_all2_induct)
  case (Cons u us x xs)
  then obtain s where s: "f u = Inr s" "x = (g u, s)" by blast
  show ?case
  proof (cases "t = u")
    case True
    then show ?thesis using s by simp
  next
    case False
    with Cons.prems have "t \<in> set us" "g t \<noteq> g u" by (auto simp: image_iff)
    with Cons show ?thesis using s by simp
  qed
qed simp

lemma semantic_ids_lookup:
  assumes "map_res (\<lambda>t. bnd (derive_target_id E t) (\<lambda>s. Inr (pt_target_id t, s))) ts = Inr ids"
    and "distinct (map pt_target_id ts)" and "t \<in> set ts"
  shows "\<exists>s. map_of (bt_of_list ids) (pt_target_id t) = Some s \<and> derive_target_id E t = Inr s"
proof -
  have l: "list_all2 (\<lambda>t x. \<exists>s. derive_target_id E t = Inr s \<and> x = (pt_target_id t, s)) ts ids"
    using assms(1) unfolding map_res_Inr_iff by (rule list_all2_mono) (auto simp: bnd_Inr_iff)
  then have r: "list_all2 (\<lambda>t x. \<exists>s. derive_target_id E t = Inr s \<and> x = (pt_target_id t, s)) (rev ts) (rev ids)"
    by simp
  have d: "distinct (map pt_target_id (rev ts))" using assms(2) by (simp flip: rev_map)
  have t: "t \<in> set (rev ts)" using assms(3) by simp
  show ?thesis using list_all2_zip_map_of [OF r d t] by (simp only: map_of_of_list)
qed

lemma map_res_members: "map_res f xs = Inr ys \<Longrightarrow> y \<in> set ys \<Longrightarrow> \<exists>x \<in> set xs. f x = Inr y"
  unfolding map_res_Inr_iff by (induction rule: list_all2_induct) auto

lemma canonical_changes_settled:
  assumes "canonicalize_plan_decision E (Changes ts) = Inr (Changes out)" and "u \<in> set out"
  shows "settled E u"
proof -
  obtain ids ts' where d: "distinct (map pt_target_id ts)"
    and ids: "map_res (\<lambda>t. bnd (derive_target_id E t) (\<lambda>s. Inr (pt_target_id t, s))) ts = Inr ids"
    and ts': "map_res (canonical_target E (bt_of_list ids)) ts = Inr ts'"
    and out: "out = (case canonical_target_order ts' of Some ordered \<Rightarrow> ordered | None \<Rightarrow> sort_key pt_target_id ts')"
    using assms(1) by (auto simp: canonicalize_plan_decision_def bnd_Inr_iff split: if_splits)
  have "set out = set ts'"
    using out canonical_order_sound [of ts'] by (auto dest: mset_eq_setD split: option.splits)
  with assms(2) map_res_members [OF ts'] obtain t where t: "t \<in> set ts"
    "canonical_target E (bt_of_list ids) t = Inr u" by blast
  then show ?thesis using canonical_target_settled semantic_ids_lookup [OF ids d t(1)] by blast
qed

lemma canonical_changes_order:
  assumes "canonicalize_plan_decision E (Changes ts) = Inr (Changes out)"
  shows "(case canonical_target_order out of Some ordered \<Rightarrow> ordered | None \<Rightarrow> sort_key pt_target_id out) = out"
proof -
  obtain ts' where
    out: "out = (case canonical_target_order ts' of Some ordered \<Rightarrow> ordered | None \<Rightarrow> sort_key pt_target_id ts')"
    using assms by (auto simp: canonicalize_plan_decision_def bnd_Inr_iff split: if_splits)
  show ?thesis
  proof (cases "canonical_target_order ts'")
    case None
    then have "mset out = mset ts'" using out by simp
    with None have "canonical_target_order out = None" by (metis canonical_order_cong)
    with None show ?thesis using out by (simp add: sorted_sort_id sort_key_stable sort_key_id_if_sorted)
  next
    case (Some o')
    then have "mset out = mset ts'" using out canonical_order_sound by auto
    with Some have "canonical_target_order out = Some o'" by (metis canonical_order_cong)
    with Some show ?thesis using out by simp
  qed
qed

lemma canonical_target_fixed:
  assumes "settled E t" and "\<And>d s. map_of ids d = Some s \<Longrightarrow> s = d" and "map_of ids (pt_target_id t) \<noteq> None"
  shows "canonical_target E ids t = Inr t"
proof -
  have same: "(case map_of ids d of None \<Rightarrow> d | Some s \<Rightarrow> s) = d" for d
    using assms(2) by (auto split: option.splits)
  have "the (map_of ids (pt_target_id t)) = pt_target_id t" using assms(2,3) by auto
  then show ?thesis
    using assms(1) by (simp add: canonical_target_def same settled_def bset_of_same Let_def)
qed

lemma semantic_ids_settled:
  assumes "\<forall>t \<in> set ts. settled E t"
  shows "map_res (\<lambda>t. bnd (derive_target_id E t) (\<lambda>s. Inr (pt_target_id t, s))) ts =
    Inr (map (\<lambda>t. (pt_target_id t, pt_target_id t)) ts)"
  using assms by (intro map_res_total) (simp add: settled_def)

lemma identity_map_of:
  "map_of (bt_of_list (map (\<lambda>t. (f t, f t)) ts)) k = (if k \<in> f ` set ts then Some k else None)"
  by (induction ts rule: rev_induct) (auto simp: map_of_of_list)

lemma canonical_changes_fixed:
  assumes "canonicalize_plan_decision E (Changes ts) = Inr (Changes out)" and "distinct (map pt_target_id out)"
  shows "canonicalize_plan_decision E (Changes out) = Inr (Changes out)"
proof -
  let ?ids = "map (\<lambda>t. (pt_target_id t, pt_target_id t)) out"
  have settled: "\<forall>u \<in> set out. settled E u" using canonical_changes_settled [OF assms(1)] by blast
  have "canonical_target E (bt_of_list ?ids) t = Inr t" if "t \<in> set out" for t
    using settled that by (intro canonical_target_fixed) (auto simp: identity_map_of split: if_splits)
  then have "map_res (canonical_target E (bt_of_list ?ids)) out = Inr (map (\<lambda>t. t) out)"
    by (intro map_res_total) simp
  then show ?thesis
    using assms(2) canonical_changes_order [OF assms(1)]
    by (simp add: canonicalize_plan_decision_def semantic_ids_settled [OF settled])
qed

lemma canonicalize_again:
  assumes "canonicalize_plan_decision E decision = Inr decision'"
  shows "canonicalize_plan_decision E decision' =
    (case decision' of
       Changes ts \<Rightarrow> if distinct (map pt_target_id ts) then Inr decision'
         else Inl (Plan_InvalidCandidate ''plan_provider_target_identity_ambiguous'')
     | _ \<Rightarrow> Inr decision')"
proof (cases decision)
  case (Changes ts)
  with assms obtain out where out: "decision' = Changes out"
    by (auto simp: canonicalize_plan_decision_def bnd_Inr_iff split: if_splits)
  show ?thesis
  proof (cases "distinct (map pt_target_id out)")
    case True
    then show ?thesis using canonical_changes_fixed assms Changes out by simp
  next
    case False
    then show ?thesis using out by (simp add: canonicalize_plan_decision_def)
  qed
next
  case (NoOp os)
  then show ?thesis
    using assms by (auto simp: canonicalize_plan_decision_def sort_key_id_if_sorted)
next
  case (Decision_EvidenceGap cs r)
  then show ?thesis using assms by (auto simp: canonicalize_plan_decision_def)
qed
section \<open>Plans without a violation\<close>

lemma when_set_empty [simp]: "when_set c v = {} \<longleftrightarrow> \<not> c"
  by (simp add: when_set_def)

lemma repeated_Nil_iff: "repeated seen xs = [] \<longleftrightarrow> distinct xs \<and> set xs \<inter> set seen = {}"
  by (induction seen xs rule: repeated.induct) auto

lemma accepted_changes:
  assumes "validate_plan_candidate E c p d budget capacity = Plan_Accepted plan"
  obtains ts ordered where "candidate_is_bound E c p d" and "cand_decision c = Changes ts"
    and "validate_change_targets E ts p d = {}" and "validate_graph_feasibility ts budget capacity = {}"
    and "canonical_target_order ts = Some ordered"
    and "plan = \<lparr>ap_schema_version = PLANNING_SCHEMA_VERSION, ap_plan_id = cand_plan_id c,
      ap_plan_revision_id = cand_plan_revision_id c, ap_repository_revision = cand_repository_revision c,
      ap_discovery_impact_map_id = cand_discovery_impact_map_id c, ap_targets = ordered\<rparr>"
proof -
  have bound: "candidate_is_bound E c p d"
    using assms by (auto simp: validate_plan_candidate_def split: if_splits)
  then obtain ts where ts: "cand_decision c = Changes ts"
    using assms by (auto simp: validate_plan_candidate_def Let_def split: plan_decision.splits if_splits)
  have clean: "validate_change_targets E ts p d = {}" "validate_graph_feasibility ts budget capacity = {}"
    using assms bound ts by (auto simp: validate_plan_candidate_def Let_def split: if_splits)
  then obtain ordered where ordered: "canonical_target_order ts = Some ordered"
    by (auto simp: validate_change_targets_def split: if_splits)
  then show ?thesis
    using assms bound ts clean by (intro that [of ts ordered]) (simp_all add: validate_plan_candidate_def)
qed

lemma change_targets_clean:
  assumes "validate_change_targets E ts p d = {}"
  shows "ts \<noteq> [] \<and> distinct (concat (map target_paths ts)) \<and>
    (\<forall>t \<in> set ts. validate_target E (pt_target_id ` set ts) p d t = {}) \<and>
    set (dg_criterion_ids (ds_goal d)) \<subseteq> set (concat (map pt_acceptance_criteria ts))"
proof -
  have ne: "ts \<noteq> []" using assms by (auto simp: validate_change_targets_def)
  then have parts: "OverlappingTargetPath ` set (repeated [] (concat (map target_paths ts))) = {}"
    "(\<Union>t \<in> set ts. validate_target E (pt_target_id ` set ts) p d t) = {}"
    "(\<Union>c \<in> set (dg_criterion_ids (ds_goal d)).
      when_set (c \<notin> set (concat (map pt_acceptance_criteria ts))) (CriterionUncovered c)) = {}"
    using assms by (simp_all add: validate_change_targets_def)
  from parts(1) have "repeated [] (concat (map target_paths ts)) = []" by (simp only: image_is_empty set_empty)
  then have "distinct (concat (map target_paths ts))" by (simp add: repeated_Nil_iff)
  moreover have "\<forall>t \<in> set ts. validate_target E (pt_target_id ` set ts) p d t = {}" using parts(2) by blast
  moreover have "set (dg_criterion_ids (ds_goal d)) \<subseteq> set (concat (map pt_acceptance_criteria ts))"
  proof
    fix c
    assume "c \<in> set (dg_criterion_ids (ds_goal d))"
    then have "when_set (c \<notin> set (concat (map pt_acceptance_criteria ts))) (CriterionUncovered c) = {}"
      using parts(3) by blast
    then show "c \<in> set (concat (map pt_acceptance_criteria ts))" by (simp only: when_set_empty not_not)
  qed
  ultimately show ?thesis using ne by blast
qed

lemma target_clean:
  assumes "validate_target E ids p d t = {}"
  shows "validate_criteria d t = {}" and "validate_required_evidence d t = {}" and "validate_expectations E p t = {}"
    and "validate_operation p d t = {}" and "\<not> scoped_path p (pt_path t)"
    and "\<forall>path \<in> set (target_paths t). generated_disposition p path = OrdinarySource"
  using assms by (simp_all add: validate_target_def Un_empty)

lemma criteria_clean:
  assumes "validate_criteria d t = {}"
  shows "pt_acceptance_criteria t \<noteq> [] \<and> (\<forall>c \<in> set (pt_acceptance_criteria t).
    c \<in> set (dg_criterion_ids (ds_goal d)) \<and> target_criterion_is_grounded t c d)"
proof -
  have "(if c \<notin> set (dg_criterion_ids (ds_goal d)) then {UnknownCriterion (pt_target_id t) c}
      else when_set (\<not> target_criterion_is_grounded t c d) (CriterionDoesNotGroundTarget (pt_target_id t) c)) = {}"
    if "c \<in> set (pt_acceptance_criteria t)" for c
    using assms that by (simp only: validate_criteria_def Un_empty) blast
  then have "\<forall>c \<in> set (pt_acceptance_criteria t).
      c \<in> set (dg_criterion_ids (ds_goal d)) \<and> target_criterion_is_grounded t c d"
    by (metis insert_not_empty when_set_empty)
  moreover have "pt_acceptance_criteria t \<noteq> []" using assms by (simp add: validate_criteria_def)
  ultimately show ?thesis by blast
qed

lemma grounded_criterion_area:
  assumes "target_criterion_is_grounded t c d" and "ds_impact_map d = Some m"
  shows "\<exists>a \<in> set (im_areas m). ia_criterion_id a = c \<and>
    set (pt_required_evidence t) \<inter> set (ia_evidence_ids a) \<noteq> {} \<and>
    (is_creation (pt_operation t) \<or> (\<exists>path \<in> set (ia_paths a). discovery_path_new (pt_path t) = Inr path))"
proof -
  obtain a where a: "List.find (\<lambda>a. ia_criterion_id a = c) (im_areas m) = Some a"
    and ev: "list_ex (\<lambda>e. e \<in> set (ia_evidence_ids a)) (pt_required_evidence t)"
    and path: "is_creation (pt_operation t) \<or>
      (case discovery_path_of (pt_path t) of None \<Rightarrow> False | Some path \<Rightarrow> path \<in> set (ia_paths a))"
    using assms
    by (auto simp: target_criterion_is_grounded_def impact_area_for_criterion_def split: option.splits)
  have "a \<in> set (im_areas m) \<and> ia_criterion_id a = c" using find_SomeD [OF a] .
  moreover have "set (pt_required_evidence t) \<inter> set (ia_evidence_ids a) \<noteq> {}" using ev by (auto simp: list_ex_iff)
  moreover have "is_creation (pt_operation t) \<or> (\<exists>path \<in> set (ia_paths a). discovery_path_new (pt_path t) = Inr path)"
    using path by (auto simp: discovery_path_of_def split: option.splits sum.splits)
  ultimately show ?thesis by blast
qed

lemma existing_files_iff:
  "f \<in> set (existing_files d path) \<longleftrightarrow> discovery_path_new path = Inr (fe_path f) \<and>
     f \<in> set (bt_values (ds_file_evidence d)) \<and> fe_repository_revision f = ds_repository_revision d"
  by (auto simp: existing_files_def discovery_path_of_def split: sum.splits)

lemma existing_target_clean:
  assumes "validate_existing_target t h existing = {}"
  shows "\<exists>f \<in> set existing. \<not> fe_truncated f \<and> fe_content_hash f = h \<and> fe_evidence_id f \<in> set (pt_required_evidence t)"
  using assms by (auto simp: validate_existing_target_def Let_def list_ex_iff filter_empty_conv split: if_splits)

lemma operation_clean:
  assumes "validate_operation p d t = {}"
  shows "case expected_content_hash (pt_operation t) of
      None \<Rightarrow> existing_files d (pt_path t) = []
    | Some h \<Rightarrow> \<exists>f \<in> set (existing_files d (pt_path t)). \<not> fe_truncated f \<and> fe_content_hash f = h \<and>
        fe_evidence_id f \<in> set (pt_required_evidence t)"
  using assms
  by (cases "pt_operation t") (auto simp: validate_operation_def Let_def dest: existing_target_clean)
lemma target_grounded:
  assumes "validate_target E ids p d t = {}" and "ds_impact_map d = Some m"
  shows "(\<forall>path \<in> set (target_paths t). generated_disposition p path = OrdinarySource) \<and>
    (\<forall>x \<in> set (pt_acceptance_criteria t). \<exists>a \<in> set (im_areas m). ia_criterion_id a = x \<and>
      set (pt_required_evidence t) \<inter> set (ia_evidence_ids a) \<noteq> {} \<and>
      (is_creation (pt_operation t) \<or> (\<exists>path \<in> set (ia_paths a). discovery_path_new (pt_path t) = Inr path))) \<and>
    (case expected_content_hash (pt_operation t) of
       None \<Rightarrow> existing_files d (pt_path t) = []
     | Some h \<Rightarrow> \<exists>f \<in> set (existing_files d (pt_path t)). \<not> fe_truncated f \<and> fe_content_hash f = h \<and>
         fe_evidence_id f \<in> set (pt_required_evidence t))"
proof (intro conjI ballI)
  show "generated_disposition p path = OrdinarySource" if "path \<in> set (target_paths t)" for path
    using target_clean(6) [OF assms(1)] that by blast
  show "\<exists>a \<in> set (im_areas m). ia_criterion_id a = x \<and>
      set (pt_required_evidence t) \<inter> set (ia_evidence_ids a) \<noteq> {} \<and>
      (is_creation (pt_operation t) \<or> (\<exists>path \<in> set (ia_paths a). discovery_path_new (pt_path t) = Inr path))"
    if "x \<in> set (pt_acceptance_criteria t)" for x
    using grounded_criterion_area [OF _ assms(2)] criteria_clean [OF target_clean(1) [OF assms(1)]] that by blast
qed (rule operation_clean [OF target_clean(4) [OF assms(1)]])

section \<open>The materialised graph\<close>

text \<open>Every node follows the nodes it depends on.\<close>

fun nodes_ordered :: "node_id list \<Rightarrow> node_spec list \<Rightarrow> bool" where
  "nodes_ordered seen [] = True"
| "nodes_ordered seen (n # ns) = (set (ns_dependencies n) \<subseteq> set seen \<and> nodes_ordered (ns_id n # seen) ns)"

lemma nodes_ordered_mono: "nodes_ordered seen ns \<Longrightarrow> set seen \<subseteq> set seen' \<Longrightarrow> nodes_ordered seen' ns"
  by (induction ns arbitrary: seen seen') (auto, metis insert_mono list.simps(15))

lemma nodes_ordered_append:
  "nodes_ordered seen (ms @ ns) \<longleftrightarrow> nodes_ordered seen ms \<and> nodes_ordered (rev (map ns_id ms) @ seen) ns"
  by (induction ms arbitrary: seen) auto

lemma nodes_ordered_flat:
  assumes "\<forall>n \<in> set ns. set (ns_dependencies n) \<subseteq> set seen"
  shows "nodes_ordered seen ns"
  using assms
proof (induction ns arbitrary: seen)
  case (Cons n ns)
  have "nodes_ordered seen ns" using Cons by simp
  then have "nodes_ordered (ns_id n # seen) ns" by (rule nodes_ordered_mono) auto
  then show ?case using Cons.prems by simp
qed simp

lemma map_filter_subset: "set (List.map_filter f xs) = {y. \<exists>x \<in> set xs. f x = Some y}"
  by (force simp: List.map_filter_def)

lemma target_spec_id: "ns_id (target_spec m b t) = the (map_of m (pt_target_id t))"
  by (simp add: target_spec_def)

lemma required_spec_simps [simp]:
  "ns_id (required_spec nid kind dependencies budget) = nid"
  "ns_kind (required_spec nid kind dependencies budget) = kind"
  "ns_dependencies (required_spec nid kind dependencies budget) = dependencies"
  by (simp_all add: required_spec_def)

lemma targets_ordered:
  assumes "deps_before seen ts" and "\<And>k v. map_of m k = Some v \<Longrightarrow> v = g k"
    and "\<forall>t \<in> set ts. map_of m (pt_target_id t) \<noteq> None"
  shows "nodes_ordered (map g seen) (map (target_spec m b) ts)"
  using assms(1,3)
proof (induction ts arbitrary: seen)
  case (Cons t ts)
  have id: "the (map_of m (pt_target_id t)) = g (pt_target_id t)" using Cons.prems(2) assms(2) by auto
  have "nodes_ordered (map g (pt_target_id t # seen)) (map (target_spec m b) ts)"
    using Cons.prems by (intro Cons.IH) auto
  moreover have "set (ns_dependencies (target_spec m b t)) \<subseteq> set (map g seen)"
    using Cons.prems(1) assms(2) by (fastforce simp: target_spec_def map_filter_subset)
  ultimately show ?case by (simp add: target_spec_id id)
qed simp

lemma bset_of_cong: "set xs = set ys \<Longrightarrow> bset_of xs = bset_of ys"
  by (rule sorted_distinct_set_unique) simp_all

lemma expectation_ids_cong: "mset ts = mset ts' \<Longrightarrow> expectation_ids ts = expectation_ids ts'"
  unfolding expectation_ids_def by (rule bset_of_cong) (auto dest: mset_eq_setD)

lemma total_count:
  "sat_add (sat_add (clip_word a) (clip_word b)) 3 = (clip_word (a + b + 3) :: u32)"
  by (rule word_unat_eq_iff [THEN iffD2]) (simp add: word_simps)

lemma feasibility_clean:
  assumes "validate_graph_feasibility ts budget capacity = {}"
  shows "graph_budget_validate budget = Inr () \<and>
    (clip_word (length ts) :: u32) \<le> pg_max_implementation_nodes budget \<and>
    (clip_word (length (expectation_ids ts)) :: u32) \<le> pg_max_validation_nodes budget \<and>
    (clip_word (length ts + length (expectation_ids ts) + 3) :: u32) \<le> pg_max_total_nodes budget"
  using assms by (auto simp: validate_graph_feasibility_def Let_def total_count not_less split: if_splits)

lemma expectations_present:
  assumes "ts \<noteq> []" and "\<forall>t \<in> set ts. validate_expectations E p t = {}"
  shows "expectation_ids ts \<noteq> []"
proof -
  obtain t where t: "t \<in> set ts" using assms(1) by (cases ts) auto
  with assms(2) obtain v vs where "pt_expected_validation t = v # vs"
    by (cases "pt_expected_validation t") (auto simp: validate_expectations_def)
  with t have "ve_expectation_id v \<in> set (expectation_ids ts)"
    by (force simp: expectation_ids_def)
  then show ?thesis by auto
qed

lemma length_concat_le: "\<forall>xs \<in> set xss. length xs \<le> k \<Longrightarrow> length (concat xss) \<le> length xss * k"
  by (induction xss) auto

text \<open>Accepted targets are few enough that no count saturates; the clipped comparisons are the exact ones.\<close>

lemma expectations_bounded:
  assumes "validate_change_targets E ts p d = {}"
  shows "length ts \<le> 32" and "length (expectation_ids ts) \<le> 512"
proof -
  show few: "length ts \<le> 32"
    using assms by (auto simp: validate_change_targets_def when_set_def MAX_PLAN_TARGETS_def split: if_splits)
  have "length (pt_expected_validation t) \<le> 16" if "t \<in> set ts" for t
  proof -
    have "validate_expectations E p t = {}" using change_targets_clean [OF assms] that target_clean(3) by blast
    then show ?thesis
      by (auto simp: validate_expectations_def when_set_def MAX_VALIDATION_EXPECTATIONS_def split: if_splits)
  qed
  then have "length (concat (map pt_expected_validation ts)) \<le> length ts * 16"
    using length_concat_le [of "map pt_expected_validation ts" 16] by simp
  moreover have "length (expectation_ids ts) \<le> length (concat (map pt_expected_validation ts))"
    unfolding expectation_ids_def bset_of_def by (rule order_trans [OF length_remdups_leq]) simp
  ultimately show "length (expectation_ids ts) \<le> 512" using few by linarith
qed

lemma counts_within_limits:
  assumes "validate_change_targets E ts p d = {}" and "validate_graph_feasibility ts budget capacity = {}"
  shows "length ts \<le> unat (pg_max_implementation_nodes budget)"
    and "length (expectation_ids ts) \<le> unat (pg_max_validation_nodes budget)"
    and "length ts + length (expectation_ids ts) + 3 \<le> unat (pg_max_total_nodes budget)"
  using feasibility_clean [OF assms(2)] expectations_bounded [OF assms(1)] by (simp_all add: word_simps)

lemma indexed_map_of:
  "map_of (bt_of_list (map (\<lambda>i. (i, f i)) xs)) k = (if k \<in> set xs then Some (f k) else None)"
  by (induction xs rule: rev_induct) (auto simp: map_of_of_list)

lemma bt_values_of_map: "set (bt_values (bt_of_list (map (\<lambda>i. (i, f i)) xs))) = f ` set xs"
  by (auto simp: bt_lookup_vals bt_wf_of_list indexed_map_of split: if_splits)

lemma target_nodes_lookup:
  "map_of (bt_of_list (map (\<lambda>t. (pt_target_id t, g (pt_target_id t))) ts)) k =
    (if k \<in> pt_target_id ` set ts then Some (g k) else None)"
  by (induction ts rule: rev_induct) (auto simp: map_of_of_list)

lemma plan_materialises:
  assumes "graph_budget_validate budget = Inr ()" and "expectation_ids (ap_targets plan) = es" and "es \<noteq> []"
    and "(clip_word (length (ap_targets plan)) :: u32) \<le> pg_max_implementation_nodes budget"
    and "(clip_word (length es) :: u32) \<le> pg_max_validation_nodes budget"
    and "(clip_word (length (ap_targets plan) + length es + 3) :: u32) \<le> pg_max_total_nodes budget"
    and "deps_before [] (ap_targets plan)"
  shows "\<exists>g implementation validation review completion publication.
    materialize_accepted_plan E plan budget = Inr g \<and>
    pgm_nodes g = implementation @ validation @ [review, completion, publication] \<and>
    nodes_ordered [] (pgm_nodes g) \<and>
    length implementation = length (ap_targets plan) \<and> (\<forall>n \<in> set implementation. ns_kind n = K_Implementation) \<and>
    length validation = length es \<and> (\<forall>n \<in> set validation. ns_kind n = K_Validation \<and>
      ns_dependencies n = map ns_id implementation) \<and>
    ns_kind review = K_Review \<and> set (ns_dependencies review) = ns_id ` set validation \<and>
    ns_kind completion = K_CompletionEvaluation \<and> ns_dependencies completion = [ns_id review] \<and>
    ns_kind publication = K_Publication \<and> ns_dependencies publication = [ns_id completion]"
proof -
  let ?pid = "ap_plan_id plan"
  let ?tn = "bt_of_list (map (\<lambda>t. (pt_target_id t, target_node_id E ?pid (pt_target_id t))) (ap_targets plan))"
  let ?imp = "map (target_spec ?tn (pg_implementation budget)) (ap_targets plan)"
  let ?vn = "bt_of_list (map (\<lambda>i. (i, validation_node_id E ?pid i)) es)"
  let ?val = "map (\<lambda>i. required_spec (validation_node_id E ?pid i) K_Validation (map ns_id ?imp) (pg_validation budget)) es"
  let ?review = "required_spec (review_node_id E ?pid) K_Review (bt_values ?vn) (pg_review budget)"
  let ?completion = "required_spec (completion_node_id E ?pid) K_CompletionEvaluation [review_node_id E ?pid]
    (pg_completion_evaluation budget)"
  let ?publication = "required_spec (publication_node_id E ?pid) K_Publication [completion_node_id E ?pid]
    (pg_publication budget)"
  let ?g = "\<lparr>pgm_plan_id = ?pid, pgm_target_nodes = ?tn, pgm_validation_nodes = ?vn,
    pgm_nodes = ?imp @ ?val @ [?review, ?completion, ?publication]\<rparr>"
  have g: "materialize_accepted_plan E plan budget = Inr ?g"
    by (simp only: materialize_accepted_plan_def Let_def assms(1,2) bnd.simps assms(3-6) [folded not_less] if_False)
  have imp: "nodes_ordered [] ?imp"
  proof (rule targets_ordered [of "[]" _ _ "target_node_id E ?pid", simplified])
    show "v = target_node_id E ?pid k" if "map_of ?tn k = Some v" for k v
      using that unfolding target_nodes_lookup by (auto split: if_splits)
  qed (use assms(7) in \<open>simp_all only: target_nodes_lookup, auto\<close>)
  have vals: "set (bt_values ?vn) = validation_node_id E ?pid ` set es" by (rule bt_values_of_map)
  have val: "nodes_ordered (rev (map ns_id ?imp) @ []) ?val"
    by (rule nodes_ordered_flat) simp
  have rest: "nodes_ordered (rev (map ns_id ?val) @ rev (map ns_id ?imp) @ []) [?review, ?completion, ?publication]"
    by (simp add: vals)
  have "nodes_ordered [] (?imp @ ?val @ [?review, ?completion, ?publication])"
    unfolding nodes_ordered_append using imp val rest by (intro conjI) assumption+
  then show ?thesis
    using g
    by (intro exI [of _ ?g] exI [of _ ?imp] exI [of _ ?val] exI [of _ ?review] exI [of _ ?completion]
        exI [of _ ?publication]) (simp add: vals image_image, simp add: target_spec_def)
qed

end
