(* ===== verification/Plan_Samples.thy ===== *)
theory Plan_Samples
  imports Plan_Facts Publication_Samples
begin

text \<open>A plan that is accepted: one file of a one-criterion goal is modified.\<close>

definition plan_file :: file_evidence where
  "plan_file = \<lparr>fe_schema_version = 1, fe_evidence_id = ''e'', fe_producer_node_id = ''n'', fe_repository_revision = ''r'',
     fe_path = ''m'', fe_line_range = \<lparr>lr_start = 1, lr_end_inclusive = 9\<rparr>, fe_content_hash = H,
     fe_artifact_reference_hash = H, fe_encoding = Utf8, fe_truncated = False\<rparr>"

definition plan_map :: impact_map_evidence where
  "plan_map = \<lparr>im_schema_version = 1, im_evidence_id = ''i'', im_producer_node_id = ''n'', im_repository_revision = ''r'',
     im_areas = [\<lparr>ia_criterion_id = ''c'', ia_paths = [''m''], ia_evidence_ids = [''e''], ia_confidence = Confidence_High\<rparr>],
     im_unresolved_question_ids = []\<rparr>"

definition plan_discovery :: discovery_state where
  "plan_discovery = (discovery_state_new ''n'' ''r'' ''p'' \<lparr>dg_goal_hash = H, dg_criterion_ids = [''c''],
     dg_normalized_search_terms = []\<rparr>)\<lparr>ds_file_evidence := [(''e'', plan_file)], ds_impact_map := Some plan_map,
     ds_convergence := Some (ImpactMapAccepted ''i'')\<rparr>"

definition plan_profile :: repository_profile where
  "plan_profile = \<lparr>rp_schema_version = 1, rp_profile_id = ''p'', rp_repository_revision = ''r'',
     rp_inventory_fingerprint = H, rp_ecosystems = [], rp_source_roots = [], rp_test_roots = [],
     rp_metadata_files = [], rp_dependency_files = [], rp_generated_rules = [], rp_validation_candidates = 
       [Command_Candidate ''v'' CargoTest TestSuite ''.'' (SignedExecutionPolicy ''x'') CandidateOnly],
     rp_repository_size = Size_Tiny, rp_text_file_limits = file_size_policy_default, rp_uncertainties = []\<rparr>"

definition plan_target :: planned_target where
  "plan_target = \<lparr>pt_target_id = ID, pt_change_id = ID, pt_path = ''m'', pt_operation = ModifyExisting H,
     pt_role = Role_Source, pt_rationale = ''why'', pt_acceptance_criteria = [''c''], pt_required_evidence = [''e''],
     pt_expected_validation = [\<lparr>ve_expectation_id = ID, ve_command_candidate_id = ''v'', ve_criterion_ids = [''c'']\<rparr>],
     pt_dependencies = [], pt_estimated_change =
       \<lparr>ce_size = Tiny, ce_risk = Risk_Low, ce_estimated_changed_lines = 3\<rparr>\<rparr>"

definition plan_sample :: plan_candidate where
  "plan_sample = \<lparr>cand_schema_version = PLANNING_SCHEMA_VERSION, cand_plan_id = ID, cand_plan_revision_id = ID,
     cand_revision_index = 1, cand_repository_revision = ''r'', cand_discovery_impact_map_id = ''i'',
     cand_decision = Changes [plan_target]\<rparr>"

definition plan_node_budget :: node_budget where
  "plan_node_budget = \<lparr>nb_max_model_calls = 2, nb_max_cost_micros = 2, nb_max_duration_ms = 2,
     nb_max_mutation_attempts = 2, nb_max_context_rebuilds = 0, nb_max_input_tokens_per_call = 2,
     nb_max_output_tokens_per_call = 2\<rparr>"

definition plan_budget :: plan_graph_budget where
  "plan_budget = \<lparr>pg_max_implementation_nodes = 4, pg_max_validation_nodes = 4, pg_max_total_nodes = 9,
     pg_implementation = plan_node_budget, pg_validation = budget_deterministic, pg_review = plan_node_budget,
     pg_completion_evaluation = plan_node_budget, pg_publication = budget_deterministic\<rparr>"

definition plan_room :: plan_capacity where
  "plan_room = \<lparr>pm_remaining_model_calls = 9, pm_remaining_cost_micros = 9, pm_remaining_duration_ms = 9\<rparr>"

definition plan_accepted :: accepted_plan where
  "plan_accepted = \<lparr>ap_schema_version = PLANNING_SCHEMA_VERSION, ap_plan_id = ID, ap_plan_revision_id = ID,
     ap_repository_revision = ''r'', ap_discovery_impact_map_id = ''i'', ap_targets = [plan_target]\<rparr>"

lemma plan_json_XT [simp]: "plan_json XT v = Inr ''{}''"
  by (simp add: plan_json_def XT_def)

lemmas plan_limits = MAX_PLAN_TARGETS_def MAX_TARGET_DEPENDENCIES_def MAX_TARGET_EVIDENCE_def
  MAX_TARGET_CRITERIA_def MAX_VALIDATION_EXPECTATIONS_def MAX_TEXT_BYTES_def MAX_PATH_BYTES_def
  MAX_SEMANTIC_ID_BYTES_def MAX_PLAN_CANDIDATE_BYTES_def

lemma plan_text: "trimmed ''why''" "trimmed ''e''" "trimmed ''v''" "trimmed ID"
  by (simp_all add: trimmed_def white1_def white2_def white3_def byte_def ID_def H_def numeral_eq_Suc)

lemma ID_bytes: "length ID = 69" "\<not> list_ex ascii_control ID"
  by (simp_all add: ID_def H_def ascii_control_def byte_def list_ex_iff)

lemma plan_fields [simp]:
  "validate_identifier f ID = Inr ()" "validate_identifier f ''e'' = Inr ()" "validate_identifier f ''v'' = Inr ()"
  "validate_content_hash H = Inr ()" "validate_bounded_text f ''why'' = Inr ()"
  using H_valid(1) ID_bytes
  by (simp_all add: validate_identifier_def validate_content_hash_def validate_bounded_text_def plan_text
      plan_limits is_sha256_def ascii_control_def byte_def) (auto simp: ID_def)

lemma one_target_order: "pt_dependencies t = [] \<Longrightarrow> canonical_target_order [t] = Some [t]"
  by (simp add: canonical_target_order_def targets_by_id_def bt_of_list_def bt_keys_def order_loop.simps
      target_ready_def)

lemma plan_target_bounds: "target_bounds plan_target = Inr ()"
  by (simp add: target_bounds_def plan_target_def validate_path_length_def validate_collection_limit_def
      check_all_def operation_bounds_def plan_limits)

lemma plan_canonical: "canonicalize_plan_decision XT (Changes [plan_target]) = Inr (Changes [plan_target])"
  by (simp add: canonicalize_plan_decision_def derive_target_id_def derive_change_id_def canonical_target_def
      map_res_def bt_of_list_def bset_of_def one_target_order plan_target_def Let_def)

lemma plan_bounds: "validate_plan_decision_hard_bounds XT (Changes [plan_target]) = Inr ()"
  by (simp add: validate_plan_decision_hard_bounds_def check_all_def plan_target_bounds validate_collection_limit_def
      plan_limits)

lemma plan_sample_new: "candidate_new XT 1 ''r'' ''i'' (Changes [plan_target]) = Inr plan_sample"
  by (simp add: candidate_new_def plan_bounds plan_canonical plan_sample_def)

lemma plan_identity: "candidate_validate_identity XT plan_sample = Inr ()"
proof -
  have fields: "cand_decision plan_sample = Changes [plan_target]" "cand_revision_index plan_sample = 1"
    "cand_repository_revision plan_sample = ''r''" "cand_discovery_impact_map_id plan_sample = ''i''"
    "cand_schema_version plan_sample = PLANNING_SCHEMA_VERSION"
    by (simp_all add: plan_sample_def)
  show ?thesis by (simp add: candidate_validate_identity_def fields plan_bounds plan_sample_new)
qed

lemma plan_discovery_fields [simp]:
  "ds_repository_revision plan_discovery = ''r''" "ds_repository_profile_id plan_discovery = ''p''"
  "ds_impact_map plan_discovery = Some plan_map" "ds_convergence plan_discovery = Some (ImpactMapAccepted ''i'')"
  "ds_file_evidence plan_discovery = [(''e'', plan_file)]" "ds_completed_searches plan_discovery = []"
  "ds_candidates plan_discovery = []" "ds_relationships plan_discovery = []"
  "dg_criterion_ids (ds_goal plan_discovery) = [''c'']"
  by (simp_all add: plan_discovery_def discovery_state_new_def)

lemma plan_bound: "candidate_is_bound XT plan_sample plan_profile plan_discovery"
  by (simp add: candidate_is_bound_def plan_identity) (simp add: plan_sample_def plan_map_def plan_profile_def)

lemma path_m: "discovery_path_new ''m'' = Inr ''m''"
  by code_simp

lemma plan_area: "impact_area_for_criterion plan_discovery ''c'' =
    Some \<lparr>ia_criterion_id = ''c'', ia_paths = [''m''], ia_evidence_ids = [''e''], ia_confidence = Confidence_High\<rparr>"
  by (simp add: impact_area_for_criterion_def plan_map_def)

lemma plan_expectation:
  "expectation_validate_identity XT \<lparr>ve_expectation_id = ID, ve_command_candidate_id = ''v'', ve_criterion_ids = [''c'']\<rparr> = Inr ()"
  by (simp add: expectation_validate_identity_def expectation_new_def plan_limits)

lemma plan_evidence: "evidence_is_known plan_discovery ''e''"
  "evidence_grounds_target plan_discovery ''e'' (Some ''m'') [''c''] False"
  by (simp_all add: evidence_is_known_def evidence_grounds_target_def area_holds_def plan_area
      non_relationship_evidence_touches_path_def bt_values_def plan_file_def)

lemma plan_criterion: "target_criterion_is_grounded plan_target ''c'' plan_discovery"
  by (simp add: target_criterion_is_grounded_def plan_area plan_target_def discovery_path_of_def path_m)

lemma plan_target_clean: "validate_target XT {ID} plan_profile plan_discovery plan_target = {}"
proof -
  have "validate_criteria plan_discovery plan_target = {}"
    using plan_criterion by (simp add: validate_criteria_def plan_limits when_set_def) (simp add: plan_target_def)
  moreover have "validate_required_evidence plan_discovery plan_target = {}"
    by (simp add: validate_required_evidence_def plan_target_def plan_evidence plan_limits discovery_path_of_def path_m)
  moreover have "validate_expectations XT plan_profile plan_target = {}"
    by (simp add: validate_expectations_def plan_target_def plan_expectation plan_limits plan_profile_def)
  moreover have "validate_operation plan_profile plan_discovery plan_target = {}"
    by (simp add: validate_operation_def plan_target_def existing_files_def discovery_path_of_def path_m
        bt_values_def plan_file_def validate_existing_target_def)
  moreover have "validate_dependencies {ID} plan_target = {}"
    by (simp add: validate_dependencies_def plan_target_def)
  ultimately show ?thesis
    by (simp add: validate_target_def Un_empty) (simp add: plan_target_def scoped_path_def is_root_def
        plan_profile_def glob_byte_def plan_text plan_limits target_paths_def generated_disposition_def)
qed

lemma plan_targets_clean: "validate_change_targets XT [plan_target] plan_profile plan_discovery = {}"
proof -
  have "pt_target_id plan_target = ID" "pt_dependencies plan_target = []" "target_paths plan_target = [''m'']"
    "pt_acceptance_criteria plan_target = [''c'']"
    by (simp_all add: plan_target_def target_paths_def)
  then show ?thesis
    by (simp add: validate_change_targets_def plan_target_clean plan_limits one_target_order)
qed

lemma plan_feasible: "validate_graph_feasibility [plan_target] plan_budget plan_room = {}"
  by (simp add: validate_graph_feasibility_def plan_budget_def plan_room_def plan_target_def expectation_ids_def
      bset_of_def graph_budget_validate_def model_node_budget_is_feasible_def plan_node_budget_def
      clip_word_def sat_add_def)

lemma plan_sample_accepted:
  "validate_plan_candidate XT plan_sample plan_profile plan_discovery plan_budget plan_room = Plan_Accepted plan_accepted"
proof -
  have "pt_dependencies plan_target = []" by (simp add: plan_target_def)
  then have "canonical_target_order [plan_target] = Some [plan_target]" by (rule one_target_order)
  then show ?thesis
    using plan_bound plan_targets_clean plan_feasible
    by (simp add: validate_plan_candidate_def) (simp add: plan_sample_def plan_targets_clean plan_feasible plan_accepted_def)
qed

end
