(* ===== verification/Plan_Properties.thy ===== *)
theory Plan_Properties
  imports Plan_Samples
begin

text \<open>
  The properties of planning: the canonical order of targets, the canonical form of candidates, what an accepted
  plan guarantees, the graph it becomes, and that a no-op fails closed.
\<close>

text \<open>C35: the canonical order of targets is a topological sort and finds one whenever there is one: with
  distinct identities a result exists if and only if some arrangement puts every target behind its
  dependencies; a result is such an arrangement of exactly the given targets, every dependency of the target at
  an index stands at a smaller index, and it is the same for every arrangement of the input.\<close>

theorem canonical_order_is_topological:
  assumes "distinct (map pt_target_id ts)"
  shows "(canonical_target_order ts \<noteq> None) = (\<exists>us. mset us = mset ts \<and> deps_before [] us) \<and>
    (\<forall>us. mset us = mset ts \<longrightarrow> canonical_target_order us = canonical_target_order ts) \<and>
    (\<forall>out. canonical_target_order ts = Some out \<longrightarrow> mset out = mset ts \<and>
      (\<forall>i < length out. \<forall>d \<in> set (pt_dependencies (out ! i)). \<exists>j < i. pt_target_id (out ! j) = d))"
proof (intro conjI allI impI)
  show "(canonical_target_order ts \<noteq> None) = (\<exists>us. mset us = mset ts \<and> deps_before [] us)"
    using canonical_order_sound canonical_order_complete [OF assms] by (cases "canonical_target_order ts") blast+
  show "canonical_target_order us = canonical_target_order ts" if "mset us = mset ts" for us
    by (rule canonical_order_cong [OF that])
  show "mset out = mset ts" if "canonical_target_order ts = Some out" for out
    using canonical_order_sound [OF that] by simp
  show "\<forall>d \<in> set (pt_dependencies (out ! i)). \<exists>j < i. pt_target_id (out ! j) = d"
    if "canonical_target_order ts = Some out" "i < length out" for out i
  proof
    fix x
    assume x: "x \<in> set (pt_dependencies (out ! i))"
    show "\<exists>j < i. pt_target_id (out ! j) = x"
      using deps_before_index [of "[]" out i x] canonical_order_sound [OF that(1)] that(2) x by simp
  qed
qed

lemma canonical_order_is_topological_witness:
  "canonical_target_order [plan_target\<lparr>pt_target_id := ''b'', pt_dependencies := [''a'']\<rparr>, plan_target\<lparr>pt_target_id := ''a''\<rparr>]
     \<noteq> None"
proof -
  let ?t = "plan_target\<lparr>pt_target_id := ''a''\<rparr>" and ?u = "plan_target\<lparr>pt_target_id := ''b'', pt_dependencies := [''a'']\<rparr>"
  have "deps_before [] [?t, ?u]" by (simp add: plan_target_def)
  moreover have "mset [?t, ?u] = mset [?u, ?t]" by simp
  ultimately have "\<exists>us. mset us = mset [?u, ?t] \<and> deps_before [] us" by blast
  moreover have "distinct (map pt_target_id [?u, ?t])" by simp
  ultimately show ?thesis using canonical_order_is_topological [THEN conjunct1] by blast
qed

text \<open>C36: the identity check of a candidate the constructor made: it passes if and only if the
  decision in canonical form is within the hard bounds and its targets have distinct derived identities, so
  canonicalisation is a fixed point and only two targets with one semantic identity break it.\<close>

theorem candidate_identity_stable:
  assumes "candidate_new E revision_index revision impact_map decision = Inr c"
  shows "candidate_validate_identity E c = Inr () \<longleftrightarrow>
    validate_plan_decision_hard_bounds E (cand_decision c) = Inr () \<and>
    (case cand_decision c of Changes ts \<Rightarrow> distinct (map pt_target_id ts) | _ \<Rightarrow> True)"
proof -
  obtain decision' identity where idx: "revision_index \<noteq> 0"
    and canon: "canonicalize_plan_decision E decision = Inr decision'"
    and json: "plan_json E (Ser_Tuple [ser_u PLANNING_SCHEMA_VERSION, Ser_Str revision, Ser_Str impact_map,
      ser_decision decision']) = Inr identity"
    and c: "cand_decision c = decision'" "cand_revision_index c = revision_index"
      "cand_repository_revision c = revision" "cand_discovery_impact_map_id c = impact_map"
      "cand_schema_version c = PLANNING_SCHEMA_VERSION"
    using assms by (auto simp: candidate_new_def bnd_Inr_iff Let_def split: if_splits)
  have again: "candidate_new E revision_index revision impact_map decision' = Inr c"
    if "validate_plan_decision_hard_bounds E decision' = Inr ()" "canonicalize_plan_decision E decision' = Inr decision'"
    using that assms idx canon by (auto simp: candidate_new_def bnd_Inr_iff Let_def split: if_splits)
  show ?thesis
  proof (cases "validate_plan_decision_hard_bounds E decision' = Inr ()")
    case bounds: True
    show ?thesis
    proof (cases "canonicalize_plan_decision E decision' = Inr decision'")
      case True
      then show ?thesis
        using again [OF bounds True] canonicalize_again [OF canon] bounds c
        by (simp add: candidate_validate_identity_def split: plan_decision.splits if_splits)
    next
      case False
      then obtain ts where ts: "decision' = Changes ts" "\<not> distinct (map pt_target_id ts)"
        using canonicalize_again [OF canon] by (cases decision') (auto split: if_splits)
      then show ?thesis
        using bounds c idx by (simp add: candidate_validate_identity_def candidate_new_def
            canonicalize_plan_decision_def)
    qed
  next
    case False
    then show ?thesis
      using c by (cases "validate_plan_decision_hard_bounds E decision'") (auto simp: candidate_validate_identity_def)
  qed
qed

lemma candidate_identity_stable_witness: "candidate_validate_identity XT plan_sample = Inr ()"
proof -
  have "cand_decision plan_sample = Changes [plan_target]" by (simp add: plan_sample_def)
  then show ?thesis using candidate_identity_stable [OF plan_sample_new] plan_bounds by simp
qed

text \<open>C33: an accepted change plan is grounded: it carries the identities and the revision of the
  candidate, its impact map is the accepted one, its targets arrange exactly the candidate's, no path is touched
  twice, together they cover exactly the criteria of the goal, none touches a generated file, every criterion of
  a target is backed by evidence of that criterion's area which the target requires, a target that exists is
  complete in the evidence at the current revision with the content hash it expects, and a created file is not
  there.\<close>

theorem accepted_plan_is_grounded:
  assumes "validate_plan_candidate E c p d budget capacity = Plan_Accepted plan"
  shows "\<exists>ts m. cand_decision c = Changes ts \<and> mset (ap_targets plan) = mset ts \<and> ts \<noteq> [] \<and>
    ap_plan_id plan = cand_plan_id c \<and> ap_plan_revision_id plan = cand_plan_revision_id c \<and>
    ap_repository_revision plan = ds_repository_revision d \<and> ds_impact_map d = Some m \<and>
    ap_discovery_impact_map_id plan = im_evidence_id m \<and>
    ds_convergence d = Some (ImpactMapAccepted (im_evidence_id m)) \<and>
    distinct (concat (map target_paths ts)) \<and>
    set (concat (map pt_acceptance_criteria ts)) = set (dg_criterion_ids (ds_goal d)) \<and>
    (\<forall>t \<in> set ts. (\<forall>path \<in> set (target_paths t). generated_disposition p path = OrdinarySource) \<and>
      (\<forall>x \<in> set (pt_acceptance_criteria t). \<exists>a \<in> set (im_areas m). ia_criterion_id a = x \<and>
        set (pt_required_evidence t) \<inter> set (ia_evidence_ids a) \<noteq> {} \<and>
        (is_creation (pt_operation t) \<or> (\<exists>path \<in> set (ia_paths a). discovery_path_new (pt_path t) = Inr path))) \<and>
      (case expected_content_hash (pt_operation t) of
         None \<Rightarrow> existing_files d (pt_path t) = []
       | Some h \<Rightarrow> \<exists>f \<in> set (existing_files d (pt_path t)). \<not> fe_truncated f \<and> fe_content_hash f = h \<and>
           fe_evidence_id f \<in> set (pt_required_evidence t)))"
proof -
  obtain ts ordered where bound: "candidate_is_bound E c p d" and ts: "cand_decision c = Changes ts"
    and clean: "validate_change_targets E ts p d = {}" and ordered: "canonical_target_order ts = Some ordered"
    and plan: "plan = \<lparr>ap_schema_version = PLANNING_SCHEMA_VERSION, ap_plan_id = cand_plan_id c,
      ap_plan_revision_id = cand_plan_revision_id c, ap_repository_revision = cand_repository_revision c,
      ap_discovery_impact_map_id = cand_discovery_impact_map_id c, ap_targets = ordered\<rparr>"
    using accepted_changes [OF assms] by metis
  note parts = change_targets_clean [OF clean]
  have each: "validate_target E (pt_target_id ` set ts) p d t = {}" if "t \<in> set ts" for t
    using parts that by blast
  have mset: "mset ordered = mset ts" using canonical_order_sound [OF ordered] by simp
  have criteria: "\<forall>t \<in> set ts. \<forall>x \<in> set (pt_acceptance_criteria t).
      x \<in> set (dg_criterion_ids (ds_goal d)) \<and> target_criterion_is_grounded t x d"
    using criteria_clean target_clean(1) each by blast
  obtain t where t: "t \<in> set ts" using parts by (cases ts) auto
  obtain x where "x \<in> set (pt_acceptance_criteria t)"
    using criteria_clean [OF target_clean(1) [OF each [OF t]]] by (cases "pt_acceptance_criteria t") auto
  then obtain m where m: "ds_impact_map d = Some m"
    using criteria t by (fastforce simp: target_criterion_is_grounded_def impact_area_for_criterion_def split: option.splits)
  have head: "ap_repository_revision plan = ds_repository_revision d"
      "ap_discovery_impact_map_id plan = im_evidence_id m"
      "ds_convergence d = Some (ImpactMapAccepted (im_evidence_id m))"
    using bound m plan by (simp_all add: candidate_is_bound_def)
  have cover: "set (concat (map pt_acceptance_criteria ts)) = set (dg_criterion_ids (ds_goal d))"
    using parts criteria by auto
  have same: "mset (ap_targets plan) = mset ts" "ap_plan_id plan = cand_plan_id c"
      "ap_plan_revision_id plan = cand_plan_revision_id c"
    using plan mset by simp_all
  show ?thesis
    by (intro exI [of _ ts] exI [of _ m] conjI;
      (rule ballI, erule target_grounded [OF each m] | use ts parts same m head cover in \<open>simp; fail\<close>))
qed

lemma accepted_plan_is_grounded_witness:
  "validate_plan_candidate XT plan_sample plan_profile plan_discovery plan_budget plan_room = Plan_Accepted plan_accepted \<and>
    ap_repository_revision plan_accepted = ''r'' \<and> ap_discovery_impact_map_id plan_accepted = im_evidence_id plan_map"
  using accepted_plan_is_grounded [OF plan_sample_accepted] plan_sample_accepted by auto

text \<open>C34: an accepted change plan becomes an execution graph without error: one implementation node for each
  target, one validation node for each expectation, each behind every implementation node, then review behind
  every validation node, completion evaluation and publication in a row; every node stands behind the nodes it
  depends on, and the nodes are within the signed limits on implementation nodes, validation nodes and nodes
  altogether.\<close>

theorem accepted_plan_materialises:
  assumes "validate_plan_candidate E c p d budget capacity = Plan_Accepted plan"
  shows "\<exists>g implementation validation review completion publication.
    materialize_accepted_plan E plan budget = Inr g \<and>
    pgm_nodes g = implementation @ validation @ [review, completion, publication] \<and>
    nodes_ordered [] (pgm_nodes g) \<and>
    length implementation = length (ap_targets plan) \<and> (\<forall>n \<in> set implementation. ns_kind n = K_Implementation) \<and>
    length validation = length (expectation_ids (ap_targets plan)) \<and> (\<forall>n \<in> set validation. ns_kind n = K_Validation \<and>
      ns_dependencies n = map ns_id implementation) \<and>
    ns_kind review = K_Review \<and> set (ns_dependencies review) = ns_id ` set validation \<and>
    ns_kind completion = K_CompletionEvaluation \<and> ns_dependencies completion = [ns_id review] \<and>
    ns_kind publication = K_Publication \<and> ns_dependencies publication = [ns_id completion] \<and>
    length implementation \<le> unat (pg_max_implementation_nodes budget) \<and>
    length validation \<le> unat (pg_max_validation_nodes budget) \<and>
    length (pgm_nodes g) \<le> unat (pg_max_total_nodes budget)"
proof -
  obtain ts ordered where clean: "validate_change_targets E ts p d = {}"
    and feasible: "validate_graph_feasibility ts budget capacity = {}"
    and ordered: "canonical_target_order ts = Some ordered" and plan: "ap_targets plan = ordered"
    by (rule accepted_changes [OF assms]) (simp only: accepted_plan.simps)
  note parts = change_targets_clean [OF clean]
  have sound: "mset ordered = mset ts" "deps_before [] ordered" using canonical_order_sound [OF ordered] by simp_all
  have len: "length ordered = length ts" using sound(1) by (rule mset_eq_length)
  have ids: "expectation_ids ordered = expectation_ids ts" using sound(1) by (rule expectation_ids_cong)
  have present: "expectation_ids ts \<noteq> []" using parts target_clean(3) by (intro expectations_present) blast+
  note budgets = feasibility_clean [OF feasible]
  note counts = counts_within_limits [OF clean feasible]
  obtain g implementation validation review completion publication where
    g: "materialize_accepted_plan E plan budget = Inr g"
    and nodes: "pgm_nodes g = implementation @ validation @ [review, completion, publication]"
      "length implementation = length (ap_targets plan)" "length validation = length (expectation_ids (ap_targets plan))"
    and rest: "nodes_ordered [] (pgm_nodes g)" "\<forall>n \<in> set implementation. ns_kind n = K_Implementation"
      "\<forall>n \<in> set validation. ns_kind n = K_Validation \<and> ns_dependencies n = map ns_id implementation"
      "ns_kind review = K_Review" "set (ns_dependencies review) = ns_id ` set validation"
      "ns_kind completion = K_CompletionEvaluation" "ns_dependencies completion = [ns_id review]"
      "ns_kind publication = K_Publication" "ns_dependencies publication = [ns_id completion]"
    using plan_materialises [of budget plan "expectation_ids ts" E] budgets present sound len ids plan by auto
  have "length (pgm_nodes g) = length ts + length (expectation_ids ts) + 3" using nodes len ids plan by simp
  then show ?thesis
    using g nodes rest counts len ids plan
    by (intro exI [of _ g] exI [of _ implementation] exI [of _ validation] exI [of _ review] exI [of _ completion]
        exI [of _ publication]) simp
qed

lemma accepted_plan_materialises_witness: "\<exists>g. materialize_accepted_plan XT plan_accepted plan_budget = Inr g"
  using accepted_plan_materialises [OF plan_sample_accepted] by metis

text \<open>C37: a no-op plan fails closed: while the goal has a criterion, no candidate is accepted as a
  no-op, whatever satisfaction its provider claims.\<close>

theorem no_op_fails_closed:
  assumes "dg_criterion_ids (ds_goal d) \<noteq> []"
  shows "validate_plan_candidate E c p d budget capacity \<noteq> Plan_AcceptedNoOp x"
proof
  assume accepted: "validate_plan_candidate E c p d budget capacity = Plan_AcceptedNoOp x"
  then obtain os where os: "validate_no_op E os d = {}"
    by (auto simp: validate_plan_candidate_def Let_def split: plan_decision.splits if_splits)
  from assms obtain y where y: "y \<in> set (dg_criterion_ids (ds_goal d))"
    by (cases "dg_criterion_ids (ds_goal d)") auto
  show False
  proof (cases os)
    case Nil
    with os y show False by (auto simp: validate_no_op_def when_set_def)
  next
    case (Cons o' os')
    then have "validate_observation E d o' = {}" using os by (simp add: validate_no_op_def Un_empty)
    then show False by (simp add: validate_observation_def)
  qed
qed

lemma no_op_fails_closed_witness:
  "\<forall>x. validate_plan_candidate XT (plan_sample\<lparr>cand_decision := NoOp []\<rparr>) plan_profile plan_discovery plan_budget plan_room
     \<noteq> Plan_AcceptedNoOp x"
  using no_op_fails_closed [of plan_discovery] by simp

end
