(* ===== verification/Graph_Acyclic.thy ===== *)
theory Graph_Acyclic
  imports Execution_Graph
begin

text \<open>
  The acyclicity check decides acyclicity: the counts of \<open>count_edges\<close> are those of the edge list, every pass of
  \<open>kahn\<close> keeps them, the queue empties after at most one visit of each node, and the visited nodes are all
  nodes if and only if the dependency relation has no cycle.
\<close>

section \<open>Edges\<close>

definition node_edges :: "execution_node list \<Rightarrow> (execution_node \<times> node_id) list" where
  "node_edges ns = concat (map (\<lambda>n. map (Pair n) (en_dependencies n)) ns)"

text \<open>The pairs of a node and a dependency of it.\<close>

definition edge_list :: "(node_id, execution_node) btree_map \<Rightarrow> (node_id \<times> node_id) list" where
  "edge_list nodes = map (\<lambda>(n, d). (en_id n, d)) (node_edges (bt_values nodes))"

definition dependents_of :: "(node_id, node_id list) btree_map \<Rightarrow> node_id \<Rightarrow> node_id list" where
  "dependents_of dependents d = (case map_of dependents d of None \<Rightarrow> [] | Some xs \<Rightarrow> xs)"

lemma fold_edges:
  "fold_res (\<lambda>c n. fold_res (g n) c (en_dependencies n)) c ns =
     fold_res (\<lambda>c e. g (fst e) c (snd e)) c (node_edges ns)"
proof (induction ns arbitrary: c)
  case (Cons n ns)
  have "fold_res (\<lambda>c e. g (fst e) c (snd e)) c (map (Pair n) ds) = fold_res (g n) c ds" for ds
    by (induction ds arbitrary: c) simp_all
  then show ?case using Cons by (simp add: node_edges_def fold_res_append)
qed (simp add: node_edges_def)

definition edge_ok :: "(node_id, execution_node) btree_map \<Rightarrow> execution_node \<times> node_id \<Rightarrow> bool" where
  "edge_ok nodes e \<longleftrightarrow> snd e \<noteq> en_id (fst e) \<and> map_of nodes (snd e) \<noteq> None"

lemma count_edge_ok:
  "count_edge nodes n (indegree, dependents) d =
     (if edge_ok nodes (n, d) then Inr (bt_adjust (en_id n) Suc indegree,
        bt_insert d (dependents_of dependents d @ [en_id n]) dependents)
      else if d = en_id n then Inl (V_InvalidGraph ''self_dependency'' (Some (en_id n)))
      else Inl (V_InvalidGraph ''unknown_dependency'' (Some (en_id n))))"
  by (simp add: count_edge_def edge_ok_def dependents_of_def)

lemma count_edges_fold:
  "(\<exists>r. fold_res (\<lambda>c e. count_edge nodes (fst e) c (snd e)) (ind, dep) es = Inr r) = (\<forall>e \<in> set es. edge_ok nodes e)"
  by (induction es arbitrary: ind dep) (auto simp: count_edge_ok)

lemma count_edges_counts:
  assumes "fold_res (\<lambda>c e. count_edge nodes (fst e) c (snd e)) (ind, dep) es = Inr (ind', dep')"
  shows "map_of ind' x = map_option (\<lambda>c. c + length (filter (\<lambda>e. en_id (fst e) = x) es)) (map_of ind x) \<and>
    dependents_of dep' y = dependents_of dep y @ map (\<lambda>e. en_id (fst e)) (filter (\<lambda>e. snd e = y) es)"
  using assms
proof (induction es arbitrary: ind dep)
  case Nil
  then show ?case by (cases "map_of ind x") simp_all
next
  case (Cons e es)
  obtain n d where e: "e = (n, d)" by (cases e)
  with Cons.prems have ok: "edge_ok nodes (n, d)" by (auto simp: count_edge_ok split: if_splits)
  let ?dep = "bt_insert d (dependents_of dep d @ [en_id n]) dep"
  have run: "fold_res (\<lambda>c e. count_edge nodes (fst e) c (snd e)) (bt_adjust (en_id n) Suc ind, ?dep) es = Inr (ind', dep')"
    using Cons.prems e ok by (simp add: count_edge_ok)
  have look: "dependents_of ?dep y = (if y = d then dependents_of dep d @ [en_id n] else dependents_of dep y)"
    by (simp add: dependents_of_def map_of_bt_insert)
  show ?case
    using Cons.IH [OF run] e look by (cases "map_of ind x") (auto simp: map_of_adjust)
qed

lemma const_map_of: "map_of (map (\<lambda>k. (k, v)) xs) x = (if x \<in> set xs then Some v else None)"
  by (induction xs) auto

lemma edge_counts:
  assumes "count_edges nodes = Inr (ind, dep)"
  shows "map_of ind x = (if x \<in> fst ` set nodes then Some (length (filter (\<lambda>e. fst e = x) (edge_list nodes))) else None) \<and>
    dependents_of dep y = map fst (filter (\<lambda>e. snd e = y) (edge_list nodes))"
proof -
  let ?es = "node_edges (bt_values nodes)"
  let ?start = "map (\<lambda>k. (k, 0 :: nat)) (bt_keys nodes)"
  have run: "fold_res (\<lambda>c e. count_edge nodes (fst e) c (snd e)) (?start, []) ?es = Inr (ind, dep)"
    using assms unfolding count_edges_def fold_edges .
  have start: "map_of ?start x = (if x \<in> fst ` set nodes then Some 0 else None)"
    unfolding const_map_of by (simp add: bt_keys_def)
  have flt: "length (filter (\<lambda>e. fst e = x) (edge_list nodes)) = length (filter (\<lambda>e. en_id (fst e) = x) ?es)"
    by (simp add: edge_list_def filter_map comp_def split_beta)
  have dl: "map fst (filter (\<lambda>e. snd e = y) (edge_list nodes)) = map (\<lambda>e. en_id (fst e)) (filter (\<lambda>e. snd e = y) ?es)"
    by (simp add: edge_list_def filter_map comp_def split_beta)
  show ?thesis
    using count_edges_counts [OF run, of x y] start flt dl by (simp add: dependents_of_def)
qed

section \<open>One pass\<close>

lemma relax_counts:
  assumes "\<forall>x \<in> set ds. \<exists>c. map_of ind x = Some c \<and> count_list ds x \<le> c" and "distinct q" and "set q \<inter> set ds = {}"
  shows "map_of (fst (relax ds ind q)) x = map_option (\<lambda>c. c - count_list ds x) (map_of ind x) \<and>
    set (snd (relax ds ind q)) = set q \<union> {y \<in> set ds. map_of ind y = Some (count_list ds y)} \<and>
    distinct (snd (relax ds ind q))"
  using assms
proof (induction ds ind q rule: relax.induct)
  case (1 ind q)
  then show ?case by (cases "map_of ind x") simp_all
next
  case (2 d ds ind q)
  obtain c where c: "map_of ind d = Some c" and le: "Suc (count_list ds d) \<le> c"
    using 2(3) by (metis count_list.simps(2) list.set_intros(1) Suc_eq_plus1)
  let ?ind = "bt_insert d (c - 1) ind" and ?q = "if c - 1 = 0 then q @ [d] else q"
  have pre: "\<forall>x \<in> set ds. \<exists>c. map_of ?ind x = Some c \<and> count_list ds x \<le> c"
  proof
    fix y
    assume "y \<in> set ds"
    then obtain c' where c': "map_of ind y = Some c'" "count_list (d # ds) y \<le> c'"
      using 2(3) by (meson list.set_intros(2))
    show "\<exists>c. map_of ?ind y = Some c \<and> count_list ds y \<le> c"
    proof (cases "y = d")
      case True
      then show ?thesis using le by (simp add: map_of_bt_insert)
    next
      case False
      then show ?thesis using c' by (simp add: map_of_bt_insert)
    qed
  qed
  have free: "d \<notin> set ds" if "c - 1 = 0"
  proof -
    have "count_list ds d = 0" using that le by simp
    then show ?thesis by (simp add: count_list_0_iff)
  qed
  have q: "distinct ?q" "set ?q \<inter> set ds = {}" using 2(4,5) free by auto
  note IH = 2(2) [OF c pre q]
  have step: "relax (d # ds) ind q = relax ds ?ind ?q" using c by simp
  have "map_of (fst (relax (d # ds) ind q)) x = map_option (\<lambda>c. c - count_list (d # ds) x) (map_of ind x)"
    using IH c by (simp only: step) (auto simp: map_of_bt_insert)
  moreover have "set (snd (relax (d # ds) ind q)) = set q \<union> {y \<in> set (d # ds). map_of ind y = Some (count_list (d # ds) y)}"
  proof -
    have "{y \<in> set (d # ds). map_of ind y = Some (count_list (d # ds) y)} =
        (if c - 1 = 0 then {d} else {}) \<union> {y \<in> set ds. map_of ?ind y = Some (count_list ds y)}"
      using le c free by (auto simp: map_of_bt_insert count_list_0_iff split: if_splits)
    then show ?thesis using IH by (simp only: step) auto
  qed
  ultimately show ?case using IH by (simp only: step)
qed
section \<open>The loop\<close>

text \<open>Every node of \<open>P\<close> stands behind the nodes it depends on.\<close>

definition topo :: "(node_id \<times> node_id) list \<Rightarrow> node_id list \<Rightarrow> bool" where
  "topo es P \<longleftrightarrow> (\<forall>i < length P. \<forall>d. (P ! i, d) \<in> set es \<longrightarrow> d \<in> set (take i P))"

lemma topo_snoc: "topo es P \<Longrightarrow> \<forall>d. (n, d) \<in> set es \<longrightarrow> d \<in> set P \<Longrightarrow> topo es (P @ [n])"
  by (auto simp: topo_def nth_append less_Suc_eq)

text \<open>How many dependencies of \<open>x\<close> are still to be visited.\<close>

definition open_deps :: "(node_id \<times> node_id) list \<Rightarrow> node_id list \<Rightarrow> node_id \<Rightarrow> nat" where
  "open_deps es P x = length (filter (\<lambda>e. fst e = x \<and> snd e \<notin> set P) es)"

lemma open_deps_0_iff: "open_deps es P x = 0 \<longleftrightarrow> (\<forall>d. (x, d) \<in> set es \<longrightarrow> d \<in> set P)"
  by (force simp: open_deps_def filter_empty_conv)

lemma open_deps_visit:
  assumes "n \<notin> set P"
  shows "open_deps es (P @ [n]) x + count_list (map fst (filter (\<lambda>e. snd e = n) es)) x = open_deps es P x"
  using assms by (induction es) (auto simp: open_deps_def)

definition kahn_inv ::
  "node_id set \<Rightarrow> (node_id \<times> node_id) list \<Rightarrow> node_id list \<Rightarrow> (node_id, nat) btree_map \<Rightarrow> node_id list \<Rightarrow> bool" where
  "kahn_inv N es P ind q \<longleftrightarrow> distinct (P @ q) \<and> set (P @ q) \<subseteq> N \<and> topo es P \<and>
     (\<forall>x. map_of ind x = (if x \<in> N then Some (open_deps es P x) else None)) \<and>
     (\<forall>x \<in> N. x \<in> set (P @ q) \<longleftrightarrow> open_deps es P x = 0)"

lemma kahn_inv_step:
  assumes inv: "kahn_inv N es P ind (n # q)" and N: "fst ` set es \<subseteq> N"
    and ds: "ds = map fst (filter (\<lambda>e. snd e = n) es)"
  shows "kahn_inv N es (P @ [n]) (fst (relax ds ind q)) (snd (relax ds ind q))"
proof -
  have n: "n \<notin> set P" "n \<in> N" "open_deps es P n = 0" using inv by (auto simp: kahn_inv_def)
  have visit: "open_deps es (P @ [n]) x + count_list ds x = open_deps es P x" for x
    unfolding ds by (rule open_deps_visit [OF n(1)])
  have sub: "set ds \<subseteq> N" using N ds by auto
  have cnt: "\<forall>x \<in> set ds. \<exists>c. map_of ind x = Some c \<and> count_list ds x \<le> c"
  proof
    fix x
    assume "x \<in> set ds"
    then have "map_of ind x = Some (open_deps es P x)" using inv sub by (auto simp: kahn_inv_def)
    then show "\<exists>c. map_of ind x = Some c \<and> count_list ds x \<le> c" using visit [of x] by auto
  qed
  have pos: "open_deps es P x > 0" if "x \<in> set ds" for x
    using visit [of x] that count_list_0_iff [of ds x] by linarith
  have old: "x = n \<or> x \<in> set P \<or> x \<in> set q \<longleftrightarrow> open_deps es P x = 0" if "x \<in> N" for x
    using inv that by (auto simp: kahn_inv_def)
  have later: "x \<notin> set P" "x \<noteq> n" "x \<notin> set q" if "x \<in> set ds" for x
    using old [of x] pos [OF that] sub that by auto
  have disj: "set q \<inter> set ds = {}" using later by blast
  have dq: "distinct q" using inv by (simp add: kahn_inv_def)
  note rel = relax_counts [OF cnt dq disj]
  have ind: "map_of (fst (relax ds ind q)) x = (if x \<in> N then Some (open_deps es (P @ [n]) x) else None)" for x
    using rel [of x] inv visit [of x] by (auto simp: kahn_inv_def)
  have new: "set (snd (relax ds ind q)) = set q \<union> {y \<in> set ds. open_deps es (P @ [n]) y = 0}"
    using rel inv visit sub by (auto simp: kahn_inv_def) (metis add_0 add_cancel_right_left)+
  have zero: "x \<in> set (P @ [n] @ snd (relax ds ind q)) \<longleftrightarrow> open_deps es (P @ [n]) x = 0" if "x \<in> N" for x
  proof (cases "x \<in> set ds")
    case True
    then show ?thesis using later [OF True] new by auto
  next
    case False
    then have "open_deps es (P @ [n]) x = open_deps es P x" using visit [of x] by (simp add: count_list_0_iff)
    then show ?thesis using inv that False new by (auto simp: kahn_inv_def)
  qed
  have fresh: "set (snd (relax ds ind q)) \<inter> set (P @ [n]) = {}"
  proof -
    have "set q \<inter> set (P @ [n]) = {}" using inv by (auto simp: kahn_inv_def)
    then show ?thesis using new later by auto
  qed
  have t: "topo es (P @ [n])" using inv n(3) by (intro topo_snoc) (simp_all add: kahn_inv_def open_deps_0_iff)
  have "set (P @ [n]) \<subseteq> N" "set (snd (relax ds ind q)) \<subseteq> N" using inv new sub by (auto simp: kahn_inv_def)
  moreover have "distinct (P @ [n])" using inv by (simp add: kahn_inv_def)
  ultimately show ?thesis
    unfolding kahn_inv_def using ind zero fresh t rel by (simp add: Int_commute)
qed

lemma kahn_run:
  assumes "kahn_inv N es P ind q" and "finite N" and "fst ` set es \<subseteq> N"
    and dep: "\<And>y. dependents_of dep y = map fst (filter (\<lambda>e. snd e = y) es)"
  shows "\<exists>P'. kahn dep ind q (length P) = Some (length P') \<and> distinct P' \<and> set P' \<subseteq> N \<and> topo es P' \<and>
    (\<forall>x \<in> N. x \<in> set P' \<longleftrightarrow> (\<forall>d. (x, d) \<in> set es \<longrightarrow> d \<in> set P'))"
  using assms(1)
proof (induction "card N - length P" arbitrary: P ind q rule: less_induct)
  case less
  show ?case
  proof (cases q)
    case Nil
    then have "kahn dep ind q (length P) = Some (length P)" by (subst kahn.simps) simp
    then show ?thesis using less.prems Nil by (intro exI [of _ P]) (simp add: kahn_inv_def open_deps_0_iff)
  next
    case (Cons n q')
    let ?r = "relax (dependents_of dep n) ind q'"
    have inv: "kahn_inv N es (P @ [n]) (fst ?r) (snd ?r)"
      using kahn_inv_step [OF _ assms(3) dep [of n]] less.prems Cons by simp
    have "kahn dep ind q (length P) = kahn dep (fst ?r) (snd ?r) (length (P @ [n]))"
      using Cons by (subst kahn.simps) (simp add: dependents_of_def Let_def)
    moreover have "card N - length (P @ [n]) < card N - length P"
    proof -
      have "distinct (P @ [n])" "set (P @ [n]) \<subseteq> N" using inv by (auto simp: kahn_inv_def)
      then have "length (P @ [n]) \<le> card N" using assms(2) by (metis card_mono distinct_card)
      then show ?thesis by simp
    qed
    ultimately show ?thesis using less.hyps [OF _ inv] by simp
  qed
qed

section \<open>Acyclicity\<close>

lemma set_take_iff: "i \<le> length P \<Longrightarrow> d \<in> set (take i P) \<longleftrightarrow> (\<exists>j < i. P ! j = d)"
  by (auto simp: in_set_conv_nth)

lemma topo_acyclic:
  assumes "topo es P" and "distinct P" and "fst ` set es \<subseteq> set P"
  shows "acyclic (set es)"
proof -
  have before: "\<forall>i < length P. P ! i = x \<longrightarrow> (\<exists>j < i. P ! j = y)" if "(x, y) \<in> (set es)\<^sup>+" for x y
    using that
  proof (induction rule: trancl_induct)
    case (base y)
    then show ?case using assms(1) unfolding topo_def by (metis less_imp_le set_take_iff)
  next
    case (step y z)
    show ?case
    proof (intro allI impI)
      fix i
      assume "i < length P" "P ! i = x"
      with step.IH obtain j where j: "j < i" "P ! j = y" by blast
      with step.hyps(2) assms(1) \<open>i < length P\<close> have "z \<in> set (take j P)" by (auto simp: topo_def)
      then obtain k where "k < j" "P ! k = z" using j \<open>i < length P\<close> by (auto simp: set_take_iff)
      then show "\<exists>j < i. P ! j = z" using j by (intro exI [of _ k]) simp
    qed
  qed
  show ?thesis
  proof (rule acyclicI, rule allI, rule notI)
    fix x
    assume x: "(x, x) \<in> (set es)\<^sup>+"
    then have "x \<in> fst ` set es" by (metis Domain.DomainI fst_eq_Domain trancl_domain)
    then obtain i where i: "i < length P" "P ! i = x" using assms(3) by (metis in_set_conv_nth subsetD)
    with before [OF x] obtain j where "j < i" "P ! j = x" by blast
    moreover from this have "j < length P" using i by simp
    ultimately show False using i assms(2) nth_eq_iff_index_eq [of P j i] by simp
  qed
qed

lemma acyclic_covers:
  assumes "acyclic (set es)" and "snd ` set es \<subseteq> N" and "P \<subseteq> N"
    and "\<forall>x \<in> N. x \<in> P \<longleftrightarrow> (\<forall>d. (x, d) \<in> set es \<longrightarrow> d \<in> P)"
  shows "P = N"
proof (rule ccontr)
  assume "P \<noteq> N"
  with assms(3) obtain x where x: "x \<in> N - P" by auto
  have "wf ((set es)\<inverse>)" by (rule finite_acyclic_wf_converse [OF _ assms(1)]) simp
  then obtain z where z: "z \<in> N - P" and least: "\<And>y. (y, z) \<in> (set es)\<inverse> \<Longrightarrow> y \<notin> N - P"
    using wfE_min [of "(set es)\<inverse>" x "N - P"] x by blast
  have "\<forall>d. (z, d) \<in> set es \<longrightarrow> d \<in> P"
  proof (intro allI impI)
    fix d
    assume "(z, d) \<in> set es"
    then show "d \<in> P" using least [of d] assms(2) by force
  qed
  then show False using assms(4) z by auto
qed

section \<open>The check\<close>

definition dependency_relation :: "(node_id, execution_node) btree_map \<Rightarrow> (node_id \<times> node_id) set" where
  "dependency_relation nodes = {(k, d). \<exists>n. map_of nodes k = Some n \<and> d \<in> set (en_dependencies n)}"

text \<open>A node map in key order whose nodes are stored under their own identity.\<close>

definition keyed_nodes :: "(node_id, execution_node) btree_map \<Rightarrow> bool" where
  "keyed_nodes nodes \<longleftrightarrow> bt_wf nodes \<and> (\<forall>(k, n) \<in> set nodes. en_id n = k)"

lemma keyed_node_id: "keyed_nodes nodes \<Longrightarrow> map_of nodes k = Some n \<Longrightarrow> en_id n = k"
  by (auto simp: keyed_nodes_def dest: map_of_SomeD)

lemma set_node_edges: "(n, d) \<in> set (node_edges ns) \<longleftrightarrow> n \<in> set ns \<and> d \<in> set (en_dependencies n)"
  by (auto simp: node_edges_def)

lemma edge_list_relation:
  assumes "keyed_nodes nodes"
  shows "set (edge_list nodes) = dependency_relation nodes"
proof -
  have wf: "bt_wf nodes" using assms by (simp add: keyed_nodes_def)
  have "(k, d) \<in> set (edge_list nodes) \<longleftrightarrow>
      (\<exists>n. n \<in> set (bt_values nodes) \<and> en_id n = k \<and> d \<in> set (en_dependencies n))" for k d
    by (force simp: edge_list_def set_node_edges)
  then have "(k, d) \<in> set (edge_list nodes) \<longleftrightarrow> (k, d) \<in> dependency_relation nodes" for k d
    using bt_lookup_vals [OF wf] keyed_node_id [OF assms] by (auto simp: dependency_relation_def)
  then show ?thesis by (auto simp only: set_eq_iff split_paired_all)
qed

lemma relation_sources: "fst ` dependency_relation nodes \<subseteq> fst ` set nodes"
proof
  fix k
  assume "k \<in> fst ` dependency_relation nodes"
  then obtain n where "map_of nodes k = Some n" by (auto simp: dependency_relation_def)
  then show "k \<in> fst ` set nodes" by (metis map_of_SomeD fst_conv image_eqI)
qed

lemma count_edges_wf:
  "fold_res (\<lambda>c e. count_edge nodes (fst e) c (snd e)) (ind, dep) es = Inr (ind', dep') \<Longrightarrow> bt_wf ind \<Longrightarrow> bt_wf ind'"
proof (induction es arbitrary: ind dep)
  case (Cons e es)
  then show ?case by (auto simp: count_edge_ok bt_wf_adjust split: if_splits)
qed simp

lemma initial_inv:
  assumes "bt_wf nodes" and "count_edges nodes = Inr (ind, dep)"
  shows "kahn_inv (fst ` set nodes) (edge_list nodes) [] ind (ready_nodes ind)"
proof -
  have start: "bt_wf (map (\<lambda>k. (k, 0 :: nat)) (bt_keys nodes))"
    using assms(1) by (simp add: bt_wf_def bt_keys_def comp_def)
  have wf: "bt_wf ind" by (rule count_edges_wf [OF _ start]) (use assms(2) in \<open>unfold count_edges_def fold_edges\<close>)
  have look: "map_of ind x = (if x \<in> fst ` set nodes then Some (open_deps (edge_list nodes) [] x) else None)" for x
    using edge_counts [OF assms(2), of x] by (simp add: open_deps_def)
  have mem: "x \<in> set (ready_nodes ind) \<longleftrightarrow> map_of ind x = Some 0" for x
    using bt_wf_map_of_iff [OF wf, of x 0] by (force simp: ready_nodes_def)
  have "distinct (ready_nodes ind)"
    using bt_wf_distinct [OF wf] by (simp add: ready_nodes_def distinct_map_filter)
  then show ?thesis
    unfolding kahn_inv_def using look mem by (auto simp: topo_def split: if_splits)
qed

lemma check_returns:
  assumes "keyed_nodes nodes" and "count_edges nodes = Inr (ind, dep)"
  shows "\<exists>P. kahn dep ind (ready_nodes ind) 0 = Some (length P) \<and> distinct P \<and> set P \<subseteq> fst ` set nodes \<and>
    topo (edge_list nodes) P \<and>
    (\<forall>x \<in> fst ` set nodes. x \<in> set P \<longleftrightarrow> (\<forall>d. (x, d) \<in> set (edge_list nodes) \<longrightarrow> d \<in> set P))"
proof -
  have wf: "bt_wf nodes" using assms(1) by (simp add: keyed_nodes_def)
  have "fst ` set (edge_list nodes) \<subseteq> fst ` set nodes"
    unfolding edge_list_relation [OF assms(1)] by (rule relation_sources)
  then show ?thesis
    using kahn_run [OF initial_inv [OF wf assms(2)], of dep] edge_counts [OF assms(2)] by simp
qed

lemma edges_ok_iff:
  assumes "keyed_nodes nodes"
  shows "(\<exists>r. count_edges nodes = Inr r) \<longleftrightarrow>
    (\<forall>(k, d) \<in> dependency_relation nodes. d \<noteq> k \<and> map_of nodes d \<noteq> None)"
proof -
  have "(\<exists>r. count_edges nodes = Inr r) \<longleftrightarrow> (\<forall>e \<in> set (node_edges (bt_values nodes)). edge_ok nodes e)"
    unfolding count_edges_def fold_edges by (rule count_edges_fold)
  also have "\<dots> \<longleftrightarrow> (\<forall>(k, d) \<in> set (edge_list nodes). d \<noteq> k \<and> map_of nodes d \<noteq> None)"
    by (auto simp: edge_list_def edge_ok_def)
  finally show ?thesis unfolding edge_list_relation [OF assms] .
qed

lemma acyclic_check_exact:
  assumes "keyed_nodes (es_nodes s)"
  shows "validate_graph_acyclic s = Inr () \<longleftrightarrow>
    snd ` dependency_relation (es_nodes s) \<subseteq> fst ` set (es_nodes s) \<and> acyclic (dependency_relation (es_nodes s))"
proof -
  let ?nodes = "es_nodes s" and ?rel = "dependency_relation (es_nodes s)"
  have known: "map_of ?nodes d \<noteq> None \<longleftrightarrow> d \<in> fst ` set ?nodes" for d by (simp add: map_of_eq_None_iff)
  have card: "card (fst ` set ?nodes) = length ?nodes"
    using assms by (metis bt_wf_distinct distinct_card keyed_nodes_def length_map list.set_map)
  show ?thesis
  proof (cases "count_edges ?nodes")
    case (Inl e)
    then have "\<not> (\<forall>(k, d) \<in> ?rel. d \<noteq> k \<and> map_of ?nodes d \<noteq> None)" using edges_ok_iff [OF assms] by simp
    then obtain k d where kd: "(k, d) \<in> ?rel" "d = k \<or> d \<notin> fst ` set ?nodes" using known by blast
    have "\<not> acyclic ?rel" if "d = k" using kd(1) that by (auto simp: acyclic_def)
    moreover have "\<not> snd ` ?rel \<subseteq> fst ` set ?nodes" if "d \<notin> fst ` set ?nodes" using kd(1) that by force
    ultimately have "\<not> (snd ` ?rel \<subseteq> fst ` set ?nodes \<and> acyclic ?rel)" using kd(2) by blast
    then show ?thesis using Inl by (simp add: validate_graph_acyclic_def)
  next
    case (Inr r)
    obtain ind dep where r: "count_edges ?nodes = Inr (ind, dep)" using Inr by (cases r) simp
    then have ok: "snd ` ?rel \<subseteq> fst ` set ?nodes" using edges_ok_iff [OF assms] known by fastforce
    obtain P where P: "kahn dep ind (ready_nodes ind) 0 = Some (length P)" "distinct P" "set P \<subseteq> fst ` set ?nodes"
      "topo (edge_list ?nodes) P"
      "\<forall>x \<in> fst ` set ?nodes. x \<in> set P \<longleftrightarrow> (\<forall>d. (x, d) \<in> set (edge_list ?nodes) \<longrightarrow> d \<in> set P)"
      using check_returns [OF assms r] by blast
    have "validate_graph_acyclic s = Inr () \<longleftrightarrow> length P = length ?nodes"
      using r P(1) by (simp add: validate_graph_acyclic_def)
    also have "\<dots> \<longleftrightarrow> set P = fst ` set ?nodes"
      using card P(2,3) by (metis card_subset_eq distinct_card finite_imageI finite_set)
    also have "\<dots> \<longleftrightarrow> acyclic ?rel"
    proof
      assume eq: "set P = fst ` set ?nodes"
      have "fst ` ?rel \<subseteq> set P" unfolding eq by (rule relation_sources)
      then show "acyclic ?rel" using topo_acyclic [OF P(4,2)] edge_list_relation [OF assms] by simp
    next
      assume "acyclic ?rel"
      then show "set P = fst ` set ?nodes"
        using acyclic_covers [of "edge_list ?nodes" "fst ` set ?nodes" "set P"] P(3,5) ok
          edge_list_relation [OF assms] by simp
    qed
    finally show ?thesis using ok by simp
  qed
qed

end
