(* ===== verification/Graph_Facts.thy ===== *)
theory Graph_Facts
  imports Graph_Acyclic Plan_Facts
begin

text \<open>
  What the graph events keep: \<open>has_dependency_path\<close> decides reachability, and one lemma for a change of one node,
  one for the nodes that become ready and one for new nodes carry the invariant through every handler.
\<close>

section \<open>Paths\<close>

definition closed_under ::
  "(node_id, execution_node) btree_map \<Rightarrow> node_id list \<Rightarrow> node_id list \<Rightarrow> bool" where
  "closed_under nodes visited pending \<longleftrightarrow>
     (\<forall>v \<in> set visited. \<forall>d. (v, d) \<in> dependency_relation nodes \<longrightarrow> d \<in> set visited \<union> set pending)"

lemma leaves_visited:
  assumes "(v, a) \<in> (dependency_relation nodes)\<^sup>*" and "v \<in> set visited" and "a \<notin> set visited"
    and "closed_under nodes visited pending"
  shows "\<exists>p \<in> set pending. (p, a) \<in> (dependency_relation nodes)\<^sup>*"
  using assms(1,2)
proof (induction rule: converse_rtrancl_induct)
  case base
  then show ?case using assms(3) by simp
next
  case (step v w)
  then show ?case using assms(4) by (auto simp: closed_under_def)
qed

lemma first_step:
  assumes "(c, a) \<in> (dependency_relation nodes)\<^sup>*" and "c \<noteq> a"
  obtains n d where "map_of nodes c = Some n" and "d \<in> set (en_dependencies n)"
    and "(d, a) \<in> (dependency_relation nodes)\<^sup>*"
  using assms by (auto simp: dependency_relation_def elim: converse_rtranclE)

lemma path_loop_exact:
  assumes "closed_under nodes visited pending" and "a \<notin> set visited"
  shows "path_loop nodes a pending visited \<longleftrightarrow> (\<exists>c \<in> set pending. (c, a) \<in> (dependency_relation nodes)\<^sup>*)"
  using assms
proof (induction nodes a pending visited rule: path_loop.induct)
  case (2 nodes a c pending visited)
  let ?R = "(dependency_relation nodes)\<^sup>*"
  show ?case
  proof (cases "c = a")
    case False
    show ?thesis
    proof (cases "c \<in> set visited")
      case True
      have closed: "closed_under nodes visited pending" using 2(4) True by (auto simp: closed_under_def)
      have "\<exists>p \<in> set pending. (p, a) \<in> ?R" if "(c, a) \<in> ?R"
        by (rule leaves_visited [OF that True 2(5) closed])
      then show ?thesis using 2(1) [OF False True closed 2(5)] False True by auto
    next
      case new: False
      show ?thesis
      proof (cases "map_of nodes c")
        case None
        have closed: "closed_under nodes (c # visited) pending"
          using 2(4) None by (auto simp: closed_under_def dependency_relation_def)
        have "(c, a) \<notin> ?R" using None False by (auto elim: first_step)
        then show ?thesis using 2(2) [OF False new None closed] 2(5) False new None by auto
      next
        case (Some n)
        have closed: "closed_under nodes (c # visited) (rev (en_dependencies n) @ pending)"
          using 2(4) Some by (auto simp: closed_under_def dependency_relation_def)
        have "\<exists>d \<in> set (en_dependencies n). (d, a) \<in> ?R" if "(c, a) \<in> ?R"
          using first_step [OF that False] Some by (metis option.inject)
        moreover have "(c, a) \<in> ?R" if "d \<in> set (en_dependencies n)" "(d, a) \<in> ?R" for d
          using that Some by (intro converse_rtrancl_into_rtrancl [OF _ that(2)]) (simp add: dependency_relation_def)
        ultimately have "(c, a) \<in> ?R \<longleftrightarrow> (\<exists>d \<in> set (en_dependencies n). (d, a) \<in> ?R)" by blast
        then show ?thesis using 2(3) [OF False new Some closed] 2(5) False new Some by auto
      qed
    qed
  qed auto
qed simp

lemma has_dependency_path_exact:
  "has_dependency_path s n a \<longleftrightarrow> (n, a) \<in> (dependency_relation (es_nodes s))\<^sup>+"
proof -
  let ?R = "dependency_relation (es_nodes s)"
  have "has_dependency_path s n a \<longleftrightarrow> (\<exists>c. (n, c) \<in> ?R \<and> (c, a) \<in> ?R\<^sup>*)"
  proof (cases "map_of (es_nodes s) n")
    case None
    then show ?thesis by (simp add: has_dependency_path_def dependency_relation_def)
  next
    case (Some m)
    have "(n, c) \<in> ?R \<longleftrightarrow> c \<in> set (en_dependencies m)" for c using Some by (simp add: dependency_relation_def)
    moreover have "closed_under (es_nodes s) [] xs" for xs by (simp add: closed_under_def)
    ultimately show ?thesis using Some by (auto simp: has_dependency_path_def path_loop_exact)
  qed
  then show ?thesis by (auto simp: trancl_unfold_left relcomp_unfold)
qed

section \<open>The invariant\<close>

definition node_satisfied :: "(node_id, execution_node) btree_map \<Rightarrow> node_id \<Rightarrow> bool" where
  "node_satisfied nodes d \<longleftrightarrow> (\<exists>n. map_of nodes d = Some n \<and> satisfies_dependency (en_state n))"

lemma dependencies_satisfied_iff:
  "dependencies_satisfied nodes n \<longleftrightarrow> (\<forall>d \<in> set (en_dependencies n). node_satisfied nodes d)"
  by (auto simp: dependencies_satisfied_def node_satisfied_def list_all_iff split: option.splits)

fun is_open :: "node_state \<Rightarrow> bool" where
  "is_open Ready = True"
| "is_open st = owns_execution st"

text \<open>Nodes under their identity in a stable order, one owner at most, and no open node before its dependencies.\<close>

definition graph_core :: "graph_execution \<Rightarrow> bool" where
  "graph_core s \<longleftrightarrow> keyed_nodes (es_nodes s) \<and> distinct (es_node_order s) \<and>
     set (es_node_order s) = fst ` set (es_nodes s) \<and>
     (\<forall>k n k' n'. map_of (es_nodes s) k = Some n \<and> owns_execution (en_state n) \<and>
        map_of (es_nodes s) k' = Some n' \<and> owns_execution (en_state n') \<longrightarrow> k = k') \<and>
     (\<forall>k n. map_of (es_nodes s) k = Some n \<and> is_open (en_state n) \<longrightarrow> dependencies_satisfied (es_nodes s) n)"

definition graph_sound :: "graph_execution \<Rightarrow> bool" where
  "graph_sound s \<longleftrightarrow> graph_core s \<and> validate_graph_acyclic s = Inr ()"

text \<open>A node keeps its dependencies, its kind, and its success.\<close>

definition nodes_kept :: "graph_execution \<Rightarrow> graph_execution \<Rightarrow> bool" where
  "nodes_kept s t \<longleftrightarrow> (\<forall>k n. map_of (es_nodes s) k = Some n \<longrightarrow> (\<exists>n'. map_of (es_nodes t) k = Some n' \<and>
     en_dependencies n' = en_dependencies n \<and> en_kind n' = en_kind n \<and>
     (satisfies_dependency (en_state n) \<longrightarrow> en_state n' = en_state n)))"

lemma nodes_kept_refl: "nodes_kept s s"
  by (simp add: nodes_kept_def)

lemma nodes_kept_trans: "nodes_kept s t \<Longrightarrow> nodes_kept t u \<Longrightarrow> nodes_kept s u"
  unfolding nodes_kept_def by (metis (no_types, opaque_lifting))

lemma kept_satisfied: "nodes_kept s t \<Longrightarrow> node_satisfied (es_nodes s) d \<Longrightarrow> node_satisfied (es_nodes t) d"
  unfolding nodes_kept_def node_satisfied_def by metis

section \<open>One node changes\<close>

lemma relation_update:
  assumes "map_of nodes k = Some n" and "en_dependencies n' = en_dependencies n"
  shows "dependency_relation (bt_insert k n' nodes) = dependency_relation nodes"
  using assms by (auto simp: dependency_relation_def map_of_bt_insert split: if_splits)

lemma set_bt_insert_keys: "fst ` set (bt_insert k v m) = insert k (fst ` set m)"
  by (rule keys_bt_insert)

lemma bt_wf_insert_entries: "bt_wf m \<Longrightarrow> (x, y) \<in> set (bt_insert k v m) \<longleftrightarrow> (if x = k then y = v else (x, y) \<in> set m)"
  by (simp add: bt_wf_map_of_iff bt_wf_insert map_of_bt_insert) auto

lemma keyed_insert: "keyed_nodes m \<Longrightarrow> en_id v = k \<Longrightarrow> keyed_nodes (bt_insert k v m)"
  by (auto simp: keyed_nodes_def bt_wf_insert bt_wf_insert_entries split: if_splits)

lemma lookup_key: "map_of m k = Some v \<Longrightarrow> k \<in> fst ` set m"
  by (metis fst_conv image_eqI map_of_SomeD)

lemma node_update:
  assumes sound: "graph_sound s" and n: "map_of (es_nodes s) k = Some n"
    and same: "en_id n' = en_id n" "en_dependencies n' = en_dependencies n" "en_kind n' = en_kind n"
    and sat: "satisfies_dependency (en_state n) \<Longrightarrow> en_state n' = en_state n"
    and own: "owns_execution (en_state n') \<Longrightarrow> owns_execution (en_state n) \<or>
      (\<forall>k' m. map_of (es_nodes s) k' = Some m \<longrightarrow> \<not> owns_execution (en_state m))"
    and opn: "is_open (en_state n') \<Longrightarrow> dependencies_satisfied (es_nodes s) n"
  shows "graph_sound (s\<lparr>es_nodes := bt_insert k n' (es_nodes s)\<rparr>) \<and>
    nodes_kept s (s\<lparr>es_nodes := bt_insert k n' (es_nodes s)\<rparr>)"
proof -
  let ?t = "s\<lparr>es_nodes := bt_insert k n' (es_nodes s)\<rparr>"
  have core: "graph_core s" and acy: "validate_graph_acyclic s = Inr ()" using sound by (simp_all add: graph_sound_def)
  have keyed: "keyed_nodes (es_nodes s)" using core by (simp add: graph_core_def)
  have kept: "nodes_kept s ?t" using n same sat by (auto simp: nodes_kept_def map_of_bt_insert)
  have keyed': "keyed_nodes (es_nodes ?t)"
    using keyed keyed_node_id [OF keyed n] same(1) by (simp add: keyed_insert)
  have keys: "fst ` set (es_nodes ?t) = fst ` set (es_nodes s)"
    using lookup_key [OF n] by (simp add: set_bt_insert_keys insert_absorb)
  have one: "k1 = k2" if "map_of (es_nodes ?t) k1 = Some n1" "owns_execution (en_state n1)"
      "map_of (es_nodes ?t) k2 = Some n2" "owns_execution (en_state n2)" for k1 n1 k2 n2
    using that core n own by (auto simp: graph_core_def map_of_bt_insert split: if_splits)
  have ready: "dependencies_satisfied (es_nodes ?t) m" if "map_of (es_nodes ?t) j = Some m" "is_open (en_state m)" for j m
  proof -
    have "dependencies_satisfied (es_nodes s) m"
    proof (cases "j = k")
      case True
      then have "m = n'" using that(1) by (simp add: map_of_bt_insert)
      then show ?thesis using opn that(2) same(2) by (simp add: dependencies_satisfied_iff)
    next
      case False
      then show ?thesis using that core by (simp add: graph_core_def map_of_bt_insert)
    qed
    then show ?thesis using kept_satisfied [OF kept] by (simp add: dependencies_satisfied_iff)
  qed
  have "graph_core ?t"
    unfolding graph_core_def using keyed' keys core one ready by (auto simp: graph_core_def)
  moreover have "validate_graph_acyclic ?t = Inr ()"
    using acy acyclic_check_exact [OF keyed] acyclic_check_exact [OF keyed'] keys
      relation_update [OF n same(2)] by simp
  ultimately show ?thesis using kept by (simp add: graph_sound_def)
qed

lemma set_state_update:
  assumes "graph_sound s" and n: "map_of (es_nodes s) k = Some n"
    and "satisfies_dependency (en_state n) \<Longrightarrow> st = en_state n"
    and "owns_execution st \<Longrightarrow> owns_execution (en_state n) \<or>
      (\<forall>k' m. map_of (es_nodes s) k' = Some m \<longrightarrow> \<not> owns_execution (en_state m))"
    and "is_open st \<Longrightarrow> dependencies_satisfied (es_nodes s) n"
  shows "graph_sound (set_state st k s) \<and> nodes_kept s (set_state st k s)"
  using node_update [OF assms(1,2), of "n\<lparr>en_state := st\<rparr>"] assms(3-5) n
  by (simp add: set_state_def bt_adjust_def)
section \<open>Nodes that become ready\<close>

lemma core_fields [simp]: "es_nodes (core s) = es_nodes s" "es_node_order (core s) = es_node_order s"
  by (simp_all add: execution_state.defs)

lemma ordered_node_lookup:
  assumes "graph_core s" and "m \<in> set (ordered_nodes (core s))"
  shows "map_of (es_nodes s) (en_id m) = Some m"
proof -
  obtain k where "map_of (es_nodes s) k = Some m"
    using assms(2) by (auto simp: ordered_nodes_def map_filter_subset)
  moreover have "keyed_nodes (es_nodes s)" using assms(1) by (simp add: graph_core_def)
  ultimately show ?thesis using keyed_node_id by metis
qed

lemma lookup_ordered:
  "graph_core s \<Longrightarrow> map_of (es_nodes s) k = Some m \<Longrightarrow> m \<in> set (ordered_nodes (core s))"
  using lookup_key [of "es_nodes s" k m] by (auto simp: ordered_nodes_def map_filter_subset graph_core_def)

lemma no_owner:
  assumes "graph_core s" and "active_node (core s) = None" and "map_of (es_nodes s) k = Some m"
  shows "\<not> owns_execution (en_state m)"
  using assms(2) lookup_ordered [OF assms(1,3)] by (auto simp: active_node_def find_None_iff)

lemma open_satisfied:
  "graph_sound s \<Longrightarrow> map_of (es_nodes s) k = Some n \<Longrightarrow> is_open (en_state n) \<Longrightarrow> dependencies_satisfied (es_nodes s) n"
  by (simp add: graph_sound_def graph_core_def)

lemma kept_dependencies: "nodes_kept s t \<Longrightarrow> dependencies_satisfied (es_nodes s) n \<Longrightarrow> dependencies_satisfied (es_nodes t) n"
  using kept_satisfied by (simp add: dependencies_satisfied_iff)

text \<open>A node that waits for its dependencies and may become ready.\<close>

definition may_become_ready :: "graph_execution \<Rightarrow> execution_node \<Rightarrow> bool" where
  "may_become_ready s m \<longleftrightarrow> (\<exists>n. map_of (es_nodes s) (en_id m) = Some n \<and> en_dependencies n = en_dependencies m \<and>
     \<not> satisfies_dependency (en_state n) \<and> dependencies_satisfied (es_nodes s) m)"

lemma ready_step:
  assumes sound: "graph_sound s" and m: "may_become_ready s m"
  shows "graph_sound (set_state Ready (en_id m) s) \<and> nodes_kept s (set_state Ready (en_id m) s)"
proof -
  obtain n where n: "map_of (es_nodes s) (en_id m) = Some n" "en_dependencies n = en_dependencies m"
    "\<not> satisfies_dependency (en_state n)" "dependencies_satisfied (es_nodes s) m"
    using m by (auto simp: may_become_ready_def)
  have "dependencies_satisfied (es_nodes s) n" using n by (simp add: dependencies_satisfied_iff)
  then show ?thesis using n by (intro set_state_update [OF sound n(1)]) simp_all
qed

lemma ready_others:
  assumes "may_become_ready s m" and "may_become_ready s m'" and kept: "nodes_kept s (set_state Ready (en_id m) s)"
  shows "may_become_ready (set_state Ready (en_id m) s) m'"
proof -
  let ?t = "set_state Ready (en_id m) s"
  obtain n where n: "map_of (es_nodes s) (en_id m) = Some n" using assms(1) by (auto simp: may_become_ready_def)
  obtain n' where n': "map_of (es_nodes s) (en_id m') = Some n'" "en_dependencies n' = en_dependencies m'"
    "\<not> satisfies_dependency (en_state n')" "dependencies_satisfied (es_nodes s) m'"
    using assms(2) by (auto simp: may_become_ready_def)
  have "map_of (es_nodes ?t) (en_id m') = Some (if en_id m' = en_id m then n'\<lparr>en_state := Ready\<rparr> else n')"
    using n n'(1) by (auto simp: set_state_def bt_adjust_def map_of_bt_insert)
  then show ?thesis
    using n' kept_dependencies [OF kept n'(4)] by (simp add: may_become_ready_def)
qed

lemma refresh_fold:
  assumes "graph_sound s" and "\<forall>m \<in> set ms. may_become_ready s m"
  shows "graph_sound (foldl (\<lambda>t n. set_state Ready (en_id n) t) s ms) \<and>
    nodes_kept s (foldl (\<lambda>t n. set_state Ready (en_id n) t) s ms)"
  using assms
proof (induction ms arbitrary: s)
  case Nil
  then show ?case by (simp add: nodes_kept_refl)
next
  case (Cons m ms)
  let ?t = "set_state Ready (en_id m) s"
  have t: "graph_sound ?t" "nodes_kept s ?t" using ready_step Cons.prems by auto
  have "\<forall>m' \<in> set ms. may_become_ready ?t m'" using ready_others t(2) Cons.prems(2) by simp
  then show ?case using Cons.IH [OF t(1)] nodes_kept_trans [OF t(2)] by simp
qed

lemma refresh_sound:
  assumes "graph_sound s"
  shows "graph_sound (refresh_ready_nodes s) \<and> nodes_kept s (refresh_ready_nodes s)"
proof -
  have core: "graph_core s" using assms by (simp add: graph_sound_def)
  have "may_become_ready s m" if "m \<in> set (ordered_nodes (core s))" "becomes_ready s m" for m
  proof -
    have "\<not> satisfies_dependency (en_state m)"
      using that(2) by (cases "en_state m") (auto simp: becomes_ready_def)
    then show ?thesis
      using ordered_node_lookup [OF core that(1)] that(2) by (simp add: may_become_ready_def becomes_ready_def)
  qed
  then show ?thesis unfolding refresh_ready_nodes_def by (intro refresh_fold [OF assms]) auto
qed

section \<open>Start, wait, resume, success, failure\<close>

lemma check_each_Inr: "check_each f xs = Inr () \<Longrightarrow> x \<in> set xs \<Longrightarrow> f x = Inr ()"
  by (induction xs) (auto simp: check_each_def bnd_Inr_iff)

lemma ensured_dependencies:
  assumes "ensure_dependencies_satisfied s k = Inr ()" and "map_of (es_nodes s) k = Some n"
  shows "dependencies_satisfied (es_nodes s) n"
  unfolding dependencies_satisfied_iff
proof
  fix d
  assume d: "d \<in> set (en_dependencies n)"
  have "check_each (check_dependency (es_nodes s) k) (en_dependencies n) = Inr ()"
    using assms by (simp add: ensure_dependencies_satisfied_def)
  from check_each_Inr [OF this d] have "check_dependency (es_nodes s) k d = Inr ()" .
  then show "node_satisfied (es_nodes s) d"
    by (auto simp: check_dependency_def node_satisfied_def invalid_graph_def require_Inr_iff split: option.splits)
qed

lemma start_sound:
  assumes sound: "graph_sound s" and "start_node s k attempt = Inr t"
  shows "graph_sound t \<and> nodes_kept s t"
proof -
  obtain n where idle: "active_node (core s) = None" and n: "map_of (es_nodes s) k = Some n"
    and ready: "en_state n = Ready" and deps: "ensure_dependencies_satisfied s k = Inr ()"
    and t: "t = s\<lparr>es_nodes := bt_insert k (n\<lparr>en_attempts_started := attempt, en_state := Active attempt\<rparr>) (es_nodes s)\<rparr>"
    using assms(2) by (auto simp: start_node_def bnd_Inr_iff split: option.splits if_splits)
  have core: "graph_core s" using sound by (simp add: graph_sound_def)
  show ?thesis
    unfolding t using ready no_owner [OF core idle] ensured_dependencies [OF deps n]
    by (intro node_update [OF sound n]) simp_all
qed

lemma active_update:
  assumes "graph_sound s" and "map_of (es_nodes s) k = Some n" and "owns_execution (en_state n)"
  shows "graph_sound (set_state st k s) \<and> nodes_kept s (set_state st k s)"
proof (rule set_state_update [OF assms(1,2)])
  have opn: "is_open (en_state n)" "\<not> satisfies_dependency (en_state n)" using assms(3) by (cases "en_state n"; simp)+
  show "st = en_state n" if "satisfies_dependency (en_state n)" using opn that by simp
  show "dependencies_satisfied (es_nodes s) n" by (rule open_satisfied [OF assms(1,2) opn(1)])
qed (use assms(3) in simp)

lemma wait_sound:
  assumes "graph_sound s" and wait: "wait_node s k effect = Inr t"
  shows "graph_sound t \<and> nodes_kept s t"
proof -
  from wait obtain n where n: "map_of (es_nodes s) k = Some n"
    by (cases "map_of (es_nodes s) k") (auto simp: wait_node_def bnd_Inr_iff split: if_splits)
  with wait obtain attempt where "en_state n = Active attempt" "t = set_state (Waiting attempt effect) k s"
    by (cases "en_state n") (auto simp: wait_node_def bnd_Inr_iff split: if_splits)
  then show ?thesis using active_update [OF assms(1) n] by simp
qed

lemma resume_sound:
  assumes "graph_sound s" and resume: "resume_node s k effect = Inr t"
  shows "graph_sound t \<and> nodes_kept s t"
proof -
  from resume obtain n where n: "map_of (es_nodes s) k = Some n"
    by (cases "map_of (es_nodes s) k") (auto simp: resume_node_def bnd_Inr_iff)
  with resume obtain attempt where "en_state n = Waiting attempt effect" "t = set_state (Active attempt) k s"
    by (cases "en_state n") (auto simp: resume_node_def bnd_Inr_iff split: if_splits)
  then show ?thesis using active_update [OF assms(1) n] by simp
qed

lemma is_active_owns: "is_active st \<Longrightarrow> owns_execution st"
  by (cases st) simp_all

lemma succeed_sound:
  assumes "graph_sound s" and "succeed_node E s k proof_id = Inr t"
  shows "graph_sound t \<and> nodes_kept s t"
proof -
  obtain n where n: "map_of (es_nodes s) k = Some n" "is_active (en_state n)"
    and t: "t = refresh_ready_nodes (set_state (Succeeded proof_id) k s)"
    using assms(2) by (auto simp: succeed_node_def bnd_Inr_iff split: option.splits if_splits)
  have u: "graph_sound (set_state (Succeeded proof_id) k s)" "nodes_kept s (set_state (Succeeded proof_id) k s)"
    using active_update [OF assms(1) n(1) is_active_owns [OF n(2)]] by simp_all
  then show ?thesis unfolding t using refresh_sound [OF u(1)] nodes_kept_trans [OF u(2)] by blast
qed

lemma fail_sound:
  assumes "graph_sound s" and "fail_node s k failure terminal = Inr t"
  shows "graph_sound t \<and> nodes_kept s t"
proof -
  obtain n st where "map_of (es_nodes s) k = Some n" "is_active (en_state n)" "t = set_state st k s"
    using assms(2) by (auto simp: fail_node_def bnd_Inr_iff split: option.splits if_splits)
  then show ?thesis using active_update [OF assms(1)] is_active_owns by simp
qed

section \<open>New nodes\<close>

lemma if_invalid_iff: "(if c then invalid_graph code i else m) = Inr x \<longleftrightarrow> \<not> c \<and> m = Inr x"
  by (simp add: invalid_graph_def)

lemma push_core:
  assumes core: "graph_core s" and fresh: "map_of (es_nodes s) (ns_id n) = None"
  shows "graph_core (push_node n s) \<and> nodes_kept s (push_node n s)"
proof -
  let ?t = "push_node n s"
  have new: "ns_id n \<notin> fst ` set (es_nodes s)" using fresh by (simp add: map_of_eq_None_iff)
  have kept: "nodes_kept s ?t" using fresh by (auto simp: nodes_kept_def push_node_def map_of_bt_insert)
  have look: "map_of (es_nodes ?t) k = (if k = ns_id n then Some (node_of_spec n) else map_of (es_nodes s) k)" for k
    by (simp add: push_node_def map_of_bt_insert)
  have keyed: "keyed_nodes (es_nodes ?t)"
    using core by (simp add: push_node_def graph_core_def keyed_insert node_of_spec_def)
  have order: "distinct (es_node_order ?t)" "set (es_node_order ?t) = fst ` set (es_nodes ?t)"
    using core new by (simp_all add: push_node_def graph_core_def set_bt_insert_keys)
  have pending: "en_state (node_of_spec n) = Pending" by (simp add: node_of_spec_def)
  have one: "k1 = k2" if "map_of (es_nodes ?t) k1 = Some n1" "owns_execution (en_state n1)"
      "map_of (es_nodes ?t) k2 = Some n2" "owns_execution (en_state n2)" for k1 n1 k2 n2
    using that core pending by (auto simp: look graph_core_def split: if_splits)
  have ready: "dependencies_satisfied (es_nodes ?t) m" if "map_of (es_nodes ?t) k = Some m" "is_open (en_state m)" for k m
  proof -
    have "map_of (es_nodes s) k = Some m" using that pending by (auto simp: look split: if_splits)
    then have "dependencies_satisfied (es_nodes s) m" using core that(2) by (simp add: graph_core_def)
    then show ?thesis by (rule kept_dependencies [OF kept])
  qed
  show ?thesis unfolding graph_core_def using keyed order one ready kept by blast
qed

lemma push_all_core:
  assumes "graph_core s" and "distinct (map ns_id ns)" and "\<forall>n \<in> set ns. map_of (es_nodes s) (ns_id n) = None"
  shows "graph_core (foldl (\<lambda>t n. push_node n t) s ns) \<and> nodes_kept s (foldl (\<lambda>t n. push_node n t) s ns)"
  using assms
proof (induction ns arbitrary: s)
  case Nil
  then show ?case by (simp add: nodes_kept_refl)
next
  case (Cons n ns)
  then have t: "graph_core (push_node n s)" "nodes_kept s (push_node n s)" using push_core by auto
  have "\<forall>m \<in> set ns. map_of (es_nodes (push_node n s)) (ns_id m) = None"
  proof
    fix m
    assume m: "m \<in> set ns"
    then have "ns_id m \<in> set (map ns_id ns)" by simp
    moreover have "ns_id n \<notin> set (map ns_id ns)" using Cons.prems(2) by simp
    ultimately have "ns_id m \<noteq> ns_id n" by metis
    moreover have "map_of (es_nodes s) (ns_id m) = None" using Cons.prems(3) m by simp
    ultimately show "map_of (es_nodes (push_node n s)) (ns_id m) = None" by (simp add: push_node_def map_of_bt_insert)
  qed
  then show ?case using Cons.IH [OF t(1)] Cons.prems(2) nodes_kept_trans [OF t(2)] by simp
qed

lemma add_plan_sound:
  assumes "graph_sound s" and add: "add_plan_nodes E s proof_id nodes = Inr t"
  shows "graph_sound t \<and> nodes_kept s t"
proof -
  have d: "distinct (map ns_id nodes)" and each: "check_each (check_new_node s (map ns_id nodes)) nodes = Inr ()"
    and t: "t = foldl (\<lambda>t n. push_node n t) s nodes" and acy: "validate_graph_acyclic t = Inr ()"
    using add by (auto simp: add_plan_nodes_def if_invalid_iff Let_def bnd_Inr_iff if_Inl_iff)
  have "map_of (es_nodes s) (ns_id n) = None" if "n \<in> set nodes" for n
    using check_each_Inr [OF each that] by (auto simp: check_new_node_def split: if_splits)
  then have "graph_core t \<and> nodes_kept s t"
    unfolding t using assms(1) d by (intro push_all_core) (simp_all add: graph_sound_def)
  then show ?thesis using acy by (simp add: graph_sound_def)
qed

lemma repair_sound:
  assumes sound: "graph_sound s" and add: "add_validation_repair_node s proof_id n = Inr t"
  shows "graph_sound t \<and> nodes_kept s t"
proof -
  obtain f where check: "check_repair_node s proof_id f n = Inr ()" and t: "t = refresh_ready_nodes (push_node n s)"
    using add by (auto simp: add_validation_repair_node_def bnd_Inr_iff if_Inl_iff split: option.split_asm)
  have fresh: "map_of (es_nodes s) (ns_id n) = None" and nodeps: "ns_dependencies n = []"
    using check by (auto simp: check_repair_node_def if_invalid_iff if_Inl_iff)
  have core: "graph_core s" using sound by (simp add: graph_sound_def)
  note u = push_core [OF core fresh]
  have rel: "dependency_relation (es_nodes (push_node n s)) = dependency_relation (es_nodes s)"
    using fresh nodeps
    by (auto simp: dependency_relation_def push_node_def map_of_bt_insert node_of_spec_def split: if_splits)
  have keyed: "keyed_nodes (es_nodes s)" "keyed_nodes (es_nodes (push_node n s))"
    using core u by (simp_all add: graph_core_def)
  have "fst ` set (es_nodes s) \<subseteq> fst ` set (es_nodes (push_node n s))"
    unfolding push_node_def by (simp add: set_bt_insert_keys subset_insertI)
  then have "validate_graph_acyclic (push_node n s) = Inr ()"
    using sound acyclic_check_exact [OF keyed(1)] acyclic_check_exact [OF keyed(2)]
    unfolding graph_sound_def rel by (meson order_trans)
  then have v: "graph_sound (push_node n s)" using u by (simp add: graph_sound_def)
  show ?thesis unfolding t using refresh_sound [OF v] u nodes_kept_trans by blast
qed

section \<open>The events\<close>

lemmas handlers_sound = add_plan_sound repair_sound start_sound wait_sound resume_sound succeed_sound fail_sound

lemma event_sound:
  assumes "graph_sound s" and "apply_graph_event E s event = Inr t"
  shows "graph_sound t \<and> nodes_kept s t"
proof -
  have "dispatch_graph_event E s event = Inr t" using assms(2) by (simp add: apply_graph_event_def if_Inl_iff split: option.splits)
  then show ?thesis
    by (cases event; simp only: dispatch_graph_event.simps) (rule handlers_sound [OF assms(1)], assumption)+
qed

interpretation graph: growing_state "apply_graph_event E" graph_sound nodes_kept for E
  by unfold_locales (simp_all add: nodes_kept_refl event_sound, blast intro: nodes_kept_trans)

section \<open>Validation\<close>

lemma one_owner:
  assumes keyed: "keyed_nodes (es_nodes s)" and one: "length (owners s) \<le> 1"
    and "map_of (es_nodes s) k = Some n" "owns_execution (en_state n)"
    and "map_of (es_nodes s) k' = Some n'" "owns_execution (en_state n')"
  shows "k = k'"
proof -
  have "n \<in> set (owners s)" "n' \<in> set (owners s)"
    using assms by (auto simp: owners_def keyed_nodes_def bt_lookup_vals)
  then have "n = n'" using one by (cases "owners s"; cases "tl (owners s)") auto
  then show ?thesis using keyed_node_id [OF keyed] assms by metis
qed

lemma valid_graph_sound:
  assumes wf: "bt_wf (es_nodes s)" and valid: "validate_graph E s terminal rerun = Inr ()"
  shows "graph_sound s"
proof -
  have ids: "list_all (\<lambda>(k, n). k = en_id n) (es_nodes s)"
    and order: "distinct (es_node_order s)" "set (es_node_order s) = set (bt_keys (es_nodes s))"
    and acy: "validate_graph_acyclic s = Inr ()" and one: "length (owners s) \<le> 1"
    and each: "check_each (check_graph_node s terminal rerun) (bt_values (es_nodes s)) = Inr ()"
    using valid by (auto simp: validate_graph_def if_invalid_iff Let_def bnd_Inr_iff if_Inl_iff not_less)
  have keyed: "keyed_nodes (es_nodes s)" using wf ids by (auto simp: keyed_nodes_def list_all_iff)
  have ready: "dependencies_satisfied (es_nodes s) n" if n: "map_of (es_nodes s) k = Some n" "is_open (en_state n)" for k n
  proof -
    have "n \<in> set (bt_values (es_nodes s))" using n(1) by (auto simp: bt_lookup_vals [OF wf])
    from check_each_Inr [OF each this] have "en_state n = Ready \<or> owns_execution (en_state n) \<Longrightarrow>
        ensure_dependencies_satisfied s (en_id n) = Inr ()"
      by (auto simp: check_graph_node_def bnd_Inr_iff)
    moreover have "en_state n = Ready \<or> owns_execution (en_state n)" using n(2) by (cases "en_state n") auto
    moreover have "en_id n = k" by (rule keyed_node_id [OF keyed n(1)])
    ultimately show ?thesis using ensured_dependencies n(1) by auto
  qed
  have "set (es_node_order s) = fst ` set (es_nodes s)" using order(2) by (simp add: bt_keys_def)
  then show ?thesis
    unfolding graph_sound_def graph_core_def
    using keyed order(1) acy ready one_owner [OF keyed one] by blast
qed

end
