(* ===== verification/Graph_Properties.thy ===== *)
theory Graph_Properties
  imports Graph_Facts Publication_Samples
begin

text \<open>
  The properties of the execution graph: its acyclicity check is exact, and any run of graph events from a
  validated state works in dependency order.
\<close>

text \<open>C39: the acyclicity check is exact: on a node map whose nodes are stored under their own identity
  it accepts if and only if every dependency is a node and the dependency relation has no cycle; its queue
  always runs dry, and the reachability test of the topology check decides the transitive closure.\<close>

theorem acyclicity_check_exact:
  assumes "keyed_nodes (es_nodes s)"
  shows "(validate_graph_acyclic s = Inr ()) =
      (snd ` dependency_relation (es_nodes s) \<subseteq> fst ` set (es_nodes s) \<and> acyclic (dependency_relation (es_nodes s))) \<and>
    (\<forall>indegree dependents. count_edges (es_nodes s) = Inr (indegree, dependents) \<longrightarrow>
      (\<exists>visited. kahn dependents indegree (ready_nodes indegree) 0 = Some visited)) \<and>
    (\<forall>n a. has_dependency_path s n a = ((n, a) \<in> (dependency_relation (es_nodes s))\<^sup>+))"
proof (intro conjI allI impI)
  show "\<exists>visited. kahn dependents indegree (ready_nodes indegree) 0 = Some visited"
    if "count_edges (es_nodes s) = Inr (indegree, dependents)" for indegree dependents
    using check_returns [OF assms that] by blast
qed (rule acyclic_check_exact [OF assms], rule has_dependency_path_exact)

text \<open>C38: graph events work in dependency order: whatever events are accepted from a state that passes
  graph validation, the graph stays acyclic and its order lists its nodes, at most one node owns execution, the
  dependencies of every ready, active or waiting node are satisfied, and a satisfied node stays as it
  is.\<close>

theorem graph_events_in_dependency_order:
  assumes "bt_wf (es_nodes s)" and "validate_graph E s terminal rerun = Inr ()"
    and "fold_res (apply_graph_event E) s es = Inr t"
  shows "validate_graph_acyclic t = Inr () \<and> distinct (es_node_order t) \<and>
    set (es_node_order t) = set (bt_keys (es_nodes t)) \<and>
    (\<forall>k n k' n'. map_of (es_nodes t) k = Some n \<and> owns_execution (en_state n) \<and>
      map_of (es_nodes t) k' = Some n' \<and> owns_execution (en_state n') \<longrightarrow> k = k') \<and>
    (\<forall>k n d. map_of (es_nodes t) k = Some n \<and> (en_state n = Ready \<or> owns_execution (en_state n)) \<and>
      d \<in> set (en_dependencies n) \<longrightarrow>
      (\<exists>m. map_of (es_nodes t) d = Some m \<and> satisfies_dependency (en_state m))) \<and>
    (\<forall>k n. map_of (es_nodes s) k = Some n \<and> satisfies_dependency (en_state n) \<longrightarrow>
      (\<exists>n'. map_of (es_nodes t) k = Some n' \<and> en_state n' = en_state n))"
proof -
  have s: "graph_sound s" by (rule valid_graph_sound [OF assms(1,2)])
  have t: "graph_sound t" "nodes_kept s t" using graph.run_good [OF s assms(3)] graph.run_grows [OF s assms(3)] by auto
  have core: "graph_core t" "validate_graph_acyclic t = Inr ()" using t(1) by (simp_all add: graph_sound_def)
  have "node_satisfied (es_nodes t) d"
    if "map_of (es_nodes t) k = Some n" "en_state n = Ready \<or> owns_execution (en_state n)" "d \<in> set (en_dependencies n)"
    for k n d
  proof -
    have "is_open (en_state n)" using that(2) by (cases "en_state n") auto
    then show ?thesis using open_satisfied [OF t(1) that(1)] that(3) by (simp add: dependencies_satisfied_iff)
  qed
  then have ready: "\<exists>m. map_of (es_nodes t) d = Some m \<and> satisfies_dependency (en_state m)"
    if "map_of (es_nodes t) k = Some n \<and> (en_state n = Ready \<or> owns_execution (en_state n)) \<and>
      d \<in> set (en_dependencies n)" for k n d
    using that by (auto simp: node_satisfied_def)
  have kept: "\<exists>n'. map_of (es_nodes t) k = Some n' \<and> en_state n' = en_state n"
    if "map_of (es_nodes s) k = Some n \<and> satisfies_dependency (en_state n)" for k n
    using t(2) that by (auto simp: nodes_kept_def)
  have one: "k = k'" if "map_of (es_nodes t) k = Some n \<and> owns_execution (en_state n) \<and>
      map_of (es_nodes t) k' = Some n' \<and> owns_execution (en_state n')" for k n k' n'
    using core(1) that unfolding graph_core_def by blast
  have order: "distinct (es_node_order t)" "set (es_node_order t) = set (bt_keys (es_nodes t))"
    using core(1) by (simp_all add: graph_core_def bt_keys_def)
  show ?thesis by (intro conjI allI impI; fact core(2) order one ready kept | (erule one ready kept))
qed

section \<open>A small graph\<close>

definition graph_budget :: node_budget where
  "graph_budget = \<lparr>nb_max_model_calls = 1, nb_max_cost_micros = 1, nb_max_duration_ms = 1, nb_max_mutation_attempts = 0,
     nb_max_context_rebuilds = 0, nb_max_input_tokens_per_call = 1, nb_max_output_tokens_per_call = 1\<rparr>"

definition graph_start :: graph_execution where
  "graph_start = \<lparr>es_position = Pos_Discovery NeedCandidates, es_latest_transition_proof = None,
     es_mission_budget = \<lparr>mb_max_model_calls = 1, mb_max_cost_micros = 1, mb_max_duration_ms = 1\<rparr>,
     es_nodes = [(''d'', (node_of_spec \<lparr>ns_id = ''d'', ns_kind = K_Discovery, ns_required = True, ns_dependencies = [],
         ns_budget = graph_budget\<rparr>)\<lparr>en_state := Ready\<rparr>),
       (''p'', node_of_spec \<lparr>ns_id = ''p'', ns_kind = K_Planning, ns_required = True, ns_dependencies = [''d''],
         ns_budget = graph_budget\<rparr>)],
     es_node_order = [''d'', ''p''], es_proofs = [], es_has_profile = False, es_discovery_action = None,
     es_has_planning = False, es_planning_action = None, es_has_implementation = False, es_has_validation = False,
     es_review = None, es_has_publication = False,
     es_budgets = \<lparr>bl_mission_usage = usage_default, bl_model_calls = []\<rparr>, es_event_log = [],
     dx_execution_id = ''x'', dx_execution_attempt = 1, dx_repository_revision = ''r'', dx_profile_id = None,
     dx_requested_goal = None, dx_discovery = None, dx_prepared = None,
     gx_plan_graph_budget = \<lparr>pg_max_implementation_nodes = 1, pg_max_validation_nodes = 1, pg_max_total_nodes = 5,
       pg_implementation = graph_budget, pg_validation = budget_deterministic, pg_review = graph_budget,
       pg_completion_evaluation = graph_budget, pg_publication = budget_deterministic\<rparr>,
     gx_planning = None, gx_discovery_exit = None, gx_target_converged = (\<lambda>_. False),
     gx_mutation_failure = (\<lambda>_. None), gx_validation = None, gx_review = None, gx_publication = None\<rparr>"

lemma graph_start_nodes:
  "keyed_nodes (es_nodes graph_start)" "bt_wf (es_nodes graph_start)"
  "fst ` set (es_nodes graph_start) = {''d'', ''p''}"
  "dependency_relation (es_nodes graph_start) = {(''p'', ''d'')}"
  by (auto simp: keyed_nodes_def bt_wf_def graph_start_def node_of_spec_def dependency_relation_def split: if_splits)

lemma graph_start_acyclic: "acyclic {(''p'', ''d'')}"
  by (rule acyclic_insert [THEN iffD2]) (simp add: acyclic_def)

lemma acyclicity_check_exact_witness: "validate_graph_acyclic graph_start = Inr ()"
  using acyclicity_check_exact [OF graph_start_nodes(1)] graph_start_nodes(3,4) graph_start_acyclic by auto

lemma graph_start_valid: "validate_graph XT graph_start False False = Inr ()"
proof -
  have acy: "validate_graph_acyclic graph_start = Inr ()"
    using acyclic_check_exact [OF graph_start_nodes(1)] graph_start_nodes(3,4) graph_start_acyclic by auto
  show ?thesis
    by (simp add: validate_graph_def acy)
      (simp add: graph_start_def node_of_spec_def bt_keys_def bt_values_def is_planned_node_def owners_def
        check_each_def check_graph_node_def check_readiness_def requires_model_def graph_budget_def state_stage_def
        execution_state.defs dependencies_satisfied_def ensure_dependencies_satisfied_def)
qed

lemma graph_events_in_dependency_order_witness:
  "\<exists>t. apply_graph_event XT graph_start (NodeStarted ''d'' 1) = Inr t \<and> validate_graph_acyclic t = Inr ()"
proof -
  have "\<exists>t. apply_graph_event XT graph_start (NodeStarted ''d'' 1) = Inr t"
    by (simp add: apply_graph_event_def start_node_def active_node_def ordered_nodes_def List.map_filter_def
        start_binding_def ensure_dependencies_satisfied_def check_each_def state_stage_def execution_state.defs
        graph_start_def node_of_spec_def sat_add_def)
  then obtain t where t: "apply_graph_event XT graph_start (NodeStarted ''d'' 1) = Inr t" by blast
  have "fold_res (apply_graph_event XT) graph_start [NodeStarted ''d'' 1] = Inr t" using t by simp
  then have "validate_graph_acyclic t = Inr ()"
    using graph_events_in_dependency_order [OF graph_start_nodes(2) graph_start_valid] by blast
  with t show ?thesis by blast
qed

end
