(* ===== verification/Spec2Isabelle.thy ===== *)
theory Spec2Isabelle
  imports Publication_Properties Budget_Properties Discovery_Properties Profile_Properties Plan_Properties Graph_Properties
begin

text \<open>
  A verification library for the execution protocol of \<open>rustgrid-agent\<close> (\<open>src/execution_protocol/\<close>), the
  worker's side-effect-free core. Paths below are relative to the crate; \<open>f.rs\<close> is
  \<open>src/execution_protocol/f.rs\<close>.

  \<^bold>\<open>The program.\<close> An execution is an aggregate, \<open>ExecutionState\<close> in \<open>model.rs\<close>. It is changed by nothing but the
  events of \<open>event.rs\<close>, which the reducer (\<open>reducer.rs\<close>) accepts or refuses with a \<open>ProtocolViolation\<close>
  (\<open>error.rs\<close>). A mission goes through profiling, discovery, planning, implementation, validation, repair, review
  and publication. Each stage has nodes of an execution graph, one node at a time owns execution, and every call of
  a model is paid from a budget. Stages exchange records whose identity is a digest of their contents
  (\<open>identity.rs\<close>): the repository profile (\<open>profile.rs\<close>) is what discovery may search, the accepted impact
  map of discovery (\<open>discovery.rs\<close>) is what a plan must be grounded in, the accepted plan (\<open>planning.rs\<close>) becomes
  the nodes of the graph, the review records (\<open>review.rs\<close>) decide eligibility, and the publication ledger
  (\<open>publication.rs\<close>) carries an eligible change to commit, push and pull request.

  \<^bold>\<open>Conventions.\<close> A Rust \<open>Result\<close> is a sum with the error on the left; \<open>bnd\<close> is the operator \<open>?\<close>,
  \<open>check_each\<close> and \<open>fold_res\<close> are loops that stop at the first error. \<open>u16\<close>, \<open>u32\<close> and \<open>u64\<close> are
  words, with \<open>sat_add\<close>, \<open>sat_sub\<close> and the checked operations written out; \<open>usize\<close> counts and indexes are
  \<open>nat\<close>. Strings are byte strings in UTF-8. A \<open>BTreeMap\<close> is an association list in strict key order
  (\<open>bt_insert\<close>, \<open>bt_wf\<close>), a \<open>BTreeSet\<close> a strictly sorted list (\<open>bset_of\<close>) or, where only membership is
  read, a set. A handler returns the changed state; the reducer works on a copy and drops it on an error, so the
  error branch needs no state. A Rust \<open>expect\<close> that an earlier check rules out is an error branch or
  the value named beside the definition.

  Code outside the crate is the record \<open>externs\<close>, an argument of the definitions that use it: SHA-256 (\<open>sha2\<close>), JSON
  of a serialised value (\<open>serde_json\<close>; the value itself, a \<open>ser\<close>, is written out), the URL parser (\<open>url\<close>) and
  Unicode lower-casing. Building a profile takes the parser of package manifests as a further argument. Nothing is
  assumed of them in general; a property that needs more (that two inputs of the digest do not collide) says so in
  its statement.

  \<^bold>\<open>Prelude.\<close> \<open>Prelude\<close> has results, words, ordered maps, strings and the interfaces: \<open>ordered_map\<close> (interpreted on
  \<open>bt_insert\<close>, used by the budget accounts), \<open>event_journal\<close> (on the publication ledger) and \<open>growing_state\<close> (on the
  discovery handlers, on the graph events and on the dispatch of the aggregate). \<open>Wire_Identity\<close> models \<open>identity.rs\<close>.

  \<^bold>\<open>Publication\<close> (\<open>review.rs\<close>, \<open>publication.rs\<close>). \<open>Publication_Contract\<close> has the signed contract, the finalization
  policy and the ancestry; \<open>Publication_Eligibility\<close> the authority observation, the twelve predicates and
  \<open>PublicationEligibilityRecord\<close>; \<open>Publication_Commit\<close> and \<open>Publication_Effects\<close> attempts, intents and observations of
  the three effects; \<open>Publication_Ledger\<close> all operations of \<open>PublicationStateV1\<close>. \<open>Publication_Journal\<close> reads a
  ledger as the events that made it, \<open>Publication_Invariants\<close>, \<open>_Progress\<close> and \<open>_Outcome\<close> hold one invariant lemma
  per operation, \<open>Publication_Samples\<close> and \<open>_Retries\<close> runs to completion, to a moved branch and through a retry. \<open>Publication_Properties\<close>: publication starts only when eligible, effects come in order, within
  their limits and at most once confirmed, completion and convergence say what was observed, the validator accepts
  the reachable ledgers and no others, and a ledger never gets stuck or runs on.

  \<^bold>\<open>Budget\<close> (\<open>model.rs\<close>, the budget events of \<open>reducer.rs\<close>). \<open>Protocol_Model\<close> has stages, nodes, calls, proofs and
  \<open>ExecutionState\<close> with the fields the modelled handlers read and write. \<open>Budget_Ledger\<close> has admission, reservation,
  dispatch and reconciliation, \<open>Budget_Validation\<close> the recomputation of every account. \<open>Budget_Invariant\<close> says what
  the accounts mean, \<open>Budget_Steps\<close> and \<open>Budget_Preservation\<close> how each operation moves them. \<open>Budget_Properties\<close>: no
  run overspends, the validator is exact, a settled call is final, a release restores the accounts, and an admitted
  call can go on.

  \<^bold>\<open>Discovery\<close> (\<open>discovery.rs\<close>, the discovery events of \<open>reducer.rs\<close>). \<open>Discovery_Model\<close> has paths, searches and
  evidence, \<open>Discovery_State\<close> the state, its validation, convergence and next step, \<open>Discovery_Action\<close> the action a model
  is asked for, with its context manifest, token estimate and envelope, \<open>Discovery_Reducer\<close> the handlers of all ten
  events. \<open>Discovery_Facts\<close>, \<open>_Growth\<close> and \<open>_Synthesis\<close> hold the lemmas, \<open>Discovery_Preparation\<close> shows that the
  reducer accepts the action it computes. \<open>Discovery_Properties\<close>: an accepted impact map is grounded in what was read,
  it is synthesised exactly when the evidence suffices, evidence is never lost along runs that mix discovery, graph and budget
  events, and a path stays inside the repository.

  \<^bold>\<open>Profile\<close> (\<open>profile.rs\<close>). \<open>Profile_Model\<close> has paths, observations and the inventory, \<open>Profile_Data\<close> the entries of a
  profile with their derived order as instances of \<open>linorder\<close>, \<open>Profile_Build\<close> construction and validation.
  \<open>Profile_Properties\<close>: when a built profile validates, and which files it marks as generated.

  \<^bold>\<open>Planning\<close> (\<open>planning.rs\<close>). \<open>Plan_Model\<close> has targets, bounds and decisions, \<open>Plan_Candidate\<close> derived
  identities, the canonical order and the candidate, \<open>Plan_Validation\<close> every violation and the acceptance,
  \<open>Plan_Materialize\<close> the graph of a plan and \<open>PlanningState\<close>. \<open>Plan_Order\<close> and \<open>Plan_Facts\<close> hold the lemmas.
  \<open>Plan_Properties\<close>: an accepted plan is grounded and materialises, the order is a topological sort, canonical
  candidates are fixed points, and a no-op is never accepted for a goal with criteria.

  \<^bold>\<open>Execution graph\<close> (the graph events, \<open>validate_graph\<close>, \<open>validate_graph_acyclic\<close> and \<open>validate_plan_topology\<close> of
  \<open>reducer.rs\<close>). \<open>Execution_Graph\<close> has the checks and the handlers, \<open>Graph_Acyclic\<close> the correctness of the queue
  algorithm, \<open>Graph_Facts\<close> the invariant of every handler. \<open>Graph_Properties\<close>: the acyclicity check is exact,
  and events work in dependency order.

  \<^bold>\<open>Aggregate.\<close> \<open>Aggregate\<close> has the dispatch \<open>apply_payload\<close> over the discovery, graph and budget events and says what each
  family leaves alone; \<open>Aggregate_Samples\<close> runs a search from its preparation over its paid call to its result.

  \<^bold>\<open>Loops.\<close> No definition takes fuel. Loops over collections are structural; \<open>order_loop\<close> removes one target in each
  round, \<open>path_loop\<close> visits a new node or pops its stack, and both have a termination proof. The queue of
  \<open>validate_graph_acyclic\<close> would not run dry on arbitrary counts, so \<open>kahn\<close> is a partial function, and that it
  returns on the counts of the code is part of the property \<open>acyclicity_check_exact\<close>. The bounds of the code (\<open>MAX_...\<close>) are
  definitions with the values of the source.

  \<^bold>\<open>Projections.\<close> \<open>execution_state\<close>, \<open>discovery_execution\<close> and \<open>graph_execution\<close> hold the fields their handlers use.
  A component that a handler asks for one fact only is represented by the answer: the graph events read of mutation,
  validation, review and publication the results of the functions named beside \<open>validation_view\<close>,
  \<open>review_view\<close>, \<open>publication_view\<close> and \<open>graph_execution\<close>, which no graph event changes. \<open>apply_graph_event\<close> ends before
  the calls that recompute the step within a stage. The current discovery action is \<open>dx_prepared\<close>; the part of it
  that the budget reads is also \<open>es_discovery_action\<close>, and \<open>Aggregate\<close> proves that no event takes the two apart. The event
  log is read and not extended: a run is of payloads, not of logged events.

  \<^bold>\<open>Not modelled.\<close> The context manifest, action envelope and provider payload of planning and its handlers; target contexts, mutations and patches (\<open>implementation.rs\<close>, \<open>mutation.rs\<close>); validation gates and their processes
  (\<open>validation.rs\<close>, \<open>validation_process.rs\<close>); the building of review records; stage advance and the handlers of those
  components in \<open>reducer.rs\<close>; the store, the runner and terminal delivery. The crate around the protocol (\<open>src/*.rs\<close>) is
  process, network and file handling, and is not modelled.
\<close>

end
